(* ===== verification/Prelude.thy ===== *)
theory Prelude
  imports Main "HOL-Library.Word"
begin

unbundle bit_operations_syntax

text \<open>
  What every component of the development shares: the machine integers and memory blocks of
  the C programs, the faults a C program can run into, the sequencing of fallible steps, the
  little-endian layout of integers in memory, tables of fixed-size records, and the generic
  list lemmas the component proofs use.

  A C function is a HOL function into \<open>fault + 'a\<close>.  \<open>Inr\<close> is the value it returns together
  with the new state, an error return such as \<open>-1\<close> included; \<open>Inl\<close> says that the C program
  has left defined behaviour (a null dereference, an access outside a block, a read of an
  uninitialised byte, a format string with a conversion that has no argument, a signed overflow).
\<close>

section \<open>Integers, faults, results\<close>

type_synonym u8 = "8 word"
type_synonym u16 = "16 word"
type_synonym u32 = "32 word"
type_synonym u64 = "64 word"

datatype fault =
    NullDeref      \<comment> \<open>access through a null pointer\<close>
  | OutOfBounds    \<comment> \<open>access outside the block a pointer points into\<close>
  | UninitRead     \<comment> \<open>use of an indeterminate byte or pointer\<close>
  | BadFormat      \<comment> \<open>a printf conversion without a matching argument\<close>
  | BadStream      \<comment> \<open>an operation on a stream that is closed\<close>
  | IntOverflow    \<comment> \<open>a signed sum or product outside its type\<close>

type_synonym 'a res = "fault + 'a"

definition rbind :: "'a res \<Rightarrow> ('a \<Rightarrow> 'b res) \<Rightarrow> 'b res" where
  "rbind r f = (case r of Inl e \<Rightarrow> Inl e | Inr x \<Rightarrow> f x)"

lemma rbind_simps [simp]: "rbind (Inl e) f = Inl e" "rbind (Inr x) f = f x"
  by (simp_all add: rbind_def)

lemma rbind_Inr_iff: "rbind r f = Inr y \<longleftrightarrow> (\<exists>x. r = Inr x \<and> f x = Inr y)"
  by (cases r) auto

lemma rbind_Inl_iff: "rbind r f = Inl e \<longleftrightarrow> r = Inl e \<or> (\<exists>x. r = Inr x \<and> f x = Inl e)"
  by (cases r) auto

lemma rbind_cong [fundef_cong]:
  "r = r' \<Longrightarrow> (\<And>x. r' = Inr x \<Longrightarrow> f x = g x) \<Longrightarrow> rbind r f = rbind r' g"
  by (cases r') auto

text \<open>The value of an \<open>int\<close> expression.\<close>

definition c_int :: "int \<Rightarrow> int res" where
  "c_int i = (if - (2 ^ 31) \<le> i \<and> i < 2 ^ 31 then Inr i else Inl IntOverflow)"

lemma rbind_assoc: "rbind (rbind r f) g = rbind r (\<lambda>x. rbind (f x) g)"
  by (cases r) auto

text \<open>Conversions between \<open>size_t\<close> and \<open>uint32_t\<close>.\<close>

lemma ucast_add_32: "(ucast (a + b :: u64) :: u32) = ucast a + ucast b"
proof transfer
  fix a b :: int
  have "take_bit 32 (take_bit 64 (take_bit 64 a + take_bit 64 b)) = take_bit 32 (take_bit 64 (a + b))"
    by (simp only: take_bit_add)
  then show "take_bit LENGTH(32) (take_bit LENGTH(64) (a + b))
      = take_bit LENGTH(32) (take_bit LENGTH(64) a + take_bit LENGTH(64) b)"
    by simp
qed

lemma ucast_wide_back [simp]: "(ucast (ucast (w :: u32) :: u64) :: u32) = w"
  by transfer simp

lemma unat_ucast_wide: "unat (ucast (w :: u32) :: u64) = unat w"
  using unsigned_less [of w, where 'a = nat] by (simp add: unsigned_ucast_eq take_bit_eq_mod)

lemma unat_ucast_narrow: "unat (ucast (w :: u64) :: u32) = unat w mod 2 ^ 32"
  by (simp add: unsigned_ucast_eq take_bit_eq_mod)

lemma unat_of_nat_32: "n < 2 ^ 32 \<Longrightarrow> unat (of_nat n :: u32) = n"
  by (simp add: unat_of_nat)

section \<open>Memory blocks\<close>

text \<open>
  A block is what one allocation or one C array provides: a list of cells, \<open>None\<close> where the
  byte is indeterminate.  A pointer into a block is the block with an offset; a null pointer
  is \<open>None\<close> of type \<open>block option\<close>.
\<close>

type_synonym block = "u8 option list"

definition deref :: "block option \<Rightarrow> block res" where
  "deref p = (case p of None \<Rightarrow> Inl NullDeref | Some b \<Rightarrow> Inr b)"

definition load_byte :: "block \<Rightarrow> nat \<Rightarrow> u8 res" where
  "load_byte b i =
     (if i < length b then (case b ! i of None \<Rightarrow> Inl UninitRead | Some x \<Rightarrow> Inr x)
      else Inl OutOfBounds)"

definition load_bytes :: "block \<Rightarrow> nat \<Rightarrow> nat \<Rightarrow> u8 list res" where
  "load_bytes b i n =
     (if i + n \<le> length b
      then (if None \<in> set (take n (drop i b)) then Inl UninitRead
            else Inr (map the (take n (drop i b))))
      else Inl OutOfBounds)"

definition store_byte :: "block \<Rightarrow> nat \<Rightarrow> u8 \<Rightarrow> block res" where
  "store_byte b i x = (if i < length b then Inr (b[i := Some x]) else Inl OutOfBounds)"

definition store_bytes :: "block \<Rightarrow> nat \<Rightarrow> u8 list \<Rightarrow> block res" where
  "store_bytes b i xs =
     (if i + length xs \<le> length b
      then Inr (take i b @ map Some xs @ drop (i + length xs) b)
      else Inl OutOfBounds)"

lemma deref_simps [simp]: "deref None = Inl NullDeref" "deref (Some b) = Inr b"
  by (simp_all add: deref_def)

lemma load_bytes_init [simp]:
  "i + n \<le> length xs \<Longrightarrow> load_bytes (map Some xs) i n = Inr (take n (drop i xs))"
  by (auto simp: load_bytes_def take_map drop_map)

lemma load_bytes_prefix:
  "i + n \<le> length xs \<Longrightarrow> load_bytes (map Some xs @ ys) i n = Inr (take n (drop i xs))"
  by (auto simp: load_bytes_def take_map drop_map)

lemma load_byte_prefix:
  "i < length xs \<Longrightarrow> load_byte (map Some xs @ ys) i = Inr (xs ! i)"
  by (simp add: load_byte_def nth_append)

lemma store_bytes_length: "store_bytes b i xs = Inr b' \<Longrightarrow> length b' = length b"
  by (auto simp: store_bytes_def split: if_splits)

section \<open>C strings\<close>

text \<open>
  \<open>cstr\<close> reads the string that starts at the head of the remaining cells, \<open>strcmp0\<close> compares
  two of them for equality.  Like the C functions they stop at the first NUL byte (at the
  first difference), and run out of the block when there is none.
\<close>

fun cstr :: "block \<Rightarrow> u8 list res" where
  "cstr [] = Inl OutOfBounds"
| "cstr (None # cs) = Inl UninitRead"
| "cstr (Some b # cs) = (if b = 0 then Inr [] else rbind (cstr cs) (\<lambda>s. Inr (b # s)))"

definition cstr_at :: "block \<Rightarrow> nat \<Rightarrow> u8 list res" where
  "cstr_at b off = cstr (drop off b)"

fun strcmp0 :: "block \<Rightarrow> block \<Rightarrow> bool res" where
  "strcmp0 [] ys = Inl OutOfBounds"
| "strcmp0 (None # xs) ys = Inl UninitRead"
| "strcmp0 (Some a # xs) [] = Inl OutOfBounds"
| "strcmp0 (Some a # xs) (None # ys) = Inl UninitRead"
| "strcmp0 (Some a # xs) (Some b # ys) =
     (if a \<noteq> b then Inr False else if a = 0 then Inr True else strcmp0 xs ys)"

text \<open>The block that holds a string argument: its bytes and the terminating NUL.\<close>

definition str_block :: "u8 list \<Rightarrow> block" where
  "str_block s = map Some (s @ [0])"

definition ascii :: "string \<Rightarrow> u8 list" where
  "ascii s = map of_char s"

lemma ascii_simps [simp]:
  "ascii [] = []" "ascii (c # cs) = of_char c # ascii cs"
  by (simp_all add: ascii_def)

lemma length_ascii [simp]: "length (ascii s) = length s"
  by (simp add: ascii_def)

lemma cstr_append_zero: "0 \<notin> set s \<Longrightarrow> cstr (map Some s @ Some 0 # ys) = Inr s"
  by (induction s) auto

lemma cstr_str_block: "0 \<notin> set s \<Longrightarrow> cstr (str_block s) = Inr s"
  by (simp add: str_block_def cstr_append_zero)

lemma cstr_no_zero: "cstr cs = Inr s \<Longrightarrow> 0 \<notin> set s"
  by (induction cs arbitrary: s rule: cstr.induct) (auto simp: rbind_Inr_iff split: if_splits)

lemma cstr_split:
  "cstr cs = Inr s \<Longrightarrow> \<exists>ys. cs = map Some s @ Some 0 # ys"
  by (induction cs arbitrary: s rule: cstr.induct) (force simp: rbind_Inr_iff split: if_splits)+

lemma cstr_iff: "cstr cs = Inr s \<longleftrightarrow> 0 \<notin> set s \<and> (\<exists>ys. cs = map Some s @ Some 0 # ys)"
  using cstr_no_zero cstr_split cstr_append_zero by blast

lemma cstr_append: "cstr cs = Inr s \<Longrightarrow> cstr (cs @ ds) = Inr s"
  by (auto simp: cstr_iff)

lemma cstr_at_append: "cstr_at cs i = Inr s \<Longrightarrow> cstr_at (cs @ ds) i = Inr s"
  unfolding cstr_at_def
  by (cases "i \<le> length cs") (auto dest: cstr_append)

lemma strcmp0_split:
  "0 \<notin> set s \<Longrightarrow> 0 \<notin> set t \<Longrightarrow>
   strcmp0 (map Some s @ Some 0 # xs) (map Some t @ Some 0 # ys) = Inr (s = t)"
proof (induction s arbitrary: t)
  case Nil
  then show ?case by (cases t) auto
next
  case (Cons a s)
  then show ?case by (cases t) auto
qed

lemma strcmp0_cstr:
  "cstr xs = Inr s \<Longrightarrow> cstr ys = Inr t \<Longrightarrow> strcmp0 xs ys = Inr (s = t)"
  by (auto simp: cstr_iff strcmp0_split)

section \<open>Lists\<close>

text \<open>The \<open>len\<close> elements from index \<open>off\<close> on.\<close>

definition slice :: "nat \<Rightarrow> nat \<Rightarrow> 'a list \<Rightarrow> 'a list" where
  "slice off len bs = take len (drop off bs)"

lemma slice_mid: "off = length xs \<Longrightarrow> n = length ys \<Longrightarrow> slice off n (xs @ ys @ zs) = ys"
  by (simp add: slice_def)

text \<open>A loop that updates the elements of an array one after the other maps over it.\<close>

lemma fold_update_map:
  "n \<le> length xs \<Longrightarrow>
   fold (\<lambda>i ys. ys[i := f (ys ! i)]) [0..<n] xs = map f (take n xs) @ drop n xs"
proof (induction n)
  case 0
  show ?case by simp
next
  case (Suc n)
  then have n: "n < length xs" by simp
  then have dr: "drop n xs = xs ! n # drop (Suc n) xs" by (rule Cons_nth_drop_Suc [symmetric])
  have "fold (\<lambda>i ys. ys[i := f (ys ! i)]) [0..<Suc n] xs
      = (map f (take n xs) @ drop n xs)[n := f ((map f (take n xs) @ drop n xs) ! n)]"
    using Suc.IH n by simp
  also have "\<dots> = map f (take n xs) @ f (xs ! n) # drop (Suc n) xs"
    using n by (simp add: dr nth_append list_update_append)
  also have "\<dots> = map f (take (Suc n) xs) @ drop (Suc n) xs"
    using n by (simp add: take_Suc_conv_app_nth)
  finally show ?case .
qed

lemma map_nth_upt: "map (\<lambda>i. f (xs ! i)) [0..<length xs] = map f xs"
  by (rule nth_equalityI) simp_all

lemma length_fold_update [simp]:
  "length (fold (\<lambda>i ys. ys[i := f (ys ! i)]) is xs) = length xs"
  by (induction "is" arbitrary: xs) simp_all

end
