(* ===== verification/CLib.thy ===== *)
theory CLib
  imports Prelude
begin

text \<open>
  The part of the C library and of the host that the programs use: allocation, files and
  stdio streams, the standard output and error streams, and the printf conversions.

  The host is the record \<open>os\<close>, which the state of every program extends.  What the host may
  decide is a field of it: which of the coming allocations succeed (\<open>heap_ok\<close>), which paths
  exist and what they hold (\<open>files\<close>), which can be opened for writing (\<open>writable\<close>), how many
  more bytes the file system takes (\<open>room\<close>) and what \<open>strerror(errno)\<close> says (\<open>errtext\<close>).
  Theorems that need a cooperating host state so in a hypothesis.
  A read error is the same to the programs as a file that ends earlier.  Streams are modelled
  unbuffered: a write that the file system refuses fails in \<open>fwrite\<close>, not in \<open>fclose\<close>.
\<close>

record os =
  heap_ok :: "nat \<Rightarrow> bool"
  files :: "u8 list \<Rightarrow> u8 list option"
  writable :: "u8 list \<Rightarrow> bool"
  room :: nat
  out :: "u8 list"
  err :: "u8 list"
  errtext :: "u8 list"

section \<open>Allocation\<close>

text \<open>
  An allocation of more than \<open>PTRDIFF_MAX\<close> bytes always fails; any other one succeeds when
  the host says so.  Fresh memory is indeterminate.
\<close>

definition c_malloc :: "u64 \<Rightarrow> 'a os_scheme \<Rightarrow> block option \<times> 'a os_scheme" where
  "c_malloc n os =
     (if heap_ok os 0 \<and> unat n < 2 ^ 63 then Some (replicate (unat n) None) else None,
      os\<lparr>heap_ok := \<lambda>i. heap_ok os (Suc i)\<rparr>)"

definition c_realloc ::
  "block option \<Rightarrow> u64 \<Rightarrow> 'a os_scheme \<Rightarrow> block option \<times> 'a os_scheme" where
  "c_realloc p n os =
     (let (q, os') = c_malloc n os
      in (case (p, q) of
            (Some old, Some _) \<Rightarrow> Some (take (unat n) old @ replicate (unat n - length old) None)
          | _ \<Rightarrow> q, os'))"

text \<open>A host whose allocations all succeed.\<close>

definition heap_good :: "'a os_scheme \<Rightarrow> bool" where
  "heap_good os \<longleftrightarrow> heap_ok os = (\<lambda>_. True)"

lemma c_malloc_good:
  "heap_good os \<Longrightarrow> unat n < 2 ^ 63 \<Longrightarrow> c_malloc n os = (Some (replicate (unat n) None), os)"
  by (simp add: c_malloc_def heap_good_def)

lemma c_realloc_length: "c_realloc p n os = (Some b, os') \<Longrightarrow> length b = unat n"
  by (auto simp: c_realloc_def c_malloc_def split: prod.splits option.splits if_splits)

lemma c_realloc_size: "c_realloc p n os = (Some b, os') \<Longrightarrow> unat n < 2 ^ 63"
  by (auto simp: c_realloc_def c_malloc_def split: prod.splits option.splits if_splits)

section \<open>Files and streams\<close>

record stream =
  s_path :: "u8 list"
  s_pos :: nat

definition content :: "'a os_scheme \<Rightarrow> u8 list \<Rightarrow> u8 list" where
  "content os path = (case files os path of None \<Rightarrow> [] | Some c \<Rightarrow> c)"

definition fopen_rb :: "u8 list \<Rightarrow> 'a os_scheme \<Rightarrow> stream option" where
  "fopen_rb path os =
     (case files os path of None \<Rightarrow> None | Some _ \<Rightarrow> Some \<lparr>s_path = path, s_pos = 0\<rparr>)"

definition fopen_wb :: "u8 list \<Rightarrow> 'a os_scheme \<Rightarrow> stream option \<times> 'a os_scheme" where
  "fopen_wb path os =
     (if writable os path
      then (Some \<lparr>s_path = path, s_pos = 0\<rparr>, os\<lparr>files := (files os)(path \<mapsto> [])\<rparr>)
      else (None, os))"

definition fopen_rpb :: "u8 list \<Rightarrow> 'a os_scheme \<Rightarrow> stream option" where
  "fopen_rpb path os =
     (if writable os path then fopen_rb path os else None)"

text \<open>
  \<open>fread\<close> yields the number of complete items, the bytes and the stream behind them;
  \<open>fwrite\<close> replaces the bytes at the position, fills a gap behind the end with zeros, and
  stops when the file system has no room to let the file grow.
\<close>

definition fread :: "nat \<Rightarrow> nat \<Rightarrow> stream \<Rightarrow> 'a os_scheme \<Rightarrow> nat \<times> u8 list \<times> stream" where
  "fread sz n s os =
     (let bs = take (sz * n) (drop (s_pos s) (content os (s_path s)))
      in (length bs div sz, bs, s\<lparr>s_pos := s_pos s + length bs\<rparr>))"

definition put_at :: "u8 list \<Rightarrow> nat \<Rightarrow> u8 list \<Rightarrow> u8 list" where
  "put_at c pos bs =
     (if bs = [] then c
      else take pos (c @ replicate (pos - length c) 0) @ bs @ drop (pos + length bs) c)"

definition fwrite ::
  "u8 list \<Rightarrow> nat \<Rightarrow> stream \<Rightarrow> 'a os_scheme \<Rightarrow> nat \<times> stream \<times> 'a os_scheme" where
  "fwrite bs sz s os =
     (let c = content os (s_path s);
          k = min (length bs) (length c + room os - s_pos s);
          c' = put_at c (s_pos s) (take k bs)
      in (k div sz, s\<lparr>s_pos := s_pos s + k\<rparr>,
          os\<lparr>files := (files os)(s_path s \<mapsto> c'), room := room os - (length c' - length c)\<rparr>))"

text \<open>\<open>fseek\<close> to an offset from the start (a \<open>long\<close>) refuses a negative one.\<close>

definition fseek_set :: "u64 \<Rightarrow> stream \<Rightarrow> int \<times> stream" where
  "fseek_set off s = (if sint off < 0 then (- 1, s) else (0, s\<lparr>s_pos := unat off\<rparr>))"

definition fseek_end :: "'a os_scheme \<Rightarrow> stream \<Rightarrow> stream" where
  "fseek_end os s = s\<lparr>s_pos := length (content os (s_path s))\<rparr>"

lemma length_put_at:
  "length (put_at c pos bs) = (if bs = [] then length c else max (length c) (pos + length bs))"
  by (auto simp: put_at_def)

lemma put_at_end [simp]: "put_at c (length c) bs = c @ bs"
  by (simp add: put_at_def)

lemma read_put_at: "take (length bs) (drop pos (put_at c pos bs)) = bs"
  by (simp add: put_at_def)

lemma fwrite_append:
  assumes "s_pos s = length (content os (s_path s))" and "length bs \<le> room os"
  shows "fwrite bs sz s os =
    (length bs div sz, s\<lparr>s_pos := s_pos s + length bs\<rparr>,
     os\<lparr>files := (files os)(s_path s \<mapsto> content os (s_path s) @ bs),
        room := room os - length bs\<rparr>)"
  using assms by (simp add: fwrite_def Let_def)

lemma content_upd [simp]:
  "content (os\<lparr>files := (files os)(p \<mapsto> c)\<rparr>) q = (if p = q then c else content os q)"
  "content (os\<lparr>room := r\<rparr>) q = content os q"
  "content (os\<lparr>out := t\<rparr>) q = content os q"
  "content (os\<lparr>err := t\<rparr>) q = content os q"
  "content (os\<lparr>heap_ok := h\<rparr>) q = content os q"
  by (simp_all add: content_def)

section \<open>Formatted output\<close>

definition print_out :: "u8 list \<Rightarrow> 'a os_scheme \<Rightarrow> 'a os_scheme" where
  "print_out s os = os\<lparr>out := out os @ s\<rparr>"

definition print_err :: "u8 list \<Rightarrow> 'a os_scheme \<Rightarrow> 'a os_scheme" where
  "print_err s os = os\<lparr>err := err os @ s\<rparr>"

definition newline :: u8 where "newline = 10"

text \<open>
  What a printf function makes of a string that is given as its format and no arguments: the
  text up to the first conversion; a conversion other than \<open>%%\<close> has no argument to print.
\<close>

fun format0 :: "u8 list \<Rightarrow> u8 list res" where
  "format0 [] = Inr []"
| "format0 [c] = (if c = 37 then Inl BadFormat else Inr [c])"
| "format0 (c # d # cs) =
     (if c = 37 then (if d = 37 then rbind (format0 cs) (\<lambda>s. Inr (37 # s)) else Inl BadFormat)
      else rbind (format0 (d # cs)) (\<lambda>s. Inr (c # s)))"

lemma format0_plain: "37 \<notin> set s \<Longrightarrow> format0 s = Inr s"
  by (induction s rule: format0.induct) auto

text \<open>Unsigned numbers in a base, padded on the left (\<open>%08X\<close>) or on the right (\<open>%-4u\<close>).\<close>

definition digit_char :: "bool \<Rightarrow> nat \<Rightarrow> u8" where
  "digit_char upper d = (if d < 10 then of_nat (48 + d) else of_nat ((if upper then 55 else 87) + d))"

fun digits_acc :: "nat \<Rightarrow> nat \<Rightarrow> nat list \<Rightarrow> nat list" where
  "digits_acc b n acc =
     (if b < 2 \<or> n < b then n # acc else digits_acc b (n div b) (n mod b # acc))"

declare digits_acc.simps [simp del]

definition fmt_dec :: "nat \<Rightarrow> u8 list" where
  "fmt_dec n = map (digit_char False) (digits_acc 10 n [])"

definition fmt_hex :: "bool \<Rightarrow> nat \<Rightarrow> u8 list" where
  "fmt_hex upper n = map (digit_char upper) (digits_acc 16 n [])"

definition fmt_int :: "int \<Rightarrow> u8 list" where
  "fmt_int i = (if i < 0 then 45 # fmt_dec (nat (- i)) else fmt_dec (nat i))"

definition pad_left :: "u8 \<Rightarrow> nat \<Rightarrow> u8 list \<Rightarrow> u8 list" where
  "pad_left c w s = replicate (w - length s) c @ s"

definition pad_right :: "nat \<Rightarrow> u8 list \<Rightarrow> u8 list" where
  "pad_right w s = s @ replicate (w - length s) 32"

end
