(* ===== verification/Messages.thy ===== *)
theory Messages
  imports CLib
begin

text \<open>
  The diagnostics of \<open>fas2sym\<close> (\<open>src/bin/fas2sym/main.c\<close>): the program name and the verbosity
  every other part of the tool prints with.  A message whose arguments are known is given as
  its expansion; \<open>msg_err\<close> is called with a file name as its format, so there the format is
  expanded by \<open>format0\<close>.
\<close>

record msg_st = os +
  prg_name :: "u8 list"
  verbose :: int

definition msg_err_common :: "u8 list option \<Rightarrow> 'a msg_st_scheme \<Rightarrow> 'a msg_st_scheme res" where
  "msg_err_common fmt st =
     (let st = print_err (prg_name st @ ascii '': '') st
      in case fmt of
           None \<Rightarrow> Inr st
         | Some f \<Rightarrow> rbind (format0 f) (\<lambda>t. Inr (print_err t st)))"

definition msg_errx :: "u8 list \<Rightarrow> 'a msg_st_scheme \<Rightarrow> 'a msg_st_scheme" where
  "msg_errx text st = print_err (prg_name st @ ascii '': '' @ text @ [newline]) st"

definition msg_err :: "u8 list option \<Rightarrow> 'a msg_st_scheme \<Rightarrow> 'a msg_st_scheme res" where
  "msg_err fmt st =
     rbind (msg_err_common fmt st) (\<lambda>st.
       let st = (if fmt \<noteq> None then print_err (ascii '': '') st else st)
       in Inr (print_err (errtext st @ [newline]) st))"

definition msg_verbose :: "int \<Rightarrow> u8 list res \<Rightarrow> 'a msg_st_scheme \<Rightarrow> 'a msg_st_scheme res" where
  "msg_verbose level text st =
     (if level \<le> verbose st
      then rbind text (\<lambda>t. Inr (print_out (t @ [newline]) st))
      else Inr st)"

lemma msg_err_None:
  "msg_err None st = Inr (print_err (prg_name st @ ascii '': '' @ errtext st @ [newline]) st)"
  by (simp add: msg_err_def msg_err_common_def print_err_def Let_def)

text \<open>
  A file name that has a percent sign followed by anything else is a conversion without an
  argument: \<open>msg_err(file)\<close> then leaves defined behaviour.
\<close>

lemma msg_err_bad_format:
  "format0 f = Inl BadFormat \<Longrightarrow> msg_err (Some f) st = Inl BadFormat"
  by (simp add: msg_err_def msg_err_common_def Let_def)

lemma msg_err_plain:
  "37 \<notin> set f \<Longrightarrow> msg_err (Some f) st =
     Inr (print_err (prg_name st @ ascii '': '' @ f @ ascii '': '' @ errtext st @ [newline]) st)"
  by (simp add: msg_err_def msg_err_common_def print_err_def format0_plain Let_def)

end
