(* ===== verification/Buffer.thy ===== *)
theory Buffer
  imports Messages
begin

text \<open>
  The growable byte buffer of \<open>fas2sym\<close> (\<open>src/bin/fas2sym/buffer.c\<close>, \<open>struct buffer\<close> in
  \<open>src/bin/fas2sym/fas2sym.h\<close>).  \<open>size_t\<close> is a 64-bit word, so the doubling of the capacity and
  the sum \<open>cnt + size\<close> wrap as in C.  The abstract buffer is the list of the bytes put into it
  (\<open>buf_bytes\<close>); \<open>buf_ok\<close> is the representation invariant.
\<close>

record buffer =
  cap :: u64
  cnt :: u64
  data :: "block option"

definition empty_buffer :: buffer where
  "empty_buffer = \<lparr>cap = 0, cnt = 0, data = None\<rparr>"

section \<open>The operations\<close>

text \<open>
  The loop of \<open>buffer_put\<close>: double the capacity until it reaches \<open>need\<close>.  It stops because
  the host never provides a block of \<open>2 ^ 63\<close> bytes.
\<close>

function buffer_grow ::
  "buffer \<Rightarrow> u64 \<Rightarrow> 'a msg_st_scheme \<Rightarrow> (int \<times> buffer \<times> 'a msg_st_scheme) res" where
  "buffer_grow b need st =
     (if cap b < need
      then let cap' = (if cap b = 0 then 32 else cap b * 2);
               r = c_realloc (data b) cap' st
           in case fst r of
                None \<Rightarrow> rbind (msg_err None (snd r))
                          (\<lambda>st. Inr (- 1, b\<lparr>cap := cap', data := None\<rparr>, st))
              | Some d \<Rightarrow> buffer_grow (b\<lparr>cap := cap', data := Some d\<rparr>) need (snd r)
      else Inr (0, b, st))"
  by pat_completeness auto

text \<open>
  The measure: below \<open>2 ^ 63\<close> a successful step at least doubles the capacity and stays below
  \<open>2 ^ 63\<close>; a capacity above it steps below it once.
\<close>

definition grow_measure :: "u64 \<Rightarrow> nat" where
  "grow_measure c = (if unat c < 2 ^ 63 then 2 ^ 63 - unat c else 2 ^ 63 + 1)"

lemma unat_double: "unat c < 2 ^ 63 \<Longrightarrow> unat (c * 2 :: u64) = 2 * unat c"
  by (simp add: unat_word_ariths)

lemma grow_measure_less:
  assumes "unat (if c = 0 then 32 else c * 2 :: u64) < 2 ^ 63"
  shows "grow_measure (if c = 0 then 32 else c * 2) < grow_measure c"
proof (cases "unat c < 2 ^ 63")
  case True
  have "c \<noteq> 0 \<Longrightarrow> 0 < unat c" by (simp add: unat_gt_0)
  then show ?thesis using True assms unat_double [OF True]
    by (cases "c = 0") (auto simp: grow_measure_def)
next
  case False
  then show ?thesis using assms by (auto simp: grow_measure_def)
qed

termination buffer_grow
proof (relation "measure (\<lambda>(b, need, st). grow_measure (cap b))", goal_cases)
  case 1
  show ?case by simp
next
  case (2 b need st cap' r d)
  then have "unat cap' < 2 ^ 63"
    by (metis c_realloc_size prod.collapse)
  with 2 grow_measure_less [of "cap b"] show ?case by simp
qed

declare buffer_grow.simps [simp del]

text \<open>
  \<open>buffer_put\<close> takes the bytes behind the pointer \<open>data\<close> and the size; \<open>index\<close> says whether
  the caller passed a pointer for the index.  The result is the return value, the index
  written, the buffer and the state.
\<close>

definition buffer_put ::
  "buffer \<Rightarrow> u8 list \<Rightarrow> u64 \<Rightarrow> bool \<Rightarrow> 'a msg_st_scheme
    \<Rightarrow> (int \<times> u64 option \<times> buffer \<times> 'a msg_st_scheme) res" where
  "buffer_put b xs n index st =
     (let idx = (if index then Some (cnt b) else None)
      in rbind (buffer_grow b (cnt b + n) st) (\<lambda>(r, b, st).
           if r \<noteq> 0 then Inr (- 1, idx, b, st)
           else rbind (deref (data b)) (\<lambda>blk.
                if length xs < unat n then Inl OutOfBounds
                else rbind (store_bytes blk (unat (cnt b)) (take (unat n) xs)) (\<lambda>blk.
                     Inr (0, idx, b\<lparr>data := Some blk, cnt := cnt b + n\<rparr>, st)))))"

definition buffer_cleanup :: "buffer \<Rightarrow> buffer" where
  "buffer_cleanup b = b\<lparr>cnt := 0, cap := 0, data := None\<rparr>"

section \<open>Invariant and abstraction\<close>

definition buf_bytes :: "buffer \<Rightarrow> u8 list" where
  "buf_bytes b =
     (case data b of None \<Rightarrow> [] | Some blk \<Rightarrow> map the (take (unat (cnt b)) blk))"

definition buf_ok :: "buffer \<Rightarrow> bool" where
  "buf_ok b \<longleftrightarrow>
     (case data b of
        None \<Rightarrow> cap b = 0 \<and> cnt b = 0
      | Some blk \<Rightarrow> length blk = unat (cap b) \<and> unat (cnt b) \<le> unat (cap b)
          \<and> unat (cap b) < 2 ^ 63 \<and> None \<notin> set (take (unat (cnt b)) blk))"

lemma buf_ok_empty [simp]: "buf_ok empty_buffer" "buf_bytes empty_buffer = []"
  by (simp_all add: buf_ok_def buf_bytes_def empty_buffer_def)

lemma buf_ok_cleanup [simp]: "buf_ok (buffer_cleanup b)" "buf_bytes (buffer_cleanup b) = []"
  by (simp_all add: buf_ok_def buf_bytes_def buffer_cleanup_def)

text \<open>A block whose first cells are initialised is those bytes followed by the other cells.\<close>

lemma take_init:
  "None \<notin> set xs \<Longrightarrow> xs = map Some (map the xs)"
  by (induction xs) auto

lemma buf_ok_block:
  assumes "buf_ok b"
  obtains (null) "data b = None" "buf_bytes b = []" "cnt b = 0" "cap b = 0"
  | (block) ys where "data b = Some (map Some (buf_bytes b) @ ys)" "length (buf_bytes b) = unat (cnt b)"
      "length (buf_bytes b) + length ys = unat (cap b)" "unat (cap b) < 2 ^ 63"
proof (cases "data b")
  case None
  with assms that(1) show ?thesis by (simp add: buf_ok_def buf_bytes_def)
next
  case (Some blk)
  let ?n = "unat (cnt b)"
  have init: "take ?n blk = map Some (map the (take ?n blk))"
    using assms Some by (intro take_init) (simp add: buf_ok_def)
  then have "blk = map Some (buf_bytes b) @ drop ?n blk"
    using Some by (metis append_take_drop_id buf_bytes_def option.simps(5))
  moreover have "length (buf_bytes b) = ?n" "length blk = unat (cap b)" "unat (cap b) < 2 ^ 63"
    using assms Some by (simp_all add: buf_ok_def buf_bytes_def)
  ultimately show ?thesis
    using that(2) [of "drop ?n blk"] Some assms by (simp add: buf_ok_def)
qed

lemma buf_ok_intro:
  assumes "data b = Some (map Some xs @ ys)" and "unat (cnt b) = length xs"
    and "length xs + length ys = unat (cap b)" and "unat (cap b) < 2 ^ 63"
  shows "buf_ok b" and "buf_bytes b = xs"
  using assms by (simp_all add: buf_ok_def buf_bytes_def)

lemma length_buf_bytes: "buf_ok b \<Longrightarrow> length (buf_bytes b) = unat (cnt b)"
  by (erule buf_ok_block) simp_all

lemma buf_block: "buf_ok b \<Longrightarrow> data b = Some blk \<Longrightarrow> \<exists>ys. blk = map Some (buf_bytes b) @ ys"
  by (erule buf_ok_block) auto

lemma buf_bytes_data: "buf_bytes b \<noteq> [] \<Longrightarrow> data b \<noteq> None"
  by (cases "data b") (simp_all add: buf_bytes_def)

section \<open>Growing\<close>

definition next_cap :: "u64 \<Rightarrow> u64" where
  "next_cap c = (if c = 0 then 32 else c * 2)"

lemma next_cap_ge: "unat c < 2 ^ 63 \<Longrightarrow> unat c < unat (next_cap c)"
  using unat_double [of c] by (auto simp: next_cap_def unat_gt_0)

text \<open>One successful reallocation keeps the invariant and the contents.\<close>

lemma realloc_keeps:
  assumes ok: "buf_ok b" and ra: "c_realloc (data b) (next_cap (cap b)) st = (Some d, st')"
  defines "b' \<equiv> b\<lparr>cap := next_cap (cap b), data := Some d\<rparr>"
  shows "buf_ok b'" and "buf_bytes b' = buf_bytes b"
proof -
  let ?n = "unat (next_cap (cap b))"
  have len: "length d = ?n" and small: "?n < 2 ^ 63"
    using c_realloc_length [OF ra] c_realloc_size [OF ra] .
  have "\<exists>zs. d = map Some (buf_bytes b) @ zs \<and> unat (cnt b) = length (buf_bytes b)"
    using ok
  proof (cases rule: buf_ok_block)
    case null
    then show ?thesis by simp
  next
    case (block ys)
    have "length (buf_bytes b) + length ys < ?n"
      using next_cap_ge [OF block(4)] block(3) by simp
    moreover have "d = take ?n (map Some (buf_bytes b) @ ys)
        @ replicate (?n - length (map Some (buf_bytes b) @ ys)) None"
      using ra block(1) by (auto simp: c_realloc_def split: prod.splits option.splits)
    ultimately have "d = map Some (buf_bytes b) @ (ys @ replicate (?n - (length (buf_bytes b) + length ys)) None)"
      by simp
    then show ?thesis using block(2) by metis
  qed
  then obtain zs where zs: "d = map Some (buf_bytes b) @ zs" "unat (cnt b) = length (buf_bytes b)"
    by blast
  show "buf_ok b'" and "buf_bytes b' = buf_bytes b"
    using buf_ok_intro [of b' "buf_bytes b" zs] zs len small by (simp_all add: b'_def)
qed

lemma buffer_grow_step:
  "buffer_grow b need st =
     (if cap b < need
      then (case c_realloc (data b) (next_cap (cap b)) st of
              (None, st') \<Rightarrow>
                Inr (- 1, b\<lparr>cap := next_cap (cap b), data := None\<rparr>,
                     print_err (prg_name st' @ ascii '': '' @ errtext st' @ [newline]) st')
            | (Some d, st') \<Rightarrow> buffer_grow (b\<lparr>cap := next_cap (cap b), data := Some d\<rparr>) need st')
      else Inr (0, b, st))"
  by (subst buffer_grow.simps)
    (auto simp: Let_def next_cap_def msg_err_None split: prod.splits option.splits)

text \<open>
  The outcome of the loop on any host: it always returns; either the buffer has the capacity
  asked for and the same contents, or an allocation has failed and the contents are gone.
\<close>

definition grown :: "buffer \<Rightarrow> u64 \<Rightarrow> int \<Rightarrow> buffer \<Rightarrow> bool" where
  "grown b need r b' \<longleftrightarrow> cnt b' = cnt b \<and>
     (r = 0 \<and> buf_ok b' \<and> buf_bytes b' = buf_bytes b \<and> need \<le> cap b' \<or>
      r = - 1 \<and> data b' = None \<and> cap b' \<noteq> 0)"

lemma buffer_grow_total:
  "buf_ok b \<Longrightarrow> \<exists>r b' st'. buffer_grow b need st = Inr (r, b', st') \<and> grown b need r b'"
proof (induction b need st rule: buffer_grow.induct)
  case (1 b need st)
  show ?case
  proof (cases "cap b < need")
    case False
    then show ?thesis using "1.prems" by (subst buffer_grow_step) (auto simp: grown_def)
  next
    case True
    obtain q st1 where ra: "c_realloc (data b) (next_cap (cap b)) st = (q, st1)"
      by (cases "c_realloc (data b) (next_cap (cap b)) st")
    show ?thesis
    proof (cases q)
      case None
      have "unat (cap b) < 2 ^ 63" using "1.prems" by (rule buf_ok_block) simp_all
      then have "next_cap (cap b) \<noteq> 0" using next_cap_ge [of "cap b"] by auto
      then show ?thesis using True ra None by (subst buffer_grow_step) (auto simp: grown_def)
    next
      case (Some d)
      let ?b = "b\<lparr>cap := next_cap (cap b), data := Some d\<rparr>"
      have keep: "buf_ok ?b" "buf_bytes ?b = buf_bytes b"
        using realloc_keeps "1.prems" ra Some by blast+
      have "\<exists>r b' st'. buffer_grow ?b need st1 = Inr (r, b', st') \<and> grown ?b need r b'"
        using "1.IH" [OF True refl refl, of d] ra Some keep(1) by (simp add: next_cap_def)
      then show ?thesis using True ra Some keep(2) by (subst buffer_grow_step) (auto simp: grown_def)
    qed
  qed
qed

text \<open>On a host whose allocations succeed, up to \<open>2 ^ 62\<close> bytes are always reached.\<close>

lemma buffer_grow_good:
  "heap_good st \<Longrightarrow> buf_ok b \<Longrightarrow> unat need \<le> 2 ^ 62 \<Longrightarrow>
   \<exists>b'. buffer_grow b need st = Inr (0, b', st) \<and> grown b need 0 b'"
proof (induction b need st rule: buffer_grow.induct)
  case (1 b need st)
  show ?case
  proof (cases "cap b < need")
    case False
    then show ?thesis using "1.prems" by (subst buffer_grow_step) (auto simp: grown_def)
  next
    case True
    have "unat (cap b) < 2 ^ 62"
      using True "1.prems"(3) by (simp add: word_less_nat_alt)
    then have "unat (next_cap (cap b)) < 2 ^ 63"
      using unat_double [of "cap b"] by (simp add: next_cap_def)
    then have "\<exists>d. c_realloc (data b) (next_cap (cap b)) st = (Some d, st)"
      using "1.prems"(1)
      by (auto simp: c_realloc_def c_malloc_good split: option.splits)
    then obtain d where ra: "c_realloc (data b) (next_cap (cap b)) st = (Some d, st)" ..
    let ?b = "b\<lparr>cap := next_cap (cap b), data := Some d\<rparr>"
    have keep: "buf_ok ?b" "buf_bytes ?b = buf_bytes b"
      using realloc_keeps "1.prems"(2) ra by blast+
    have "\<exists>b'. buffer_grow ?b need st = Inr (0, b', st) \<and> grown ?b need 0 b'"
      using "1.IH" [OF True refl refl, of d] ra keep(1) "1.prems" by (simp add: next_cap_def)
    then show ?thesis using True ra keep(2) by (subst buffer_grow_step) (auto simp: grown_def)
  qed
qed

section \<open>Appending\<close>

lemma store_after_prefix:
  "length zs \<le> length ys \<Longrightarrow>
   store_bytes (map Some xs @ ys) (length xs) zs = Inr (map Some (xs @ zs) @ drop (length zs) ys)"
  by (simp add: store_bytes_def)

text \<open>Copying behind the contents of a buffer that has the capacity.\<close>

lemma put_in_capacity:
  assumes ok: "buf_ok b" and fits: "cnt b + n \<le> cap b" and pos: "0 < unat n"
    and nowrap: "unat (cnt b) + unat n < 2 ^ 64" and len: "unat n \<le> length xs"
  shows "\<exists>blk. rbind (deref (data b)) (\<lambda>blk. store_bytes blk (unat (cnt b)) (take (unat n) xs)) = Inr blk
    \<and> buf_ok (b\<lparr>data := Some blk, cnt := cnt b + n\<rparr>)
    \<and> buf_bytes (b\<lparr>data := Some blk, cnt := cnt b + n\<rparr>) = buf_bytes b @ take (unat n) xs"
proof -
  have sum: "unat (cnt b + n) = unat (cnt b) + unat n"
    using nowrap by (simp add: unat_word_ariths)
  then have fits': "unat (cnt b) + unat n \<le> unat (cap b)"
    using fits by (simp add: word_le_nat_alt)
  show ?thesis
    using ok
  proof (cases rule: buf_ok_block)
    case null
    then show ?thesis using fits' pos by simp
  next
    case (block ys)
    let ?xs = "take (unat n) xs" and ?ys = "drop (unat n) ys"
    let ?blk = "map Some (buf_bytes b @ ?xs) @ ?ys"
    let ?b = "b\<lparr>data := Some ?blk, cnt := cnt b + n\<rparr>"
    have lx: "length ?xs = unat n" using len by simp
    have ly: "unat n \<le> length ys" using block(2,3) fits' by simp
    have "store_bytes (map Some (buf_bytes b) @ ys) (unat (cnt b)) ?xs = Inr ?blk"
      using store_after_prefix [of ?xs ys "buf_bytes b"] ly lx block(2) by simp
    moreover have "data ?b = Some (map Some (buf_bytes b @ ?xs) @ ?ys)" by simp
    moreover have "unat (cnt ?b) = length (buf_bytes b @ ?xs)"
      using sum block(2) lx by simp
    moreover have "length (buf_bytes b @ ?xs) + length ?ys = unat (cap ?b)"
      using block(3) lx ly by simp
    moreover have "unat (cap ?b) < 2 ^ 63" using block(4) by simp
    ultimately have "store_bytes (map Some (buf_bytes b) @ ys) (unat (cnt b)) ?xs = Inr ?blk"
      "buf_ok ?b" "buf_bytes ?b = buf_bytes b @ ?xs"
      using buf_ok_intro [of ?b "buf_bytes b @ ?xs" ?ys] by blast+
    moreover from this(1)
    have "rbind (deref (data b)) (\<lambda>blk. store_bytes blk (unat (cnt b)) ?xs) = Inr ?blk"
      by (simp only: block(1) deref_simps rbind_simps)
    ultimately show ?thesis by blast
  qed
qed

lemma buffer_put_grown:
  assumes gr: "buffer_grow b (cnt b + n) st = Inr (0, b1, st1)" and g: "grown b (cnt b + n) 0 b1"
    and pos: "0 < unat n" and nowrap: "unat (cnt b) + unat n < 2 ^ 64" and len: "unat n \<le> length xs"
  shows "\<exists>b'. buffer_put b xs n index st = Inr (0, if index then Some (cnt b) else None, b', st1)
    \<and> buf_ok b' \<and> buf_bytes b' = buf_bytes b @ take (unat n) xs"
proof -
  have b1: "buf_ok b1" "cnt b1 = cnt b" "buf_bytes b1 = buf_bytes b" "cnt b1 + n \<le> cap b1"
    using g by (simp_all add: grown_def)
  obtain blk where blk: "rbind (deref (data b1)) (\<lambda>blk. store_bytes blk (unat (cnt b1)) (take (unat n) xs)) = Inr blk"
    and res: "buf_ok (b1\<lparr>data := Some blk, cnt := cnt b1 + n\<rparr>)"
      "buf_bytes (b1\<lparr>data := Some blk, cnt := cnt b1 + n\<rparr>) = buf_bytes b1 @ take (unat n) xs"
    using put_in_capacity [OF b1(1,4) pos _ len] nowrap b1(2) by auto
  from blk obtain d where "data b1 = Some d" "store_bytes d (unat (cnt b1)) (take (unat n) xs) = Inr blk"
    by (auto simp: rbind_Inr_iff deref_def split: option.splits)
  then show ?thesis
    using gr res b1 len by (simp add: buffer_put_def Let_def)
qed

text \<open>The specification of \<open>buffer_put\<close> on any host, and on one whose allocations succeed.\<close>

lemma buffer_put_total:
  assumes "buf_ok b" and "0 < unat n" and "unat (cnt b) + unat n < 2 ^ 64"
    and "unat n \<le> length xs"
  shows "\<exists>r b' st'. buffer_put b xs n index st
      = Inr (r, if index then Some (cnt b) else None, b', st')
    \<and> (r = 0 \<and> buf_ok b' \<and> buf_bytes b' = buf_bytes b @ take (unat n) xs
       \<or> r = - 1 \<and> data b' = None)"
proof -
  obtain r b1 st1 where gr: "buffer_grow b (cnt b + n) st = Inr (r, b1, st1)"
    and g: "grown b (cnt b + n) r b1"
    using buffer_grow_total [OF assms(1)] by blast
  show ?thesis
  proof (cases "r = 0")
    case True
    then show ?thesis using buffer_put_grown [OF _ _ assms(2-4)] gr g by blast
  next
    case False
    then show ?thesis using gr g by (simp add: buffer_put_def grown_def Let_def)
  qed
qed

lemma buffer_put_good:
  assumes "heap_good st" and "buf_ok b" and "0 < unat n" and "unat (cnt b) + unat n \<le> 2 ^ 62"
    and "unat n \<le> length xs"
  shows "\<exists>b'. buffer_put b xs n index st = Inr (0, if index then Some (cnt b) else None, b', st)
    \<and> buf_ok b' \<and> buf_bytes b' = buf_bytes b @ take (unat n) xs"
proof -
  have "unat (cnt b + n) \<le> 2 ^ 62"
    using assms(4) by (simp add: unat_word_ariths)
  then obtain b1 where gr: "buffer_grow b (cnt b + n) st = Inr (0, b1, st)"
    and g: "grown b (cnt b + n) 0 b1"
    using buffer_grow_good [OF assms(1,2)] by blast
  have "unat (cnt b) + unat n < 2 ^ 64" using assms(4) by simp
  from buffer_put_grown [OF gr g assms(3) this assms(5)] show ?thesis .
qed

section \<open>The interface the tables of the ELF writer rely on\<close>

text \<open>
  An \<open>appender\<close> is a byte store that grows at its end only: a put returns the offset at which
  the bytes went, and everything before that offset stays.  What follows for strings is proved
  here once: a string put with its NUL can be read back at the offset returned, and the
  strings put earlier stay readable where they were.
\<close>

locale appender =
  fixes put :: "'b \<Rightarrow> u8 list \<Rightarrow> 's \<Rightarrow> (int \<times> u64 option \<times> 'b \<times> 's) res"
    and view :: "'b \<Rightarrow> u8 list" and ok :: "'b \<Rightarrow> bool" and good :: "'s \<Rightarrow> bool" and limit :: nat
  assumes put_append: "good s \<Longrightarrow> ok b \<Longrightarrow> xs \<noteq> [] \<Longrightarrow> length (view b) + length xs \<le> limit \<Longrightarrow>
      \<exists>b'. put b xs s = Inr (0, Some (of_nat (length (view b))), b', s)
        \<and> ok b' \<and> view b' = view b @ xs"
begin

lemma intern:
  assumes "good s" and "ok b" and "0 \<notin> set t" and "length (view b) + length t < limit"
  shows "\<exists>b'. put b (t @ [0]) s = Inr (0, Some (of_nat (length (view b))), b', s)
    \<and> ok b' \<and> view b' = view b @ t @ [0]
    \<and> cstr_at (map Some (view b')) (length (view b)) = Inr t
    \<and> (\<forall>i u. cstr_at (map Some (view b)) i = Inr u \<longrightarrow> cstr_at (map Some (view b')) i = Inr u)"
proof -
  obtain b' where "put b (t @ [0]) s = Inr (0, Some (of_nat (length (view b))), b', s)"
    "ok b'" and view: "view b' = view b @ t @ [0]"
    using put_append [OF assms(1,2), of "t @ [0]"] assms(4) by auto
  moreover have "cstr_at (map Some (view b')) (length (view b)) = Inr t"
    using assms(3) by (simp add: cstr_at_def view cstr_append_zero)
  moreover have "\<forall>i u. cstr_at (map Some (view b)) i = Inr u \<longrightarrow> cstr_at (map Some (view b')) i = Inr u"
    by (simp add: view cstr_at_append)
  ultimately show ?thesis by blast
qed

end

definition put_whole ::
  "buffer \<Rightarrow> u8 list \<Rightarrow> 'a msg_st_scheme \<Rightarrow> (int \<times> u64 option \<times> buffer \<times> 'a msg_st_scheme) res" where
  "put_whole b xs st = buffer_put b xs (of_nat (length xs)) True st"

interpretation buf: appender put_whole buf_bytes buf_ok heap_good "2 ^ 62"
proof
  fix s :: "'a msg_st_scheme" and b :: buffer and xs :: "u8 list"
  assume asm: "heap_good s" "buf_ok b" "xs \<noteq> []" "length (buf_bytes b) + length xs \<le> 2 ^ 62"
  have len: "unat (of_nat (length xs) :: u64) = length xs"
    using asm(4) by (simp add: unat_of_nat)
  have cnt: "of_nat (length (buf_bytes b)) = cnt b"
    using length_buf_bytes [OF asm(2)] by simp
  show "\<exists>b'. put_whole b xs s = Inr (0, Some (of_nat (length (buf_bytes b))), b', s)
      \<and> buf_ok b' \<and> buf_bytes b' = buf_bytes b @ xs"
    using buffer_put_good [OF asm(1,2), of "of_nat (length xs)" xs True] asm(3,4) len
      length_buf_bytes [OF asm(2)]
    by (simp add: put_whole_def cnt)
qed

end
