(* ===== verification/Codec.thy ===== *)
theory Codec
  imports Prelude
begin

text \<open>
  Layout of integers and records in files and memory.  The programs run on a little-endian
  host and read and write C structs as they lie in memory, so a record is the concatenation of
  the little-endian bytes of its fields.  A fixed-size record type is a \<open>codec\<close>: an encoder,
  a decoder and a size with the two round-trip laws.  The locale collects what follows for
  whole tables of such records (symbol tables, section header tables); each record type of the
  file formats interprets it.
\<close>

section \<open>Little-endian integers\<close>

text \<open>A wide integer is its low half followed by its high half.\<close>

definition le16 :: "u16 \<Rightarrow> u8 list" where
  "le16 w = [ucast w, ucast (drop_bit 8 w)]"

definition le32 :: "u32 \<Rightarrow> u8 list" where
  "le32 w = le16 (ucast w) @ le16 (ucast (drop_bit 16 w))"

definition le64 :: "u64 \<Rightarrow> u8 list" where
  "le64 w = le32 (ucast w) @ le32 (ucast (drop_bit 32 w))"

definition rd8 :: "u8 list \<Rightarrow> nat \<Rightarrow> u8" where
  "rd8 bs i = bs ! i"

definition rd16 :: "u8 list \<Rightarrow> nat \<Rightarrow> u16" where
  "rd16 bs i = ucast (bs ! i) OR push_bit 8 (ucast (bs ! (i + 1)))"

definition rd32 :: "u8 list \<Rightarrow> nat \<Rightarrow> u32" where
  "rd32 bs i = ucast (rd16 bs i) OR push_bit 16 (ucast (rd16 bs (i + 2)))"

definition rd64 :: "u8 list \<Rightarrow> nat \<Rightarrow> u64" where
  "rd64 bs i = ucast (rd32 bs i) OR push_bit 32 (ucast (rd32 bs (i + 4)))"

lemma le_length [simp]: "length (le16 a) = 2" "length (le32 b) = 4" "length (le64 c) = 8"
  by (simp_all add: le16_def le32_def le64_def)

lemma join16: "ucast (ucast w :: u8) OR push_bit 8 (ucast (ucast (drop_bit 8 w) :: u8)) = (w :: u16)"
  by (rule bit_word_eqI) (auto simp: bit_simps)

lemma join32: "ucast (ucast w :: u16) OR push_bit 16 (ucast (ucast (drop_bit 16 w) :: u16)) = (w :: u32)"
  by (rule bit_word_eqI) (auto simp: bit_simps)

lemma join64: "ucast (ucast w :: u32) OR push_bit 32 (ucast (ucast (drop_bit 32 w) :: u32)) = (w :: u64)"
  by (rule bit_word_eqI) (auto simp: bit_simps)

lemma bit_above [simp]:
  "\<not> bit (a :: u8) (8 + n)" "\<not> bit (b :: u16) (16 + n)" "\<not> bit (c :: u32) (32 + n)"
  using bit_imp_le_length [of a "8 + n"] bit_imp_le_length [of b "16 + n"]
    bit_imp_le_length [of c "32 + n"] by auto

lemma le16_join: "le16 (ucast a OR push_bit 8 (ucast b)) = [a, b]"
  by (auto simp: le16_def bit_simps intro!: bit_word_eqI)

lemma le32_join: "le32 (ucast a OR push_bit 16 (ucast b)) = le16 a @ le16 b"
proof -
  have "ucast (ucast a OR push_bit 16 (ucast b) :: u32) = a"
    "ucast (drop_bit 16 (ucast a OR push_bit 16 (ucast b) :: u32)) = b"
    by (auto simp: bit_simps intro!: bit_word_eqI)
  then show ?thesis by (simp only: le32_def)
qed

lemma le64_join: "le64 (ucast a OR push_bit 32 (ucast b)) = le32 a @ le32 b"
proof -
  have "ucast (ucast a OR push_bit 32 (ucast b) :: u64) = a"
    "ucast (drop_bit 32 (ucast a OR push_bit 32 (ucast b) :: u64)) = b"
    by (auto simp: bit_simps intro!: bit_word_eqI)
  then show ?thesis by (simp only: le64_def)
qed

lemma rd16_le16 [simp]: "rd16 (xs @ le16 w @ ys) (length xs) = w"
  by (simp add: rd16_def le16_def nth_append join16)

lemma rd32_le32 [simp]: "rd32 (xs @ le32 w @ ys) (length xs) = w"
proof -
  have "rd16 (xs @ le32 w @ ys) (length xs) = ucast w"
    by (simp add: le32_def)
  moreover have "rd16 (xs @ le32 w @ ys) (length xs + 2) = ucast (drop_bit 16 w)"
    using rd16_le16 [of "xs @ le16 (ucast w)" "ucast (drop_bit 16 w)" ys]
    by (simp add: le32_def)
  ultimately show ?thesis by (simp only: rd32_def join32)
qed

lemma rd64_le64 [simp]: "rd64 (xs @ le64 w @ ys) (length xs) = w"
proof -
  have "rd32 (xs @ le64 w @ ys) (length xs) = ucast w"
    by (simp add: le64_def)
  moreover have "rd32 (xs @ le64 w @ ys) (length xs + 4) = ucast (drop_bit 32 w)"
    using rd32_le32 [of "xs @ le32 (ucast w)" "ucast (drop_bit 32 w)" ys]
    by (simp add: le64_def)
  ultimately show ?thesis by (simp only: rd64_def join64)
qed

text \<open>
  Reading one field of a record: the field starts where the fields before it end.  The
  decoders of the formats are proved correct by these rules alone.
\<close>

lemma rd8_field: "i = length xs \<Longrightarrow> rd8 (xs @ [w] @ ys) i = w"
  by (simp add: rd8_def)

lemma rd16_field: "i = length xs \<Longrightarrow> rd16 (xs @ le16 w @ ys) i = w"
  by simp

lemma rd32_field: "i = length xs \<Longrightarrow> rd32 (xs @ le32 w @ ys) i = w"
  by simp

lemma rd64_field: "i = length xs \<Longrightarrow> rd64 (xs @ le64 w @ ys) i = w"
  by simp

lemma take_two: "i + 2 \<le> length bs \<Longrightarrow> take 2 (drop i bs) = [bs ! i, bs ! (i + 1)]"
  by (simp add: list_eq_iff_nth_eq less_Suc_eq numeral_2_eq_2)

lemma take_split: "take (m + n) (drop i bs) = take m (drop i bs) @ take n (drop (i + m) bs)"
  by (simp add: take_add add.commute)

lemma le16_rd16: "i + 2 \<le> length bs \<Longrightarrow> le16 (rd16 bs i) = take 2 (drop i bs)"
  by (simp only: take_two rd16_def le16_join)

lemma le32_rd32: "i + 4 \<le> length bs \<Longrightarrow> le32 (rd32 bs i) = take 4 (drop i bs)"
  using take_split [of 2 2 i bs] by (simp add: rd32_def le32_join le16_rd16)

lemma le64_rd64: "i + 8 \<le> length bs \<Longrightarrow> le64 (rd64 bs i) = take 8 (drop i bs)"
  using take_split [of 4 4 i bs] by (simp add: rd64_def le64_join le32_rd32)

text \<open>
  Decoding a record: the fields before the one read are skipped by their width
  (\<open>decode_rules\<close>); encoding what was decoded puts adjacent slices together again
  (\<open>encode_rules\<close>).
\<close>

lemma rd_append_right:
  "rd8 (xs @ ys) (length xs + k) = rd8 ys k"
  "rd16 (xs @ ys) (length xs + k) = rd16 ys k"
  "rd32 (xs @ ys) (length xs + k) = rd32 ys k"
  "rd64 (xs @ ys) (length xs + k) = rd64 ys k"
proof -
  show "rd8 (xs @ ys) (length xs + k) = rd8 ys k"
    by (simp add: rd8_def)
  show rd16: "rd16 (xs @ ys) (length xs + k) = rd16 ys k" for k
    by (simp add: rd16_def nth_append)
  show rd32: "rd32 (xs @ ys) (length xs + k) = rd32 ys k" for k
    by (simp only: rd32_def rd16 add.assoc)
  show "rd64 (xs @ ys) (length xs + k) = rd64 ys k"
    by (simp only: rd64_def rd32 add.assoc)
qed

lemma rd_skip:
  assumes "length xs \<le> i"
  shows "rd8 (xs @ ys) i = rd8 ys (i - length xs)"
    and "rd16 (xs @ ys) i = rd16 ys (i - length xs)"
    and "rd32 (xs @ ys) i = rd32 ys (i - length xs)"
    and "rd64 (xs @ ys) i = rd64 ys (i - length xs)"
  using assms rd_append_right [of xs ys "i - length xs"] by simp_all

lemma rd_first:
  "rd8 ([a] @ ys) 0 = a" "rd16 (le16 b @ ys) 0 = b" "rd32 (le32 c @ ys) 0 = c"
  "rd64 (le64 d @ ys) 0 = d"
  using rd8_field [of 0 "[]" a ys] rd16_field [of 0 "[]" b ys] rd32_field [of 0 "[]" c ys]
    rd64_field [of 0 "[]" d ys] by simp_all

lemma rd_last:
  "rd8 [a] 0 = a" "rd16 (le16 b) 0 = b" "rd32 (le32 c) 0 = c" "rd64 (le64 d) 0 = d"
  using rd_first(1) [of a "[]"] rd_first(2) [of b "[]"] rd_first(3) [of c "[]"]
    rd_first(4) [of d "[]"] by simp_all

lemma rd8_single: "i < length bs \<Longrightarrow> [rd8 bs i] = take 1 (drop i bs)"
  by (simp add: rd8_def take_Suc_conv_app_nth)

lemma slices_join:
  "j = i + m \<Longrightarrow> take m (drop i bs) @ take n (drop j bs) = take (m + n) (drop i bs)"
  "j = i + m \<Longrightarrow> take m (drop i bs) @ take n (drop j bs) @ ys = take (m + n) (drop i bs) @ ys"
  "take m bs @ take n (drop m bs) = take (m + n) bs"
  "take m bs @ take n (drop m bs) @ ys = take (m + n) bs @ ys"
  "take m bs @ drop m bs = bs"
  by (simp_all add: take_split take_add add.commute)

lemmas decode_rules = rd_skip rd_first rd_last
lemmas encode_rules = le16_rd16 le32_rd32 le64_rd64 rd8_single slices_join

section \<open>Tables of fixed-size records\<close>

text \<open>Record number \<open>i\<close> of a table of records of \<open>n\<close> bytes, and the whole table decoded.\<close>

definition chunk :: "nat \<Rightarrow> nat \<Rightarrow> 'a list \<Rightarrow> 'a list" where
  "chunk n i xs = take n (drop (i * n) xs)"

definition decode_table :: "nat \<Rightarrow> (u8 list \<Rightarrow> 'a) \<Rightarrow> u8 list \<Rightarrow> 'a list" where
  "decode_table n dec bs = map (\<lambda>i. dec (chunk n i bs)) [0..<length bs div n]"

lemma length_decode_table [simp]: "length (decode_table n dec bs) = length bs div n"
  by (simp add: decode_table_def)

lemma nth_decode_table:
  "i < length bs div n \<Longrightarrow> decode_table n dec bs ! i = dec (chunk n i bs)"
  by (simp add: decode_table_def)

lemma decode_table_Cons:
  assumes "length c = n" and "0 < n"
  shows "decode_table n dec (c @ bs) = dec c # decode_table n dec bs"
proof -
  have "length (c @ bs) div n = Suc (length bs div n)"
    using assms by (simp add: le_div_geq)
  moreover have "chunk n (Suc i) (c @ bs) = chunk n i bs" for i
    using assms by (simp add: chunk_def)
  moreover have "chunk n 0 (c @ bs) = c"
    using assms by (simp add: chunk_def)
  ultimately show ?thesis
    by (simp only: decode_table_def map_upt_Suc)
qed

text \<open>
  The contract of a record type with a layout.  A field that is an array of bytes is a list, whose
  length is part of \<open>wf\<close>; what is decoded always satisfies it.
\<close>

locale layout =
  fixes enc :: "'a \<Rightarrow> u8 list" and dec :: "u8 list \<Rightarrow> 'a" and sz :: nat and wf :: "'a \<Rightarrow> bool"
  assumes sz_pos: "0 < sz"
    and enc_length: "wf x \<Longrightarrow> length (enc x) = sz"
    and dec_enc: "wf x \<Longrightarrow> dec (enc x) = x"
    and enc_dec: "length bs = sz \<Longrightarrow> enc (dec bs) = bs"
    and dec_wf: "length bs = sz \<Longrightarrow> wf (dec bs)"
begin

lemma concat_length: "list_all wf xs \<Longrightarrow> length (concat (map enc xs)) = length xs * sz"
  by (induction xs) (simp_all add: enc_length)

lemma table_concat: "list_all wf xs \<Longrightarrow> decode_table sz dec (concat (map enc xs)) = xs"
proof (induction xs)
  case Nil
  show ?case by (simp add: decode_table_def)
next
  case (Cons x xs)
  then show ?case by (simp add: decode_table_Cons enc_length sz_pos dec_enc)
qed

lemma table_split:
  assumes "length bs = Suc n * sz"
  shows "decode_table sz dec bs = dec (take sz bs) # decode_table sz dec (drop sz bs)"
    and "length (take sz bs) = sz" and "length (drop sz bs) = n * sz"
proof -
  show len: "length (take sz bs) = sz" "length (drop sz bs) = n * sz" using assms by simp_all
  show "decode_table sz dec bs = dec (take sz bs) # decode_table sz dec (drop sz bs)"
    using decode_table_Cons [OF len(1) sz_pos, of dec "drop sz bs"] by simp
qed

lemma concat_table: "length bs = n * sz \<Longrightarrow> concat (map enc (decode_table sz dec bs)) = bs"
proof (induction n arbitrary: bs)
  case 0
  then show ?case by (simp add: decode_table_def)
next
  case (Suc n)
  note split = table_split [OF Suc.prems]
  show ?case unfolding split(1) using Suc.IH [OF split(3)] enc_dec [OF split(2)] by simp
qed

lemma table_wf: "length bs = n * sz \<Longrightarrow> list_all wf (decode_table sz dec bs)"
proof (induction n arbitrary: bs)
  case 0
  then show ?case by (simp add: decode_table_def)
next
  case (Suc n)
  note split = table_split [OF Suc.prems]
  show ?case unfolding split(1) using Suc.IH [OF split(3)] dec_wf [OF split(2)] by simp
qed

lemma chunk_length: "length bs = n * sz \<Longrightarrow> i < n \<Longrightarrow> length (chunk sz i bs) = sz"
  using mult_le_mono1 [of "Suc i" n sz] by (simp add: chunk_def)

end

text \<open>A record all of whose fields are integers: every value has its layout.\<close>

locale codec =
  fixes enc :: "'a \<Rightarrow> u8 list" and dec :: "u8 list \<Rightarrow> 'a" and sz :: nat
  assumes sz_pos: "0 < sz"
    and enc_length: "length (enc x) = sz"
    and dec_enc: "dec (enc x) = x"
    and enc_dec: "length bs = sz \<Longrightarrow> enc (dec bs) = bs"

sublocale codec \<subseteq> packed: layout enc dec sz "\<lambda>_. True"
  by unfold_locales (simp_all add: sz_pos enc_length dec_enc enc_dec)

context codec begin

lemma concat_length: "length (concat (map enc xs)) = length xs * sz"
  by (rule packed.concat_length) (simp add: list.pred_True)

lemma table_concat: "decode_table sz dec (concat (map enc xs)) = xs"
  by (rule packed.table_concat) (simp add: list.pred_True)

lemma concat_table: "length bs = n * sz \<Longrightarrow> concat (map enc (decode_table sz dec bs)) = bs"
  by (rule packed.concat_table)

lemma table_cases:
  assumes "length bs = n * sz"
  obtains xs where "bs = concat (map enc xs)" and "length xs = n"
proof
  show "bs = concat (map enc (decode_table sz dec bs))"
    using concat_table [OF assms] by simp
  show "length (decode_table sz dec bs) = n"
    using assms sz_pos by simp
qed

lemma table_snoc:
  assumes "length bs = n * sz"
  shows "decode_table sz dec (bs @ enc x) = decode_table sz dec bs @ [x]"
proof -
  obtain xs where "bs = concat (map enc xs)" by (rule table_cases [OF assms])
  then show ?thesis using table_concat [of "xs @ [x]"] by (simp add: table_concat)
qed

lemma chunk_concat: "i < length xs \<Longrightarrow> chunk sz i (concat (map enc xs)) = enc (xs ! i)"
proof (induction xs arbitrary: i)
  case Nil
  then show ?case by simp
next
  case (Cons x xs)
  then show ?case by (cases i) (simp_all add: chunk_def enc_length)
qed

lemma replace_concat:
  "i < length xs \<Longrightarrow>
   take (i * sz) (concat (map enc xs)) @ enc x @ drop (i * sz + sz) (concat (map enc xs))
   = concat (map enc (xs[i := x]))"
proof (induction xs arbitrary: i)
  case Nil
  then show ?case by simp
next
  case (Cons y ys)
  then show ?case by (cases i) (simp_all add: enc_length add.commute add.left_commute)
qed

lemma table_update:
  assumes "length bs = n * sz" and "i < n"
  shows "decode_table sz dec (take (i * sz) bs @ enc x @ drop (i * sz + sz) bs)
    = (decode_table sz dec bs)[i := x]"
proof -
  obtain xs where "bs = concat (map enc xs)" "length xs = n"
    by (rule table_cases [OF assms(1)])
  then show ?thesis using assms(2) by (simp add: replace_concat table_concat)
qed

end

end
