(* ===== verification/ElfFormat.thy ===== *)
theory ElfFormat
  imports Codec
begin

text \<open>
  The ELF structures of \<open>src/include/elf.h\<close> that \<open>fas2sym\<close> writes: constants, records with
  their widths, and their layout in a file.  \<open>Elf32_Sym\<close> and \<open>Elf32_Shdr\<close> are interpreted as
  codecs, so that symbol tables and section header tables decode record by record.
\<close>

named_theorems elf_consts

section \<open>Constants\<close>

definition ELFMAG0 :: u8 where [elf_consts]: "ELFMAG0 = 0x7F"
definition ELFMAG1 :: u8 where [elf_consts]: "ELFMAG1 = 0x45"
definition ELFMAG2 :: u8 where [elf_consts]: "ELFMAG2 = 0x4C"
definition ELFMAG3 :: u8 where [elf_consts]: "ELFMAG3 = 0x46"
definition ET_DYN :: u16 where [elf_consts]: "ET_DYN = 3"
definition EM_386 :: u16 where [elf_consts]: "EM_386 = 3"
definition EV_CURRENT :: nat where [elf_consts]: "EV_CURRENT = 1"
definition ELFCLASS32 :: u8 where [elf_consts]: "ELFCLASS32 = 1"
definition ELFDATA2LSB :: u8 where [elf_consts]: "ELFDATA2LSB = 1"
definition SHN_UNDEF :: nat where [elf_consts]: "SHN_UNDEF = 0"
definition SHN_ABS :: u16 where [elf_consts]: "SHN_ABS = 0xFFF1"
definition SHT_NULL :: u32 where [elf_consts]: "SHT_NULL = 0"
definition SHT_SYMTAB :: u32 where [elf_consts]: "SHT_SYMTAB = 2"
definition SHT_STRTAB :: u32 where [elf_consts]: "SHT_STRTAB = 3"
definition SHT_NOBITS :: u32 where [elf_consts]: "SHT_NOBITS = 8"
definition SHF_ALLOC :: u32 where [elf_consts]: "SHF_ALLOC = 2"
definition SHF_EXECINSTR :: u32 where [elf_consts]: "SHF_EXECINSTR = 4"
definition STB_LOCAL :: u8 where [elf_consts]: "STB_LOCAL = 0"
definition STT_OBJECT :: u8 where [elf_consts]: "STT_OBJECT = 1"
definition STT_FILE :: u8 where [elf_consts]: "STT_FILE = 4"

definition ELF32_ST_BIND :: "u8 \<Rightarrow> u8" where
  "ELF32_ST_BIND x = drop_bit 4 x"

definition ELF32_ST_TYPE :: "u8 \<Rightarrow> u8" where
  "ELF32_ST_TYPE x = x AND 0xf"

definition ELF32_ST_INFO :: "u8 \<Rightarrow> u8 \<Rightarrow> u8" where
  "ELF32_ST_INFO b t = push_bit 4 b + (t AND 0xf)"

section \<open>Records\<close>

record Elf32_Ehdr =
  e_ident :: "u8 list"
  e_type :: u16
  e_machine :: u16
  e_version :: u32
  e_entry :: u32
  e_phoff :: u32
  e_shoff :: u32
  e_flags :: u32
  e_ehsize :: u16
  e_phentsize :: u16
  e_phnum :: u16
  e_shentsize :: u16
  e_shnum :: u16
  e_shstrndx :: u16

record Elf32_Shdr =
  sh_name :: u32
  sh_type :: u32
  sh_flags :: u32
  sh_addr :: u32
  sh_offset :: u32
  sh_size :: u32
  sh_link :: u32
  sh_info :: u32
  sh_addralign :: u32
  sh_entsize :: u32

record Elf32_Sym =
  st_name :: u32
  st_value :: u32
  st_size :: u32
  st_info :: u8
  st_other :: u8
  st_shndx :: u16

text \<open>The sizes of the structs: \<open>sizeof(Elf32_Ehdr)\<close> and so on.\<close>

definition sizeof_Ehdr :: nat where "sizeof_Ehdr = 52"
definition sizeof_Shdr :: nat where "sizeof_Shdr = 40"
definition sizeof_Sym :: nat where "sizeof_Sym = 16"
definition sizeof_Phdr :: nat where "sizeof_Phdr = 32"

section \<open>Layout\<close>

definition enc_ehdr :: "Elf32_Ehdr \<Rightarrow> u8 list" where
  "enc_ehdr h = e_ident h @ le16 (e_type h) @ le16 (e_machine h) @ le32 (e_version h)
     @ le32 (e_entry h) @ le32 (e_phoff h) @ le32 (e_shoff h) @ le32 (e_flags h)
     @ le16 (e_ehsize h) @ le16 (e_phentsize h) @ le16 (e_phnum h) @ le16 (e_shentsize h)
     @ le16 (e_shnum h) @ le16 (e_shstrndx h)"

definition dec_ehdr :: "u8 list \<Rightarrow> Elf32_Ehdr" where
  "dec_ehdr bs =
     \<lparr>e_ident = take 16 bs, e_type = rd16 bs 16, e_machine = rd16 bs 18, e_version = rd32 bs 20,
      e_entry = rd32 bs 24, e_phoff = rd32 bs 28, e_shoff = rd32 bs 32, e_flags = rd32 bs 36,
      e_ehsize = rd16 bs 40, e_phentsize = rd16 bs 42, e_phnum = rd16 bs 44,
      e_shentsize = rd16 bs 46, e_shnum = rd16 bs 48, e_shstrndx = rd16 bs 50\<rparr>"

definition enc_shdr :: "Elf32_Shdr \<Rightarrow> u8 list" where
  "enc_shdr s = le32 (sh_name s) @ le32 (sh_type s) @ le32 (sh_flags s) @ le32 (sh_addr s)
     @ le32 (sh_offset s) @ le32 (sh_size s) @ le32 (sh_link s) @ le32 (sh_info s)
     @ le32 (sh_addralign s) @ le32 (sh_entsize s)"

definition dec_shdr :: "u8 list \<Rightarrow> Elf32_Shdr" where
  "dec_shdr bs =
     \<lparr>sh_name = rd32 bs 0, sh_type = rd32 bs 4, sh_flags = rd32 bs 8, sh_addr = rd32 bs 12,
      sh_offset = rd32 bs 16, sh_size = rd32 bs 20, sh_link = rd32 bs 24, sh_info = rd32 bs 28,
      sh_addralign = rd32 bs 32, sh_entsize = rd32 bs 36\<rparr>"

definition enc_sym :: "Elf32_Sym \<Rightarrow> u8 list" where
  "enc_sym s = le32 (st_name s) @ le32 (st_value s) @ le32 (st_size s)
     @ [st_info s] @ [st_other s] @ le16 (st_shndx s)"

definition dec_sym :: "u8 list \<Rightarrow> Elf32_Sym" where
  "dec_sym bs =
     \<lparr>st_name = rd32 bs 0, st_value = rd32 bs 4, st_size = rd32 bs 8,
      st_info = rd8 bs 12, st_other = rd8 bs 13, st_shndx = rd16 bs 14\<rparr>"

section \<open>Codecs\<close>

lemma dec_enc_sym: "dec_sym (enc_sym s) = s"
  by (simp add: dec_sym_def enc_sym_def decode_rules del: append_Cons append_Nil)

lemma enc_dec_sym: "length bs = sizeof_Sym \<Longrightarrow> enc_sym (dec_sym bs) = bs"
  by (simp add: dec_sym_def enc_sym_def sizeof_Sym_def encode_rules)

interpretation sym: codec enc_sym dec_sym sizeof_Sym
  by unfold_locales
    (simp add: sizeof_Sym_def, simp add: sizeof_Sym_def enc_sym_def, rule dec_enc_sym, erule enc_dec_sym)

lemma dec_enc_shdr: "dec_shdr (enc_shdr s) = s"
  by (simp add: dec_shdr_def enc_shdr_def decode_rules)

lemma enc_dec_shdr: "length bs = sizeof_Shdr \<Longrightarrow> enc_shdr (dec_shdr bs) = bs"
  by (simp add: dec_shdr_def enc_shdr_def sizeof_Shdr_def encode_rules)

interpretation shdr: codec enc_shdr dec_shdr sizeof_Shdr
  by unfold_locales
    (simp add: sizeof_Shdr_def, simp add: sizeof_Shdr_def enc_shdr_def, rule dec_enc_shdr, erule enc_dec_shdr)

lemma dec_enc_ehdr: "length (e_ident h) = 16 \<Longrightarrow> dec_ehdr (enc_ehdr h @ rest) = h"
  by (simp add: dec_ehdr_def enc_ehdr_def decode_rules)

lemma length_enc_ehdr: "length (e_ident h) = 16 \<Longrightarrow> length (enc_ehdr h) = sizeof_Ehdr"
  by (simp add: enc_ehdr_def sizeof_Ehdr_def)

end
