(* ===== verification/Elf.thy ===== *)
theory Elf
  imports Buffer ElfFormat
begin

text \<open>
  The ELF writer of \<open>fas2sym\<close> (\<open>src/bin/fas2sym/elf.c\<close>): the static headers and the three
  tables it builds, and the functions that fill, resolve and write them.  The file-scope
  variables are the fields of \<open>elf_st\<close>; \<open>text_begin\<close> and \<open>text_end\<close> are the globals of
  \<open>main.c\<close> that \<open>elf_resolve_symbols\<close> reads.
\<close>

section \<open>State\<close>

definition SEC_NULL :: nat where [elf_consts]: "SEC_NULL = 0"
definition SEC_TEXT :: nat where [elf_consts]: "SEC_TEXT = 1"
definition SEC_SHSTRTAB :: nat where [elf_consts]: "SEC_SHSTRTAB = 2"
definition SEC_STRTAB :: nat where [elf_consts]: "SEC_STRTAB = 3"
definition SEC_SYMTAB :: nat where [elf_consts]: "SEC_SYMTAB = 4"
definition SEC_END :: nat where [elf_consts]: "SEC_END = 5"

record elf_st = msg_st +
  text_begin :: "u8 list option"
  text_end :: "u8 list option"
  elf_ehdr :: Elf32_Ehdr
  elf_shdrs :: "Elf32_Shdr list"
  elf_shstrtab :: buffer
  elf_strtab :: buffer
  elf_symtab :: buffer

text \<open>The initialisers of \<open>elf_ehdr\<close> and \<open>elf_shdrs\<close>.\<close>

definition elf_ehdr_init :: Elf32_Ehdr where
  "elf_ehdr_init =
     \<lparr>e_ident = [ELFMAG0, ELFMAG1, ELFMAG2, ELFMAG3, ELFCLASS32, ELFDATA2LSB,
                 of_nat EV_CURRENT, 0, 0, 0, 0, 0, 0, 0, 0, 0],
      e_type = ET_DYN, e_machine = EM_386, e_version = of_nat EV_CURRENT,
      e_entry = 0, e_phoff = 0, e_shoff = 0, e_flags = 0,
      e_ehsize = of_nat sizeof_Ehdr, e_phentsize = of_nat sizeof_Phdr, e_phnum = 0,
      e_shentsize = of_nat sizeof_Shdr, e_shnum = of_nat SEC_END,
      e_shstrndx = of_nat SEC_SHSTRTAB\<rparr>"

definition elf_shdrs_init :: "Elf32_Shdr list" where
  "elf_shdrs_init =
     [\<lparr>sh_name = 0, sh_type = SHT_NULL, sh_flags = 0, sh_addr = 0, sh_offset = 0, sh_size = 0,
       sh_link = of_nat SHN_UNDEF, sh_info = 0, sh_addralign = 0, sh_entsize = 0\<rparr>,
      \<lparr>sh_name = 1, sh_type = SHT_NOBITS, sh_flags = SHF_ALLOC OR SHF_EXECINSTR, sh_addr = 0,
       sh_offset = 0, sh_size = 0, sh_link = of_nat SHN_UNDEF, sh_info = 0, sh_addralign = 1,
       sh_entsize = 0\<rparr>,
      \<lparr>sh_name = 7, sh_type = SHT_STRTAB, sh_flags = 0, sh_addr = 0, sh_offset = 0, sh_size = 0,
       sh_link = of_nat SHN_UNDEF, sh_info = 0, sh_addralign = 1, sh_entsize = 0\<rparr>,
      \<lparr>sh_name = 17, sh_type = SHT_STRTAB, sh_flags = 0, sh_addr = 0, sh_offset = 0, sh_size = 0,
       sh_link = of_nat SHN_UNDEF, sh_info = 0, sh_addralign = 1, sh_entsize = 0\<rparr>,
      \<lparr>sh_name = 25, sh_type = SHT_SYMTAB, sh_flags = 0, sh_addr = 0, sh_offset = 0, sh_size = 0,
       sh_link = of_nat SEC_STRTAB, sh_info = 0, sh_addralign = 4,
       sh_entsize = of_nat sizeof_Sym\<rparr>]"

definition upd_shdr ::
  "nat \<Rightarrow> (Elf32_Shdr \<Rightarrow> Elf32_Shdr) \<Rightarrow> 'a elf_st_scheme \<Rightarrow> 'a elf_st_scheme" where
  "upd_shdr i f st = st\<lparr>elf_shdrs := (elf_shdrs st)[i := f (elf_shdrs st ! i)]\<rparr>"

section \<open>Filling the tables\<close>

text \<open>The string literals with their terminating NUL: 34 and 2 bytes.\<close>

definition shstrtab_initial :: "u8 list" where
  "shstrtab_initial = [0] @ ascii ''.text'' @ [0] @ ascii ''.shstrtab'' @ [0] @ ascii ''.strtab''
     @ [0] @ ascii ''.symtab'' @ [0, 0]"

definition strtab_initial :: "u8 list" where
  "strtab_initial = [0, 0]"

definition elf_shstrtab_init :: "'a elf_st_scheme \<Rightarrow> (int \<times> 'a elf_st_scheme) res" where
  "elf_shstrtab_init st =
     rbind (buffer_put (elf_shstrtab st) shstrtab_initial 34 False st)
       (\<lambda>(r, _, b, st). Inr (r, st\<lparr>elf_shstrtab := b\<rparr>))"

definition elf_strtab_init :: "'a elf_st_scheme \<Rightarrow> (int \<times> 'a elf_st_scheme) res" where
  "elf_strtab_init st =
     rbind (buffer_put (elf_strtab st) strtab_initial 2 False st)
       (\<lambda>(r, _, b, st). Inr (r, st\<lparr>elf_strtab := b\<rparr>))"

definition null_sym :: Elf32_Sym where
  "null_sym = \<lparr>st_name = 0, st_value = 0, st_size = 0, st_info = 0, st_other = 0,
               st_shndx = of_nat SHN_UNDEF\<rparr>"

definition elf_symtab_init :: "'a elf_st_scheme \<Rightarrow> (int \<times> 'a elf_st_scheme) res" where
  "elf_symtab_init st =
     rbind (buffer_put (elf_symtab st) (enc_sym null_sym) (of_nat sizeof_Sym) False st)
       (\<lambda>(r, _, b, st). Inr (r, st\<lparr>elf_symtab := b\<rparr>))"

definition elf_init :: "'a elf_st_scheme \<Rightarrow> (int \<times> 'a elf_st_scheme) res" where
  "elf_init st =
     rbind (elf_shstrtab_init st) (\<lambda>(r, st).
       if r \<noteq> 0 then Inr (- 1, st)
       else rbind (elf_strtab_init st) (\<lambda>(r, st).
         if r \<noteq> 0 then Inr (- 1, st)
         else rbind (elf_symtab_init st) (\<lambda>(r, st).
           if r \<noteq> 0 then Inr (- 1, st) else Inr (0, st))))"

definition elf_add_symbol ::
  "u32 \<Rightarrow> u32 \<Rightarrow> u32 \<Rightarrow> u8 \<Rightarrow> u16 \<Rightarrow> 'a elf_st_scheme \<Rightarrow> (int \<times> 'a elf_st_scheme) res" where
  "elf_add_symbol name_off value sz info sect st =
     (let sym = \<lparr>st_name = name_off, st_value = value, st_size = sz, st_info = info,
                 st_other = 0, st_shndx = sect\<rparr>;
          text = rbind (deref (data (elf_strtab st))) (\<lambda>blk.
                   rbind (cstr_at blk (unat name_off)) (\<lambda>s. Inr (ascii ''add symbol: '' @ s)))
      in rbind (msg_verbose 2 text st) (\<lambda>st.
           let st = upd_shdr SEC_SYMTAB (\<lambda>h. h\<lparr>sh_info := sh_info h + 1\<rparr>) st
           in rbind (buffer_put (elf_symtab st) (enc_sym sym) (of_nat sizeof_Sym) False st)
                (\<lambda>(r, _, b, st). Inr (r, st\<lparr>elf_symtab := b\<rparr>))))"

text \<open>\<open>elf_add_str\<close> always writes the index, the position the string was to go to.\<close>

definition elf_add_str ::
  "u8 list \<Rightarrow> u64 \<Rightarrow> 'a elf_st_scheme \<Rightarrow> (int \<times> u64 \<times> 'a elf_st_scheme) res" where
  "elf_add_str str len st =
     rbind (buffer_put (elf_strtab st) str len True st)
       (\<lambda>(r, idx, b, st). Inr (r, the idx, st\<lparr>elf_strtab := b\<rparr>))"

section \<open>Resolving the text section\<close>

text \<open>Entry \<open>i\<close> of the symbol table, read and written where it lies in the buffer.\<close>

definition sym_load :: "block \<Rightarrow> nat \<Rightarrow> Elf32_Sym res" where
  "sym_load syms i = rbind (load_bytes syms (i * sizeof_Sym) sizeof_Sym) (\<lambda>bs. Inr (dec_sym bs))"

definition sym_store :: "block \<Rightarrow> nat \<Rightarrow> Elf32_Sym \<Rightarrow> block res" where
  "sym_store syms i s = store_bytes syms (i * sizeof_Sym) (enc_sym s)"

definition sym_name_is :: "block option \<Rightarrow> Elf32_Sym \<Rightarrow> u8 list \<Rightarrow> bool res" where
  "sym_name_is strtab s name =
     rbind (deref strtab) (\<lambda>str. strcmp0 (drop (unat (st_name s)) str) (str_block name))"

text \<open>The first loop, over the indices still to visit, with \<open>begin\<close> and \<open>end\<close> so far.\<close>

fun elf_find_text ::
  "block option \<Rightarrow> block option \<Rightarrow> u8 list \<Rightarrow> u8 list \<Rightarrow> nat list \<Rightarrow> u32 \<Rightarrow> u32 \<Rightarrow> 'a elf_st_scheme
    \<Rightarrow> (u32 \<times> u32 \<times> 'a elf_st_scheme) res" where
  "elf_find_text syms strtab tb te [] b e st = Inr (b, e, st)"
| "elf_find_text syms strtab tb te (i # is) b e st =
     rbind (deref syms) (\<lambda>blk. rbind (sym_load blk i) (\<lambda>s.
     rbind (sym_name_is strtab s tb) (\<lambda>is_begin.
     rbind (if is_begin
            then rbind (msg_verbose 1 (Inr (ascii ''Sym '' @ tb @ ascii '': ''
                          @ fmt_hex True (unat (st_value s)) @ [newline])) st)
                   (\<lambda>st. Inr (st_value s, e, st))
            else rbind (sym_name_is strtab s te) (\<lambda>is_end.
                   Inr (b, if is_end then st_value s else e, st)))
       (\<lambda>(b, e, st). if b \<noteq> 0 \<and> e \<noteq> 0 then Inr (b, e, st)
                     else elf_find_text syms strtab tb te is b e st))))"

text \<open>The second loop: every symbol whose value lies in the range belongs to \<open>.text\<close>.\<close>

fun elf_mark_text :: "nat list \<Rightarrow> u32 \<Rightarrow> u32 \<Rightarrow> block option \<Rightarrow> block option res" where
  "elf_mark_text [] b e syms = Inr syms"
| "elf_mark_text (i # is) b e syms =
     rbind (deref syms) (\<lambda>blk. rbind (sym_load blk i) (\<lambda>s.
     rbind (if b \<le> st_value s \<and> st_value s \<le> e
            then sym_store blk i (s\<lparr>st_shndx := of_nat SEC_TEXT\<rparr>) else Inr blk) (\<lambda>blk.
     elf_mark_text is b e (Some blk))))"

definition elf_resolve_symbols :: "'a elf_st_scheme \<Rightarrow> 'a elf_st_scheme res" where
  "elf_resolve_symbols st =
     (case (text_begin st, text_end st) of
        (Some tb, Some te) \<Rightarrow>
          (let idxs = [0..<unat (cnt (elf_symtab st)) div sizeof_Sym]
           in rbind (elf_find_text (data (elf_symtab st)) (data (elf_strtab st)) tb te idxs 0 0 st)
                (\<lambda>(b, e, st).
                   let st = upd_shdr SEC_TEXT (\<lambda>h. h\<lparr>sh_addr := b, sh_size := e - b\<rparr>) st
                   in rbind (elf_mark_text idxs b e (data (elf_symtab st))) (\<lambda>syms.
                        Inr (st\<lparr>elf_symtab := (elf_symtab st)\<lparr>data := syms\<rparr>\<rparr>))))
      | _ \<Rightarrow> Inr st)"

section \<open>Writing\<close>

definition elf_write_tab ::
  "buffer \<Rightarrow> stream \<Rightarrow> 'a elf_st_scheme \<Rightarrow> (int \<times> stream \<times> 'a elf_st_scheme) res" where
  "elf_write_tab buff fp st =
     (case data buff of
        None \<Rightarrow> Inr (0, fp, st)
      | Some blk \<Rightarrow>
          if cnt buff = 0 then Inr (0, fp, st)
          else rbind (load_bytes blk 0 (unat (cnt buff))) (\<lambda>bs.
                 let (n, fp, st) = fwrite bs (unat (cnt buff)) fp st
                 in Inr (if n \<noteq> 1 then - 1 else 0, fp, st)))"

definition elf_compute_section_offsets :: "'a elf_st_scheme \<Rightarrow> 'a elf_st_scheme" where
  "elf_compute_section_offsets st =
     (let offset = (of_nat sizeof_Ehdr :: u64);
          st = upd_shdr SEC_SHSTRTAB
                 (\<lambda>h. h\<lparr>sh_offset := ucast offset, sh_size := ucast (cnt (elf_shstrtab st))\<rparr>) st;
          offset = offset + cnt (elf_shstrtab st);
          st = upd_shdr SEC_STRTAB
                 (\<lambda>h. h\<lparr>sh_offset := ucast offset, sh_size := ucast (cnt (elf_strtab st))\<rparr>) st;
          offset = offset + cnt (elf_strtab st)
      in upd_shdr SEC_SYMTAB
           (\<lambda>h. h\<lparr>sh_offset := ucast offset, sh_size := ucast (cnt (elf_symtab st))\<rparr>) st)"

definition elf_write :: "u8 list \<Rightarrow> 'a elf_st_scheme \<Rightarrow> (int \<times> 'a elf_st_scheme) res" where
  "elf_write file st =
     (case fopen_wb file st of
        (None, st) \<Rightarrow> rbind (msg_err (Some file) st) (\<lambda>st. Inr (- 1, st))
      | (Some fp, st) \<Rightarrow>
        (let st = st\<lparr>elf_ehdr := (elf_ehdr st)\<lparr>e_shoff := of_nat sizeof_Ehdr\<rparr>\<rparr>;
             st = st\<lparr>elf_ehdr := (elf_ehdr st)\<lparr>e_shoff :=
                    ucast (ucast (e_shoff (elf_ehdr st)) + (cnt (elf_shstrtab st) + cnt (elf_strtab st)))\<rparr>\<rparr>;
             st = st\<lparr>elf_ehdr := (elf_ehdr st)\<lparr>e_shoff :=
                    ucast (ucast (e_shoff (elf_ehdr st)) + cnt (elf_symtab st))\<rparr>\<rparr>
         in rbind (elf_resolve_symbols st) (\<lambda>st.
            let (n, fp, st) = fwrite (enc_ehdr (elf_ehdr st)) sizeof_Ehdr fp st
            in if n \<noteq> 1
               then Inr (- 1, msg_errx (file @ ascii '': An error occurred while writting elf header'') st)
               else rbind (elf_write_tab (elf_shstrtab st) fp st) (\<lambda>(r, fp, st).
               if r \<noteq> 0
               then Inr (- 1, msg_errx (file @ ascii '': An error occured while writting .shstrtab data'') st)
               else rbind (elf_write_tab (elf_strtab st) fp st) (\<lambda>(r, fp, st).
               if r \<noteq> 0
               then Inr (- 1, msg_errx (file @ ascii '': An error occured while writting .strtab data'') st)
               else rbind (elf_write_tab (elf_symtab st) fp st) (\<lambda>(r, fp, st).
               if r \<noteq> 0
               then Inr (- 1, msg_errx (file @ ascii '': An error occured while writting .symtab data'') st)
               else
                 let st = elf_compute_section_offsets st;
                     st = upd_shdr SEC_SYMTAB (\<lambda>h. h\<lparr>sh_info := sh_info h + 1\<rparr>) st;
                     (n, fp, st) = fwrite (concat (map enc_shdr (elf_shdrs st))) sizeof_Shdr fp st
                 in if n \<noteq> SEC_END
                    then Inr (- 1, msg_errx (file @ ascii '': An error occured while writting sections headers'') st)
                    else Inr (0, st)))))))"

definition elf_cleanup :: "'a elf_st_scheme \<Rightarrow> 'a elf_st_scheme" where
  "elf_cleanup st =
     st\<lparr>elf_shstrtab := buffer_cleanup (elf_shstrtab st),
        elf_strtab := buffer_cleanup (elf_strtab st),
        elf_symtab := buffer_cleanup (elf_symtab st)\<rparr>"

section \<open>What the tables hold\<close>

definition elf_syms :: "'a elf_st_scheme \<Rightarrow> Elf32_Sym list" where
  "elf_syms st = decode_table sizeof_Sym dec_sym (buf_bytes (elf_symtab st))"

definition elf_strs :: "'a elf_st_scheme \<Rightarrow> u8 list" where
  "elf_strs st = buf_bytes (elf_strtab st)"

definition str_of :: "u8 list \<Rightarrow> u32 \<Rightarrow> u8 list res" where
  "str_of strs off = cstr_at (map Some strs) (unat off)"

text \<open>
  The invariant of the writer between \<open>elf_init\<close> and \<open>elf_write\<close>: the buffers are sound, the
  symbol table is a whole number of entries, at least the null symbol, \<open>sh_info\<close> of its section
  counts the entries behind the null symbol, and every entry names a string of the string table.
\<close>

definition elf_inv :: "'a elf_st_scheme \<Rightarrow> bool" where
  "elf_inv st \<longleftrightarrow>
     buf_ok (elf_shstrtab st) \<and> buf_ok (elf_strtab st) \<and> buf_ok (elf_symtab st)
     \<and> data (elf_strtab st) \<noteq> None \<and> data (elf_symtab st) \<noteq> None
     \<and> length (elf_shdrs st) = SEC_END
     \<and> length (buf_bytes (elf_symtab st)) = length (elf_syms st) * sizeof_Sym
     \<and> of_nat (length (elf_syms st)) = sh_info (elf_shdrs st ! SEC_SYMTAB) + 1
     \<and> (\<forall>s \<in> set (elf_syms st). \<exists>t. str_of (elf_strs st) (st_name s) = Inr t)"

lemma sym_load_prefix:
  assumes "length bs = n * sizeof_Sym" and "i < n"
  shows "sym_load (map Some bs @ ys) i = Inr (decode_table sizeof_Sym dec_sym bs ! i)"
proof -
  have "i * sizeof_Sym + sizeof_Sym \<le> length bs"
    using assms mult_le_mono1 [of "Suc i" n sizeof_Sym] by simp
  then show ?thesis
    using assms by (simp add: sym_load_def load_bytes_prefix nth_decode_table chunk_def sizeof_Sym_def)
qed

lemma sym_store_prefix:
  assumes "length bs = n * sizeof_Sym" and "i < n"
  shows "\<exists>bs'. sym_store (map Some bs @ ys) i s = Inr (map Some bs' @ ys)
    \<and> length bs' = length bs
    \<and> decode_table sizeof_Sym dec_sym bs' = (decode_table sizeof_Sym dec_sym bs)[i := s]"
proof -
  let ?bs' = "take (i * sizeof_Sym) bs @ enc_sym s @ drop (i * sizeof_Sym + sizeof_Sym) bs"
  have le: "i * sizeof_Sym + sizeof_Sym \<le> length bs"
    using assms mult_le_mono1 [of "Suc i" n sizeof_Sym] by simp
  have len: "length (enc_sym s) = sizeof_Sym" by (rule sym.enc_length)
  have "sym_store (map Some bs @ ys) i s = Inr (map Some ?bs' @ ys)"
    using le by (simp add: sym_store_def store_bytes_def len take_map drop_map)
  moreover have "length ?bs' = length bs" using le by (simp add: len)
  ultimately show ?thesis using sym.table_update [OF assms] by blast
qed

text \<open>What the second loop does to the entries.\<close>

definition mark_sym :: "u32 \<Rightarrow> u32 \<Rightarrow> Elf32_Sym \<Rightarrow> Elf32_Sym" where
  "mark_sym b e s =
     (if b \<le> st_value s \<and> st_value s \<le> e then s\<lparr>st_shndx := of_nat SEC_TEXT\<rparr> else s)"

lemma elf_mark_text_fold:
  assumes "length bs = n * sizeof_Sym" and "\<forall>i \<in> set idxs. i < n"
  shows "\<exists>bs'. elf_mark_text idxs b e (Some (map Some bs @ ys)) = Inr (Some (map Some bs' @ ys))
    \<and> length bs' = length bs
    \<and> decode_table sizeof_Sym dec_sym bs'
      = fold (\<lambda>i T. T[i := mark_sym b e (T ! i)]) idxs (decode_table sizeof_Sym dec_sym bs)"
  using assms
proof (induction idxs arbitrary: bs)
  case Nil
  then show ?case by simp
next
  case (Cons i idxs)
  let ?T = "decode_table sizeof_Sym dec_sym"
  have i: "i < n" using Cons.prems by simp
  have ld: "sym_load (map Some bs @ ys) i = Inr (?T bs ! i)"
    by (rule sym_load_prefix [OF Cons.prems(1) i])
  obtain bs1 where st: "(if b \<le> st_value (?T bs ! i) \<and> st_value (?T bs ! i) \<le> e
        then sym_store (map Some bs @ ys) i ((?T bs ! i)\<lparr>st_shndx := of_nat SEC_TEXT\<rparr>)
        else Inr (map Some bs @ ys)) = Inr (map Some bs1 @ ys)"
    and len: "length bs1 = length bs" and tab: "?T bs1 = (?T bs)[i := mark_sym b e (?T bs ! i)]"
  proof (cases "b \<le> st_value (?T bs ! i) \<and> st_value (?T bs ! i) \<le> e")
    case True
    then show ?thesis
      using sym_store_prefix [OF Cons.prems(1) i, of ys "mark_sym b e (?T bs ! i)"] that
      by (auto simp: mark_sym_def)
  next
    case False
    then show ?thesis using that [of bs] by (auto simp: mark_sym_def)
  qed
  have "length bs1 = n * sizeof_Sym" "\<forall>i \<in> set idxs. i < n"
    using len Cons.prems by simp_all
  from Cons.IH [OF this] st ld len tab show ?case by simp
qed

lemma elf_mark_text_all:
  assumes "length bs = n * sizeof_Sym"
  shows "\<exists>bs'. elf_mark_text [0..<n] b e (Some (map Some bs @ ys)) = Inr (Some (map Some bs' @ ys))
    \<and> length bs' = length bs
    \<and> decode_table sizeof_Sym dec_sym bs' = map (mark_sym b e) (decode_table sizeof_Sym dec_sym bs)"
proof -
  have "length (decode_table sizeof_Sym dec_sym bs) = n"
    using assms by (simp add: sizeof_Sym_def)
  then show ?thesis
    using elf_mark_text_fold [OF assms, of "[0..<n]" b e ys]
      fold_update_map [of n "decode_table sizeof_Sym dec_sym bs" "mark_sym b e"] by simp
qed

end
