(* ===== verification/ElfInv.thy ===== *)
theory ElfInv
  imports Elf
begin

text \<open>
  Correctness of the ELF writer's table operations: what \<open>elf_init\<close>, \<open>elf_add_str\<close> and
  \<open>elf_add_symbol\<close> do to the tables, that they keep \<open>elf_inv\<close>, and what
  \<open>elf_resolve_symbols\<close> computes, stated over the decoded symbol table and the names its
  entries resolve to.
\<close>

section \<open>Frame rules\<close>

lemma elf_views_frame [simp]:
  "elf_syms (st\<lparr>out := x\<rparr>) = elf_syms st" "elf_strs (st\<lparr>out := x\<rparr>) = elf_strs st"
  "elf_syms (st\<lparr>err := x\<rparr>) = elf_syms st" "elf_strs (st\<lparr>err := x\<rparr>) = elf_strs st"
  "elf_syms (st\<lparr>elf_ehdr := h\<rparr>) = elf_syms st" "elf_strs (st\<lparr>elf_ehdr := h\<rparr>) = elf_strs st"
  "elf_syms (st\<lparr>elf_shdrs := hs\<rparr>) = elf_syms st" "elf_strs (st\<lparr>elf_shdrs := hs\<rparr>) = elf_strs st"
  "elf_syms (st\<lparr>files := f\<rparr>) = elf_syms st" "elf_strs (st\<lparr>files := f\<rparr>) = elf_strs st"
  "elf_syms (st\<lparr>elf_strtab := b\<rparr>) = elf_syms st" "elf_strs (st\<lparr>elf_symtab := b\<rparr>) = elf_strs st"
  by (simp_all add: elf_syms_def elf_strs_def)

lemma elf_syms_upd: "elf_syms (st\<lparr>elf_symtab := b\<rparr>) = decode_table sizeof_Sym dec_sym (buf_bytes b)"
  and elf_strs_upd: "elf_strs (st\<lparr>elf_strtab := b\<rparr>) = buf_bytes b"
  by (simp_all add: elf_syms_def elf_strs_def)

lemma heap_good_frame [simp]:
  "heap_good (st\<lparr>out := x\<rparr>) = heap_good st" "heap_good (st\<lparr>err := x\<rparr>) = heap_good st"
  "heap_good (st\<lparr>files := f\<rparr>) = heap_good st"
  by (simp_all add: heap_good_def)

lemma heap_good_elf_frame [simp]:
  "heap_good ((st :: 'a elf_st_scheme)\<lparr>elf_ehdr := h\<rparr>) = heap_good st"
  "heap_good (st\<lparr>elf_shdrs := hs\<rparr>) = heap_good st"
  "heap_good (st\<lparr>elf_shstrtab := b\<rparr>) = heap_good st"
  "heap_good (st\<lparr>elf_strtab := b\<rparr>) = heap_good st"
  "heap_good (st\<lparr>elf_symtab := b\<rparr>) = heap_good st"
  by (simp_all add: heap_good_def)

text \<open>A message prints or not; nothing else of the state changes.\<close>

lemma msg_verbose_ok: "\<exists>t. msg_verbose l (Inr s) st = Inr (st\<lparr>out := t\<rparr>)"
proof (cases "l \<le> verbose st")
  case True
  then show ?thesis by (auto simp: msg_verbose_def print_out_def)
next
  case False
  then have "msg_verbose l (Inr s) st = Inr (st\<lparr>out := out st\<rparr>)"
    by (simp add: msg_verbose_def)
  then show ?thesis by blast
qed

section \<open>Adding strings and symbols\<close>

lemma put_false_of_true:
  "buffer_put b xs n True st = Inr (r, i, b', st') \<Longrightarrow> buffer_put b xs n False st = Inr (r, None, b', st')"
  by (auto simp: buffer_put_def Let_def rbind_Inr_iff split: if_splits prod.splits)

lemma strtab_block:
  assumes "elf_inv st"
  obtains zs where "data (elf_strtab st) = Some (map Some (elf_strs st) @ zs)"
  using assms buf_block [of "elf_strtab st"] by (auto simp: elf_inv_def elf_strs_def)

lemma length_put_bound: "length xs \<le> 2 ^ 62 \<Longrightarrow> unat (of_nat (length xs) :: u64) = length xs"
  by (simp add: unat_of_nat)

lemma elf_add_str_ok:
  assumes "heap_good st" and "buf_ok (elf_strtab st)" and "0 \<notin> set t"
    and "length (elf_strs st) + length t < 2 ^ 62"
  shows "\<exists>b'. elf_add_str (t @ [0]) (of_nat (length t + 1)) st
      = Inr (0, of_nat (length (elf_strs st)), st\<lparr>elf_strtab := b'\<rparr>)
    \<and> buf_ok b' \<and> data b' \<noteq> None \<and> buf_bytes b' = elf_strs st @ t @ [0]
    \<and> cstr_at (map Some (buf_bytes b')) (length (elf_strs st)) = Inr t
    \<and> (\<forall>i u. cstr_at (map Some (elf_strs st)) i = Inr u
         \<longrightarrow> cstr_at (map Some (buf_bytes b')) i = Inr u)"
proof -
  obtain b' where b': "put_whole (elf_strtab st) (t @ [0]) st
      = Inr (0, Some (of_nat (length (elf_strs st))), b', st)" "buf_ok b'"
    and rest: "buf_bytes b' = elf_strs st @ t @ [0]"
      "cstr_at (map Some (buf_bytes b')) (length (elf_strs st)) = Inr t"
      "\<forall>i u. cstr_at (map Some (elf_strs st)) i = Inr u
         \<longrightarrow> cstr_at (map Some (buf_bytes b')) i = Inr u"
    using buf.intern [OF assms(1,2,3)] assms(4) by (auto simp: elf_strs_def)
  have "data b' \<noteq> None"
    using rest(1) by (intro buf_bytes_data) simp
  then show ?thesis using b' rest by (auto simp: elf_add_str_def put_whole_def)
qed

definition new_sym :: "u32 \<Rightarrow> u32 \<Rightarrow> u32 \<Rightarrow> u8 \<Rightarrow> u16 \<Rightarrow> Elf32_Sym" where
  "new_sym name_off value sz info sect =
     \<lparr>st_name = name_off, st_value = value, st_size = sz, st_info = info,
      st_other = 0, st_shndx = sect\<rparr>"

lemma elf_add_symbol_ok:
  assumes good: "heap_good st" and inv: "elf_inv st"
    and name: "str_of (elf_strs st) name_off = Inr t"
    and room: "length (buf_bytes (elf_symtab st)) + sizeof_Sym \<le> 2 ^ 62"
  shows "\<exists>x b'. elf_add_symbol name_off value sz info sect st
      = Inr (0, (upd_shdr SEC_SYMTAB (\<lambda>h. h\<lparr>sh_info := sh_info h + 1\<rparr>) (st\<lparr>out := x\<rparr>))\<lparr>elf_symtab := b'\<rparr>)
    \<and> buf_ok b' \<and> buf_bytes b' = buf_bytes (elf_symtab st)
        @ enc_sym (new_sym name_off value sz info sect)"
proof -
  let ?s = "new_sym name_off value sz info sect"
  obtain zs where blk: "data (elf_strtab st) = Some (map Some (elf_strs st) @ zs)"
    using inv by (rule strtab_block)
  have "cstr_at (map Some (elf_strs st) @ zs) (unat name_off) = Inr t"
    using name by (simp add: str_of_def cstr_at_append)
  then obtain x where msg: "msg_verbose 2 (rbind (deref (data (elf_strtab st))) (\<lambda>blk.
      rbind (cstr_at blk (unat name_off)) (\<lambda>s. Inr (ascii ''add symbol: '' @ s)))) st
      = Inr (st\<lparr>out := x\<rparr>)"
    using msg_verbose_ok [of 2 "ascii ''add symbol: '' @ t" st] blk by auto
  let ?st = "upd_shdr SEC_SYMTAB (\<lambda>h. h\<lparr>sh_info := sh_info h + 1\<rparr>) (st\<lparr>out := x\<rparr>)"
  have len: "length (enc_sym ?s) = sizeof_Sym" by (rule sym.enc_length)
  have "\<exists>b'. put_whole (elf_symtab st) (enc_sym ?s) ?st
      = Inr (0, Some (of_nat (length (buf_bytes (elf_symtab st)))), b', ?st)
      \<and> buf_ok b' \<and> buf_bytes b' = buf_bytes (elf_symtab st) @ enc_sym ?s"
    using inv good room len
    by (intro buf.put_append) (auto simp: elf_inv_def upd_shdr_def sizeof_Sym_def)
  then obtain b' where "buffer_put (elf_symtab st) (enc_sym ?s) (of_nat sizeof_Sym) False ?st
      = Inr (0, None, b', ?st)" "buf_ok b'" "buf_bytes b' = buf_bytes (elf_symtab st) @ enc_sym ?s"
    by (auto simp: put_whole_def len dest: put_false_of_true)
  then show ?thesis
    using msg by (auto simp: elf_add_symbol_def Let_def new_sym_def upd_shdr_def)
qed

section \<open>The invariant\<close>

text \<open>The symbol table as a reader sees it: every entry with the name it refers to.\<close>

definition name_of :: "u8 list \<Rightarrow> Elf32_Sym \<Rightarrow> u8 list" where
  "name_of strs s = projr (str_of strs (st_name s))"

definition named_syms :: "'a elf_st_scheme \<Rightarrow> (u8 list \<times> Elf32_Sym) list" where
  "named_syms st = map (\<lambda>s. (name_of (elf_strs st) s, s)) (elf_syms st)"

lemma elf_inv_str: "elf_inv st \<Longrightarrow> s \<in> set (elf_syms st) \<Longrightarrow>
    str_of (elf_strs st) (st_name s) = Inr (name_of (elf_strs st) s)"
  by (auto simp: elf_inv_def name_of_def)

lemma elf_inv_frame [simp]:
  "elf_inv (st\<lparr>out := x\<rparr>) = elf_inv st" "elf_inv (st\<lparr>elf_ehdr := h\<rparr>) = elf_inv st"
  "elf_inv (st\<lparr>files := f\<rparr>) = elf_inv st"
  by (simp_all add: elf_inv_def)

lemma elf_add_str_inv:
  assumes inv: "elf_inv st" and ok: "buf_ok b'" "data b' \<noteq> None"
    and keep: "\<forall>i u. cstr_at (map Some (elf_strs st)) i = Inr u
      \<longrightarrow> cstr_at (map Some (buf_bytes b')) i = Inr u"
  shows "elf_inv (st\<lparr>elf_strtab := b'\<rparr>)"
    and "named_syms (st\<lparr>elf_strtab := b'\<rparr>) = named_syms st"
proof -
  have names: "str_of (buf_bytes b') (st_name s) = Inr (name_of (elf_strs st) s)"
    if "s \<in> set (elf_syms st)" for s
    using elf_inv_str [OF inv that] keep by (simp add: str_of_def)
  then show "elf_inv (st\<lparr>elf_strtab := b'\<rparr>)"
    using inv ok by (simp add: elf_inv_def elf_strs_upd)
  show "named_syms (st\<lparr>elf_strtab := b'\<rparr>) = named_syms st"
    using names by (auto simp: named_syms_def elf_strs_upd name_of_def)
qed

lemma upd_shdr_views [simp]:
  "elf_syms (upd_shdr i f st) = elf_syms st" "elf_strs (upd_shdr i f st) = elf_strs st"
  "elf_symtab (upd_shdr i f st) = elf_symtab st" "elf_strtab (upd_shdr i f st) = elf_strtab st"
  "elf_shstrtab (upd_shdr i f st) = elf_shstrtab st" "elf_ehdr (upd_shdr i f st) = elf_ehdr st"
  "elf_shdrs (upd_shdr i f st) = (elf_shdrs st)[i := f (elf_shdrs st ! i)]"
  "heap_good (upd_shdr i f st) = heap_good st" "text_begin (upd_shdr i f st) = text_begin st"
  "text_end (upd_shdr i f st) = text_end st" "files (upd_shdr i f st) = files st"
  "room (upd_shdr i f st) = room st" "heap_ok (upd_shdr i f st) = heap_ok st" "content (upd_shdr i f st) = content st"
  by (simp_all add: upd_shdr_def content_def fun_eq_iff)

lemma elf_add_symbol_inv:
  fixes st :: "'a elf_st_scheme" and x :: "u8 list"
  assumes inv: "elf_inv st" and ok: "buf_ok b'"
    and bytes: "buf_bytes b' = buf_bytes (elf_symtab st) @ enc_sym s"
    and name: "str_of (elf_strs st) (st_name s) = Inr t"
  defines "st' \<equiv> (upd_shdr SEC_SYMTAB (\<lambda>h. h\<lparr>sh_info := sh_info h + 1\<rparr>) (st\<lparr>out := x\<rparr>))
      \<lparr>elf_symtab := b'\<rparr>"
  shows "elf_inv st'" and "elf_syms st' = elf_syms st @ [s]" and "elf_strs st' = elf_strs st"
    and "named_syms st' = named_syms st @ [(t, s)]"
proof -
  have "length (buf_bytes (elf_symtab st)) = length (elf_syms st) * sizeof_Sym"
    using inv by (simp add: elf_inv_def)
  from sym.table_snoc [OF this] show syms: "elf_syms st' = elf_syms st @ [s]"
    by (simp add: st'_def elf_syms_upd bytes) (simp add: elf_syms_def)
  show strs: "elf_strs st' = elf_strs st"
    by (simp add: st'_def)
  show "named_syms st' = named_syms st @ [(t, s)]"
    using name by (simp add: named_syms_def syms strs name_of_def)
  have "\<exists>t. str_of (elf_strs st') (st_name s') = Inr t" if "s' \<in> set (elf_syms st')" for s'
    using that inv name by (auto simp: syms strs elf_inv_def)
  moreover have "length (buf_bytes (elf_symtab st')) = length (elf_syms st') * sizeof_Sym"
    using inv bytes sym.enc_length [of s] by (simp add: syms elf_inv_def) (simp add: st'_def)
  moreover have "data b' \<noteq> None"
    using bytes sym.enc_length [of s] by (intro buf_bytes_data) (auto simp: sizeof_Sym_def)
  ultimately show "elf_inv st'"
    using inv ok by (simp add: elf_inv_def syms) (simp add: st'_def elf_consts)
qed

section \<open>Initialisation\<close>

text \<open>The state of the globals when \<open>main\<close> starts.\<close>

definition elf_fresh :: "'a elf_st_scheme \<Rightarrow> bool" where
  "elf_fresh st \<longleftrightarrow> elf_ehdr st = elf_ehdr_init \<and> elf_shdrs st = elf_shdrs_init
     \<and> elf_shstrtab st = empty_buffer \<and> elf_strtab st = empty_buffer \<and> elf_symtab st = empty_buffer"

lemma put_whole_empty:
  assumes "heap_good st" and "xs \<noteq> []" and "length xs \<le> 2 ^ 62"
  shows "\<exists>b'. buffer_put empty_buffer xs (of_nat (length xs)) False st = Inr (0, None, b', st)
    \<and> buf_ok b' \<and> buf_bytes b' = xs"
  using buf.put_append [OF assms(1), of empty_buffer xs] assms
  by (auto simp: put_whole_def dest: put_false_of_true)

lemma elf_init_ok:
  assumes fresh: "elf_fresh st" and good: "heap_good st"
  shows "\<exists>b1 b2 b3. elf_init st
      = Inr (0, st\<lparr>elf_shstrtab := b1, elf_strtab := b2, elf_symtab := b3\<rparr>)
    \<and> buf_ok b1 \<and> buf_bytes b1 = shstrtab_initial
    \<and> buf_ok b2 \<and> buf_bytes b2 = strtab_initial
    \<and> buf_ok b3 \<and> buf_bytes b3 = enc_sym null_sym"
proof -
  have l: "length shstrtab_initial = 34" "length strtab_initial = 2"
      "length (enc_sym null_sym) = sizeof_Sym"
    by (simp_all add: shstrtab_initial_def strtab_initial_def sym.enc_length)
  obtain b1 where b1: "buffer_put empty_buffer shstrtab_initial 34 False st = Inr (0, None, b1, st)"
    "buf_ok b1" "buf_bytes b1 = shstrtab_initial"
    using put_whole_empty [OF good, of shstrtab_initial] l(1) by force
  let ?st1 = "st\<lparr>elf_shstrtab := b1\<rparr>"
  have good1: "heap_good ?st1" using good by simp
  obtain b2 where b2: "buffer_put empty_buffer strtab_initial 2 False ?st1 = Inr (0, None, b2, ?st1)"
    "buf_ok b2" "buf_bytes b2 = strtab_initial"
    using put_whole_empty [OF good1, of strtab_initial] l(2) by force
  let ?st2 = "?st1\<lparr>elf_strtab := b2\<rparr>"
  have good2: "heap_good ?st2" using good1 by simp
  obtain b3 where b3: "buffer_put empty_buffer (enc_sym null_sym) (of_nat sizeof_Sym) False ?st2
      = Inr (0, None, b3, ?st2)" "buf_ok b3" "buf_bytes b3 = enc_sym null_sym"
    using put_whole_empty [OF good2, of "enc_sym null_sym", unfolded l(3)] l(3)
    by (force simp: sizeof_Sym_def)
  have "elf_init st = Inr (0, st\<lparr>elf_shstrtab := b1, elf_strtab := b2, elf_symtab := b3\<rparr>)"
    using fresh b1(1) b2(1) b3(1)
    by (simp add: elf_init_def elf_shstrtab_init_def elf_strtab_init_def elf_symtab_init_def
        elf_fresh_def)
  then show ?thesis using b1(2,3) b2(2,3) b3(2,3) by blast
qed

lemma elf_inv_initial:
  assumes "elf_shdrs st = elf_shdrs_init" and "buf_ok (elf_shstrtab st)"
    and "buf_ok (elf_strtab st)" and "buf_bytes (elf_strtab st) = strtab_initial"
    and "buf_ok (elf_symtab st)" and "buf_bytes (elf_symtab st) = enc_sym null_sym"
  shows "elf_inv st" and "named_syms st = [([], null_sym)]"
proof -
  have syms: "elf_syms st = [null_sym]"
    using sym.table_concat [of "[null_sym]"] assms(6) by (simp add: elf_syms_def)
  have strs: "elf_strs st = [0, 0]"
    using assms(4) by (simp add: elf_strs_def strtab_initial_def)
  have name: "str_of [0, 0] (st_name null_sym) = Inr []"
    by (simp add: str_of_def cstr_at_def null_sym_def)
  show "named_syms st = [([], null_sym)]"
    by (simp add: named_syms_def syms strs name_of_def name)
  have "data (elf_strtab st) \<noteq> None"
    using assms(4) by (intro buf_bytes_data) (simp add: strtab_initial_def)
  moreover have "data (elf_symtab st) \<noteq> None"
    using assms(6) sym.enc_length [of null_sym] by (intro buf_bytes_data) (auto simp: sizeof_Sym_def)
  ultimately show "elf_inv st"
    using assms name sym.enc_length [of null_sym]
    by (simp add: elf_inv_def syms strs) (simp add: elf_shdrs_init_def elf_consts)
qed

section \<open>Resolving the text section\<close>

text \<open>
  The search over the decoded table: \<open>begin\<close> and \<open>end\<close> take the value of every entry with the
  right name until both are nonzero.
\<close>

fun find_text :: "(u8 list \<times> Elf32_Sym) list \<Rightarrow> u8 list \<Rightarrow> u8 list \<Rightarrow> u32 \<Rightarrow> u32 \<Rightarrow> u32 \<times> u32" where
  "find_text [] tb te b e = (b, e)"
| "find_text ((nm, s) # xs) tb te b e =
     (let b' = (if nm = tb then st_value s else b);
          e' = (if nm \<noteq> tb \<and> nm = te then st_value s else e)
      in if b' \<noteq> 0 \<and> e' \<noteq> 0 then (b', e') else find_text xs tb te b' e')"

lemma sym_name_is_ok:
  assumes "cstr_at (map Some strs) (unat (st_name s)) = Inr nm" and "0 \<notin> set t"
  shows "sym_name_is (Some (map Some strs @ zs)) s t = Inr (nm = t)"
proof -
  have "cstr (drop (unat (st_name s)) (map Some strs @ zs)) = Inr nm"
    using cstr_at_append [OF assms(1)] by (simp add: cstr_at_def)
  from strcmp0_cstr [OF this cstr_str_block [OF assms(2)]] show ?thesis
    by (simp add: sym_name_is_def)
qed

lemma elf_find_text_ok:
  fixes st :: "'a elf_st_scheme"
  assumes tab: "length bs = n * sizeof_Sym" and T: "decode_table sizeof_Sym dec_sym bs = T"
    and names: "\<forall>s \<in> set T. cstr_at (map Some strs) (unat (st_name s)) = Inr (nm s)"
    and args: "0 \<notin> set tb" "0 \<notin> set te"
    and idxs: "\<forall>i \<in> set idxs. i < n"
  shows "\<exists>x. elf_find_text (Some (map Some bs @ ys)) (Some (map Some strs @ zs)) tb te idxs b e st
    = (let r = find_text (map (\<lambda>i. (nm (T ! i), T ! i)) idxs) tb te b e
       in Inr (fst r, snd r, st\<lparr>out := x\<rparr>))"
  using idxs
proof (induction idxs arbitrary: b e st)
  case Nil
  have "st = st\<lparr>out := out st\<rparr>" by simp
  then show ?case by (auto intro!: exI [of _ "out st"])
next
  case (Cons i idxs)
  let ?s = "T ! i"
  have i: "i < n" using Cons.prems by simp
  have "length T = n" using T tab by (auto simp: sizeof_Sym_def)
  then have nm: "cstr_at (map Some strs) (unat (st_name ?s)) = Inr (nm ?s)"
    using i names by simp
  have ld: "sym_load (map Some bs @ ys) i = Inr ?s"
    using sym_load_prefix [OF tab i] T by simp
  note cmp = sym_name_is_ok [OF nm, of _ zs]
  obtain x where msg: "msg_verbose 1 (Inr (ascii ''Sym '' @ tb @ ascii '': ''
      @ fmt_hex True (unat (st_value ?s)) @ [newline])) st = Inr (st\<lparr>out := x\<rparr>)"
    using msg_verbose_ok by blast
  let ?b = "if nm ?s = tb then st_value ?s else b"
  let ?e = "if nm ?s \<noteq> tb \<and> nm ?s = te then st_value ?s else e"
  let ?st = "if nm ?s = tb then st\<lparr>out := x\<rparr> else st"
  have head: "rbind (if nm ?s = tb
        then rbind (msg_verbose 1 (Inr (ascii ''Sym '' @ tb @ ascii '': ''
               @ fmt_hex True (unat (st_value ?s)) @ [newline])) st)
               (\<lambda>st. Inr (st_value ?s, e, st))
        else rbind (sym_name_is (Some (map Some strs @ zs)) ?s te) (\<lambda>is_end.
               Inr (b, if is_end then st_value ?s else e, st))) k = k (?b, ?e, ?st)" for k :: "_ \<Rightarrow> (u32 \<times> u32 \<times> 'a elf_st_scheme) res"
    by (simp only: msg cmp [OF args(2)] rbind_simps split: if_split) simp
  have step: "elf_find_text (Some (map Some bs @ ys)) (Some (map Some strs @ zs)) tb te (i # idxs) b e st
    = (if ?b \<noteq> 0 \<and> ?e \<noteq> 0 then Inr (?b, ?e, ?st)
       else elf_find_text (Some (map Some bs @ ys)) (Some (map Some strs @ zs)) tb te idxs ?b ?e ?st)"
    by (simp only: elf_find_text.simps deref_simps rbind_simps ld cmp [OF args(1)] head prod.case)
  obtain y where y: "elf_find_text (Some (map Some bs @ ys)) (Some (map Some strs @ zs)) tb te idxs ?b ?e ?st
      = (let r = find_text (map (\<lambda>i. (nm (T ! i), T ! i)) idxs) tb te ?b ?e
         in Inr (fst r, snd r, ?st\<lparr>out := y\<rparr>))"
    using Cons.IH Cons.prems by force
  have "?st = st\<lparr>out := if nm ?s = tb then x else out st\<rparr>" by simp
  then have "\<exists>z. ?st = st\<lparr>out := z\<rparr>" ..
  moreover have "?st\<lparr>out := y\<rparr> = st\<lparr>out := y\<rparr>" by simp
  ultimately show ?case
    unfolding step y by (auto simp: Let_def)
qed

lemma elf_resolve_ok:
  fixes st :: "'a elf_st_scheme"
  assumes inv: "elf_inv st" and tb: "text_begin st = Some tb" "0 \<notin> set tb"
    and te: "text_end st = Some te" "0 \<notin> set te"
    and r: "find_text (named_syms st) tb te 0 0 = (b, e)"
  shows "\<exists>x b'. elf_resolve_symbols st
      = Inr ((upd_shdr SEC_TEXT (\<lambda>h. h\<lparr>sh_addr := b, sh_size := e - b\<rparr>) (st\<lparr>out := x\<rparr>))
              \<lparr>elf_symtab := b'\<rparr>)
    \<and> buf_ok b' \<and> data b' \<noteq> None \<and> cnt b' = cnt (elf_symtab st)
    \<and> length (buf_bytes b') = length (buf_bytes (elf_symtab st))
    \<and> decode_table sizeof_Sym dec_sym (buf_bytes b') = map (mark_sym b e) (elf_syms st)"
proof -
  let ?bs = "buf_bytes (elf_symtab st)" and ?T = "elf_syms st" and ?n = "length (elf_syms st)"
  obtain zs where str: "data (elf_strtab st) = Some (map Some (elf_strs st) @ zs)"
    using inv by (rule strtab_block)
  have ok: "buf_ok (elf_symtab st)" and dat: "data (elf_symtab st) \<noteq> None"
    and tab: "length ?bs = ?n * sizeof_Sym"
    using inv by (simp_all add: elf_inv_def)
  obtain ys where sy: "data (elf_symtab st) = Some (map Some ?bs @ ys)"
    "length ?bs = unat (cnt (elf_symtab st))"
    "length ?bs + length ys = unat (cap (elf_symtab st))" "unat (cap (elf_symtab st)) < 2 ^ 63"
    using ok dat by (cases rule: buf_ok_block) auto
  have cnt: "unat (cnt (elf_symtab st)) div sizeof_Sym = ?n"
    using tab sy(2) by (simp add: sizeof_Sym_def)
  have T: "decode_table sizeof_Sym dec_sym ?bs = ?T" by (simp add: elf_syms_def)
  have names: "\<forall>s \<in> set ?T. cstr_at (map Some (elf_strs st)) (unat (st_name s))
      = Inr (name_of (elf_strs st) s)"
    using elf_inv_str [OF inv] by (simp add: str_of_def)
  have nm: "map (\<lambda>i. (name_of (elf_strs st) (?T ! i), ?T ! i)) [0..<?n] = named_syms st"
    unfolding named_syms_def by (rule map_nth_upt)
  have "\<forall>i \<in> set [0..<?n]. i < ?n" by simp
  from elf_find_text_ok [OF tab T names tb(2) te(2) this, of ys zs 0 0 st]
  obtain x where find: "elf_find_text (data (elf_symtab st)) (data (elf_strtab st)) tb te
      [0..<?n] 0 0 st = Inr (b, e, st\<lparr>out := x\<rparr>)"
    unfolding nm r Let_def fst_conv snd_conv sy(1) [symmetric] str [symmetric] by blast
  obtain bs' where mark: "elf_mark_text [0..<?n] b e (data (elf_symtab st)) = Inr (Some (map Some bs' @ ys))"
    and len: "length bs' = length ?bs"
    and dec: "decode_table sizeof_Sym dec_sym bs' = map (mark_sym b e) ?T"
    using elf_mark_text_all [OF tab, of b e ys] unfolding sy(1) [symmetric] T by blast
  let ?b' = "(elf_symtab st)\<lparr>data := Some (map Some bs' @ ys)\<rparr>"
  have "elf_resolve_symbols st
      = Inr ((upd_shdr SEC_TEXT (\<lambda>h. h\<lparr>sh_addr := b, sh_size := e - b\<rparr>) (st\<lparr>out := x\<rparr>))
              \<lparr>elf_symtab := ?b'\<rparr>)"
    using tb(1) te(1) find mark by (simp add: elf_resolve_symbols_def cnt Let_def)
  moreover have "buf_ok ?b'" "buf_bytes ?b' = bs'"
    using buf_ok_intro [of ?b' bs' ys] len sy(2-4) by simp_all
  ultimately show ?thesis using dec len by (intro exI [of _ x] exI [of _ ?b']) simp
qed

text \<open>The marking changes section indices only, so the invariant and the names stay.\<close>

lemma mark_sym_name [simp]: "st_name (mark_sym b e s) = st_name s"
  by (simp add: mark_sym_def)

lemma name_of_mark [simp]: "name_of strs (mark_sym b e s) = name_of strs s"
  by (simp add: name_of_def)

lemma elf_resolve_inv:
  fixes st :: "'a elf_st_scheme" and x :: "u8 list"
  assumes inv: "elf_inv st" and b': "buf_ok b'" "data b' \<noteq> None"
    and len: "length (buf_bytes b') = length (buf_bytes (elf_symtab st))"
    and dec: "decode_table sizeof_Sym dec_sym (buf_bytes b') = map (mark_sym b e) (elf_syms st)"
  defines "st' \<equiv> (upd_shdr SEC_TEXT (\<lambda>h. h\<lparr>sh_addr := b, sh_size := e - b\<rparr>) (st\<lparr>out := x\<rparr>))
      \<lparr>elf_symtab := b'\<rparr>"
  shows "elf_inv st'" and "elf_syms st' = map (mark_sym b e) (elf_syms st)"
    and "named_syms st' = map (\<lambda>(nm, s). (nm, mark_sym b e s)) (named_syms st)"
proof -
  show syms: "elf_syms st' = map (mark_sym b e) (elf_syms st)"
    by (simp add: st'_def elf_syms_upd dec)
  have strs: "elf_strs st' = elf_strs st" by (simp add: st'_def)
  show "named_syms st' = map (\<lambda>(nm, s). (nm, mark_sym b e s)) (named_syms st)"
    by (simp add: named_syms_def syms strs)
  show "elf_inv st'"
    using inv b' len by (simp add: elf_inv_def syms strs) (simp add: st'_def elf_consts)
qed

end
