(* ===== verification/ElfFile.thy ===== *)
theory ElfFile
  imports ElfInv
begin

text \<open>
  The file \<open>elf_write\<close> produces, against a reader of ELF files that is independent of the
  writer: \<open>read_symtab\<close> follows the ELF header to the section headers, takes the section of type
  \<open>SHT_SYMTAB\<close> and the string table it links to, and decodes the symbols with their names.
\<close>

section \<open>A reader of ELF files\<close>

definition read_ehdr :: "u8 list \<Rightarrow> Elf32_Ehdr option" where
  "read_ehdr bs =
     (if sizeof_Ehdr \<le> length bs \<and> take 4 bs = [0x7F, 0x45, 0x4C, 0x46]
      then Some (dec_ehdr bs) else None)"

definition read_shdrs :: "u8 list \<Rightarrow> Elf32_Shdr list option" where
  "read_shdrs bs =
     (case read_ehdr bs of
        None \<Rightarrow> None
      | Some h \<Rightarrow>
          if e_shentsize h = of_nat sizeof_Shdr
             \<and> unat (e_shoff h) + unat (e_shnum h) * sizeof_Shdr \<le> length bs
          then Some (decode_table sizeof_Shdr dec_shdr
                 (slice (unat (e_shoff h)) (unat (e_shnum h) * sizeof_Shdr) bs))
          else None)"

definition section_data :: "u8 list \<Rightarrow> Elf32_Shdr \<Rightarrow> u8 list" where
  "section_data bs s = slice (unat (sh_offset s)) (unat (sh_size s)) bs"

definition read_symtab :: "u8 list \<Rightarrow> (u8 list \<times> Elf32_Sym) list option" where
  "read_symtab bs =
     (case read_shdrs bs of
        None \<Rightarrow> None
      | Some hs \<Rightarrow>
         (case find (\<lambda>h. sh_type h = SHT_SYMTAB) hs of
            None \<Rightarrow> None
          | Some h \<Rightarrow>
              if unat (sh_link h) < length hs
              then Some (map (\<lambda>s. (name_of (section_data bs (hs ! unat (sh_link h))) s, s))
                     (decode_table sizeof_Sym dec_sym (section_data bs h)))
              else None))"

definition read_section_names :: "u8 list \<Rightarrow> u8 list res list option" where
  "read_section_names bs =
     (case (read_ehdr bs, read_shdrs bs) of
        (Some h, Some hs) \<Rightarrow>
          Some (map (\<lambda>s. str_of (section_data bs (hs ! unat (e_shstrndx h))) (sh_name s)) hs)
      | _ \<Rightarrow> None)"

section \<open>Appending to the output file\<close>

definition append_file :: "u8 list \<Rightarrow> u8 list \<Rightarrow> 'a os_scheme \<Rightarrow> 'a os_scheme" where
  "append_file p bs st =
     st\<lparr>files := (files st)(p \<mapsto> content st p @ bs), room := room st - length bs\<rparr>"

text \<open>A stream that stands at the end of an existing file.\<close>

definition at_end :: "u8 list \<Rightarrow> stream \<Rightarrow> 'a os_scheme \<Rightarrow> bool" where
  "at_end p fp st \<longleftrightarrow> s_path fp = p \<and> s_pos fp = length (content st p) \<and> files st p \<noteq> None"

lemma append_file_views [simp]:
  "content (append_file p bs st) p = content st p @ bs"
  "room (append_file p bs st) = room st - length bs"
  "files (append_file p bs st) = (files st)(p \<mapsto> content st p @ bs)"
  by (simp_all add: append_file_def content_def)

lemma append_file_elf_views [simp]:
  fixes st :: "'a elf_st_scheme"
  shows "elf_shstrtab (append_file p bs st) = elf_shstrtab st"
    "elf_strtab (append_file p bs st) = elf_strtab st"
    "elf_symtab (append_file p bs st) = elf_symtab st"
    "elf_shdrs (append_file p bs st) = elf_shdrs st" "elf_ehdr (append_file p bs st) = elf_ehdr st"
  by (simp_all add: append_file_def)

lemma append_file_nil: "files st p \<noteq> None \<Longrightarrow> append_file p [] st = st"
  by (auto simp: append_file_def content_def fun_upd_idem)

lemma at_end_append:
  "at_end p fp st \<Longrightarrow> at_end p (fp\<lparr>s_pos := s_pos fp + length bs\<rparr>) (append_file p bs st)"
  by (simp add: at_end_def)

lemma fwrite_at_end:
  assumes "at_end p fp st" and "length bs \<le> room st"
  shows "fwrite bs n fp st = (length bs div n, fp\<lparr>s_pos := s_pos fp + length bs\<rparr>, append_file p bs st)"
  using fwrite_append [of fp st bs n] assms by (simp add: at_end_def append_file_def)

text \<open>A short write: fewer items than asked for.\<close>

lemma fwrite_short:
  assumes "at_end p fp st" and "room st < length bs" and "length bs = k * n"
  shows "fst (fwrite bs n fp st) < k"
proof -
  have "fst (fwrite bs n fp st) = room st div n"
    using assms(1,2) by (simp add: fwrite_def at_end_def Let_def)
  also have "\<dots> < k"
    using assms(2,3) by (simp add: less_mult_imp_div_less)
  finally show ?thesis .
qed

lemma elf_write_tab_ok:
  assumes ok: "buf_ok b" and fp: "at_end p fp st" and room: "length (buf_bytes b) \<le> room st"
  shows "elf_write_tab b fp st
    = Inr (0, fp\<lparr>s_pos := s_pos fp + length (buf_bytes b)\<rparr>, append_file p (buf_bytes b) st)"
  using ok
proof (cases rule: buf_ok_block)
  case null
  then show ?thesis using fp by (simp add: elf_write_tab_def append_file_nil at_end_def)
next
  case (block ys)
  show ?thesis
  proof (cases "cnt b = 0")
    case True
    then have "buf_bytes b = []" using block(2) by simp
    then show ?thesis
      using True block(1) fp by (simp add: elf_write_tab_def append_file_nil at_end_def)
  next
    case False
    then have "0 < unat (cnt b)" by (simp add: unat_gt_0)
    moreover have "load_bytes (map Some (buf_bytes b) @ ys) 0 (unat (cnt b)) = Inr (buf_bytes b)"
      using block(2) by (simp add: load_bytes_prefix)
    ultimately show ?thesis
      using False block fwrite_at_end [OF fp room, of "unat (cnt b)"]
      by (simp add: elf_write_tab_def)
  qed
qed

lemma elf_write_tab_short:
  assumes ok: "buf_ok b" and fp: "at_end p fp st" and room: "room st < length (buf_bytes b)"
  shows "\<exists>fp' st'. elf_write_tab b fp st = Inr (- 1, fp', st')"
  using ok
proof (cases rule: buf_ok_block)
  case null
  then show ?thesis using room by simp
next
  case (block ys)
  then have len: "length (buf_bytes b) = 1 * unat (cnt b)" "cnt b \<noteq> 0" using room by auto
  have "load_bytes (map Some (buf_bytes b) @ ys) 0 (unat (cnt b)) = Inr (buf_bytes b)"
    using block(2) by (simp add: load_bytes_prefix)
  moreover obtain n fp' st' where w: "fwrite (buf_bytes b) (unat (cnt b)) fp st = (n, fp', st')"
    using prod_cases3 by blast
  moreover have "n \<noteq> 1" using fwrite_short [OF fp room len(1)] w by simp
  ultimately show ?thesis using block(1) len(2) by (simp add: elf_write_tab_def)
qed

section \<open>Resolving, with or without a text range\<close>

definition text_range :: "'a elf_st_scheme \<Rightarrow> (u32 \<times> u32) option" where
  "text_range st =
     (case (text_begin st, text_end st) of
        (Some tb, Some te) \<Rightarrow> Some (find_text (named_syms st) tb te 0 0)
      | _ \<Rightarrow> None)"

definition mark_named ::
  "(u32 \<times> u32) option \<Rightarrow> (u8 list \<times> Elf32_Sym) list \<Rightarrow> (u8 list \<times> Elf32_Sym) list" where
  "mark_named r xs =
     (case r of None \<Rightarrow> xs | Some (b, e) \<Rightarrow> map (\<lambda>(nm, s). (nm, mark_sym b e s)) xs)"

definition mark_shdrs :: "(u32 \<times> u32) option \<Rightarrow> Elf32_Shdr list \<Rightarrow> Elf32_Shdr list" where
  "mark_shdrs r hs =
     (case r of None \<Rightarrow> hs
      | Some (b, e) \<Rightarrow> hs[SEC_TEXT := (hs ! SEC_TEXT)\<lparr>sh_addr := b, sh_size := e - b\<rparr>])"

text \<open>Command-line arguments are C strings: they hold no NUL.\<close>

definition text_args_ok :: "'a elf_st_scheme \<Rightarrow> bool" where
  "text_args_ok st \<longleftrightarrow>
     (\<forall>t. text_begin st = Some t \<or> text_end st = Some t \<longrightarrow> 0 \<notin> set t)"

lemma elf_resolve_spec:
  assumes inv: "elf_inv st" and args: "text_args_ok st"
  shows "\<exists>st'. elf_resolve_symbols st = Inr st' \<and> elf_inv st'
    \<and> named_syms st' = mark_named (text_range st) (named_syms st)
    \<and> elf_shdrs st' = mark_shdrs (text_range st) (elf_shdrs st)
    \<and> cnt (elf_symtab st') = cnt (elf_symtab st)
    \<and> elf_shstrtab st' = elf_shstrtab st \<and> elf_strtab st' = elf_strtab st
    \<and> elf_ehdr st' = elf_ehdr st \<and> files st' = files st \<and> room st' = room st
    \<and> heap_ok st' = heap_ok st \<and> text_begin st' = text_begin st \<and> text_end st' = text_end st"
proof (cases "text_begin st = None \<or> text_end st = None")
  case True
  then have "elf_resolve_symbols st = Inr st" "text_range st = None"
    by (auto simp: elf_resolve_symbols_def text_range_def split: option.splits)
  then show ?thesis using inv by (simp add: mark_named_def mark_shdrs_def)
next
  case False
  then obtain tb te where t: "text_begin st = Some tb" "text_end st = Some te" by auto
  then have nul: "0 \<notin> set tb" "0 \<notin> set te" using args by (auto simp: text_args_ok_def)
  obtain b e where r: "find_text (named_syms st) tb te 0 0 = (b, e)" by fastforce
  then have range: "text_range st = Some (b, e)" using t by (simp add: text_range_def)
  obtain x b' where res: "elf_resolve_symbols st
      = Inr ((upd_shdr SEC_TEXT (\<lambda>h. h\<lparr>sh_addr := b, sh_size := e - b\<rparr>) (st\<lparr>out := x\<rparr>))
              \<lparr>elf_symtab := b'\<rparr>)"
    and b': "buf_ok b'" "data b' \<noteq> None" "cnt b' = cnt (elf_symtab st)"
      "length (buf_bytes b') = length (buf_bytes (elf_symtab st))"
      "decode_table sizeof_Sym dec_sym (buf_bytes b') = map (mark_sym b e) (elf_syms st)"
    using elf_resolve_ok [OF inv t(1) nul(1) t(2) nul(2) r] by blast
  show ?thesis
    unfolding res
    using elf_resolve_inv(1,3) [OF inv b'(1,2,4,5), of x] b'(3)
    by (simp add: range mark_named_def mark_shdrs_def)
qed

section \<open>Writing the file\<close>

text \<open>The headers as written, given the sizes of the three tables.\<close>

definition final_ehdr :: "'a elf_st_scheme \<Rightarrow> Elf32_Ehdr" where
  "final_ehdr st = (elf_ehdr st)\<lparr>e_shoff :=
     of_nat (sizeof_Ehdr + unat (cnt (elf_shstrtab st)) + unat (cnt (elf_strtab st))
       + unat (cnt (elf_symtab st)))\<rparr>"

definition final_shdrs :: "'a elf_st_scheme \<Rightarrow> Elf32_Shdr list \<Rightarrow> Elf32_Shdr list" where
  "final_shdrs st hs =
     hs[SEC_SHSTRTAB := (hs ! SEC_SHSTRTAB)
          \<lparr>sh_offset := of_nat sizeof_Ehdr, sh_size := of_nat (unat (cnt (elf_shstrtab st)))\<rparr>,
        SEC_STRTAB := (hs ! SEC_STRTAB)
          \<lparr>sh_offset := of_nat (sizeof_Ehdr + unat (cnt (elf_shstrtab st))),
           sh_size := of_nat (unat (cnt (elf_strtab st)))\<rparr>,
        SEC_SYMTAB := (hs ! SEC_SYMTAB)
          \<lparr>sh_offset := of_nat (sizeof_Ehdr + unat (cnt (elf_shstrtab st)) + unat (cnt (elf_strtab st))),
           sh_size := of_nat (unat (cnt (elf_symtab st))),
           sh_info := sh_info (hs ! SEC_SYMTAB) + 1\<rparr>]"

definition elf_file_size :: "'a elf_st_scheme \<Rightarrow> nat" where
  "elf_file_size st =
     sizeof_Ehdr + length (buf_bytes (elf_shstrtab st)) + length (buf_bytes (elf_strtab st))
       + length (buf_bytes (elf_symtab st)) + SEC_END * sizeof_Shdr"

lemma length_final_shdrs [simp]: "length (final_shdrs st hs) = length hs"
  by (simp add: final_shdrs_def)

lemma elf_compute_section_offsets_eq:
  "length (elf_shdrs st) = SEC_END \<Longrightarrow>
   upd_shdr SEC_SYMTAB (\<lambda>h. h\<lparr>sh_info := sh_info h + 1\<rparr>) (elf_compute_section_offsets st)
   = st\<lparr>elf_shdrs := final_shdrs st (elf_shdrs st)\<rparr>"
  by (simp add: elf_compute_section_offsets_def final_shdrs_def upd_shdr_def Let_def elf_consts
      ucast_add_32 sizeof_Ehdr_def)

lemma elf_write_ehdr:
  fixes a b c :: u64
  shows
  "ucast (ucast (ucast (ucast (of_nat sizeof_Ehdr :: u32) + (a + b)) :: u32) + c)
   = (of_nat (sizeof_Ehdr + unat a + unat b + unat c) :: u32)"
  by (simp add: ucast_add_32 sizeof_Ehdr_def)

lemma elf_open_frame:
  fixes st :: "'a elf_st_scheme" and h :: Elf32_Ehdr and f :: "u8 list \<Rightarrow> u8 list option"
  defines "st0 \<equiv> st\<lparr>files := f, elf_ehdr := h\<rparr>"
  shows "named_syms st0 = named_syms st" "text_range st0 = text_range st"
    "text_args_ok st0 = text_args_ok st" "elf_inv st0 = elf_inv st" "room st0 = room st"
    "elf_shstrtab st0 = elf_shstrtab st" "elf_strtab st0 = elf_strtab st"
    "elf_symtab st0 = elf_symtab st" "elf_shdrs st0 = elf_shdrs st"
    "elf_ehdr st0 = h" "files st0 = f"
  by (simp_all add: st0_def named_syms_def text_range_def text_args_ok_def split: option.split)

text \<open>
  \<open>elf_write\<close> after the output file is open and the offset of the section headers is known:
  what is left is to resolve the symbols and to write.
\<close>

lemma elf_write_opened:
  fixes st :: "'a elf_st_scheme"
  assumes "writable st file"
  defines "st0 \<equiv> st\<lparr>files := (files st)(file \<mapsto> []), elf_ehdr := final_ehdr st\<rparr>"
    and "fp0 \<equiv> \<lparr>s_path = file, s_pos = 0\<rparr>"
  shows "elf_write file st =
    rbind (elf_resolve_symbols st0) (\<lambda>st.
      let (n, fp, st) = fwrite (enc_ehdr (elf_ehdr st)) sizeof_Ehdr fp0 st
      in if n \<noteq> 1
         then Inr (- 1, msg_errx (file @ ascii '': An error occurred while writting elf header'') st)
         else rbind (elf_write_tab (elf_shstrtab st) fp st) (\<lambda>(r, fp, st).
         if r \<noteq> 0
         then Inr (- 1, msg_errx (file @ ascii '': An error occured while writting .shstrtab data'') st)
         else rbind (elf_write_tab (elf_strtab st) fp st) (\<lambda>(r, fp, st).
         if r \<noteq> 0
         then Inr (- 1, msg_errx (file @ ascii '': An error occured while writting .strtab data'') st)
         else rbind (elf_write_tab (elf_symtab st) fp st) (\<lambda>(r, fp, st).
         if r \<noteq> 0
         then Inr (- 1, msg_errx (file @ ascii '': An error occured while writting .symtab data'') st)
         else
           let st = elf_compute_section_offsets st;
               st = upd_shdr SEC_SYMTAB (\<lambda>h. h\<lparr>sh_info := sh_info h + 1\<rparr>) st;
               (n, fp, st) = fwrite (concat (map enc_shdr (elf_shdrs st))) sizeof_Shdr fp st
           in if n \<noteq> SEC_END
              then Inr (- 1, msg_errx (file @ ascii '': An error occured while writting sections headers'') st)
              else Inr (0, st)))))"
proof -
  have e: "(elf_ehdr st)\<lparr>e_shoff := ucast (ucast (ucast (ucast (of_nat sizeof_Ehdr :: u32)
      + (cnt (elf_shstrtab st) + cnt (elf_strtab st))) :: u32) + cnt (elf_symtab st))\<rparr> = final_ehdr st"
    by (simp only: elf_write_ehdr final_ehdr_def)
  have o: "fopen_wb file st = (Some fp0, st\<lparr>files := (files st)(file \<mapsto> [])\<rparr>)"
    using assms(1) by (simp add: fopen_wb_def fp0_def)
  show ?thesis
    unfolding elf_write_def o prod.case option.case Let_def st0_def e [symmetric] by simp
qed

text \<open>
  The rest of the writing at a point where the stream stands at the end of the file: it succeeds if
  and only if the file system has room for the bytes to come, and then exactly these are added.
\<close>

definition writes :: "u8 list \<Rightarrow> u8 list \<Rightarrow> 'a os_scheme \<Rightarrow> (int \<times> 'a os_scheme) res \<Rightarrow> bool" where
  "writes p bs st r \<longleftrightarrow> (\<exists>st'. r = Inr (if length bs \<le> room st then 0 else - 1, st')
     \<and> (length bs \<le> room st \<longrightarrow> files st' = (files st)(p \<mapsto> content st p @ bs)))"

lemma writes_end: "at_end p fp st \<Longrightarrow> writes p [] st (Inr (0, st))"
  by (auto simp: writes_def at_end_def content_def)

lemma writes_step:
  assumes "length bs \<le> room st" and "writes p rest (append_file p bs st) r"
  shows "writes p (bs @ rest) st r"
  using assms by (auto simp: writes_def)

lemma writes_fail: "room st < length bs \<Longrightarrow> writes p (bs @ rest) st (Inr (- 1, st'))"
  by (simp add: writes_def)

lemma writes_fwrite:
  assumes at: "at_end p fp st" and len: "length bs = k * n" and n: "0 < n"
    and rest: "\<And>fp st. at_end p fp st \<Longrightarrow> st = append_file p bs st0 \<Longrightarrow> writes p rest st (g fp st)"
    and st0: "st = st0"
  shows "writes p (bs @ rest) st (let (m, fp, st) = fwrite bs n fp st in if m \<noteq> k then Inr (- 1, e st) else g fp st)"
proof (cases "length bs \<le> room st")
  case True
  have "length bs div n = k" using len n by simp
  then show ?thesis
    using writes_step [OF True rest] fwrite_at_end [OF at True] at_end_append [OF at] st0 by simp
next
  case False
  obtain m fp' st' where f: "fwrite bs n fp st = (m, fp', st')" using prod_cases3 by blast
  have "m \<noteq> k" using fwrite_short [OF at _ len] f False by simp
  then show ?thesis using f False by (simp add: writes_fail)
qed

lemma writes_tab:
  assumes ok: "buf_ok b" and at: "at_end p fp st"
    and rest: "\<And>fp st. at_end p fp st \<Longrightarrow> st = append_file p (buf_bytes b) st0 \<Longrightarrow> writes p rest st (g fp st)"
    and st0: "st = st0"
  shows "writes p (buf_bytes b @ rest) st
    (rbind (elf_write_tab b fp st) (\<lambda>(r, fp, st). if r \<noteq> 0 then Inr (- 1, e st) else g fp st))"
proof (cases "length (buf_bytes b) \<le> room st")
  case True
  then show ?thesis
    using writes_step [OF True rest] elf_write_tab_ok [OF ok at True] at_end_append [OF at] st0 by simp
next
  case False
  then obtain fp' st' where "elf_write_tab b fp st = Inr (- 1, fp', st')"
    using elf_write_tab_short [OF ok at] by auto
  then show ?thesis using False by (simp add: writes_fail)
qed

lemma writes_headers:
  fixes st :: "'a elf_st_scheme"
  assumes at: "at_end p fp st" and hs: "length (elf_shdrs st) = SEC_END"
    and H: "H = concat (map enc_shdr (final_shdrs st (elf_shdrs st)))"
  shows "writes p H st
    (let st = elf_compute_section_offsets st;
         st = upd_shdr SEC_SYMTAB (\<lambda>h. h\<lparr>sh_info := sh_info h + 1\<rparr>) st;
         (n, fp, st) = fwrite (concat (map enc_shdr (elf_shdrs st))) sizeof_Shdr fp st
     in if n \<noteq> SEC_END then Inr (- 1, e st) else Inr (0, st))"
proof -
  let ?st = "st\<lparr>elf_shdrs := final_shdrs st (elf_shdrs st)\<rparr>"
  have at': "at_end p fp ?st" using at by (simp add: at_end_def content_def)
  have len: "length H = SEC_END * sizeof_Shdr"
    using hs by (simp only: H shdr.concat_length length_final_shdrs)
  have "writes p (H @ []) ?st (let (n, fp, st) = fwrite H sizeof_Shdr fp ?st
      in if n \<noteq> SEC_END then Inr (- 1, e st) else Inr (0, st))"
    by (rule writes_fwrite [OF at' len]) (auto simp: sizeof_Shdr_def intro: writes_end)
  then show ?thesis
    unfolding Let_def elf_compute_section_offsets_eq [OF hs] by (simp add: H writes_def content_def)
qed

text \<open>What \<open>elf_write\<close> does with a file it can open.\<close>

lemma elf_write_outcome:
  fixes st :: "'a elf_st_scheme"
  assumes inv: "elf_inv st" and args: "text_args_ok st" and w: "writable st file"
    and ident: "length (e_ident (elf_ehdr st)) = 16"
  obtains st1 :: "'a elf_st_scheme" and bs where "writes file bs st1 (elf_write file st)" and "elf_inv st1"
    and "named_syms st1 = mark_named (text_range st) (named_syms st)"
    and "elf_shstrtab st1 = elf_shstrtab st" and "elf_strtab st1 = elf_strtab st"
    and "cnt (elf_symtab st1) = cnt (elf_symtab st)"
    and "files st1 = (files st)(file \<mapsto> [])" and "room st1 = room st" and "length bs = elf_file_size st"
    and "bs = enc_ehdr (final_ehdr st) @ buf_bytes (elf_shstrtab st) @ buf_bytes (elf_strtab st)
        @ buf_bytes (elf_symtab st1)
        @ concat (map enc_shdr (final_shdrs st (mark_shdrs (text_range st) (elf_shdrs st))))"
proof -
  note fr = elf_open_frame [where st = st and h = "final_ehdr st" and f = "(files st)(file \<mapsto> [])"]
  obtain st1 where res: "elf_resolve_symbols (st\<lparr>files := (files st)(file \<mapsto> []), elf_ehdr := final_ehdr st\<rparr>) = Inr st1"
    and inv1: "elf_inv st1" and names: "named_syms st1 = mark_named (text_range st) (named_syms st)"
    and v: "elf_shdrs st1 = mark_shdrs (text_range st) (elf_shdrs st)"
      "cnt (elf_symtab st1) = cnt (elf_symtab st)" "elf_shstrtab st1 = elf_shstrtab st"
      "elf_strtab st1 = elf_strtab st" "elf_ehdr st1 = final_ehdr st"
      "files st1 = (files st)(file \<mapsto> [])" "room st1 = room st"
    using elf_resolve_spec [of "st\<lparr>files := (files st)(file \<mapsto> []), elf_ehdr := final_ehdr st\<rparr>"] inv args
    unfolding fr by blast
  let ?E = "enc_ehdr (final_ehdr st)" and ?M = "buf_bytes (elf_symtab st1)"
    and ?H = "concat (map enc_shdr (final_shdrs st (mark_shdrs (text_range st) (elf_shdrs st))))"
  let ?bs = "?E @ buf_bytes (elf_shstrtab st) @ buf_bytes (elf_strtab st) @ ?M @ ?H"
  have ok: "buf_ok (elf_shstrtab st)" "buf_ok (elf_strtab st)" "buf_ok (elf_symtab st1)" "buf_ok (elf_symtab st)"
    and hs: "length (elf_shdrs st1) = SEC_END"
    using inv inv1 by (simp_all add: elf_inv_def)
  have lenE: "length ?E = 1 * sizeof_Ehdr" using ident by (simp add: length_enc_ehdr final_ehdr_def)
  have "length ?M = length (buf_bytes (elf_symtab st))"
    using ok(3,4) v(2) length_buf_bytes by auto
  moreover have "length ?H = SEC_END * sizeof_Shdr"
    using hs v(1) by (simp only: shdr.concat_length length_final_shdrs)
  ultimately have len: "length ?bs = elf_file_size st" using lenE by (simp add: elf_file_size_def)
  have at: "at_end file \<lparr>s_path = file, s_pos = 0\<rparr> st1" using v(6) by (simp add: at_end_def content_def)
  have "writes file ?bs st1 (elf_write file st)"
    unfolding elf_write_opened [OF w] res rbind_simps v(5)
    apply (rule writes_fwrite [OF at lenE _ _ refl], simp add: sizeof_Ehdr_def)
    apply (simp only: append_file_elf_views v, rule writes_tab [OF ok(1) _ _ refl], assumption)
    apply (simp only: append_file_elf_views v, rule writes_tab [OF ok(2) _ _ refl], assumption)
    apply (simp only: append_file_elf_views v, rule writes_tab [OF ok(3) _ _ refl], assumption)
    apply (rule writes_headers)
    apply assumption
     apply (simp_all add: hs [unfolded v(1)] v final_shdrs_def)
    done
  then show thesis
    using that [OF _ inv1 names v(3,4,2,6,7) len refl] by blast
qed

lemma elf_write_ok:
  fixes st :: "'a elf_st_scheme"
  assumes inv: "elf_inv st" and args: "text_args_ok st" and w: "writable st file"
    and ident: "length (e_ident (elf_ehdr st)) = 16" and room: "elf_file_size st \<le> room st"
  shows "\<exists>(st1 :: 'a elf_st_scheme) st'. elf_write file st = Inr (0, st') \<and> elf_inv st1
    \<and> named_syms st1 = mark_named (text_range st) (named_syms st)
    \<and> elf_shstrtab st1 = elf_shstrtab st \<and> elf_strtab st1 = elf_strtab st
    \<and> cnt (elf_symtab st1) = cnt (elf_symtab st)
    \<and> files st' = (files st)(file \<mapsto>
        enc_ehdr (final_ehdr st) @ buf_bytes (elf_shstrtab st) @ buf_bytes (elf_strtab st)
        @ buf_bytes (elf_symtab st1)
        @ concat (map enc_shdr (final_shdrs st (mark_shdrs (text_range st) (elf_shdrs st)))))"
proof (rule elf_write_outcome [OF inv args w ident])
  fix st1 :: "'a elf_st_scheme" and bs
  assume wr: "writes file bs st1 (elf_write file st)" and inv1: "elf_inv st1"
    and v: "named_syms st1 = mark_named (text_range st) (named_syms st)"
      "elf_shstrtab st1 = elf_shstrtab st" "elf_strtab st1 = elf_strtab st"
      "cnt (elf_symtab st1) = cnt (elf_symtab st)"
    and f: "files st1 = (files st)(file \<mapsto> [])" "room st1 = room st" "length bs = elf_file_size st"
    and bs: "bs = enc_ehdr (final_ehdr st) @ buf_bytes (elf_shstrtab st) @ buf_bytes (elf_strtab st)
        @ buf_bytes (elf_symtab st1)
        @ concat (map enc_shdr (final_shdrs st (mark_shdrs (text_range st) (elf_shdrs st))))"
  obtain st' where "elf_write file st = Inr (0, st')" "files st' = (files st)(file \<mapsto> bs)"
    using wr room f by (auto simp: writes_def content_def)
  then show ?thesis using inv1 v unfolding bs by blast
qed

text \<open>A file that does not fit is never reported as written.\<close>

lemma elf_write_no_room:
  fixes st :: "'a elf_st_scheme"
  assumes inv: "elf_inv st" and args: "text_args_ok st" and w: "writable st file"
    and ident: "length (e_ident (elf_ehdr st)) = 16" and room: "room st < elf_file_size st"
  shows "\<exists>st'. elf_write file st = Inr (- 1, st')"
  using elf_write_outcome [OF inv args w ident] room unfolding writes_def by (metis not_less)

section \<open>Reading the file back\<close>

text \<open>
  The headers as initialised, but for the symbol count in \<open>sh_info\<close>: this holds from
  \<open>elf_init\<close> to \<open>elf_write\<close>.
\<close>

definition elf_hdrs_ok :: "'a elf_st_scheme \<Rightarrow> bool" where
  "elf_hdrs_ok st \<longleftrightarrow> elf_ehdr st = elf_ehdr_init \<and>
     (\<exists>k. elf_shdrs st
        = elf_shdrs_init[SEC_SYMTAB := (elf_shdrs_init ! SEC_SYMTAB)\<lparr>sh_info := k\<rparr>])"

definition symtab_hdr :: "u32 \<Rightarrow> u32 \<Rightarrow> u32 \<Rightarrow> Elf32_Shdr" where
  "symtab_hdr off sz info =
     \<lparr>sh_name = 25, sh_type = SHT_SYMTAB, sh_flags = 0, sh_addr = 0, sh_offset = off, sh_size = sz,
      sh_link = of_nat SEC_STRTAB, sh_info = info, sh_addralign = 4, sh_entsize = of_nat sizeof_Sym\<rparr>"

definition strtab_hdr :: "u32 \<Rightarrow> u32 \<Rightarrow> u32 \<Rightarrow> Elf32_Shdr" where
  "strtab_hdr nm off sz =
     \<lparr>sh_name = nm, sh_type = SHT_STRTAB, sh_flags = 0, sh_addr = 0, sh_offset = off, sh_size = sz,
      sh_link = of_nat SHN_UNDEF, sh_info = 0, sh_addralign = 1, sh_entsize = 0\<rparr>"

text \<open>The section headers in the file: the null section, \<open>.text\<close>, and the three tables.\<close>

lemma final_shdrs_ok:
  assumes "elf_hdrs_ok st"
  obtains text_hdr k where "sh_name text_hdr = 1" "sh_type text_hdr = SHT_NOBITS"
    "final_shdrs st (mark_shdrs r (elf_shdrs st)) =
     [elf_shdrs_init ! 0, text_hdr,
      strtab_hdr 7 (of_nat sizeof_Ehdr) (of_nat (unat (cnt (elf_shstrtab st)))),
      strtab_hdr 17 (of_nat (sizeof_Ehdr + unat (cnt (elf_shstrtab st))))
        (of_nat (unat (cnt (elf_strtab st)))),
      symtab_hdr (of_nat (sizeof_Ehdr + unat (cnt (elf_shstrtab st)) + unat (cnt (elf_strtab st))))
        (of_nat (unat (cnt (elf_symtab st)))) k]"
proof -
  obtain k where k: "elf_shdrs st
      = elf_shdrs_init[SEC_SYMTAB := (elf_shdrs_init ! SEC_SYMTAB)\<lparr>sh_info := k\<rparr>]"
    using assms by (auto simp: elf_hdrs_ok_def)
  let ?hs = "mark_shdrs r (elf_shdrs st)"
  let ?t = "?hs ! SEC_TEXT"
  have t: "sh_name ?t = 1 \<and> sh_type ?t = SHT_NOBITS"
    unfolding k by (simp add: mark_shdrs_def elf_shdrs_init_def elf_consts split: option.split prod.split)
  have "?hs = [elf_shdrs_init ! 0, ?t, elf_shdrs_init ! 2, elf_shdrs_init ! 3,
      (elf_shdrs_init ! SEC_SYMTAB)\<lparr>sh_info := k\<rparr>]"
    unfolding k by (simp add: mark_shdrs_def elf_shdrs_init_def elf_consts split: option.split prod.split)
  then have "final_shdrs st ?hs = final_shdrs st [elf_shdrs_init ! 0, ?t, elf_shdrs_init ! 2,
      elf_shdrs_init ! 3, (elf_shdrs_init ! SEC_SYMTAB)\<lparr>sh_info := k\<rparr>]"
    by simp
  also have "\<dots> = [elf_shdrs_init ! 0, ?t,
      strtab_hdr 7 (of_nat sizeof_Ehdr) (of_nat (unat (cnt (elf_shstrtab st)))),
      strtab_hdr 17 (of_nat (sizeof_Ehdr + unat (cnt (elf_shstrtab st))))
        (of_nat (unat (cnt (elf_strtab st)))),
      symtab_hdr (of_nat (sizeof_Ehdr + unat (cnt (elf_shstrtab st)) + unat (cnt (elf_strtab st))))
        (of_nat (unat (cnt (elf_symtab st)))) (k + 1)]"
    by (simp add: final_shdrs_def elf_shdrs_init_def symtab_hdr_def strtab_hdr_def elf_consts)
  finally show ?thesis using that [of ?t "k + 1"] t by blast
qed

text \<open>
  A file laid out as the writer does it: header, section names, strings, symbols, section
  headers, all below 4 GiB.
\<close>

definition elf_image :: "u8 list \<Rightarrow> u8 list \<Rightarrow> u8 list \<Rightarrow> Elf32_Shdr \<Rightarrow> u32 \<Rightarrow> u8 list" where
  "elf_image S T M text_hdr k =
     enc_ehdr (elf_ehdr_init\<lparr>e_shoff := of_nat (sizeof_Ehdr + length S + length T + length M)\<rparr>)
     @ S @ T @ M
     @ concat (map enc_shdr
         [elf_shdrs_init ! 0, text_hdr,
          strtab_hdr 7 (of_nat sizeof_Ehdr) (of_nat (length S)),
          strtab_hdr 17 (of_nat (sizeof_Ehdr + length S)) (of_nat (length T)),
          symtab_hdr (of_nat (sizeof_Ehdr + length S + length T)) (of_nat (length M)) k])"

lemma length_ehdr_init [simp]: "length (enc_ehdr (elf_ehdr_init\<lparr>e_shoff := x\<rparr>)) = sizeof_Ehdr"
  by (rule length_enc_ehdr) (simp add: elf_ehdr_init_def)

lemma elf_image_headers:
  fixes S T M :: "u8 list" and text_hdr :: Elf32_Shdr and k :: u32
  assumes small: "sizeof_Ehdr + length S + length T + length M < 2 ^ 32"
  defines "hs \<equiv> [elf_shdrs_init ! 0, text_hdr,
      strtab_hdr 7 (of_nat sizeof_Ehdr) (of_nat (length S)),
      strtab_hdr 17 (of_nat (sizeof_Ehdr + length S)) (of_nat (length T)),
      symtab_hdr (of_nat (sizeof_Ehdr + length S + length T)) (of_nat (length M)) k]"
  shows "read_shdrs (elf_image S T M text_hdr k) = Some hs"
    and "\<exists>h. read_ehdr (elf_image S T M text_hdr k) = Some h \<and> e_shstrndx h = of_nat SEC_SHSTRTAB"
proof -
  let ?h = "elf_ehdr_init\<lparr>e_shoff := of_nat (sizeof_Ehdr + length S + length T + length M)\<rparr>"
  let ?c = "elf_image S T M text_hdr k" and ?H = "concat (map enc_shdr hs)"
  have c: "?c = enc_ehdr ?h @ S @ T @ M @ ?H"
    by (simp only: elf_image_def hs_def)
  have ident: "length (e_ident ?h) = 16"
    by (simp add: elf_ehdr_init_def)
  have lenE: "length (enc_ehdr ?h) = sizeof_Ehdr"
    by (rule length_ehdr_init)
  have lenH: "length ?H = 5 * sizeof_Shdr"
    by (simp only: shdr.concat_length) (simp add: hs_def)
  have "take 4 (enc_ehdr ?h) = [0x7F, 0x45, 0x4C, 0x46]"
    by (simp add: enc_ehdr_def elf_ehdr_init_def elf_consts)
  then have eh: "read_ehdr ?c = Some ?h"
    using dec_enc_ehdr [OF ident, of "S @ T @ M @ ?H"] lenE
    by (simp add: read_ehdr_def c sizeof_Ehdr_def)
  then show "\<exists>h. read_ehdr ?c = Some h \<and> e_shstrndx h = of_nat SEC_SHSTRTAB"
    by (auto simp: elf_ehdr_init_def)
  have off: "unat (e_shoff ?h) = sizeof_Ehdr + length S + length T + length M"
    using unat_of_nat_32 [OF small] by simp
  have num: "unat (e_shnum ?h) = 5" "e_shentsize ?h = of_nat sizeof_Shdr"
    by (simp_all add: elf_ehdr_init_def elf_consts)
  have "slice (unat (e_shoff ?h)) (5 * sizeof_Shdr) ?c = ?H"
    using slice_mid [of "unat (e_shoff ?h)" "enc_ehdr ?h @ S @ T @ M" "5 * sizeof_Shdr" ?H "[]"]
      off lenE lenH by (simp add: c add.assoc)
  moreover have "length ?c = sizeof_Ehdr + length S + length T + length M + 5 * sizeof_Shdr"
    by (simp add: c lenE lenH)
  ultimately show "read_shdrs ?c = Some hs"
    using eh off num by (simp add: read_shdrs_def shdr.table_concat)
qed

lemma elf_image_sections:
  assumes "sizeof_Ehdr + length S + length T + length M < 2 ^ 32"
  shows "section_data (elf_image S T M text_hdr k)
      (strtab_hdr nm (of_nat sizeof_Ehdr) (of_nat (length S))) = S"
    and "section_data (elf_image S T M text_hdr k)
      (strtab_hdr nm' (of_nat (sizeof_Ehdr + length S)) (of_nat (length T))) = T"
    and "section_data (elf_image S T M text_hdr k)
      (symtab_hdr (of_nat (sizeof_Ehdr + length S + length T)) (of_nat (length M)) k') = M"
proof -
  let ?h = "elf_ehdr_init\<lparr>e_shoff := of_nat (sizeof_Ehdr + length S + length T + length M)\<rparr>"
  have lenE: "length (enc_ehdr ?h) = sizeof_Ehdr"
    by (rule length_ehdr_init)
  obtain H where c: "elf_image S T M text_hdr k = enc_ehdr ?h @ S @ T @ M @ H"
    unfolding elf_image_def by blast
  have n: "unat (of_nat sizeof_Ehdr :: u32) = sizeof_Ehdr"
    "unat (of_nat (sizeof_Ehdr + length S) :: u32) = sizeof_Ehdr + length S"
    "unat (of_nat (sizeof_Ehdr + length S + length T) :: u32) = sizeof_Ehdr + length S + length T"
    "unat (of_nat (length S) :: u32) = length S" "unat (of_nat (length T) :: u32) = length T"
    "unat (of_nat (length M) :: u32) = length M"
    by (rule unat_of_nat_32, use assms in linarith)+
  show "section_data (elf_image S T M text_hdr k)
      (strtab_hdr nm (of_nat sizeof_Ehdr) (of_nat (length S))) = S"
    unfolding section_data_def c strtab_hdr_def Elf32_Shdr.simps n
    by (rule slice_mid) (simp_all add: lenE)
  show "section_data (elf_image S T M text_hdr k)
      (strtab_hdr nm' (of_nat (sizeof_Ehdr + length S)) (of_nat (length T))) = T"
    unfolding section_data_def c strtab_hdr_def Elf32_Shdr.simps n
    using slice_mid [of "sizeof_Ehdr + length S" "enc_ehdr ?h @ S" "length T" T "M @ H"] lenE by simp
  show "section_data (elf_image S T M text_hdr k)
      (symtab_hdr (of_nat (sizeof_Ehdr + length S + length T)) (of_nat (length M)) k') = M"
    unfolding section_data_def c symtab_hdr_def Elf32_Shdr.simps n
    using slice_mid [of "sizeof_Ehdr + length S + length T" "enc_ehdr ?h @ S @ T" "length M" M H] lenE
    by simp
qed

lemma elf_image_symtab:
  assumes small: "sizeof_Ehdr + length S + length T + length M < 2 ^ 32"
    and nobits: "sh_type text_hdr = SHT_NOBITS"
  shows "read_symtab (elf_image S T M text_hdr k)
    = Some (map (\<lambda>s. (name_of T s, s)) (decode_table sizeof_Sym dec_sym M))"
proof -
  let ?c = "elf_image S T M text_hdr k"
  let ?y = "symtab_hdr (of_nat (sizeof_Ehdr + length S + length T)) (of_nat (length M)) k"
  let ?t = "strtab_hdr 17 (of_nat (sizeof_Ehdr + length S)) (of_nat (length T))"
  let ?hs = "[elf_shdrs_init ! 0, text_hdr, strtab_hdr 7 (of_nat sizeof_Ehdr) (of_nat (length S)), ?t, ?y]"
  have "find (\<lambda>h. sh_type h = SHT_SYMTAB) ?hs = Some ?y"
    using nobits by (simp add: elf_shdrs_init_def strtab_hdr_def symtab_hdr_def elf_consts)
  moreover have "unat (sh_link ?y) = 3"
    by (simp add: symtab_hdr_def elf_consts)
  moreover have "?hs ! 3 = ?t" by simp
  moreover have "3 < length ?hs" by simp
  ultimately show ?thesis
    by (simp only: read_symtab_def elf_image_headers(1) [OF small] elf_image_sections [OF small]
        option.case if_True)
qed

definition section_names :: "u8 list list" where
  "section_names = [[], ascii ''.text'', ascii ''.shstrtab'', ascii ''.strtab'', ascii ''.symtab'']"

lemma elf_image_names:
  assumes small: "sizeof_Ehdr + length shstrtab_initial + length T + length M < 2 ^ 32"
    and nm: "sh_name text_hdr = 1"
  shows "read_section_names (elf_image shstrtab_initial T M text_hdr k) = Some (map Inr section_names)"
proof -
  let ?c = "elf_image shstrtab_initial T M text_hdr k"
  let ?s = "strtab_hdr 7 (of_nat sizeof_Ehdr) (of_nat (length shstrtab_initial))"
  have "section_data ?c ?s = shstrtab_initial"
    by (rule elf_image_sections(1) [OF small])
  moreover obtain h where "read_ehdr ?c = Some h" "unat (e_shstrndx h) = 2"
    using elf_image_headers(2) [OF small, of text_hdr k] by (auto simp: elf_consts)
  moreover have "map (\<lambda>s. str_of shstrtab_initial (sh_name s))
      [elf_shdrs_init ! 0, text_hdr, ?s, strtab_hdr 17 x y, symtab_hdr z u v] = map Inr section_names"
    for x y z u v
    using nm by (simp add: elf_shdrs_init_def strtab_hdr_def symtab_hdr_def str_of_def cstr_at_def
        shstrtab_initial_def section_names_def)
  ultimately show ?thesis
    by (simp add: read_section_names_def elf_image_headers(1) [OF small] del: of_nat_add list.map)
qed

text \<open>
  What \<open>elf_write\<close> leaves in the file: a reader finds every symbol with its name, in order and
  with the text symbols marked, and the names of the sections.
\<close>

lemma elf_write_reads_back:
  fixes st :: "'a elf_st_scheme"
  assumes inv: "elf_inv st" and args: "text_args_ok st" and w: "writable st file"
    and hdrs: "elf_hdrs_ok st" and names: "buf_bytes (elf_shstrtab st) = shstrtab_initial"
    and room: "elf_file_size st \<le> room st" and small: "elf_file_size st < 2 ^ 32"
  shows "\<exists>st' c. elf_write file st = Inr (0, st') \<and> files st' = (files st)(file \<mapsto> c)
    \<and> length c = elf_file_size st
    \<and> read_symtab c = Some (mark_named (text_range st) (named_syms st))
    \<and> read_section_names c = Some (map Inr section_names)"
proof -
  have eh: "elf_ehdr st = elf_ehdr_init" using hdrs by (simp add: elf_hdrs_ok_def)
  then have ident: "length (e_ident (elf_ehdr st)) = 16" by (simp add: elf_ehdr_init_def)
  obtain st1 :: "'a elf_st_scheme" and st' where wr: "elf_write file st = Inr (0, st')"
    and inv1: "elf_inv st1"
    and nm: "named_syms st1 = mark_named (text_range st) (named_syms st)"
    and v: "elf_strtab st1 = elf_strtab st" "cnt (elf_symtab st1) = cnt (elf_symtab st)"
    and f: "files st' = (files st)(file \<mapsto>
        enc_ehdr (final_ehdr st) @ buf_bytes (elf_shstrtab st) @ buf_bytes (elf_strtab st)
        @ buf_bytes (elf_symtab st1)
        @ concat (map enc_shdr (final_shdrs st (mark_shdrs (text_range st) (elf_shdrs st)))))"
    using elf_write_ok [OF inv args w ident room] by blast
  let ?T = "buf_bytes (elf_strtab st)" and ?M = "buf_bytes (elf_symtab st1)"
  have ok: "buf_ok (elf_shstrtab st)" "buf_ok (elf_strtab st)" "buf_ok (elf_symtab st)"
    "buf_ok (elf_symtab st1)"
    using inv inv1 by (simp_all add: elf_inv_def)
  have len: "unat (cnt (elf_shstrtab st)) = length shstrtab_initial"
    "unat (cnt (elf_strtab st)) = length ?T" "unat (cnt (elf_symtab st)) = length ?M"
    using length_buf_bytes ok v(2) names by metis+
  have lenM: "length (buf_bytes (elf_symtab st)) = length ?M"
    using length_buf_bytes [OF ok(3)] len(3) by simp
  have sm: "sizeof_Ehdr + length shstrtab_initial + length ?T + length ?M < 2 ^ 32"
    using small lenM names by (simp add: elf_file_size_def)
  obtain th k where th: "sh_name th = 1" "sh_type th = SHT_NOBITS"
    and hs: "final_shdrs st (mark_shdrs (text_range st) (elf_shdrs st)) =
     [elf_shdrs_init ! 0, th,
      strtab_hdr 7 (of_nat sizeof_Ehdr) (of_nat (length shstrtab_initial)),
      strtab_hdr 17 (of_nat (sizeof_Ehdr + length shstrtab_initial)) (of_nat (length ?T)),
      symtab_hdr (of_nat (sizeof_Ehdr + length shstrtab_initial + length ?T)) (of_nat (length ?M)) k]"
    using final_shdrs_ok [OF hdrs, of "text_range st"] unfolding len by blast
  have fe: "final_ehdr st = elf_ehdr_init\<lparr>e_shoff :=
      of_nat (sizeof_Ehdr + length shstrtab_initial + length ?T + length ?M)\<rparr>"
    by (simp only: final_ehdr_def len eh)
  have c: "files st' = (files st)(file \<mapsto> elf_image shstrtab_initial ?T ?M th k)"
    unfolding f hs fe names elf_image_def ..
  have "read_symtab (elf_image shstrtab_initial ?T ?M th k) = Some (named_syms st1)"
    unfolding elf_image_symtab [OF sm th(2)] named_syms_def elf_strs_def elf_syms_def v(1) ..
  moreover have "length (elf_image shstrtab_initial ?T ?M th k) = elf_file_size st"
    using lenM names
    by (simp add: elf_image_def elf_file_size_def shdr.enc_length elf_consts del: of_nat_add)
  ultimately show ?thesis
    using wr c nm elf_image_names [OF sm th(1), of k] by auto
qed

end
