(* ===== verification/ElfTables.thy ===== *)
theory ElfTables
  imports ElfFile
begin

text \<open>
  The operations on the tables of the ELF writer as its clients see them: what one call does to the
  named symbols and the strings, and the tables as a state machine whose steps are these calls.
\<close>

section \<open>One call\<close>

lemma str_of_keep:
  "\<forall>i u. cstr_at (map Some strs) i = Inr u \<longrightarrow> cstr_at (map Some strs') i = Inr u \<Longrightarrow>
   str_of strs off = Inr t \<Longrightarrow> str_of strs' off = Inr t"
  by (simp add: str_of_def)

lemma elf_add_str_spec:
  assumes good: "heap_good st" and inv: "elf_inv st" and nz: "0 \<notin> set t"
    and room: "length (elf_strs st) + length t + 1 < 2 ^ 32"
  obtains b where "elf_add_str (t @ [0]) (of_nat (length t + 1)) st
      = Inr (0, of_nat (length (elf_strs st)), st\<lparr>elf_strtab := b\<rparr>)"
    and "elf_inv (st\<lparr>elf_strtab := b\<rparr>)" and "named_syms (st\<lparr>elf_strtab := b\<rparr>) = named_syms st"
    and "buf_bytes b = elf_strs st @ t @ [0]"
    and "str_of (buf_bytes b) (ucast (of_nat (length (elf_strs st)) :: u64)) = Inr t"
    and "\<forall>off u. str_of (elf_strs st) off = Inr u \<longrightarrow> str_of (buf_bytes b) off = Inr u"
proof -
  have ok: "buf_ok (elf_strtab st)" using inv by (simp add: elf_inv_def)
  have room62: "length (elf_strs st) + length t < 2 ^ 62" using room by simp
  obtain b where add: "elf_add_str (t @ [0]) (of_nat (length t + 1)) st
      = Inr (0, of_nat (length (elf_strs st)), st\<lparr>elf_strtab := b\<rparr>)"
    and b: "buf_ok b" "data b \<noteq> None" "buf_bytes b = elf_strs st @ t @ [0]"
      "cstr_at (map Some (buf_bytes b)) (length (elf_strs st)) = Inr t"
    and keep: "\<forall>i u. cstr_at (map Some (elf_strs st)) i = Inr u
         \<longrightarrow> cstr_at (map Some (buf_bytes b)) i = Inr u"
    using elf_add_str_ok [OF good ok nz room62] by blast
  have "unat (ucast (of_nat (length (elf_strs st)) :: u64) :: u32) = length (elf_strs st)"
    using room by (simp add: unat_ucast_narrow unat_of_nat)
  then have "str_of (buf_bytes b) (ucast (of_nat (length (elf_strs st)) :: u64)) = Inr t"
    by (simp only: str_of_def b(4))
  then show thesis
    using that [OF add elf_add_str_inv [OF inv b(1,2) keep] b(3)] str_of_keep [OF keep] by blast
qed

text \<open>The state after a symbol was added: a message may have been printed, the count of the section
  header is one more, and the table has grown.\<close>

definition counted :: "u8 list \<Rightarrow> buffer \<Rightarrow> 'a elf_st_scheme \<Rightarrow> 'a elf_st_scheme" where
  "counted x b st = (upd_shdr SEC_SYMTAB (\<lambda>h. h\<lparr>sh_info := sh_info h + 1\<rparr>) (st\<lparr>out := x\<rparr>))\<lparr>elf_symtab := b\<rparr>"

lemma counted_frame [simp]:
  "heap_good (counted x b st) = heap_good st" "text_args_ok (counted x b st) = text_args_ok st"
  "elf_shstrtab (counted x b st) = elf_shstrtab st" "elf_strtab (counted x b st) = elf_strtab st"
  by (simp_all add: counted_def text_args_ok_def)

lemma elf_add_symbol_spec:
  assumes good: "heap_good st" and inv: "elf_inv st" and name: "str_of (elf_strs st) off = Inr t"
    and room: "length (elf_syms st) < 2 ^ 57"
  obtains x b where "elf_add_symbol off v sz info sect st = Inr (0, counted x b st)"
    and "elf_inv (counted x b st)" and "elf_syms (counted x b st) = elf_syms st @ [new_sym off v sz info sect]"
    and "elf_strs (counted x b st) = elf_strs st"
    and "named_syms (counted x b st) = named_syms st @ [(t, new_sym off v sz info sect)]"
proof -
  have "length (buf_bytes (elf_symtab st)) + sizeof_Sym \<le> 2 ^ 62"
    using inv room by (simp add: elf_inv_def sizeof_Sym_def)
  from elf_add_symbol_ok [OF good inv name this] obtain x b where
    add: "elf_add_symbol off v sz info sect st = Inr (0, counted x b st)"
    and b: "buf_ok b" "buf_bytes b = buf_bytes (elf_symtab st) @ enc_sym (new_sym off v sz info sect)"
    unfolding counted_def by blast
  have nm: "str_of (elf_strs st) (st_name (new_sym off v sz info sect)) = Inr t"
    using name by (simp add: new_sym_def)
  show thesis
    using that [OF add] elf_add_symbol_inv [OF inv b nm, of x] unfolding counted_def by blast
qed

section \<open>The tables as a state machine\<close>

text \<open>
  The calls a client may make once \<open>elf_init\<close> has succeeded: adding a string that fits, adding a
  symbol whose name offset \<open>elf_add_str\<close> has returned, and resolving the text range, in any order.
\<close>

inductive elf_step :: "'a elf_st_scheme \<Rightarrow> 'a elf_st_scheme \<Rightarrow> bool" where
  step_str: "0 \<notin> set t \<Longrightarrow> length (elf_strs st) + length t + 1 < 2 ^ 32 \<Longrightarrow>
    elf_add_str (t @ [0]) (of_nat (length t + 1)) st = Inr (r, idx, st') \<Longrightarrow> elf_step st st'"
| step_sym: "str_of (elf_strs st) off = Inr t \<Longrightarrow> length (elf_syms st) < 2 ^ 57 \<Longrightarrow>
    elf_add_symbol off v sz info sect st = Inr (r, st') \<Longrightarrow> elf_step st st'"
| step_resolve: "elf_resolve_symbols st = Inr st' \<Longrightarrow> elf_step st st'"

inductive elf_reach :: "'a elf_st_scheme \<Rightarrow> 'a elf_st_scheme \<Rightarrow> bool" for s0 where
  reach_init: "elf_init s0 = Inr (0, st) \<Longrightarrow> elf_reach s0 st"
| reach_step: "elf_reach s0 st \<Longrightarrow> elf_step st st' \<Longrightarrow> elf_reach s0 st'"

definition tables_ok :: "'a elf_st_scheme \<Rightarrow> bool" where
  "tables_ok st \<longleftrightarrow> elf_inv st \<and> heap_good st \<and> text_args_ok st"

lemma elf_resolve_frame:
  assumes "elf_inv st" and "text_args_ok st" and "elf_resolve_symbols st = Inr st'"
  shows "heap_ok st' = heap_ok st" and "text_begin st' = text_begin st" and "text_end st' = text_end st"
proof -
  have "heap_ok st' = heap_ok st \<and> text_begin st' = text_begin st \<and> text_end st' = text_end st"
    using elf_resolve_spec [OF assms(1,2)] assms(3) by auto
  then show "heap_ok st' = heap_ok st" "text_begin st' = text_begin st" "text_end st' = text_end st"
    by simp_all
qed

text \<open>Every call keeps the tables sound.\<close>

lemma tables_ok_step:
  assumes "elf_step st st'" and "tables_ok st"
  shows "tables_ok st'"
proof -
  have good: "heap_good st" and inv: "elf_inv st" and args: "text_args_ok st"
    using assms(2) by (simp_all add: tables_ok_def)
  from assms(1) show ?thesis
  proof cases
    case 1: (step_str t r idx)
    obtain b where b: "elf_add_str (t @ [0]) (of_nat (length t + 1)) st
        = Inr (0, of_nat (length (elf_strs st)), st\<lparr>elf_strtab := b\<rparr>)" "elf_inv (st\<lparr>elf_strtab := b\<rparr>)"
      using elf_add_str_spec [OF good inv 1(1,2)] by blast
    have "st' = st\<lparr>elf_strtab := b\<rparr>" using trans [OF 1(3) [symmetric] b(1)] by simp
    with b(2) show ?thesis using assms(2) by (simp add: tables_ok_def text_args_ok_def)
  next
    case 2: (step_sym off t v sz info sect r)
    obtain x b where b: "elf_add_symbol off v sz info sect st = Inr (0, counted x b st)" "elf_inv (counted x b st)"
      using elf_add_symbol_spec [OF good inv 2(1,2)] by blast
    have "st' = counted x b st" using trans [OF 2(3) [symmetric] b(1)] by simp
    with b(2) show ?thesis using assms(2) by (simp add: tables_ok_def)
  next
    case 3: step_resolve
    have "elf_inv st'" using elf_resolve_spec [OF inv args] 3 by auto
    then show ?thesis
      using elf_resolve_frame [OF inv args 3] assms(2) by (simp add: tables_ok_def heap_good_def text_args_ok_def)
  qed
qed

lemma tables_ok_init:
  assumes "elf_fresh s0" and "heap_good s0" and "text_args_ok s0" and "elf_init s0 = Inr (0, st)"
  shows "tables_ok st"
proof -
  obtain b1 b2 b3 where st: "st = s0\<lparr>elf_shstrtab := b1, elf_strtab := b2, elf_symtab := b3\<rparr>"
    and b: "buf_ok b1" "buf_ok b2" "buf_bytes b2 = strtab_initial" "buf_ok b3" "buf_bytes b3 = enc_sym null_sym"
    using elf_init_ok [OF assms(1,2)] assms(4) by auto
  have "elf_inv st" using elf_inv_initial [of st] b assms(1) by (simp add: st elf_fresh_def)
  then show ?thesis using assms(2,3) by (simp add: tables_ok_def st text_args_ok_def)
qed

lemma tables_ok_reach:
  assumes "elf_reach s0 st" and "elf_fresh s0" and "heap_good s0" and "text_args_ok s0"
  shows "tables_ok st"
  using assms by (induction rule: elf_reach.induct) (auto intro: tables_ok_init tables_ok_step)

end
