(* ===== verification/FasFormat.thy ===== *)
theory FasFormat
  imports Codec
begin

text \<open>
  The debug-symbol file of the flat assembler (\<open>.fas\<close>), after \<open>src/include/fas.h\<close>: the
  header, the symbol table entries and the symbol flags, with their layout in the file.  Both
  records are codecs.  A symbol's name is found through its \<open>name_off\<close>: with bit 31 set it is
  an offset into the string table, where the name is a C string, otherwise an offset into the
  preprocessed source, where the name is a length byte followed by the characters.
\<close>

section \<open>Records\<close>

definition FAS_MAGIC :: u32 where "FAS_MAGIC = 0x1A736166"

record FAS_Hdr =
  magic :: u32
  ver_major :: u8
  ver_minor :: u8
  hdr_length :: u16
  ifnm_off :: u32
  ofnm_off :: u32
  strtab_off :: u32
  strtab_len :: u32
  symtab_off :: u32
  symtab_len :: u32
  psrc_off :: u32
  psrc_len :: u32
  asmdmp_off :: u32
  asmdmp_len :: u32
  sectab_off :: u32
  sectab_len :: u32
  symref_off :: u32
  symref_len :: u32

definition FAS_SYM_DEF :: u16 where "FAS_SYM_DEF = 0x001"
definition FAS_SYM_ASM_TIME :: u16 where "FAS_SYM_ASM_TIME = 0x002"
definition FAS_SYM_NOT_FWD_REF :: u16 where "FAS_SYM_NOT_FWD_REF = 0x004"
definition FAS_SYM_USED :: u16 where "FAS_SYM_USED = 0x008"
definition FAS_SYM_PRD_USED :: u16 where "FAS_SYM_PRD_USED = 0x010"
definition FAS_SYM_LPRD_USED :: u16 where "FAS_SYM_LPRD_USED = 0x020"
definition FAS_SYM_PRD_DEF :: u16 where "FAS_SYM_PRD_DEF = 0x040"
definition FAS_SYM_LPRD_DEF :: u16 where "FAS_SYM_LPRD_DEF = 0x080"
definition FAS_SYM_OPT_ADJ :: u16 where "FAS_SYM_OPT_ADJ = 0x100"
definition FAS_SYM_TWO_CMPLMNT :: u16 where "FAS_SYM_TWO_CMPLMNT = 0x200"
definition FAS_SYM_MARKER :: u16 where "FAS_SYM_MARKER = 0x400"

datatype fas_symbol_type =
    FAS_ABS | FAS_REL_SEG | FAS_REL_32 | FAS_REL_R_32 | FAS_REL_64 | FAS_GOT_32 | FAS_PLT_32 | FAS_PLT_R_32

text \<open>The value of an enumerator, as the byte \<open>sym_type\<close> holds it.\<close>

primrec type_code :: "fas_symbol_type \<Rightarrow> u8" where
  "type_code FAS_ABS = 0"
| "type_code FAS_REL_SEG = 1"
| "type_code FAS_REL_32 = 2"
| "type_code FAS_REL_R_32 = 3"
| "type_code FAS_REL_64 = 4"
| "type_code FAS_GOT_32 = 5"
| "type_code FAS_PLT_32 = 6"
| "type_code FAS_PLT_R_32 = 7"

record FAS_Sym =
  sym_value :: u64
  sym_flags :: u16
  sym_size :: u8
  sym_type :: u8
  ext_SIB :: u32
  pass_ldef :: u16
  pass_lused :: u16
  sym_reloc :: u32
  name_off :: u32
  psrc_line_off :: u32

definition sizeof_FAS_Hdr :: nat where "sizeof_FAS_Hdr = 64"
definition sizeof_FAS_Sym :: nat where "sizeof_FAS_Sym = 32"

section \<open>Layout\<close>

definition enc_fhdr :: "FAS_Hdr \<Rightarrow> u8 list" where
  "enc_fhdr h = le32 (magic h) @ [ver_major h] @ [ver_minor h] @ le16 (hdr_length h)
     @ le32 (ifnm_off h) @ le32 (ofnm_off h) @ le32 (strtab_off h) @ le32 (strtab_len h)
     @ le32 (symtab_off h) @ le32 (symtab_len h) @ le32 (psrc_off h) @ le32 (psrc_len h)
     @ le32 (asmdmp_off h) @ le32 (asmdmp_len h) @ le32 (sectab_off h) @ le32 (sectab_len h)
     @ le32 (symref_off h) @ le32 (symref_len h)"

definition dec_fhdr :: "u8 list \<Rightarrow> FAS_Hdr" where
  "dec_fhdr bs =
     \<lparr>magic = rd32 bs 0, ver_major = rd8 bs 4, ver_minor = rd8 bs 5, hdr_length = rd16 bs 6,
      ifnm_off = rd32 bs 8, ofnm_off = rd32 bs 12, strtab_off = rd32 bs 16,
      strtab_len = rd32 bs 20, symtab_off = rd32 bs 24, symtab_len = rd32 bs 28,
      psrc_off = rd32 bs 32, psrc_len = rd32 bs 36, asmdmp_off = rd32 bs 40,
      asmdmp_len = rd32 bs 44, sectab_off = rd32 bs 48, sectab_len = rd32 bs 52,
      symref_off = rd32 bs 56, symref_len = rd32 bs 60\<rparr>"

definition enc_fsym :: "FAS_Sym \<Rightarrow> u8 list" where
  "enc_fsym s = le64 (sym_value s) @ le16 (sym_flags s) @ [sym_size s] @ [sym_type s]
     @ le32 (ext_SIB s) @ le16 (pass_ldef s) @ le16 (pass_lused s) @ le32 (sym_reloc s)
     @ le32 (name_off s) @ le32 (psrc_line_off s)"

definition dec_fsym :: "u8 list \<Rightarrow> FAS_Sym" where
  "dec_fsym bs =
     \<lparr>sym_value = rd64 bs 0, sym_flags = rd16 bs 8, sym_size = rd8 bs 10, sym_type = rd8 bs 11,
      ext_SIB = rd32 bs 12, pass_ldef = rd16 bs 16, pass_lused = rd16 bs 18,
      sym_reloc = rd32 bs 20, name_off = rd32 bs 24, psrc_line_off = rd32 bs 28\<rparr>"

lemma dec_enc_fhdr: "dec_fhdr (enc_fhdr h) = h"
  by (simp add: dec_fhdr_def enc_fhdr_def decode_rules del: append_Cons append_Nil)

lemma enc_dec_fhdr: "length bs = sizeof_FAS_Hdr \<Longrightarrow> enc_fhdr (dec_fhdr bs) = bs"
  by (simp add: dec_fhdr_def enc_fhdr_def sizeof_FAS_Hdr_def encode_rules)

interpretation fhdr: codec enc_fhdr dec_fhdr sizeof_FAS_Hdr
  by unfold_locales
    (simp add: sizeof_FAS_Hdr_def, simp add: sizeof_FAS_Hdr_def enc_fhdr_def, rule dec_enc_fhdr,
     erule enc_dec_fhdr)

lemma dec_enc_fsym: "dec_fsym (enc_fsym s) = s"
  by (simp add: dec_fsym_def enc_fsym_def decode_rules del: append_Cons append_Nil)

lemma enc_dec_fsym: "length bs = sizeof_FAS_Sym \<Longrightarrow> enc_fsym (dec_fsym bs) = bs"
  by (simp add: dec_fsym_def enc_fsym_def sizeof_FAS_Sym_def encode_rules)

interpretation fsym: codec enc_fsym dec_fsym sizeof_FAS_Sym
  by unfold_locales
    (simp add: sizeof_FAS_Sym_def, simp add: sizeof_FAS_Sym_def enc_fsym_def, rule dec_enc_fsym,
     erule enc_dec_fsym)

end
