(* ===== verification/Fas.thy ===== *)
theory Fas
  imports ElfTables FasFormat
begin

text \<open>
  The FAS reader of \<open>fas2sym\<close> (\<open>src/bin/fas2sym/fas.c\<close>): loading the header and the three
  tables the tool needs, and exporting the symbols into the tables of the ELF writer.  The
  file-scope variables are the fields of \<open>fas_st\<close>.
\<close>

record fas_st = elf_st +
  fas_hdr :: FAS_Hdr
  fas_strtab :: "block option"
  fas_symtab :: "block option"
  fas_psrc :: "block option"
  fas_sym_cnt :: u64

section \<open>Loading\<close>

text \<open>
  \<open>pstr2cstr\<close> copies a length-prefixed string that starts at offset \<open>i\<close> of \<open>src\<close> to the head
  of \<open>dst\<close> and terminates it.
\<close>

fun pstr_copy :: "nat \<Rightarrow> block \<Rightarrow> nat \<Rightarrow> block \<Rightarrow> nat \<Rightarrow> block res" where
  "pstr_copy 0 dst d src s = store_byte dst d 0"
| "pstr_copy (Suc n) dst d src s =
     rbind (load_byte src s) (\<lambda>c. rbind (store_byte dst d c) (\<lambda>dst.
       pstr_copy n dst (d + 1) src (s + 1)))"

definition pstr2cstr :: "block \<Rightarrow> block option \<Rightarrow> nat \<Rightarrow> block res" where
  "pstr2cstr dst src i =
     rbind (deref src) (\<lambda>src. rbind (load_byte src i) (\<lambda>psz.
       pstr_copy (unat psz) dst 0 src (i + 1)))"

definition fas_load_table ::
  "block option \<Rightarrow> u64 \<Rightarrow> u64 \<Rightarrow> stream \<Rightarrow> 'a fas_st_scheme
    \<Rightarrow> (int \<times> block option \<times> stream \<times> 'a fas_st_scheme) res" where
  "fas_load_table dest offset sz fp st =
     (if sz = 0 then Inr (0, dest, fp, st)
      else case c_malloc sz st of
        (None, st) \<Rightarrow> rbind (msg_err None st) (\<lambda>st. Inr (- 1, None, fp, st))
      | (Some blk, st) \<Rightarrow>
          (case fseek_set offset fp of (r, fp) \<Rightarrow>
             if r \<noteq> 0 then rbind (msg_err None st) (\<lambda>st. Inr (- 1, Some blk, fp, st))
             else case fread (unat sz) 1 fp st of (n, bs, fp) \<Rightarrow>
               rbind (store_bytes blk 0 bs) (\<lambda>blk.
                 if n \<noteq> 1
                 then Inr (- 1, Some blk, fp, msg_errx (ascii ''An unexpected error/eof occured while reading'') st)
                 else Inr (0, Some blk, fp, st))))"

definition fas_cleanup :: "'a fas_st_scheme \<Rightarrow> 'a fas_st_scheme" where
  "fas_cleanup st = st\<lparr>fas_psrc := None, fas_symtab := None, fas_strtab := None\<rparr>"

text \<open>
  The message for a wrong magic number has two conversions for numbers and one number, so it
  leaves defined behaviour.  A header that is cut short overwrites the head of \<open>fas_hdr\<close>.
\<close>

definition fas_load_file :: "u8 list \<Rightarrow> 'a fas_st_scheme \<Rightarrow> (int \<times> 'a fas_st_scheme) res" where
  "fas_load_file file st =
     (case fopen_rb file st of
        None \<Rightarrow> rbind (msg_err (Some file) st) (\<lambda>st. Inr (- 1, st))
      | Some fp \<Rightarrow>
        (case fread sizeof_FAS_Hdr 1 fp st of (n, bs, fp) \<Rightarrow>
         let st = st\<lparr>fas_hdr := dec_fhdr (bs @ drop (length bs) (enc_fhdr (fas_hdr st)))\<rparr>
         in if n \<noteq> 1
            then Inr (- 1, msg_errx (file @ ascii '': unexpected error/eof while reading FAS header'') st)
            else if magic (fas_hdr st) \<noteq> FAS_MAGIC then Inl BadFormat
            else rbind (fas_load_table (fas_strtab st) (ucast (strtab_off (fas_hdr st)))
                   (ucast (strtab_len (fas_hdr st))) fp st) (\<lambda>(r, t, fp, st).
            let st = st\<lparr>fas_strtab := t\<rparr>
            in if r \<noteq> 0
               then Inr (- 1, fas_cleanup (msg_errx (file @ ascii '': can't load string table'') st))
               else rbind (fas_load_table (fas_symtab st) (ucast (symtab_off (fas_hdr st)))
                      (ucast (symtab_len (fas_hdr st))) fp st) (\<lambda>(r, t, fp, st).
            let st = st\<lparr>fas_symtab := t\<rparr>
            in if r \<noteq> 0
               then Inr (- 1, fas_cleanup (msg_errx (file @ ascii '': can't load symbol table'') st))
               else rbind (fas_load_table (fas_psrc st) (ucast (psrc_off (fas_hdr st)))
                      (ucast (psrc_len (fas_hdr st))) fp st) (\<lambda>(r, t, fp, st).
            let st = st\<lparr>fas_psrc := t\<rparr>
            in if r \<noteq> 0
               then Inr (- 1, fas_cleanup (msg_errx (file @ ascii '': can't load preprocessed sources'') st))
               else
                 let st = st\<lparr>fas_sym_cnt := ucast (symtab_len (fas_hdr st)) div of_nat sizeof_FAS_Sym\<rparr>
                 in rbind (msg_verbose 1 (Inr (fmt_dec (unat (fas_sym_cnt st))
                        @ ascii '' symbol(s) loaded from '' @ file)) st) (\<lambda>st.
                    Inr (0, st)))))))"

section \<open>Exporting\<close>

definition name_in_strtab :: "u32 \<Rightarrow> bool" where
  "name_in_strtab off \<longleftrightarrow> off AND 0x80000000 \<noteq> 0"

definition fas_export_symbol_name ::
  "u32 \<Rightarrow> 'a fas_st_scheme \<Rightarrow> (u32 \<times> 'a fas_st_scheme) res" where
  "fas_export_symbol_name off st =
     (if off = 0 then Inr (0, st)
      else rbind
        (if name_in_strtab off
         then rbind (deref (fas_strtab st)) (\<lambda>blk. cstr_at blk (unat (off AND NOT 0x80000000)))
         else rbind (pstr2cstr (replicate 256 (Some 0)) (fas_psrc st) (unat off)) cstr)
        (\<lambda>s. rbind (elf_add_str (s @ [0]) (of_nat (length s + 1)) st) (\<lambda>(r, idx, st).
           if r \<noteq> 0 then Inr (0, st) else Inr (ucast idx, st))))"

definition fsym_load :: "block option \<Rightarrow> nat \<Rightarrow> FAS_Sym res" where
  "fsym_load syms i =
     rbind (deref syms) (\<lambda>blk. rbind (load_bytes blk (i * sizeof_FAS_Sym) sizeof_FAS_Sym) (\<lambda>bs.
       Inr (dec_fsym bs)))"

text \<open>The loop over the symbols; a failed \<open>elf_add_symbol\<close> does not stop it.\<close>

fun fas_export_loop :: "nat list \<Rightarrow> 'a fas_st_scheme \<Rightarrow> 'a fas_st_scheme res" where
  "fas_export_loop [] st = Inr st"
| "fas_export_loop (i # idxs) st =
     rbind (fsym_load (fas_symtab st) i) (\<lambda>s.
       if sym_flags s AND FAS_SYM_DEF = 0 \<or> sym_flags s AND FAS_SYM_ASM_TIME \<noteq> 0
       then fas_export_loop idxs st
       else rbind (fas_export_symbol_name (name_off s) st) (\<lambda>(name_idx, st).
            rbind (elf_add_symbol name_idx (ucast (sym_value s)) (ucast (sym_size s))
                     (ELF32_ST_INFO STB_LOCAL STT_OBJECT) SHN_ABS st) (\<lambda>(_, st).
            fas_export_loop idxs st)))"

definition fas_export_symbols :: "'a fas_st_scheme \<Rightarrow> 'a fas_st_scheme res" where
  "fas_export_symbols st =
     rbind (deref (fas_strtab st)) (\<lambda>blk.
     rbind (cstr_at blk (unat (ifnm_off (fas_hdr st)))) (\<lambda>s.
     rbind (elf_add_str (s @ [0]) (of_nat (length s + 1)) st) (\<lambda>(_, name_idx, st).
     rbind (elf_add_symbol (ucast name_idx) 0 0 (ELF32_ST_INFO STB_LOCAL STT_FILE) SHN_ABS st) (\<lambda>(_, st).
     fas_export_loop [0..<unat (fas_sym_cnt st)] st))))"

end
