(* ===== verification/FasExport.thy ===== *)
theory FasExport
  imports Fas
begin

text \<open>
  What exporting a FAS file puts into the ELF tables.  The specification reads the FAS tables
  as lists: \<open>fas_name\<close> is the name an offset stands for, \<open>fas_exported\<close> says which symbols go
  out, and \<open>fas_image\<close> is the list of named symbols expected in the ELF file, in order.
\<close>

section \<open>Names\<close>

definition pascal :: "u8 list \<Rightarrow> nat \<Rightarrow> u8 list res" where
  "pascal src i =
     (if i < length src \<and> i + 1 + unat (src ! i) \<le> length src
      then Inr (takeWhile (\<lambda>x. x \<noteq> 0) (take (unat (src ! i)) (drop (i + 1) src)))
      else Inl OutOfBounds)"

lemma cstr_takeWhile: "cstr (map Some xs @ Some 0 # ys) = Inr (takeWhile (\<lambda>x. x \<noteq> 0) xs)"
  by (induction xs) auto

lemma load_byte_some: "load_byte (map Some xs) i = (if i < length xs then Inr (xs ! i) else Inl OutOfBounds)"
  by (simp add: load_byte_def)

lemma pstr_copy_ok:
  "d + n < length dst \<Longrightarrow> s + n \<le> length src \<Longrightarrow>
   pstr_copy n dst d (map Some src) s
   = Inr (take d dst @ map Some (take n (drop s src)) @ Some 0 # drop (d + n + 1) dst)"
proof (induction n arbitrary: dst d s)
  case 0
  then show ?case by (simp add: store_byte_def upd_conv_take_nth_drop)
next
  case (Suc n)
  let ?dst = "dst[d := Some (src ! s)]"
  have "pstr_copy n ?dst (d + 1) (map Some src) (s + 1)
      = Inr (take (d + 1) ?dst @ map Some (take n (drop (s + 1) src)) @ Some 0 # drop (d + 1 + n + 1) ?dst)"
    using Suc.prems by (intro Suc.IH) simp_all
  moreover have "take (d + 1) ?dst = take d dst @ [Some (src ! s)]"
    using Suc.prems by (simp add: take_Suc_conv_app_nth)
  moreover have "take (Suc n) (drop s src) = src ! s # take n (drop (s + 1) src)"
    using Suc.prems by (simp add: Cons_nth_drop_Suc [symmetric])
  ultimately show ?case
    using Suc.prems by (simp add: load_byte_some store_byte_def)
qed

lemma pstr_copy_short:
  "d + n < length dst \<Longrightarrow> s \<le> length src \<Longrightarrow> length src < s + n \<Longrightarrow>
   pstr_copy n dst d (map Some src) s = Inl OutOfBounds"
proof (induction n arbitrary: dst d s)
  case 0
  then show ?case by simp
next
  case (Suc n)
  show ?case
  proof (cases "s < length src")
    case True
    then show ?thesis using Suc by (simp add: load_byte_some store_byte_def)
  next
    case False
    then show ?thesis by (simp add: load_byte_some)
  qed
qed

text \<open>
  The 256 bytes of the caller's array are enough for every length byte: the copy never leaves
  the array, and reads outside the source exactly when the string does.
\<close>

lemma pstr2cstr_pascal:
  "rbind (pstr2cstr (replicate 256 (Some 0)) (Some (map Some src)) i) cstr = pascal src i"
proof (cases "i < length src")
  case True
  let ?n = "unat (src ! i)"
  have n: "0 + ?n < length (replicate 256 (Some (0 :: u8)))"
    using unsigned_less [of "src ! i", where 'a = nat] by simp
  show ?thesis
  proof (cases "i + 1 + ?n \<le> length src")
    case True
    then show ?thesis
      using pstr_copy_ok [OF n, of "i + 1" src] \<open>i < length src\<close>
      by (simp add: pstr2cstr_def load_byte_some pascal_def cstr_takeWhile)
  next
    case False
    then show ?thesis
      using pstr_copy_short [OF n, of "i + 1" src] \<open>i < length src\<close>
      by (simp add: pstr2cstr_def load_byte_some pascal_def)
  qed
next
  case False
  then show ?thesis by (simp add: pstr2cstr_def load_byte_some pascal_def)
qed

definition fas_name :: "u8 list \<Rightarrow> u8 list \<Rightarrow> u32 \<Rightarrow> u8 list res" where
  "fas_name strs src off =
     (if off = 0 then Inr []
      else if name_in_strtab off then cstr_at (map Some strs) (unat (off AND NOT 0x80000000))
      else pascal src (unat off))"

lemma fas_name_no_zero: "fas_name strs src off = Inr nm \<Longrightarrow> 0 \<notin> set nm"
  by (auto simp: fas_name_def pascal_def cstr_at_def dest: cstr_no_zero set_takeWhileD split: if_splits)

section \<open>The specification\<close>

text \<open>Symbols by name: the offset of the name in the string table is left out.\<close>

definition anon :: "u8 list \<times> Elf32_Sym \<Rightarrow> u8 list \<times> Elf32_Sym" where
  "anon x = (fst x, (snd x)\<lparr>st_name := 0\<rparr>)"

definition syms_view :: "'a elf_st_scheme \<Rightarrow> (u8 list \<times> Elf32_Sym) list" where
  "syms_view st = map anon (named_syms st)"

lemma length_named_syms: "length (named_syms st) = length (elf_syms st)"
  by (simp add: named_syms_def)

definition fas_exported :: "FAS_Sym \<Rightarrow> bool" where
  "fas_exported s \<longleftrightarrow> sym_flags s AND FAS_SYM_DEF \<noteq> 0 \<and> sym_flags s AND FAS_SYM_ASM_TIME = 0"

definition obj_sym :: "u8 list \<Rightarrow> u8 list \<Rightarrow> FAS_Sym \<Rightarrow> u8 list \<times> Elf32_Sym" where
  "obj_sym strs src s =
     (projr (fas_name strs src (name_off s)),
      new_sym 0 (ucast (sym_value s)) (ucast (sym_size s)) (ELF32_ST_INFO STB_LOCAL STT_OBJECT) SHN_ABS)"

definition file_sym :: "u8 list \<Rightarrow> u8 list \<times> Elf32_Sym" where
  "file_sym nm = (nm, new_sym 0 0 0 (ELF32_ST_INFO STB_LOCAL STT_FILE) SHN_ABS)"

definition fas_image :: "u8 list \<Rightarrow> u8 list \<Rightarrow> u8 list \<Rightarrow> FAS_Sym list \<Rightarrow> (u8 list \<times> Elf32_Sym) list" where
  "fas_image ifnm strs src syms =
     ([], null_sym) # file_sym ifnm # map (obj_sym strs src) (filter fas_exported syms)"

text \<open>The bytes of the string table the names take.\<close>

definition names_size :: "u8 list \<Rightarrow> u8 list \<Rightarrow> FAS_Sym list \<Rightarrow> nat" where
  "names_size strs src syms =
     sum_list (map (\<lambda>s. length (projr (fas_name strs src (name_off s))) + 1) (filter fas_exported syms))"

section \<open>Adding one named symbol\<close>

definition export_inv :: "'a elf_st_scheme \<Rightarrow> bool" where
  "export_inv st \<longleftrightarrow> elf_inv st \<and> elf_hdrs_ok st \<and> heap_good st
     \<and> buf_bytes (elf_shstrtab st) = shstrtab_initial \<and> str_of (elf_strs st) 0 = Inr []"

definition extends :: "'a elf_st_scheme \<Rightarrow> 'a elf_st_scheme \<Rightarrow> bool" where
  "extends st st' \<longleftrightarrow> (\<exists>x hs b b'. st' = st\<lparr>out := x, elf_shdrs := hs, elf_strtab := b, elf_symtab := b'\<rparr>)"

lemma extends_refl: "extends st st"
proof -
  have "st = st\<lparr>out := out st, elf_shdrs := elf_shdrs st, elf_strtab := elf_strtab st,
      elf_symtab := elf_symtab st\<rparr>" by simp
  then show ?thesis unfolding extends_def by blast
qed

lemma extends_trans: "extends st st1 \<Longrightarrow> extends st1 st2 \<Longrightarrow> extends st st2"
  by (force simp: extends_def)

lemma elf_hdrs_ok_count:
  assumes "elf_hdrs_ok st"
  shows "elf_hdrs_ok ((upd_shdr SEC_SYMTAB (\<lambda>h. h\<lparr>sh_info := sh_info h + 1\<rparr>) (st\<lparr>out := x\<rparr>))\<lparr>elf_symtab := b\<rparr>)"
  using assms by (auto simp: elf_hdrs_ok_def upd_shdr_def elf_consts elf_shdrs_init_def)

text \<open>Interning a name keeps everything and returns an offset at which the name can be read.\<close>

lemma add_name_ok:
  fixes st :: "'a elf_st_scheme"
  assumes inv: "export_inv st" and nz: "0 \<notin> set t" and room: "length (elf_strs st) + length t + 1 < 2 ^ 32"
  shows "\<exists>(st' :: 'a elf_st_scheme) idx. elf_add_str (t @ [0]) (of_nat (length t + 1)) st = Inr (0, idx, st')
    \<and> export_inv st' \<and> extends st st' \<and> named_syms st' = named_syms st
    \<and> elf_syms st' = elf_syms st \<and> elf_symtab st' = elf_symtab st
    \<and> length (elf_strs st') = length (elf_strs st) + length t + 1
    \<and> str_of (elf_strs st') (ucast idx) = Inr t"
proof -
  have good: "heap_good st" and e: "elf_inv st" using inv by (auto simp: export_inv_def)
  obtain b where add: "elf_add_str (t @ [0]) (of_nat (length t + 1)) st
      = Inr (0, of_nat (length (elf_strs st)), st\<lparr>elf_strtab := b\<rparr>)"
    and inv': "elf_inv (st\<lparr>elf_strtab := b\<rparr>)" "named_syms (st\<lparr>elf_strtab := b\<rparr>) = named_syms st"
    and b: "buf_bytes b = elf_strs st @ t @ [0]"
      "str_of (buf_bytes b) (ucast (of_nat (length (elf_strs st)) :: u64)) = Inr t"
      "\<forall>off u. str_of (elf_strs st) off = Inr u \<longrightarrow> str_of (buf_bytes b) off = Inr u"
    using elf_add_str_spec [OF good e nz room] by blast
  let ?st = "st\<lparr>elf_strtab := b\<rparr>"
  have "?st = st\<lparr>out := out st, elf_shdrs := elf_shdrs st, elf_strtab := b, elf_symtab := elf_symtab st\<rparr>"
    by simp
  then have "extends st ?st" unfolding extends_def by blast
  moreover have "export_inv ?st"
    using inv inv'(1) b(3) by (simp add: export_inv_def elf_hdrs_ok_def elf_strs_upd)
  ultimately show ?thesis
    using add inv'(2) b(1,2)
    by (intro exI [of _ ?st] exI [of _ "of_nat (length (elf_strs st))"]) (simp add: elf_strs_upd)
qed

lemma add_symbol_ok:
  fixes st :: "'a elf_st_scheme"
  assumes inv: "export_inv st" and name: "str_of (elf_strs st) off = Inr t"
    and room: "length (elf_syms st) < 2 ^ 57"
  shows "\<exists>st' :: 'a elf_st_scheme. elf_add_symbol off value sz info sect st = Inr (0, st')
    \<and> export_inv st' \<and> extends st st' \<and> elf_strs st' = elf_strs st
    \<and> length (elf_syms st') = length (elf_syms st) + 1
    \<and> syms_view st' = syms_view st @ [(t, new_sym 0 value sz info sect)]"
proof -
  have good: "heap_good st" and e: "elf_inv st" using inv by (auto simp: export_inv_def)
  obtain x b where add: "elf_add_symbol off value sz info sect st = Inr (0, counted x b st)"
    and inv': "elf_inv (counted x b st)" "elf_syms (counted x b st) = elf_syms st @ [new_sym off value sz info sect]"
      "elf_strs (counted x b st) = elf_strs st"
      "named_syms (counted x b st) = named_syms st @ [(t, new_sym off value sz info sect)]"
    using elf_add_symbol_spec [OF good e name room] by blast
  let ?st = "counted x b st"
  have "?st = st\<lparr>out := x, elf_shdrs := elf_shdrs ?st, elf_strtab := elf_strtab st, elf_symtab := b\<rparr>"
    by (simp add: counted_def upd_shdr_def)
  then have "extends st ?st" unfolding extends_def by blast
  moreover have "elf_hdrs_ok ?st"
    unfolding counted_def by (rule elf_hdrs_ok_count) (use inv in \<open>simp add: export_inv_def\<close>)
  then have "export_inv ?st" using inv inv'(1,3) by (simp add: export_inv_def)
  moreover have "syms_view ?st = syms_view st @ [(t, new_sym 0 value sz info sect)]"
    by (simp add: syms_view_def inv'(4) anon_def new_sym_def)
  ultimately show ?thesis using add inv'(2,3) by (intro exI [of _ ?st]) simp
qed

section \<open>Exporting the symbols\<close>

text \<open>A table is loaded with the given bytes; an empty one need not be there.\<close>

definition table_is :: "block option \<Rightarrow> u8 list \<Rightarrow> bool" where
  "table_is p bs \<longleftrightarrow> p = Some (map Some bs) \<or> p = None \<and> bs = []"

definition fas_loaded :: "'a fas_st_scheme \<Rightarrow> u8 list \<Rightarrow> u8 list \<Rightarrow> u8 list \<Rightarrow> bool" where
  "fas_loaded st strs src sbs \<longleftrightarrow>
     table_is (fas_strtab st) strs \<and> table_is (fas_psrc st) src \<and> table_is (fas_symtab st) sbs
     \<and> unat (fas_sym_cnt st) = length sbs div sizeof_FAS_Sym"

lemma fas_loaded_extends: "extends st st' \<Longrightarrow> fas_loaded st' strs src sbs = fas_loaded st strs src sbs"
  by (auto simp: extends_def fas_loaded_def)

lemma export_name_ok:
  fixes st :: "'a fas_st_scheme"
  assumes inv: "export_inv st" and tabs: "fas_loaded st strs src sbs"
    and nm: "fas_name strs src off = Inr t" and room: "length (elf_strs st) + length t + 1 < 2 ^ 32"
  shows "\<exists>(st' :: 'a fas_st_scheme) idx. fas_export_symbol_name off st = Inr (idx, st')
    \<and> export_inv st' \<and> extends st st' \<and> named_syms st' = named_syms st
    \<and> elf_syms st' = elf_syms st
    \<and> length (elf_strs st') \<le> length (elf_strs st) + length t + 1
    \<and> str_of (elf_strs st') idx = Inr t"
proof (cases "off = 0")
  case True
  then show ?thesis
    using inv nm extends_refl [of st] by (simp add: fas_export_symbol_name_def fas_name_def export_inv_def)
next
  case False
  have "(if name_in_strtab off
         then rbind (deref (fas_strtab st)) (\<lambda>blk. cstr_at blk (unat (off AND NOT 0x80000000)))
         else rbind (pstr2cstr (replicate 256 (Some 0)) (fas_psrc st) (unat off)) cstr) = Inr t"
  proof (cases "name_in_strtab off")
    case True
    then have "cstr_at (map Some strs) (unat (off AND NOT 0x80000000)) = Inr t"
      using nm False by (simp add: fas_name_def)
    moreover from this have "strs \<noteq> []" by (auto simp: cstr_at_def)
    ultimately show ?thesis using True tabs by (simp add: fas_loaded_def table_is_def)
  next
    case nostr: False
    then have "pascal src (unat off) = Inr t"
      using nm False by (simp add: fas_name_def)
    moreover from this have "src \<noteq> []" by (auto simp: pascal_def)
    ultimately show ?thesis
      using nostr tabs by (simp add: fas_loaded_def table_is_def pstr2cstr_pascal)
  qed
  then have "fas_export_symbol_name off st
      = rbind (elf_add_str (t @ [0]) (of_nat (length t + 1)) st) (\<lambda>(r, idx, st).
          if r \<noteq> 0 then Inr (0, st) else Inr (ucast idx, st))"
    using False by (simp add: fas_export_symbol_name_def del: of_nat_add)
  moreover obtain st' :: "'a fas_st_scheme" and idx where
    "elf_add_str (t @ [0]) (of_nat (length t + 1)) st = Inr (0, idx, st')"
    and st': "export_inv st'" "extends st st'" "named_syms st' = named_syms st"
      "elf_syms st' = elf_syms st" "length (elf_strs st') = length (elf_strs st) + length t + 1"
      "str_of (elf_strs st') (ucast idx) = Inr t"
    using add_name_ok [OF inv fas_name_no_zero [OF nm] room] by blast
  ultimately have "fas_export_symbol_name off st = Inr (ucast idx, st')" by simp
  then show ?thesis using st' by (intro exI [of _ st'] exI [of _ "ucast idx :: u32"]) simp
qed

lemma fsym_load_ok:
  assumes "table_is p sbs" and "i < length sbs div sizeof_FAS_Sym"
  shows "fsym_load p i = Inr (decode_table sizeof_FAS_Sym dec_fsym sbs ! i)"
proof -
  have "sbs \<noteq> []" using assms(2) by auto
  then have p: "p = Some (map Some sbs)" using assms(1) by (simp add: table_is_def)
  have "(i + 1) * sizeof_FAS_Sym \<le> length sbs div sizeof_FAS_Sym * sizeof_FAS_Sym"
    using assms(2) by (intro mult_le_mono1) simp
  also have "\<dots> \<le> length sbs" by simp
  finally have "i * sizeof_FAS_Sym + sizeof_FAS_Sym \<le> length sbs" by simp
  then show ?thesis
    using assms(2) by (simp add: fsym_load_def p nth_decode_table chunk_def)
qed

text \<open>One round of the loop for a symbol that is exported: its name is interned, then the symbol added.\<close>

lemma export_round_ok:
  fixes st :: "'a fas_st_scheme"
  assumes inv: "export_inv st" and tabs: "fas_loaded st strs src sbs"
    and ld: "fsym_load (fas_symtab st) i = Inr s" and ex: "fas_exported s"
    and t: "fas_name strs src (name_off s) = Inr t"
    and room: "length (elf_strs st) + length t + 1 < 2 ^ 32" "length (elf_syms st) < 2 ^ 57"
  obtains st' :: "'a fas_st_scheme" where "\<And>idxs. fas_export_loop (i # idxs) st = fas_export_loop idxs st'"
    and "export_inv st'" and "extends st st'" and "length (elf_strs st') \<le> length (elf_strs st) + length t + 1"
    and "length (elf_syms st') = length (elf_syms st) + 1"
    and "syms_view st' = syms_view st @ [obj_sym strs src s]"
proof -
  let ?v = "ucast (sym_value s) :: u32" and ?sz = "ucast (sym_size s) :: u32"
    and ?info = "ELF32_ST_INFO STB_LOCAL STT_OBJECT"
  obtain st1 :: "'a fas_st_scheme" and idx where e1: "fas_export_symbol_name (name_off s) st = Inr (idx, st1)"
    and s1: "export_inv st1" "extends st st1" "named_syms st1 = named_syms st" "elf_syms st1 = elf_syms st"
      "length (elf_strs st1) \<le> length (elf_strs st) + length t + 1" "str_of (elf_strs st1) idx = Inr t"
    using export_name_ok [OF inv tabs t room(1)] by blast
  have "length (elf_syms st1) < 2 ^ 57" using s1(4) room(2) by simp
  then obtain st2 :: "'a fas_st_scheme" where
    e2: "elf_add_symbol idx ?v ?sz ?info SHN_ABS st1 = Inr (0, st2)"
    and s2: "export_inv st2" "extends st1 st2" "elf_strs st2 = elf_strs st1"
      "length (elf_syms st2) = length (elf_syms st1) + 1"
      "syms_view st2 = syms_view st1 @ [(t, new_sym 0 ?v ?sz ?info SHN_ABS)]"
    using add_symbol_ok [OF s1(1,6)] by blast
  have "fas_export_loop (i # idxs) st = fas_export_loop idxs st2" for idxs
    using ex by (simp add: ld fas_exported_def e1 e2)
  moreover have "syms_view st2 = syms_view st @ [obj_sym strs src s]"
    using s2(5) s1(3) t by (simp add: syms_view_def obj_sym_def)
  ultimately show thesis
    using that s2(1,3,4) s1(4,5) extends_trans [OF s1(2) s2(2)] by simp
qed

lemma fas_export_loop_ok:
  fixes st :: "'a fas_st_scheme"
  defines "T sbs \<equiv> decode_table sizeof_FAS_Sym dec_fsym sbs"
  assumes "export_inv st" and "fas_loaded st strs src sbs"
    and "\<forall>i \<in> set idxs. i < length sbs div sizeof_FAS_Sym"
    and "\<forall>s \<in> set (map ((!) (T sbs)) idxs). fas_exported s \<longrightarrow> (\<exists>t. fas_name strs src (name_off s) = Inr t)"
    and "length (elf_strs st) + names_size strs src (map ((!) (T sbs)) idxs) < 2 ^ 32"
    and "length (elf_syms st) + length idxs < 2 ^ 57"
  shows "\<exists>st' :: 'a fas_st_scheme. fas_export_loop idxs st = Inr st'
    \<and> export_inv st' \<and> extends st st'
    \<and> length (elf_strs st') \<le> length (elf_strs st) + names_size strs src (map ((!) (T sbs)) idxs)
    \<and> syms_view st' = syms_view st
        @ map (obj_sym strs src) (filter fas_exported (map ((!) (T sbs)) idxs))"
  using assms(2-)
proof (induction idxs arbitrary: st)
  case Nil
  then show ?case using extends_refl [of st] by (simp add: names_size_def)
next
  case (Cons i idxs)
  let ?s = "T sbs ! i"
  have ld: "fsym_load (fas_symtab st) i = Inr ?s"
    unfolding T_def by (rule fsym_load_ok) (use Cons.prems in \<open>auto simp: fas_loaded_def\<close>)
  show ?case
  proof (cases "fas_exported ?s")
    case False
    then have "fas_export_loop (i # idxs) st = fas_export_loop idxs st"
      by (auto simp: ld fas_exported_def)
    then show ?thesis
      using False Cons.IH [of st] Cons.prems by (simp add: names_size_def)
  next
    case True
    then obtain t where t: "fas_name strs src (name_off ?s) = Inr t"
      using Cons.prems(4) by auto
    have sz: "names_size strs src (map ((!) (T sbs)) (i # idxs))
        = length t + 1 + names_size strs src (map ((!) (T sbs)) idxs)"
      using True t by (simp add: names_size_def)
    then have room: "length (elf_strs st) + length t + 1 < 2 ^ 32" "length (elf_syms st) < 2 ^ 57"
      using Cons.prems(5,6) by simp_all
    obtain st2 :: "'a fas_st_scheme" where run: "fas_export_loop (i # idxs) st = fas_export_loop idxs st2"
      and s2: "export_inv st2" "extends st st2" "length (elf_strs st2) \<le> length (elf_strs st) + length t + 1"
        "length (elf_syms st2) = length (elf_syms st) + 1" "syms_view st2 = syms_view st @ [obj_sym strs src ?s]"
      using export_round_ok [OF Cons.prems(1,2) ld True t room] by blast
    have loaded: "fas_loaded st2 strs src sbs" using Cons.prems(2) fas_loaded_extends [OF s2(2)] by simp
    have sm: "length (elf_strs st2) + names_size strs src (map ((!) (T sbs)) idxs) < 2 ^ 32"
      "length (elf_syms st2) + length idxs < 2 ^ 57"
      using Cons.prems(5,6) s2(3,4) sz by simp_all
    obtain st3 :: "'a fas_st_scheme" where e3: "fas_export_loop idxs st2 = Inr st3"
      and s3: "export_inv st3" "extends st2 st3"
        "length (elf_strs st3) \<le> length (elf_strs st2) + names_size strs src (map ((!) (T sbs)) idxs)"
        "syms_view st3 = syms_view st2 @ map (obj_sym strs src) (filter fas_exported (map ((!) (T sbs)) idxs))"
      using Cons.IH [OF s2(1) loaded _ _ sm] Cons.prems(3,4) by auto
    show ?thesis
      using run e3 s3 extends_trans [OF s2(2) s3(2)] s2(3,5) True sz by (intro exI [of _ st3]) simp
  qed
qed

lemma fas_export_symbols_ok:
  fixes st :: "'a fas_st_scheme"
  defines "T sbs \<equiv> decode_table sizeof_FAS_Sym dec_fsym sbs"
  assumes inv: "export_inv st" and tabs: "fas_loaded st strs src sbs"
    and ifnm: "cstr_at (map Some strs) (unat (ifnm_off (fas_hdr st))) = Inr ifnm"
    and names: "\<forall>s \<in> set (T sbs). fas_exported s \<longrightarrow> (\<exists>t. fas_name strs src (name_off s) = Inr t)"
    and room: "length (elf_strs st) + length ifnm + 1 + names_size strs src (T sbs) < 2 ^ 32"
    and symroom: "length (elf_syms st) + 1 + length (T sbs) < 2 ^ 57"
  shows "\<exists>st' :: 'a fas_st_scheme. fas_export_symbols st = Inr st'
    \<and> export_inv st' \<and> extends st st'
    \<and> length (elf_strs st') \<le> length (elf_strs st) + length ifnm + 1 + names_size strs src (T sbs)
    \<and> syms_view st' = syms_view st
        @ file_sym ifnm # map (obj_sym strs src) (filter fas_exported (T sbs))"
proof -
  have "strs \<noteq> []" using ifnm by (auto simp: cstr_at_def)
  then have str: "fas_strtab st = Some (map Some strs)"
    using tabs by (simp add: fas_loaded_def table_is_def)
  have "0 \<notin> set ifnm" using ifnm by (auto simp: cstr_at_def dest: cstr_no_zero)
  moreover have "length (elf_strs st) + length ifnm + 1 < 2 ^ 32" using room by linarith
  ultimately obtain st1 :: "'a fas_st_scheme" and idx where
    e1: "elf_add_str (ifnm @ [0]) (of_nat (length ifnm + 1)) st = Inr (0, idx, st1)"
    and s1: "export_inv st1" "extends st st1" "named_syms st1 = named_syms st"
      "elf_syms st1 = elf_syms st" "length (elf_strs st1) = length (elf_strs st) + length ifnm + 1"
      "str_of (elf_strs st1) (ucast idx) = Inr ifnm"
    using add_name_ok [OF inv] by blast
  have "length (elf_syms st1) < 2 ^ 57" using s1(4) symroom by simp
  then obtain st2 :: "'a fas_st_scheme" where
    e2: "elf_add_symbol (ucast idx) 0 0 (ELF32_ST_INFO STB_LOCAL STT_FILE) SHN_ABS st1 = Inr (0, st2)"
    and s2: "export_inv st2" "extends st1 st2" "elf_strs st2 = elf_strs st1"
      "length (elf_syms st2) = length (elf_syms st1) + 1"
      "syms_view st2 = syms_view st1 @ [file_sym ifnm]"
    using add_symbol_ok [OF s1(1,6)] unfolding file_sym_def by blast
  have ext: "extends st st2" using s1(2) s2(2) by (rule extends_trans)
  have loaded: "fas_loaded st2 strs src sbs"
    using tabs fas_loaded_extends [OF ext] by simp
  have cnt: "[0..<unat (fas_sym_cnt st2)] = [0..<length (T sbs)]"
    using loaded by (simp add: fas_loaded_def T_def)
  have all: "map ((!) (T sbs)) [0..<length (T sbs)] = T sbs" by (rule map_nth)
  have "length (elf_strs st2) + names_size strs src (T sbs) < 2 ^ 32"
    using room s1(5) s2(3) by simp
  moreover have "length (elf_syms st2) + length [0..<length (T sbs)] < 2 ^ 57"
    using symroom s1(4) s2(4) by simp
  ultimately obtain st3 :: "'a fas_st_scheme" where
    e3: "fas_export_loop [0..<length (T sbs)] st2 = Inr st3"
    and s3: "export_inv st3" "extends st2 st3"
      "length (elf_strs st3) \<le> length (elf_strs st2) + names_size strs src (T sbs)"
      "syms_view st3 = syms_view st2 @ map (obj_sym strs src) (filter fas_exported (T sbs))"
    using fas_export_loop_ok [OF s2(1) loaded, of "[0..<length (T sbs)]"] names
    unfolding T_def [symmetric] all by (auto simp: T_def)
  have "fas_export_symbols st = Inr st3"
    using e1 e2 e3 by (simp add: fas_export_symbols_def str ifnm cnt del: of_nat_add)
  moreover have "extends st st3" using ext s3(2) by (rule extends_trans)
  ultimately show ?thesis
    using s3 s2(3,5) s1(3,5) by (intro exI [of _ st3]) (simp add: syms_view_def)
qed

end
