(* ===== verification/FasLoad.thy ===== *)
theory FasLoad
  imports FasExport
begin

text \<open>
  Correctness of loading a FAS file: which files load, what is loaded, and that the only way
  out of defined behaviour is a diagnostic (a file name used as a format, or the message for a
  wrong magic number).
\<close>

definition table_at :: "u8 list \<Rightarrow> u32 \<Rightarrow> u32 \<Rightarrow> u8 list \<Rightarrow> bool" where
  "table_at c off len bs \<longleftrightarrow>
     (if len = 0 then bs = [] else unat off + unat len \<le> length c \<and> slice (unat off) (unat len) c = bs)"

definition fas_file :: "u8 list \<Rightarrow> FAS_Hdr \<Rightarrow> u8 list \<Rightarrow> u8 list \<Rightarrow> u8 list \<Rightarrow> bool" where
  "fas_file c h strs src sbs \<longleftrightarrow>
     sizeof_FAS_Hdr \<le> length c \<and> dec_fhdr (take sizeof_FAS_Hdr c) = h \<and> magic h = FAS_MAGIC
     \<and> table_at c (strtab_off h) (strtab_len h) strs
     \<and> table_at c (symtab_off h) (symtab_len h) sbs
     \<and> table_at c (psrc_off h) (psrc_len h) src"

lemma sint_wide_nonneg: "0 \<le> sint (ucast (w :: u32) :: u64)"
proof -
  have "\<not> bit (ucast w :: u64) 63"
    using bit_imp_le_length [of w 63] by (auto simp: bit_simps)
  then show ?thesis
    using bit_last_iff [of "ucast w :: u64"] by simp
qed

lemma fseek_wide: "fseek_set (ucast (w :: u32)) fp = (0, fp\<lparr>s_pos := unat w\<rparr>)"
  using sint_wide_nonneg [of w] by (simp add: fseek_set_def unat_ucast_wide)

lemma table_at_length: "table_at c off len bs \<Longrightarrow> length bs = unat len"
  by (auto simp: table_at_def slice_def split: if_splits)

section \<open>The interface of a table loader\<close>

text \<open>
  Both readers of FAS files, \<open>fas2sym\<close> and \<open>fasdump\<close>, have a function that loads the bytes at an
  offset into a fresh block.  What they promise: nothing happens for an empty table, and a table that
  lies inside the file is loaded when memory suffices.  The header fields are 32 bits wide, so the
  offsets that reach the loader are never negative and never too large.
\<close>

locale table_loader =
  fixes load :: "block option \<Rightarrow> u64 \<Rightarrow> u64 \<Rightarrow> stream \<Rightarrow> 's \<Rightarrow> (int \<times> block option \<times> stream \<times> 's) res"
    and able :: "'s \<Rightarrow> bool" and filesystem :: "'s \<Rightarrow> u8 list \<Rightarrow> u8 list option"
  assumes load_empty: "load d off 0 fp st = Inr (0, d, fp, st)"
    and load_inside: "able st \<Longrightarrow> filesystem st (s_path fp) = Some c \<Longrightarrow> sz \<noteq> 0 \<Longrightarrow> unat sz < 2 ^ 63 \<Longrightarrow>
      0 \<le> sint off \<Longrightarrow> unat off + unat sz \<le> length c \<Longrightarrow>
      load d off sz fp st = Inr (0, Some (map Some (slice (unat off) (unat sz) c)),
        fp\<lparr>s_pos := unat off + unat sz\<rparr>, st)"
begin

lemma load_table:
  assumes "able st" and "filesystem st (s_path fp) = Some c" and "table_at c off len bs"
  shows "\<exists>p fp'. load None (ucast off) (ucast len) fp st = Inr (0, p, fp', st) \<and> s_path fp' = s_path fp \<and> table_is p bs"
proof (cases "len = 0")
  case True
  then show ?thesis using assms(3) by (simp add: load_empty table_at_def table_is_def)
next
  case False
  then have nz: "(ucast len :: u64) \<noteq> 0" by (metis ucast_wide_back unsigned_0)
  have "unat (ucast len :: u64) < 2 ^ 63"
    using unsigned_less [of len, where 'a = nat] by (simp add: unat_ucast_wide)
  moreover have "unat (ucast off :: u64) + unat (ucast len :: u64) \<le> length c"
    using assms(3) False by (simp add: table_at_def unat_ucast_wide)
  ultimately show ?thesis
    using load_inside [OF assms(1,2) nz _ sint_wide_nonneg] assms(3) False
    by (simp add: unat_ucast_wide table_at_def table_is_def)
qed

text \<open>The next load of the same file may start from the stream the last one left.\<close>

lemma load_next:
  assumes "able st" and "filesystem st file = Some c" and "s_path fp = file" and "table_at c off len bs"
  obtains p fp' where "load None (ucast off) (ucast len) fp st = Inr (0, p, fp', st)"
    and "s_path fp' = file" and "table_is p bs"
  using load_table [of st fp c off len bs] assms by auto

end

lemma fread_inside:
  assumes "files st (s_path fp) = Some c" and "off + n \<le> length c" and "0 < n"
  shows "fread n 1 (fp\<lparr>s_pos := off\<rparr>) st = (1, slice off n c, fp\<lparr>s_pos := off + n\<rparr>)"
  using assms by (simp add: fread_def content_def slice_def Let_def)

lemma fseek_nonneg: "0 \<le> sint off \<Longrightarrow> fseek_set off fp = (0, fp\<lparr>s_pos := unat off\<rparr>)"
  by (simp add: fseek_set_def)

interpretation fas: table_loader fas_load_table heap_good files
proof unfold_locales
  fix d fp c and off sz :: u64 and st :: "'a fas_st_scheme"
  show "fas_load_table d off 0 fp st = Inr (0, d, fp, st)" by (simp add: fas_load_table_def)
  assume h: "heap_good st" "files st (s_path fp) = Some c" "sz \<noteq> 0" "unat sz < 2 ^ 63" "0 \<le> sint off"
    "unat off + unat sz \<le> length c"
  then have "0 < unat sz" by (simp add: unat_gt_0)
  then show "fas_load_table d off sz fp st = Inr (0, Some (map Some (slice (unat off) (unat sz) c)),
      fp\<lparr>s_pos := unat off + unat sz\<rparr>, st)"
    using h fread_inside [OF h(2,6)]
    by (simp add: fas_load_table_def c_malloc_good fseek_nonneg store_bytes_def slice_def)
qed

section \<open>Loading a FAS file\<close>

lemma fas_load_file_ok:
  fixes st :: "'a fas_st_scheme"
  assumes good: "heap_good st" and f: "files st file = Some c" and ff: "fas_file c h strs src sbs"
    and init: "fas_strtab st = None" "fas_symtab st = None" "fas_psrc st = None"
  shows "\<exists>x p q r n. fas_load_file file st = Inr (0,
      st\<lparr>out := x, fas_hdr := h, fas_strtab := p, fas_symtab := q, fas_psrc := r, fas_sym_cnt := n\<rparr>)
    \<and> table_is p strs \<and> table_is q sbs \<and> table_is r src
    \<and> unat n = length sbs div sizeof_FAS_Sym"
proof -
  let ?fp = "\<lparr>s_path = file, s_pos = 0\<rparr>"
  let ?hb = "take sizeof_FAS_Hdr c"
  have len: "length ?hb = sizeof_FAS_Hdr" using ff by (simp add: fas_file_def)
  have h: "dec_fhdr ?hb = h" "magic h = FAS_MAGIC" using ff by (simp_all add: fas_file_def)
  have rd: "fread sizeof_FAS_Hdr 1 ?fp st = (1, ?hb, ?fp\<lparr>s_pos := sizeof_FAS_Hdr\<rparr>)"
    using f len by (simp add: fread_def content_def Let_def sizeof_FAS_Hdr_def)
  let ?st = "st\<lparr>fas_hdr := h\<rparr>"
  have hd: "dec_fhdr (?hb @ drop (length ?hb) (enc_fhdr (fas_hdr st))) = h"
    using h(1) len fhdr.enc_length by simp
  have g1: "heap_good ?st" using good by (simp add: heap_good_def)
  have tab: "table_at c (strtab_off h) (strtab_len h) strs"
    "table_at c (symtab_off h) (symtab_len h) sbs" "table_at c (psrc_off h) (psrc_len h) src"
    using ff by (simp_all add: fas_file_def)
  have at0: "s_path (?fp\<lparr>s_pos := sizeof_FAS_Hdr\<rparr>) = file" by simp
  obtain p fp1 where t1: "fas_load_table None (ucast (strtab_off h)) (ucast (strtab_len h))
      (?fp\<lparr>s_pos := sizeof_FAS_Hdr\<rparr>) ?st = Inr (0, p, fp1, ?st)"
    and p: "s_path fp1 = file" "table_is p strs"
    by (rule fas.load_next [OF g1 _ at0 tab(1)]) (use f in simp_all)
  let ?st1 = "?st\<lparr>fas_strtab := p\<rparr>"
  obtain q fp2 where t2: "fas_load_table None (ucast (symtab_off h)) (ucast (symtab_len h))
      fp1 ?st1 = Inr (0, q, fp2, ?st1)"
    and q: "s_path fp2 = file" "table_is q sbs"
    by (rule fas.load_next [OF _ _ p(1) tab(2), of ?st1]) (use f g1 in \<open>simp_all add: heap_good_def\<close>)
  let ?st2 = "?st1\<lparr>fas_symtab := q\<rparr>"
  obtain r fp3 where t3: "fas_load_table None (ucast (psrc_off h)) (ucast (psrc_len h))
      fp2 ?st2 = Inr (0, r, fp3, ?st2)" and r: "table_is r src"
    by (rule fas.load_next [OF _ _ q(1) tab(3), of ?st2]) (use f g1 in \<open>simp_all add: heap_good_def\<close>)
  let ?n = "ucast (symtab_len h) div of_nat sizeof_FAS_Sym :: u64"
  let ?st3 = "?st2\<lparr>fas_psrc := r, fas_sym_cnt := ?n\<rparr>"
  have "length sbs = unat (symtab_len h)"
    using ff table_at_length by (auto simp: fas_file_def)
  then have n: "unat ?n = length sbs div sizeof_FAS_Sym"
    by (simp add: unat_div unat_ucast_wide sizeof_FAS_Sym_def)
  obtain x where msg: "msg_verbose 1 (Inr (fmt_dec (unat ?n) @ ascii '' symbol(s) loaded from '' @ file)) ?st3
      = Inr (?st3\<lparr>out := x\<rparr>)"
    using msg_verbose_ok by blast
  have "fas_load_file file st = Inr (0, ?st3\<lparr>out := x\<rparr>)"
    using f rd hd h(2) t1 t2 t3 init msg by (simp add: fas_load_file_def fopen_rb_def Let_def)
  then show ?thesis using p(2) q(2) r n
    by (intro exI [of _ x] exI [of _ p] exI [of _ q] exI [of _ r] exI [of _ ?n]) simp
qed

text \<open>Loading a table always returns; it reports a failure by \<open>- 1\<close>.\<close>

lemma fas_load_table_total:
  fixes st :: "'a fas_st_scheme"
  shows "\<exists>k p fp' h e. fas_load_table d off sz fp st
      = Inr (k, p, fp', st\<lparr>heap_ok := h, err := e\<rparr>) \<and> (k = 0 \<or> k = - 1)
    \<and> (k = 0 \<longrightarrow> e = err st)"
proof -
  consider "sz = 0" | (fail) "sz \<noteq> 0" "c_malloc sz st = (None, st\<lparr>heap_ok := \<lambda>i. heap_ok st (Suc i)\<rparr>)"
    | (got) "sz \<noteq> 0"
      "c_malloc sz st = (Some (replicate (unat sz) None), st\<lparr>heap_ok := \<lambda>i. heap_ok st (Suc i)\<rparr>)"
    by (cases "sz = 0"; cases "heap_ok st 0 \<and> unat sz < 2 ^ 63") (auto simp: c_malloc_def)
  then show ?thesis
  proof cases
    case 1
    then have "fas_load_table d off sz fp st = Inr (0, d, fp, st\<lparr>heap_ok := heap_ok st, err := err st\<rparr>)"
      by (simp add: fas_load_table_def)
    then show ?thesis by blast
  next
    case fail
    then show ?thesis
      by (simp add: fas_load_table_def msg_err_None print_err_def) blast
  next
    case got
    obtain r fp1 where fs: "fseek_set off fp = (r, fp1)" by fastforce
    obtain n bs fp2 where rd: "fread (unat sz) 1 fp1 (st\<lparr>heap_ok := \<lambda>i. heap_ok st (Suc i)\<rparr>) = (n, bs, fp2)"
      using prod_cases3 by blast
    then have "length bs \<le> unat sz" by (auto simp: fread_def Let_def)
    then show ?thesis
      using got fs rd
      by (auto simp: fas_load_table_def msg_err_None print_err_def msg_errx_def store_bytes_def)
  qed
qed

lemma format0_fault: "format0 s = Inl e \<Longrightarrow> e = BadFormat"
  by (induction s arbitrary: e rule: format0.induct) (auto simp: rbind_Inl_iff split: if_splits)

lemma msg_err_cases:
  "(\<exists>x. msg_err f st = Inr (st\<lparr>err := x\<rparr>)) \<or> msg_err f st = Inl BadFormat"
proof (cases f)
  case None
  then show ?thesis by (simp add: msg_err_None print_err_def) blast
next
  case (Some s)
  then show ?thesis
    by (cases "format0 s") (auto simp: msg_err_def msg_err_common_def print_err_def Let_def dest: format0_fault)
qed

lemma msg_err_fault_iff: "(msg_err (Some f) st = Inl e) = (format0 f = Inl e)"
  by (cases "format0 f") (auto simp: msg_err_def msg_err_common_def Let_def)

text \<open>After the header the loading never leaves defined behaviour.\<close>

lemma fas_load_file_header:
  fixes st :: "'a fas_st_scheme"
  assumes f: "files st file = Some c"
    and h: "sizeof_FAS_Hdr \<le> length c" "magic (dec_fhdr (take sizeof_FAS_Hdr c)) = FAS_MAGIC"
  shows "\<exists>r st'. fas_load_file file st = Inr (r, st')
    \<and> (r = 0 \<or> r = - 1 \<and> fas_strtab st' = None \<and> fas_symtab st' = None \<and> fas_psrc st' = None)"
proof -
  let ?fp = "\<lparr>s_path = file, s_pos = 0\<rparr>"
  let ?hb = "take sizeof_FAS_Hdr c" and ?h = "dec_fhdr (take sizeof_FAS_Hdr c)"
  let ?fp_hdr = "?fp\<lparr>s_pos := sizeof_FAS_Hdr\<rparr>" and ?st = "st\<lparr>fas_hdr := ?h\<rparr>"
  have rd: "fread sizeof_FAS_Hdr 1 ?fp st = (1, ?hb, ?fp_hdr)"
    using f h(1) by (simp add: fread_def content_def Let_def sizeof_FAS_Hdr_def)
  have hd: "dec_fhdr (?hb @ drop (length ?hb) (enc_fhdr (fas_hdr st))) = ?h"
    using h(1) fhdr.enc_length by simp
  obtain k1 p fp1 h1 e1 where t1: "fas_load_table (fas_strtab st) (ucast (strtab_off ?h))
      (ucast (strtab_len ?h)) ?fp_hdr ?st = Inr (k1, p, fp1, ?st\<lparr>heap_ok := h1, err := e1\<rparr>)"
    using fas_load_table_total by blast
  let ?s1 = "?st\<lparr>heap_ok := h1, err := e1, fas_strtab := p\<rparr>"
  obtain k2 q fp2 h2 e2 where t2: "fas_load_table (fas_symtab st) (ucast (symtab_off ?h))
      (ucast (symtab_len ?h)) fp1 ?s1 = Inr (k2, q, fp2, ?s1\<lparr>heap_ok := h2, err := e2\<rparr>)"
    using fas_load_table_total by blast
  let ?s2 = "?s1\<lparr>heap_ok := h2, err := e2, fas_symtab := q\<rparr>"
  obtain k3 r fp3 h3 e3 where t3: "fas_load_table (fas_psrc st) (ucast (psrc_off ?h))
      (ucast (psrc_len ?h)) fp2 ?s2 = Inr (k3, r, fp3, ?s2\<lparr>heap_ok := h3, err := e3\<rparr>)"
    using fas_load_table_total by blast
  let ?n = "ucast (symtab_len ?h) div of_nat sizeof_FAS_Sym :: u64"
  let ?s3 = "?s2\<lparr>heap_ok := h3, err := e3, fas_psrc := r, fas_sym_cnt := ?n\<rparr>"
  obtain x where msg: "msg_verbose 1 (Inr (fmt_dec (unat ?n) @ ascii '' symbol(s) loaded from '' @ file)) ?s3
      = Inr (?s3\<lparr>out := x\<rparr>)"
    using msg_verbose_ok by blast
  show ?thesis
    using f h(2) rd hd t1 t2 t3 msg
    by (simp add: fas_load_file_def fopen_rb_def Let_def fas_cleanup_def msg_errx_def print_err_def)
qed

lemma fas_load_file_fault_iff:
  fixes st :: "'a fas_st_scheme"
  shows "fas_load_file file st = Inl e \<longleftrightarrow> e = BadFormat \<and>
    (case files st file of
       None \<Rightarrow> format0 file = Inl BadFormat
     | Some c \<Rightarrow> sizeof_FAS_Hdr \<le> length c \<and> magic (dec_fhdr (take sizeof_FAS_Hdr c)) \<noteq> FAS_MAGIC)"
proof (cases "files st file")
  case None
  then show ?thesis
    by (auto simp: fas_load_file_def fopen_rb_def rbind_Inl_iff msg_err_fault_iff dest: format0_fault)
next
  case (Some c)
  let ?hb = "take sizeof_FAS_Hdr c"
  have rd: "fread sizeof_FAS_Hdr 1 \<lparr>s_path = file, s_pos = 0\<rparr> st
      = (length ?hb div sizeof_FAS_Hdr, ?hb, \<lparr>s_path = file, s_pos = length ?hb\<rparr>)"
    using Some by (simp add: fread_def content_def Let_def)
  show ?thesis
  proof (cases "sizeof_FAS_Hdr \<le> length c")
    case False
    then have "length ?hb div sizeof_FAS_Hdr \<noteq> 1" by simp
    then show ?thesis using False Some rd by (simp add: fas_load_file_def fopen_rb_def)
  next
    case long: True
    then have "length ?hb div sizeof_FAS_Hdr = 1" by (simp add: sizeof_FAS_Hdr_def)
    moreover have "dec_fhdr (?hb @ drop (length ?hb) (enc_fhdr (fas_hdr st))) = dec_fhdr ?hb"
      using long fhdr.enc_length by simp
    ultimately have "magic (dec_fhdr ?hb) \<noteq> FAS_MAGIC \<Longrightarrow> fas_load_file file st = Inl BadFormat"
      using Some rd by (simp add: fas_load_file_def fopen_rb_def)
    then show ?thesis
      using fas_load_file_header [OF Some long] Some long by (cases "magic (dec_fhdr ?hb) = FAS_MAGIC") auto
  qed
qed

end
