(* ===== verification/Getopt.thy ===== *)
theory Getopt
  imports CLib
begin

text \<open>
  The \<open>getopt\<close> loop of the C library, as the programs use it.  A program that reads its options
  with \<open>while ((c = getopt(argc, argv, spec)) != -1)\<close> is a fold over the events of the command
  line, followed by the operands (\<open>argv[optind]\<close> and what comes after it).  As POSIX says, the
  options end at the first operand, at a single dash, or after a double dash.
\<close>

datatype opt =
    Opt u8 "u8 list"   \<comment> \<open>an option of the list, with its argument when it takes one\<close>
  | BadOpt u8          \<comment> \<open>\<open>'?'\<close>: an option that is not in the list\<close>
  | MissingArg u8      \<comment> \<open>\<open>'?'\<close>: an option whose argument is missing\<close>

text \<open>Whether \<open>c\<close> is in the option string, and whether it takes an argument.\<close>

fun opt_spec :: "u8 list \<Rightarrow> u8 \<Rightarrow> bool option" where
  "opt_spec [] c = None"
| "opt_spec (x # xs) c =
     (if x = c \<and> c \<noteq> 58 then Some (case xs of [] \<Rightarrow> False | y # ys \<Rightarrow> y = 58) else opt_spec xs c)"

text \<open>
  The options in the rest \<open>cl\<close> of a cluster such as \<open>-vo\<close>, then in the arguments behind it;
  together with the operands.
\<close>

fun getopts :: "u8 list \<Rightarrow> u8 list \<Rightarrow> u8 list list \<Rightarrow> opt list \<times> u8 list list" where
  "getopts spec [] [] = ([], [])"
| "getopts spec [] (a # args) =
     (if a = [] \<or> hd a \<noteq> 45 \<or> a = [45] then ([], a # args)
      else if a = [45, 45] then ([], args)
      else getopts spec (tl a) args)"
| "getopts spec (c # cl) args =
     (case opt_spec spec c of
        None \<Rightarrow> (let (es, r) = getopts spec cl args in (BadOpt c # es, r))
      | Some False \<Rightarrow> (let (es, r) = getopts spec cl args in (Opt c [] # es, r))
      | Some True \<Rightarrow>
          if cl \<noteq> [] then (let (es, r) = getopts spec [] args in (Opt c cl # es, r))
          else (case args of
                  [] \<Rightarrow> ([MissingArg c], [])
                | a # args' \<Rightarrow> (let (es, r) = getopts spec [] args' in (Opt c a # es, r))))"

text \<open>
  One call of \<open>getopt\<close>, for a program that looks at \<open>optind\<close> between the calls: the event (none at
  the end), the rest of the cluster and the arguments from \<open>argv[optind]\<close> on.
\<close>

fun getopt1 :: "u8 list \<Rightarrow> u8 list \<Rightarrow> u8 list list \<Rightarrow> opt option \<times> u8 list \<times> u8 list list" where
  "getopt1 spec [] [] = (None, [], [])"
| "getopt1 spec [] (a # args) =
     (if a = [] \<or> hd a \<noteq> 45 \<or> a = [45] then (None, [], a # args)
      else if a = [45, 45] then (None, [], args)
      else getopt1 spec (tl a) args)"
| "getopt1 spec (c # cl) args =
     (case opt_spec spec c of
        None \<Rightarrow> (Some (BadOpt c), cl, args)
      | Some False \<Rightarrow> (Some (Opt c []), cl, args)
      | Some True \<Rightarrow>
          if cl \<noteq> [] then (Some (Opt c cl), [], args)
          else (case args of
                  [] \<Rightarrow> (Some (MissingArg c), [], [])
                | a # args' \<Rightarrow> (Some (Opt c a), [], args')))"

definition args_size :: "u8 list \<Rightarrow> u8 list list \<Rightarrow> nat" where
  "args_size cl args = length cl + sum_list (map (\<lambda>a. length a + 1) args)"

lemma getopt1_cluster_less:
  "getopt1 spec (c # cl) args = (Some e, cl', args') \<Longrightarrow> args_size cl' args' < args_size (c # cl) args"
  by (auto simp: args_size_def split: option.splits bool.splits if_splits list.splits)

lemma getopt1_less:
  assumes "getopt1 spec cl args = (Some e, cl', args')"
  shows "args_size cl' args' < args_size cl args"
proof (cases cl)
  case (Cons c cl2)
  then show ?thesis using getopt1_cluster_less assms by blast
next
  case Nil
  then obtain a args2 where a: "args = a # args2" "a \<noteq> []" "a \<noteq> [45]"
    and r: "getopt1 spec (tl a) args2 = (Some e, cl', args')"
    using assms by (cases args) (auto split: if_splits)
  then have "args_size (tl a) args2 < args_size cl args"
    using Nil by (simp add: args_size_def)
  moreover have "args_size cl' args' < args_size (tl a) args2"
  proof (cases "tl a")
    case Nil
    then have "length a = 1" using a(2) by (cases a) auto
    then have "a = [hd a]" using a(2) by (cases a) auto
    moreover have "hd a = 45" using assms a \<open>cl = []\<close> by (auto split: if_splits)
    ultimately show ?thesis using a(3) by simp
  next
    case (Cons c cl2)
    then show ?thesis using r getopt1_cluster_less by simp
  qed
  ultimately show ?thesis by simp
qed

text \<open>The list of events is the repetition of that call.\<close>

lemma getopts_step:
  "getopts spec cl args =
     (case getopt1 spec cl args of
        (None, _, rest) \<Rightarrow> ([], rest)
      | (Some e, cl', args') \<Rightarrow> (let (es, r) = getopts spec cl' args' in (e # es, r)))"
proof (cases cl)
  case (Cons c cl2)
  then show ?thesis by (auto split: option.splits bool.splits list.splits)
next
  case Nil
  then show ?thesis
  proof (cases args)
    case (Cons a args2)
    show ?thesis
    proof (cases "a = [] \<or> hd a \<noteq> 45 \<or> a = [45] \<or> a = [45, 45]")
      case False
      then obtain c cl2 where "tl a = c # cl2" by (cases a; cases "tl a") auto
      then show ?thesis using False Nil Cons
        by (auto split: option.splits bool.splits list.splits)
    qed (use Nil Cons in auto)
  qed simp
qed

text \<open>The message \<open>getopt\<close> prints for \<open>'?'\<close>.\<close>

definition getopt_message :: "u8 list \<Rightarrow> opt \<Rightarrow> u8 list" where
  "getopt_message argv0 e =
     (case e of
        Opt c a \<Rightarrow> []
      | BadOpt c \<Rightarrow> argv0 @ ascii '': invalid option -- '' @ [39, c, 39, newline]
      | MissingArg c \<Rightarrow> argv0 @ ascii '': option requires an argument -- '' @ [39, c, 39, newline])"

text \<open>\<open>basename\<close>: the part behind the last slash that is not trailing.\<close>

definition basename :: "u8 list \<Rightarrow> u8 list" where
  "basename p =
     (let q = rev (dropWhile (\<lambda>c. c = 47) (rev p))
      in if p = [] then [46] else if q = [] then [47]
         else rev (takeWhile (\<lambda>c. c \<noteq> 47) (rev q)))"

definition EXIT_SUCCESS :: int where "EXIT_SUCCESS = 0"
definition EXIT_FAILURE :: int where "EXIT_FAILURE = 1"

lemma operands_only:
  "a \<noteq> [] \<Longrightarrow> hd a \<noteq> 45 \<Longrightarrow> getopts spec [] (a # args) = ([], a # args)"
  by simp

end
