(* ===== verification/Fas2sym.thy ===== *)
theory Fas2sym
  imports FasLoad Getopt
begin

text \<open>
  The program \<open>fas2sym\<close> (\<open>src/bin/fas2sym/main.c\<close>): options, loading, exporting, writing,
  and the exit status.  The package name and the commit that \<open>-V\<close> prints come from the build
  and are parameters.
\<close>

record fas2sym_st = fas_st +
  outfile :: "u8 list"

definition usage :: "int \<Rightarrow> 'a fas2sym_st_scheme \<Rightarrow> int \<times> 'a fas2sym_st_scheme" where
  "usage retval st =
     (retval,
      if retval = EXIT_FAILURE
      then print_err (ascii ''Try '' @ [39] @ prg_name st @ ascii '' -h'' @ [39]
             @ ascii '' for more information.'' @ [newline]) st
      else print_out (ascii ''Usage: '' @ prg_name st @ ascii '' [-o OUTPUT] file'' @ [newline]
             @ ascii ''OPTIONS:'' @ [newline]
             @ ascii ''  -o OUTPUT     Set output file (default: '' @ outfile st @ ascii '')'' @ [newline]
             @ ascii ''  -t begin,end  XXXX (addr or symbol)'' @ [newline]) st)"

definition version :: "u8 list \<Rightarrow> u8 list \<Rightarrow> 'a fas2sym_st_scheme \<Rightarrow> int \<times> 'a fas2sym_st_scheme" where
  "version package commit st =
     (EXIT_SUCCESS, print_out (prg_name st @ ascii '' ('' @ package @ ascii '') '' @ commit @ [newline]) st)"

text \<open>
  The option loop: \<open>Inl\<close> of the sum when an option ends the program, with the exit status.
\<close>

fun main_opts ::
  "u8 list \<Rightarrow> u8 list \<Rightarrow> u8 list \<Rightarrow> opt list \<Rightarrow> 'a fas2sym_st_scheme
    \<Rightarrow> (int option \<times> 'a fas2sym_st_scheme) res" where
  "main_opts package commit argv0 [] st = Inr (None, st)"
| "main_opts package commit argv0 (e # es) st =
     (let stop = (\<lambda>(r, st). Inr (Some r, st))
      in case e of
        Opt c optarg \<Rightarrow>
          (if c = of_char (CHR ''h'') then stop (usage EXIT_SUCCESS st)
           else if c = of_char (CHR ''V'') then stop (version package commit st)
           else if c = of_char (CHR ''v'')
           then main_opts package commit argv0 es (st\<lparr>verbose := verbose st + 1\<rparr>)
           else if c = of_char (CHR ''o'')
           then main_opts package commit argv0 es (st\<lparr>outfile := optarg\<rparr>)
           else if c = of_char (CHR ''t'')
           then (if 44 \<notin> set optarg then stop (usage EXIT_FAILURE st)
                 else let b = takeWhile (\<lambda>x. x \<noteq> 44) optarg;
                          e = drop (length b + 1) optarg;
                          st = st\<lparr>text_begin := Some b, text_end := Some e\<rparr>
                      in rbind (msg_verbose 2 (Inr (ascii ''.text: '' @ b @ ascii '', '' @ e)) st)
                           (main_opts package commit argv0 es))
           else stop (usage EXIT_FAILURE st))
      | _ \<Rightarrow> stop (usage EXIT_FAILURE (print_err (getopt_message argv0 e) st)))"

definition cleanup :: "int \<Rightarrow> 'a fas2sym_st_scheme \<Rightarrow> int \<times> 'a fas2sym_st_scheme" where
  "cleanup status st = (status, fas_cleanup (elf_cleanup st))"

text \<open>From the operand to the exit status.\<close>

definition convert :: "u8 list \<Rightarrow> 'a fas2sym_st_scheme \<Rightarrow> (int \<times> 'a fas2sym_st_scheme) res" where
  "convert file st =
     rbind (fas_load_file file st) (\<lambda>(r, st).
       if r \<noteq> 0 then Inr (EXIT_FAILURE, st)
       else rbind (elf_init st) (\<lambda>(r, st).
         if r \<noteq> 0 then Inr (cleanup EXIT_FAILURE st)
         else rbind (fas_export_symbols st) (\<lambda>st.
           rbind (elf_write (outfile st) st) (\<lambda>(r, st).
             if r \<noteq> 0 then Inr (cleanup EXIT_FAILURE st)
             else Inr (cleanup EXIT_SUCCESS st)))))"

definition main ::
  "u8 list \<Rightarrow> u8 list \<Rightarrow> u8 list \<Rightarrow> u8 list list \<Rightarrow> 'a fas2sym_st_scheme
    \<Rightarrow> (int \<times> 'a fas2sym_st_scheme) res" where
  "main package commit argv0 args st =
     (let st = st\<lparr>prg_name := basename argv0\<rparr>;
          (es, operands) = getopts (ascii ''hvVo:t:'') [] args
      in rbind (main_opts package commit argv0 es st) (\<lambda>(r, st).
           case r of
             Some status \<Rightarrow> Inr (status, st)
           | None \<Rightarrow>
               (case operands of
                  [] \<Rightarrow> Inr (usage EXIT_FAILURE st)
                | file # _ \<Rightarrow> convert file st)))"

section \<open>The conversion\<close>

text \<open>The globals as the program starts.\<close>

definition fas2sym_fresh :: "'a fas2sym_st_scheme \<Rightarrow> bool" where
  "fas2sym_fresh st \<longleftrightarrow> elf_fresh st
     \<and> fas_strtab st = None \<and> fas_symtab st = None \<and> fas_psrc st = None"

definition range_of ::
  "u8 list option \<Rightarrow> u8 list option \<Rightarrow> (u8 list \<times> Elf32_Sym) list \<Rightarrow> (u32 \<times> u32) option" where
  "range_of tb te xs =
     (case (tb, te) of (Some b, Some e) \<Rightarrow> Some (find_text xs b e 0 0) | _ \<Rightarrow> None)"

lemma find_text_anon: "find_text (map anon xs) tb te b e = find_text xs tb te b e"
proof (induction xs arbitrary: b e)
  case (Cons x xs)
  then show ?case by (cases x) (simp add: anon_def Let_def)
qed simp

lemma text_range_view: "text_range st = range_of (text_begin st) (text_end st) (syms_view st)"
  by (simp add: text_range_def range_of_def syms_view_def find_text_anon split: option.split)

lemma mark_named_anon: "map anon (mark_named r xs) = mark_named r (map anon xs)"
  by (auto simp: mark_named_def anon_def mark_sym_def split: option.split)

text \<open>The size of the ELF file for a given list of symbols, at most.\<close>

definition out_size :: "u8 list \<Rightarrow> u8 list \<Rightarrow> u8 list \<Rightarrow> FAS_Sym list \<Rightarrow> nat" where
  "out_size ifnm strs src syms =
     sizeof_Ehdr + length shstrtab_initial + (3 + length ifnm + names_size strs src syms)
     + length (fas_image ifnm strs src syms) * sizeof_Sym + SEC_END * sizeof_Shdr"

text \<open>The first half of a conversion: with the file loaded and the tables initialised, exporting can begin.\<close>

lemma convert_loads:
  fixes st :: "'a fas2sym_st_scheme"
  assumes fresh: "fas2sym_fresh st" and good: "heap_good st"
    and f: "files st file = Some c" and ff: "fas_file c h strs src sbs"
  obtains s1 s2 :: "'a fas2sym_st_scheme" where "fas_load_file file st = Inr (0, s1)" and "elf_init s1 = Inr (0, s2)"
    and "export_inv s2" and "fas_loaded s2 strs src sbs" and "fas_hdr s2 = h"
    and "named_syms s2 = [([], null_sym)]" and "elf_strs s2 = [0, 0]"
    and "outfile s2 = outfile st" and "writable s2 = writable st" and "room s2 = room st" and "files s2 = files st"
    and "text_begin s2 = text_begin st" and "text_end s2 = text_end st"
proof -
  have init: "fas_strtab st = None" "fas_symtab st = None" "fas_psrc st = None" and ef: "elf_fresh st"
    using fresh by (simp_all add: fas2sym_fresh_def)
  obtain x p q r n where ld: "fas_load_file file st = Inr (0,
      st\<lparr>out := x, fas_hdr := h, fas_strtab := p, fas_symtab := q, fas_psrc := r, fas_sym_cnt := n\<rparr>)"
    and tabs: "table_is p strs" "table_is q sbs" "table_is r src"
      "unat n = length sbs div sizeof_FAS_Sym"
    using fas_load_file_ok [OF good f ff init] by blast
  let ?s1 = "st\<lparr>out := x, fas_hdr := h, fas_strtab := p, fas_symtab := q, fas_psrc := r, fas_sym_cnt := n\<rparr>"
  have ef1: "elf_fresh ?s1" and g1: "heap_good ?s1"
    using ef good by (simp_all add: elf_fresh_def heap_good_def)
  obtain b1 b2 b3 where ei: "elf_init ?s1
      = Inr (0, ?s1\<lparr>elf_shstrtab := b1, elf_strtab := b2, elf_symtab := b3\<rparr>)"
    and b: "buf_ok b1" "buf_bytes b1 = shstrtab_initial" "buf_ok b2" "buf_bytes b2 = strtab_initial"
      "buf_ok b3" "buf_bytes b3 = enc_sym null_sym"
    using elf_init_ok [OF ef1 g1] by blast
  let ?s2 = "?s1\<lparr>elf_shstrtab := b1, elf_strtab := b2, elf_symtab := b3\<rparr>"
  have e2: "elf_inv ?s2" "named_syms ?s2 = [([], null_sym)]"
    using elf_inv_initial [of ?s2] b ef by (simp_all add: elf_fresh_def)
  have strs2: "elf_strs ?s2 = [0, 0]" using b(4) by (simp add: elf_strs_def strtab_initial_def)
  have "elf_hdrs_ok ?s2"
    using ef by (auto simp: elf_hdrs_ok_def elf_fresh_def elf_shdrs_init_def elf_consts intro!: exI [of _ 0])
  then have "export_inv ?s2"
    using e2(1) g1 b(2) strs2 by (simp add: export_inv_def str_of_def cstr_at_def heap_good_def)
  moreover have "fas_loaded ?s2 strs src sbs" using tabs by (simp add: fas_loaded_def)
  ultimately show thesis using that [OF ld ei] e2(2) strs2 by simp
qed

text \<open>The second half: what \<open>elf_write\<close> makes of the exported symbols.\<close>

lemma convert_writes:
  fixes s3 :: "'a elf_st_scheme"
  assumes inv: "export_inv s3" and view: "syms_view s3 = I" and args: "text_args_ok s3" and w: "writable s3 file"
    and len: "length (elf_strs s3) \<le> k"
    and room: "sizeof_Ehdr + length shstrtab_initial + k + length I * sizeof_Sym + SEC_END * sizeof_Shdr \<le> room s3"
    and small: "sizeof_Ehdr + length shstrtab_initial + k + length I * sizeof_Sym + SEC_END * sizeof_Shdr < 2 ^ 32"
  obtains st' c' xs where "elf_write file s3 = Inr (0, st')" and "files st' = (files s3)(file \<mapsto> c')"
    and "read_symtab c' = Some xs" and "map anon xs = mark_named (range_of (text_begin s3) (text_end s3) I) I"
    and "read_section_names c' = Some (map Inr section_names)"
proof -
  have inv3: "elf_inv s3" "elf_hdrs_ok s3" "buf_bytes (elf_shstrtab s3) = shstrtab_initial"
    using inv by (simp_all add: export_inv_def)
  have "length (buf_bytes (elf_symtab s3)) = length I * sizeof_Sym"
    using inv3(1) arg_cong [OF view, of length] by (simp add: elf_inv_def syms_view_def length_named_syms)
  then have "elf_file_size s3 \<le> sizeof_Ehdr + length shstrtab_initial + k + length I * sizeof_Sym + SEC_END * sizeof_Shdr"
    using inv3(3) len by (simp add: elf_file_size_def elf_strs_def)
  then have sz: "elf_file_size s3 \<le> room s3" "elf_file_size s3 < 2 ^ 32" using room small by simp_all
  have "map anon (mark_named (text_range s3) (named_syms s3)) = mark_named (range_of (text_begin s3) (text_end s3) I) I"
    by (simp add: mark_named_anon text_range_view view) (simp add: syms_view_def [symmetric] view)
  then show thesis
    using elf_write_reads_back [OF inv3(1) args w inv3(2,3) sz] that by blast
qed

lemma convert_ok:
  fixes st :: "'a fas2sym_st_scheme"
  defines "T sbs \<equiv> decode_table sizeof_FAS_Sym dec_fsym sbs"
  assumes fresh: "fas2sym_fresh st" and good: "heap_good st"
    and f: "files st file = Some c" and ff: "fas_file c h strs src sbs"
    and ifnm: "cstr_at (map Some strs) (unat (ifnm_off h)) = Inr ifnm"
    and names: "\<forall>s \<in> set (T sbs). fas_exported s \<longrightarrow> (\<exists>t. fas_name strs src (name_off s) = Inr t)"
    and w: "writable st (outfile st)" and args: "text_args_ok st"
    and room: "out_size ifnm strs src (T sbs) \<le> room st"
    and small: "out_size ifnm strs src (T sbs) < 2 ^ 32"
  shows "\<exists>st' c' xs. convert file st = Inr (EXIT_SUCCESS, st')
    \<and> files st' = (files st)(outfile st \<mapsto> c') \<and> read_symtab c' = Some xs
    \<and> map anon xs = mark_named (range_of (text_begin st) (text_end st) (fas_image ifnm strs src (T sbs)))
        (fas_image ifnm strs src (T sbs))
    \<and> read_section_names c' = Some (map Inr section_names)"
proof -
  let ?I = "fas_image ifnm strs src (T sbs)" and ?k = "3 + length ifnm + names_size strs src (T sbs)"
  obtain s1 s2 :: "'a fas2sym_st_scheme" where ld: "fas_load_file file st = Inr (0, s1)" and ei: "elf_init s1 = Inr (0, s2)"
    and inv2: "export_inv s2" and load2: "fas_loaded s2 strs src sbs" and h2: "fas_hdr s2 = h"
    and n2: "named_syms s2 = [([], null_sym)]" and strs2: "elf_strs s2 = [0, 0]"
    and v2: "outfile s2 = outfile st" "writable s2 = writable st" "room s2 = room st" "files s2 = files st"
      "text_begin s2 = text_begin st" "text_end s2 = text_end st"
    using convert_loads [OF fresh good f ff] .
  have ifnm2: "cstr_at (map Some strs) (unat (ifnm_off (fas_hdr s2))) = Inr ifnm" using ifnm h2 by simp
  have r2: "length (elf_strs s2) + length ifnm + 1 + names_size strs src (T sbs) < 2 ^ 32"
    using small strs2 by (simp add: out_size_def)
  have "length (T sbs) < 2 ^ 32"
    using ff table_at_length [of c "symtab_off h" "symtab_len h" sbs] unsigned_less [of "symtab_len h", where 'a = nat]
    by (simp add: fas_file_def T_def sizeof_FAS_Sym_def)
  then have "length (elf_syms s2) + 1 + length (T sbs) < 2 ^ 57"
    using length_named_syms [of s2] n2 by simp
  then obtain s3 :: "'a fas2sym_st_scheme" where ex: "fas_export_symbols s2 = Inr s3"
    and s3: "export_inv s3" "extends s2 s3"
      "length (elf_strs s3) \<le> length (elf_strs s2) + length ifnm + 1 + names_size strs src (T sbs)"
      "syms_view s3 = syms_view s2 @ file_sym ifnm # map (obj_sym strs src) (filter fas_exported (T sbs))"
    using fas_export_symbols_ok [OF inv2 load2 ifnm2] names r2 unfolding T_def by blast
  have view3: "syms_view s3 = ?I"
    using s3(4) n2 by (simp add: syms_view_def fas_image_def anon_def null_sym_def)
  have v3: "outfile s3 = outfile st" "writable s3 = writable st" "room s3 = room st"
    "files s3 = files st" "text_begin s3 = text_begin st" "text_end s3 = text_end st"
    using s3(2) v2 by (auto simp: extends_def)
  have s3': "text_args_ok s3" "writable s3 (outfile st)" "length (elf_strs s3) \<le> ?k"
    using args w s3(3) strs2 v3 by (simp_all add: text_args_ok_def)
  obtain st' c' xs where wr: "elf_write (outfile st) s3 = Inr (0, st')"
    and f': "files st' = (files s3)(outfile st \<mapsto> c')" and rd: "read_symtab c' = Some xs"
      "map anon xs = mark_named (range_of (text_begin s3) (text_end s3) ?I) ?I"
      "read_section_names c' = Some (map Inr section_names)"
    using convert_writes [OF s3(1) view3 s3'] room small unfolding v3(3) out_size_def by blast
  have "convert file st = Inr (EXIT_SUCCESS, fas_cleanup (elf_cleanup st'))"
    using ld ei ex wr v3(1) by (simp add: convert_def cleanup_def)
  moreover have "files (fas_cleanup (elf_cleanup st')) = (files st)(outfile st \<mapsto> c')"
    using f' v3(4) by (simp add: fas_cleanup_def elf_cleanup_def)
  ultimately show ?thesis using rd unfolding v3(5,6) by blast
qed

end
