(* ===== verification/Samples.thy ===== *)
theory Samples
  imports Fas2sym
begin

text \<open>
  Concrete states of \<open>fas2sym\<close> on which the properties are instantiated: the program as it
  starts on a host with memory and room, the state after \<open>elf_init\<close>, and a small FAS file with
  a defined label, an undefined one, and one whose name lies in the preprocessed source.
\<close>

definition start_state :: fas2sym_st where
  "start_state =
     \<lparr>heap_ok = \<lambda>_. True, files = \<lambda>_. None, writable = \<lambda>_. True, room = 10000, out = [], err = [],
      errtext = ascii ''error'', prg_name = ascii ''fas2sym'', verbose = 0,
      text_begin = None, text_end = None, elf_ehdr = elf_ehdr_init, elf_shdrs = elf_shdrs_init,
      elf_shstrtab = empty_buffer, elf_strtab = empty_buffer, elf_symtab = empty_buffer,
      fas_hdr = dec_fhdr (replicate 64 0), fas_strtab = None, fas_symtab = None, fas_psrc = None,
      fas_sym_cnt = 0, outfile = ascii ''out.sym''\<rparr>"

definition full_buffer :: "u8 list \<Rightarrow> nat \<Rightarrow> buffer" where
  "full_buffer xs n = \<lparr>cap = of_nat (length xs + n), cnt = of_nat (length xs),
     data = Some (map Some xs @ replicate n None)\<rparr>"

definition init_state :: fas2sym_st where
  "init_state = start_state\<lparr>elf_shstrtab := full_buffer shstrtab_initial 30,
     elf_strtab := full_buffer strtab_initial 30, elf_symtab := full_buffer (enc_sym null_sym) 16\<rparr>"

lemma full_buffer_ok:
  assumes "length xs + n < 2 ^ 63"
  shows "buf_ok (full_buffer xs n)" and "buf_bytes (full_buffer xs n) = xs"
proof -
  have "unat (of_nat (length xs + n) :: u64) = length xs + n"
    "unat (of_nat (length xs) :: u64) = length xs"
    using assms by (auto simp: unat_of_nat simp del: of_nat_add)
  then show "buf_ok (full_buffer xs n)" and "buf_bytes (full_buffer xs n) = xs"
    using buf_ok_intro [of "full_buffer xs n" xs "replicate n None"] assms
    by (auto simp: full_buffer_def simp del: of_nat_add)
qed

lemma start_state_ok: "fas2sym_fresh start_state" "elf_fresh start_state" "heap_good start_state"
  "text_args_ok start_state"
  by (simp_all add: fas2sym_fresh_def elf_fresh_def start_state_def heap_good_def text_args_ok_def)

lemma init_state_ok:
  "elf_inv init_state" "named_syms init_state = [([], null_sym)]" "heap_good init_state"
  "text_args_ok init_state" "elf_hdrs_ok init_state" "elf_file_size init_state = 304"
  "buf_bytes (elf_shstrtab init_state) = shstrtab_initial" "elf_strs init_state = [0, 0]"
  "writable init_state f" "room init_state = 10000" "export_inv init_state"
proof -
  have l: "length (enc_sym null_sym) = 16" using sym.enc_length [of null_sym] by (simp add: sizeof_Sym_def)
  have v: "elf_shdrs init_state = elf_shdrs_init" "elf_ehdr init_state = elf_ehdr_init"
    "elf_shstrtab init_state = full_buffer shstrtab_initial 30"
    "elf_strtab init_state = full_buffer strtab_initial 30"
    "elf_symtab init_state = full_buffer (enc_sym null_sym) 16"
    by (simp_all add: init_state_def start_state_def)
  have b: "buf_ok (elf_shstrtab init_state)" "buf_bytes (elf_shstrtab init_state) = shstrtab_initial"
    "buf_ok (elf_strtab init_state)" "buf_bytes (elf_strtab init_state) = strtab_initial"
    "buf_ok (elf_symtab init_state)" "buf_bytes (elf_symtab init_state) = enc_sym null_sym"
    unfolding v by (rule full_buffer_ok; simp add: shstrtab_initial_def strtab_initial_def l)+
  show e: "elf_inv init_state" "named_syms init_state = [([], null_sym)]"
    using elf_inv_initial [OF v(1) b(1,3,4,5,6)] by simp_all
  show g: "heap_good init_state" "text_args_ok init_state" "writable init_state f" "room init_state = 10000"
    by (simp_all add: init_state_def start_state_def heap_good_def text_args_ok_def)
  show h: "elf_hdrs_ok init_state"
    using v by (auto simp: elf_hdrs_ok_def elf_shdrs_init_def elf_consts intro!: exI [of _ 0])
  show "elf_file_size init_state = 304"
    by (simp add: elf_file_size_def b l shstrtab_initial_def strtab_initial_def sizeof_Ehdr_def
        sizeof_Shdr_def elf_consts)
  show "buf_bytes (elf_shstrtab init_state) = shstrtab_initial" by (rule b(2))
  show s: "elf_strs init_state = [0, 0]" using b(4) by (simp add: elf_strs_def strtab_initial_def)
  show "export_inv init_state"
    using e g h b(2) s by (simp add: export_inv_def str_of_def cstr_at_def)
qed

section \<open>A FAS file\<close>

definition sample_strs :: "u8 list" where
  "sample_strs = ascii ''a.asm'' @ [0] @ ascii ''start'' @ [0]"

definition sample_src :: "u8 list" where
  "sample_src = [0, 3] @ ascii ''end'' @ [0]"

definition sample_sym :: "u64 \<Rightarrow> u16 \<Rightarrow> u32 \<Rightarrow> FAS_Sym" where
  "sample_sym v fl nm = \<lparr>sym_value = v, sym_flags = fl, sym_size = 4, sym_type = 0, ext_SIB = 0,
     pass_ldef = 0, pass_lused = 0, sym_reloc = 0, name_off = nm, psrc_line_off = 0\<rparr>"

definition sample_syms :: "FAS_Sym list" where
  "sample_syms = [sample_sym 0x1000 1 0x80000006, sample_sym 0x1800 0 0x80000006, sample_sym 0x2000 9 1]"

definition sample_hdr :: FAS_Hdr where
  "sample_hdr = \<lparr>magic = FAS_MAGIC, ver_major = 1, ver_minor = 73, hdr_length = 64, ifnm_off = 0,
     ofnm_off = 0, strtab_off = 64, strtab_len = 12, symtab_off = 76, symtab_len = 96,
     psrc_off = 172, psrc_len = 6, asmdmp_off = 0, asmdmp_len = 0, sectab_off = 0, sectab_len = 0,
     symref_off = 0, symref_len = 0\<rparr>"

definition sample_file :: "u8 list" where
  "sample_file = enc_fhdr sample_hdr @ sample_strs @ concat (map enc_fsym sample_syms) @ sample_src"

definition sample_state :: fas2sym_st where
  "sample_state = start_state\<lparr>files := [ascii ''a.fas'' \<mapsto> sample_file]\<rparr>"

lemma sample_file_ok:
  "fas_file sample_file sample_hdr sample_strs sample_src (concat (map enc_fsym sample_syms))"
proof -
  have l: "length (enc_fhdr sample_hdr) = 64" "length sample_strs = 12"
    "length (concat (map enc_fsym sample_syms)) = 96" "length sample_src = 6"
    using fhdr.enc_length [of sample_hdr] fsym.concat_length [of sample_syms]
    by (simp_all add: sizeof_FAS_Hdr_def sizeof_FAS_Sym_def sample_syms_def sample_strs_def sample_src_def)
  have "table_at sample_file 64 12 sample_strs"
    "table_at sample_file 76 96 (concat (map enc_fsym sample_syms))"
    "table_at sample_file 172 6 sample_src"
    using l slice_mid [of 64 "enc_fhdr sample_hdr" 12 sample_strs]
      slice_mid [of 76 "enc_fhdr sample_hdr @ sample_strs" 96 "concat (map enc_fsym sample_syms)" sample_src]
      slice_mid [of 172 "enc_fhdr sample_hdr @ sample_strs @ concat (map enc_fsym sample_syms)" 6 sample_src "[]"]
    by (simp_all add: table_at_def sample_file_def)
  then show ?thesis
    using l fhdr.dec_enc [of sample_hdr]
    by (simp add: fas_file_def sizeof_FAS_Hdr_def sample_file_def) (simp add: sample_hdr_def)
qed

lemma sample_table:
  "decode_table sizeof_FAS_Sym dec_fsym (concat (map enc_fsym sample_syms)) = sample_syms"
  by (rule fsym.table_concat)

lemma sample_names:
  "\<forall>s \<in> set sample_syms. fas_exported s \<longrightarrow> (\<exists>t. fas_name sample_strs sample_src (name_off s) = Inr t)"
  "names_size sample_strs sample_src sample_syms = 10"
  "filter fas_exported sample_syms = [sample_sym 0x1000 1 0x80000006, sample_sym 0x2000 9 1]"
  "cstr_at (map Some sample_strs) 0 = Inr (ascii ''a.asm'')"
  by (simp_all add: sample_syms_def sample_sym_def fas_exported_def FAS_SYM_DEF_def FAS_SYM_ASM_TIME_def
      fas_name_def name_in_strtab_def sample_strs_def sample_src_def pascal_def cstr_at_def names_size_def)

lemma sample_state_ok:
  "fas2sym_fresh sample_state" "heap_good sample_state" "text_args_ok sample_state"
  "files sample_state (ascii ''a.fas'') = Some sample_file" "writable sample_state f"
  "room sample_state = 10000"
  using start_state_ok
  by (simp_all add: fas2sym_fresh_def elf_fresh_def sample_state_def start_state_def heap_good_def text_args_ok_def)

lemma sample_size: "out_size (ascii ''a.asm'') sample_strs sample_src sample_syms = 368"
  by (simp add: out_size_def sample_names fas_image_def sizeof_Ehdr_def sizeof_Sym_def sizeof_Shdr_def
      elf_consts shstrtab_initial_def)

end
