(* ===== verification/Fas2symProps.thy ===== *)
theory Fas2symProps
  imports Samples
begin

text \<open>
  The properties of the parts of \<open>fas2sym\<close>: the byte buffer, the ELF tables and their file,
  and the FAS reader, each with an instance on a concrete state.
\<close>

section \<open>The byte buffer\<close>

text \<open>C10: on any host \<open>buffer_put\<close> returns; the bytes are appended, or an allocation failed, the
  call returned \<open>- 1\<close> and the buffer's block is gone.\<close>

theorem buffer_put_outcome:
  fixes st :: "'a msg_st_scheme"
  assumes "buf_ok b" and "0 < unat n" and "unat (cnt b) + unat n < 2 ^ 64" and "unat n \<le> length xs"
  shows "\<exists>r b' (st' :: 'a msg_st_scheme). buffer_put b xs n index st = Inr (r, if index then Some (cnt b) else None, b', st')
    \<and> (r = 0 \<and> buf_ok b' \<and> buf_bytes b' = buf_bytes b @ take (unat n) xs \<or> r = - 1 \<and> data b' = None)"
  by (rule buffer_put_total [OF assms])

theorem buffer_put_outcome_instance:
  "\<exists>r b' (st' :: fas2sym_st). buffer_put empty_buffer [1, 2, 3] 2 True start_state = Inr (r, Some 0, b', st')
    \<and> (r = 0 \<and> buf_ok b' \<and> buf_bytes b' = [1, 2] \<or> r = - 1 \<and> data b' = None)"
proof -
  have "cnt empty_buffer = 0" by (simp add: empty_buffer_def)
  then show ?thesis
    using buffer_put_outcome [of empty_buffer 2 "[1, 2, 3]" True start_state] by simp
qed

text \<open>When the host's allocations succeed, \<open>buffer_put\<close> appends exactly the bytes asked for,
  keeps the representation invariant and reports the offset of the first of them.\<close>

lemma buffer_put_appends:
  fixes st :: "'a msg_st_scheme"
  assumes "heap_good st" and "buf_ok b" and "0 < unat n" and "unat (cnt b) + unat n \<le> 2 ^ 62"
    and "unat n \<le> length xs"
  shows "\<exists>b'. buffer_put b xs n True st = Inr (0, Some (of_nat (length (buf_bytes b))), b', st)
    \<and> buf_ok b' \<and> buf_bytes b' = buf_bytes b @ take (unat n) xs"
  using buffer_put_good [OF assms, of True] length_buf_bytes [OF assms(2)] by simp

text \<open>A put that failed leaves a buffer whose capacity was raised but whose block is gone, so
  the next put that fits this capacity writes through a null pointer.\<close>

lemma buffer_put_after_failure:
  fixes st :: "'a msg_st_scheme" and st2 :: "'b msg_st_scheme"
  assumes "buf_ok b" and "buffer_put b xs n index st = Inr (- 1, i, b', st')"
    and "cnt b' + m \<le> cap b'"
  shows "buffer_put b' ys m index' st2 = Inl NullDeref"
proof -
  obtain r b1 st1 where gr: "buffer_grow b (cnt b + n) st = Inr (r, b1, st1)"
    and g: "grown b (cnt b + n) r b1"
    using buffer_grow_total [OF assms(1)] by blast
  have "data b' = None"
    using assms(2) gr g
    by (auto simp: buffer_put_def Let_def grown_def rbind_Inr_iff split: if_splits)
  moreover have "\<not> cap b' < cnt b' + m" using assms(3) by simp
  then have "buffer_grow b' (cnt b' + m) st2 = Inr (0, b', st2)"
    by (subst buffer_grow_step) simp
  ultimately show ?thesis by (simp add: buffer_put_def)
qed

section \<open>The ELF tables\<close>

text \<open>\<open>elf_init\<close> on the fresh globals succeeds when memory suffices, establishes the invariant of
  the tables, and the symbol table is the null symbol.\<close>

lemma elf_init_establishes:
  fixes st :: "'a elf_st_scheme"
  assumes "elf_fresh st" and "heap_good st"
  shows "\<exists>st'. elf_init st = Inr (0, st') \<and> elf_inv st' \<and> elf_hdrs_ok st'
    \<and> named_syms st' = [([], null_sym)] \<and> buf_bytes (elf_shstrtab st') = shstrtab_initial"
proof -
  obtain b1 b2 b3 where i: "elf_init st = Inr (0, st\<lparr>elf_shstrtab := b1, elf_strtab := b2, elf_symtab := b3\<rparr>)"
    and b: "buf_ok b1" "buf_bytes b1 = shstrtab_initial" "buf_ok b2" "buf_bytes b2 = strtab_initial"
      "buf_ok b3" "buf_bytes b3 = enc_sym null_sym"
    using elf_init_ok [OF assms] by blast
  let ?s = "st\<lparr>elf_shstrtab := b1, elf_strtab := b2, elf_symtab := b3\<rparr>"
  have "elf_inv ?s" "named_syms ?s = [([], null_sym)]"
    using elf_inv_initial [of ?s] b assms(1) by (simp_all add: elf_fresh_def)
  moreover have "elf_hdrs_ok ?s"
    using assms(1) by (auto simp: elf_hdrs_ok_def elf_fresh_def elf_shdrs_init_def elf_consts
        intro!: exI [of _ 0])
  ultimately show ?thesis using i b(2) by (intro exI [of _ ?s]) simp
qed

text \<open>C8: \<open>elf_add_symbol\<close> keeps the invariant and appends one symbol, with the name its offset stands
  for, behind the symbols already there; the strings stay.\<close>

theorem elf_add_symbol_appends:
  fixes st :: "'a elf_st_scheme"
  assumes "heap_good st" and "elf_inv st" and "str_of (elf_strs st) off = Inr t"
    and "length (elf_syms st) < 2 ^ 57"
  shows "\<exists>st'. elf_add_symbol off value sz info sect st = Inr (0, st') \<and> elf_inv st'
    \<and> named_syms st' = named_syms st @ [(t, \<lparr>st_name = off, st_value = value, st_size = sz,
         st_info = info, st_other = 0, st_shndx = sect\<rparr>)]
    \<and> elf_strs st' = elf_strs st"
  using elf_add_symbol_spec [OF assms] unfolding new_sym_def by metis

theorem elf_add_symbol_appends_instance:
  "\<exists>st'. elf_add_symbol 0 16 4 1 2 init_state = Inr (0, st') \<and> elf_inv st'
    \<and> named_syms st' = [([], null_sym), ([], \<lparr>st_name = 0, st_value = 16, st_size = 4,
         st_info = 1, st_other = 0, st_shndx = 2\<rparr>)]
    \<and> elf_strs st' = [0, 0]"
  using elf_add_symbol_appends [of init_state 0 "[]" 16 4 1 2] init_state_ok
    length_named_syms [of init_state]
  by (simp add: str_of_def cstr_at_def)

text \<open>C9: \<open>elf_add_str\<close> makes the string readable at the offset it returns; every symbol and every
  string added before stays what it was.\<close>

theorem elf_add_str_interns:
  fixes st :: "'a elf_st_scheme"
  assumes "heap_good st" and "elf_inv st" and "0 \<notin> set t"
    and "length (elf_strs st) + length t + 1 < 2 ^ 32"
  shows "\<exists>st' idx. elf_add_str (t @ [0]) (of_nat (length t + 1)) st = Inr (0, idx, st') \<and> elf_inv st'
    \<and> named_syms st' = named_syms st \<and> str_of (elf_strs st') (ucast idx) = Inr t
    \<and> (\<forall>off u. str_of (elf_strs st) off = Inr u \<longrightarrow> str_of (elf_strs st') off = Inr u)"
proof -
  obtain b where add: "elf_add_str (t @ [0]) (of_nat (length t + 1)) st
      = Inr (0, of_nat (length (elf_strs st)), st\<lparr>elf_strtab := b\<rparr>)"
    and inv: "elf_inv (st\<lparr>elf_strtab := b\<rparr>)" "named_syms (st\<lparr>elf_strtab := b\<rparr>) = named_syms st"
    and "buf_bytes b = elf_strs st @ t @ [0]"
    and str: "str_of (buf_bytes b) (ucast (of_nat (length (elf_strs st)) :: u64)) = Inr t"
    and keep: "\<forall>off u. str_of (elf_strs st) off = Inr u \<longrightarrow> str_of (buf_bytes b) off = Inr u"
    using elf_add_str_spec [OF assms] by blast
  have "\<forall>off u. str_of (elf_strs st) off = Inr u \<longrightarrow> str_of (elf_strs (st\<lparr>elf_strtab := b\<rparr>)) off = Inr u"
    unfolding elf_strs_upd using keep by blast
  moreover have "str_of (elf_strs (st\<lparr>elf_strtab := b\<rparr>)) (ucast (of_nat (length (elf_strs st)) :: u64)) = Inr t"
    unfolding elf_strs_upd by (rule str)
  ultimately show ?thesis using add inv by blast
qed

theorem elf_add_str_interns_instance:
  "\<exists>st' idx. elf_add_str (ascii ''main'' @ [0]) 5 init_state = Inr (0, idx, st') \<and> elf_inv st'
    \<and> named_syms st' = [([], null_sym)] \<and> str_of (elf_strs st') (ucast idx) = Inr (ascii ''main'')
    \<and> (\<forall>off u. str_of [0, 0] off = Inr u \<longrightarrow> str_of (elf_strs st') off = Inr u)"
  using elf_add_str_interns [of init_state "ascii ''main''"] init_state_ok by simp

section \<open>Resolving and writing\<close>



text \<open>When neither name given with \<open>-t\<close> is a symbol, the range is taken to be the address 0, and
  every symbol with the value 0, the null symbol included, ends up in \<open>.text\<close>.\<close>

lemma find_text_absent:
  "\<forall>x \<in> set xs. fst x \<noteq> tb \<and> fst x \<noteq> te \<Longrightarrow> find_text xs tb te 0 0 = (0, 0)"
proof (induction xs)
  case (Cons x xs)
  then show ?case by (cases x) simp
qed simp

lemma unresolved_text_marks_zero:
  fixes st :: "'a elf_st_scheme"
  assumes "elf_inv st" and "text_args_ok st" and "text_begin st = Some tb" and "text_end st = Some te"
    and "\<forall>x \<in> set (named_syms st). fst x \<noteq> tb \<and> fst x \<noteq> te"
    and "named_syms st = ([], null_sym) # rest"
  shows "\<exists>st' rest'. elf_resolve_symbols st = Inr st'
    \<and> named_syms st' = ([], null_sym\<lparr>st_shndx := of_nat SEC_TEXT\<rparr>) # rest'"
proof -
  have "text_range st = Some (0, 0)"
    using find_text_absent [OF assms(5)] assms(3,4) by (simp add: text_range_def)
  then show ?thesis
    using elf_resolve_spec [OF assms(1,2)] assms(6)
    by (auto simp: mark_named_def mark_sym_def null_sym_def)
qed

text \<open>C7: from \<open>elf_init\<close> on, whatever strings and symbols are added in whatever order and however often the
  text range is resolved, the tables keep their invariant, and each of these calls succeeds as long
  as the 32-bit offsets and the memory last.\<close>

theorem elf_tables_sound:
  fixes s0 :: "'a elf_st_scheme"
  assumes "elf_reach s0 st" and "elf_fresh s0" and "heap_good s0" and "text_args_ok s0"
  shows "elf_inv st
    \<and> (\<forall>t. 0 \<notin> set t \<and> length (elf_strs st) + length t + 1 < 2 ^ 32 \<longrightarrow>
        (\<exists>idx st'. elf_add_str (t @ [0]) (of_nat (length t + 1)) st = Inr (0, idx, st')))
    \<and> (\<forall>off t v sz info sect. str_of (elf_strs st) off = Inr t \<and> length (elf_syms st) < 2 ^ 57 \<longrightarrow>
        (\<exists>st'. elf_add_symbol off v sz info sect st = Inr (0, st')))
    \<and> (\<exists>st'. elf_resolve_symbols st = Inr st')"
proof -
  have ok: "heap_good st" "elf_inv st" "text_args_ok st"
    using tables_ok_reach [OF assms] by (simp_all add: tables_ok_def)
  have "\<exists>idx st'. elf_add_str (t @ [0]) (of_nat (length t + 1)) st = Inr (0, idx, st')"
    if "0 \<notin> set t" "length (elf_strs st) + length t + 1 < 2 ^ 32" for t
    by (rule elf_add_str_spec [OF ok(1,2) that]) blast
  moreover have "\<exists>st'. elf_add_symbol off v sz info sect st = Inr (0, st')"
    if "str_of (elf_strs st) off = Inr t" "length (elf_syms st) < 2 ^ 57" for off t v sz info sect
    by (rule elf_add_symbol_spec [OF ok(1,2) that]) blast
  moreover have "\<exists>st'. elf_resolve_symbols st = Inr st'"
    using elf_resolve_spec [OF ok(2,3)] by blast
  ultimately show ?thesis using ok(2) by blast
qed

theorem elf_tables_sound_instance:
  "\<exists>st. elf_reach start_state st \<and> elf_inv st \<and> (\<exists>st'. elf_add_symbol 0 1 2 3 4 st = Inr (0, st'))"
proof -
  obtain st where i: "elf_init start_state = Inr (0, st)" and n: "named_syms st = [([], null_sym)]" "elf_inv st"
    using elf_init_establishes [OF start_state_ok(2,3)] by blast
  have "elf_syms st = [null_sym]" using n(1) by (auto simp: named_syms_def map_eq_Cons_conv)
  then have nm: "str_of (elf_strs st) 0 = Inr (name_of (elf_strs st) null_sym)"
    using elf_inv_str [OF n(2), of null_sym] by (simp add: null_sym_def)
  have "length (elf_syms st) < 2 ^ 57" using \<open>elf_syms st = [null_sym]\<close> by simp
  then show ?thesis
    using elf_tables_sound [OF reach_init [OF i] start_state_ok(2,3,4)] nm reach_init [OF i] by blast
qed

text \<open>C4: the file \<open>elf_write\<close> leaves behind, read by a reader that follows the headers, has the five
  sections with their names, and its symbol table lists every symbol with its name in order, the
  text symbols marked; no other file changes.\<close>

theorem elf_write_readable:
  fixes st :: "'a elf_st_scheme"
  assumes "elf_inv st" and "text_args_ok st" and "writable st file" and "elf_hdrs_ok st"
    and "buf_bytes (elf_shstrtab st) = shstrtab_initial"
    and "elf_file_size st \<le> room st" and "elf_file_size st < 2 ^ 32"
  shows "\<exists>st' c. elf_write file st = Inr (0, st') \<and> files st' = (files st)(file \<mapsto> c)
    \<and> length c = elf_file_size st
    \<and> read_symtab c = Some (mark_named (text_range st) (named_syms st))
    \<and> read_section_names c = Some (map Inr section_names)"
  by (rule elf_write_reads_back [OF assms])

theorem elf_write_readable_instance:
  "\<exists>st' c. elf_write (ascii ''o'') init_state = Inr (0, st')
    \<and> files st' = (files init_state)(ascii ''o'' \<mapsto> c) \<and> length c = 304
    \<and> read_symtab c = Some (mark_named (text_range init_state) [([], null_sym)])
    \<and> read_section_names c = Some (map Inr section_names)"
  using elf_write_readable [of init_state "ascii ''o''"] init_state_ok by simp



section \<open>The FAS reader\<close>

text \<open>C13: the array of 256 bytes is enough for every length-prefixed name: \<open>pstr2cstr\<close> never writes
  outside it, and the name it yields is the counted string up to its first NUL; it reads outside
  the preprocessed source exactly when the counted string does.\<close>

theorem pstr2cstr_reads_name:
  "rbind (pstr2cstr (replicate 256 (Some 0)) (Some (map Some src)) i) cstr = pascal src i"
  by (rule pstr2cstr_pascal)

text \<open>C11: the only ways \<open>fas_load_file\<close> leaves defined behaviour are its diagnostics: the name of a
  missing file used as a format, and the message for a wrong magic number, which lacks an argument.
  Whatever the header says about the tables, loading them is safe.\<close>

theorem fas_load_file_faults:
  fixes st :: "'a fas_st_scheme"
  shows "fas_load_file file st = Inl e \<longleftrightarrow> e = BadFormat \<and>
    (case files st file of
       None \<Rightarrow> format0 file = Inl BadFormat
     | Some c \<Rightarrow> sizeof_FAS_Hdr \<le> length c \<and> magic (dec_fhdr (take sizeof_FAS_Hdr c)) \<noteq> FAS_MAGIC)"
  by (rule fas_load_file_fault_iff)

text \<open>C12: a FAS file whose tables lie inside it loads: the three tables hold the bytes the header points
  to, the symbol count is the number of entries, and nothing of the ELF tables changes.\<close>

theorem fas_load_file_loads:
  fixes st :: "'a fas_st_scheme"
  assumes "heap_good st" and "files st file = Some c" and "fas_file c h strs src sbs"
    and "fas_strtab st = None" and "fas_symtab st = None" and "fas_psrc st = None"
  shows "\<exists>st'. fas_load_file file st = Inr (0, st') \<and> fas_hdr st' = h \<and> fas_loaded st' strs src sbs
    \<and> files st' = files st \<and> elf_symtab st' = elf_symtab st \<and> elf_strtab st' = elf_strtab st"
proof -
  obtain x p q r n where ld: "fas_load_file file st = Inr (0,
      st\<lparr>out := x, fas_hdr := h, fas_strtab := p, fas_symtab := q, fas_psrc := r, fas_sym_cnt := n\<rparr>)"
    and t: "table_is p strs" "table_is q sbs" "table_is r src" "unat n = length sbs div sizeof_FAS_Sym"
    using fas_load_file_ok [OF assms] by blast
  then show ?thesis
    unfolding ld by (simp add: fas_loaded_def)
qed

theorem fas_load_file_loads_instance:
  "\<exists>st'. fas_load_file (ascii ''a.fas'') sample_state = Inr (0, st') \<and> fas_hdr st' = sample_hdr
    \<and> fas_loaded st' sample_strs sample_src (concat (map enc_fsym sample_syms))
    \<and> files st' = files sample_state \<and> elf_symtab st' = elf_symtab sample_state
    \<and> elf_strtab st' = elf_strtab sample_state"
  using fas_load_file_loads [OF sample_state_ok(2,4) sample_file_ok] sample_state_ok(1)
  by (simp add: fas2sym_fresh_def)

text \<open>C5: \<open>fas_export_symbols\<close> adds one symbol for the input file and then one for every defined symbol that
  is not an assembly-time constant, in the order of the FAS table, each with its name, value and
  size; the others are left out.\<close>

theorem fas_export_symbols_exports:
  fixes st :: "'a fas_st_scheme"
  assumes "export_inv st" and "fas_loaded st strs src sbs"
    and "decode_table sizeof_FAS_Sym dec_fsym sbs = syms"
    and "cstr_at (map Some strs) (unat (ifnm_off (fas_hdr st))) = Inr ifnm"
    and "\<forall>s \<in> set syms. fas_exported s \<longrightarrow> (\<exists>t. fas_name strs src (name_off s) = Inr t)"
    and "length (elf_strs st) + length ifnm + 1 + names_size strs src syms < 2 ^ 32"
    and "length (elf_syms st) + 1 + length syms < 2 ^ 57"
  shows "\<exists>st'. fas_export_symbols st = Inr st' \<and> elf_inv st'
    \<and> syms_view st' = syms_view st @ file_sym ifnm # map (obj_sym strs src) (filter fas_exported syms)"
  using fas_export_symbols_ok [OF assms(1,2,4)] assms(5-) unfolding assms(3) export_inv_def by blast

theorem fas_export_symbols_exports_instance:
  "\<exists>st'. fas_export_symbols (init_state\<lparr>fas_hdr := sample_hdr, fas_strtab := Some (map Some sample_strs),
      fas_symtab := Some (map Some (concat (map enc_fsym sample_syms))),
      fas_psrc := Some (map Some sample_src), fas_sym_cnt := 3\<rparr>) = Inr st' \<and> elf_inv st'
    \<and> syms_view st' = [([], null_sym), file_sym (ascii ''a.asm''),
        obj_sym sample_strs sample_src (sample_sym 0x1000 1 0x80000006),
        obj_sym sample_strs sample_src (sample_sym 0x2000 9 1)]"
proof -
  let ?st = "init_state\<lparr>fas_hdr := sample_hdr, fas_strtab := Some (map Some sample_strs),
      fas_symtab := Some (map Some (concat (map enc_fsym sample_syms))),
      fas_psrc := Some (map Some sample_src), fas_sym_cnt := 3\<rparr>"
  have v: "elf_syms ?st = elf_syms init_state" "elf_strs ?st = elf_strs init_state"
    "heap_good ?st = heap_good init_state" "elf_hdrs_ok ?st = elf_hdrs_ok init_state"
    by (simp_all add: elf_syms_def elf_strs_def heap_good_def elf_hdrs_ok_def)
  then have i: "export_inv ?st" "named_syms ?st = named_syms init_state"
    using init_state_ok(11) by (simp_all add: export_inv_def elf_inv_def named_syms_def)
  have "fas_loaded ?st sample_strs sample_src (concat (map enc_fsym sample_syms))"
    using fsym.concat_length [of sample_syms]
    by (simp add: fas_loaded_def table_is_def sizeof_FAS_Sym_def) (simp add: sample_syms_def)
  moreover have "cstr_at (map Some sample_strs) (unat (ifnm_off (fas_hdr ?st))) = Inr (ascii ''a.asm'')"
    using sample_names(4) by (simp add: sample_hdr_def)
  moreover have "length (elf_strs ?st) = 2" "length (elf_syms ?st) = 1"
    using init_state_ok(8) length_named_syms [of ?st] i(2) init_state_ok(2) v by simp_all
  moreover have "syms_view ?st = [([], null_sym)]"
    using i(2) init_state_ok(2) by (simp add: syms_view_def anon_def null_sym_def)
  ultimately show ?thesis
    using fas_export_symbols_exports [OF i(1) _ sample_table _ sample_names(1)] sample_names(2,3)
    by (simp add: sample_syms_def)
qed

end
