(* ===== verification/Device.thy ===== *)
theory Device
  imports CLib
begin

text \<open>
  The block device of \<open>fdisk\<close> (\<open>src/sbin/fdisk/fildev.c\<close>, \<open>src/sbin/fdisk/fdisk/device.h\<close>): a disk
  image read and written by sectors through one static stdio stream.  The stream pointer is
  null, open, or dangling after an \<open>fclose\<close> that did not reset it; using a null or a dangling
  stream leaves defined behaviour.  A null argument is \<open>None\<close>.
\<close>

section \<open>State\<close>

datatype fp = FpNull | FpOpen stream | FpClosed

text \<open>
  \<open>seekable\<close> is a choice of the host: on a path that is not, \<open>fseek\<close> to the end (or \<open>ftell\<close>)
  fails.
\<close>

record dev_st = os +
  seekable :: "u8 list \<Rightarrow> bool"
  fildev_fp :: fp

record device =
  path :: "u8 list"
  status :: u8
  ph_secsz :: u16
  lg_secsz :: u16
  dev_size :: u64
  ph_secnt :: u64
  lg_secnt :: u64

definition DEV_OPEN :: u8 where "DEV_OPEN = 1"
definition DEV_RDONLY :: u8 where "DEV_RDONLY = 2"
definition DEFAULT_SECSZ :: u16 where "DEFAULT_SECSZ = 512"

definition DEVICE_IS_OPEN :: "device \<Rightarrow> bool" where
  "DEVICE_IS_OPEN dev \<longleftrightarrow> status dev AND DEV_OPEN \<noteq> 0"

section \<open>Operations\<close>

definition the_stream :: "fp \<Rightarrow> stream res" where
  "the_stream f = (case f of FpNull \<Rightarrow> Inl NullDeref | FpClosed \<Rightarrow> Inl BadStream | FpOpen s \<Rightarrow> Inr s)"

definition device_open ::
  "device option \<Rightarrow> u8 list option \<Rightarrow> 'a dev_st_scheme \<Rightarrow> int \<times> device option \<times> 'a dev_st_scheme" where
  "device_open dev p st =
     (case (dev, p) of
        (Some d, Some p) \<Rightarrow>
          (let d = d\<lparr>path := p\<rparr>
           in case fopen_rpb p st of
                None \<Rightarrow> (- 1, Some d, st\<lparr>fildev_fp := FpNull\<rparr>)
              | Some fp \<Rightarrow>
                  if \<not> seekable st p then (- 1, Some d, st\<lparr>fildev_fp := FpClosed\<rparr>)
                  else (let fp = fseek_end st fp; sz = of_nat (s_pos fp);
                            d = d\<lparr>dev_size := sz, ph_secsz := DEFAULT_SECSZ\<rparr>;
                            d = d\<lparr>ph_secnt := dev_size d div ucast (ph_secsz d), status := DEV_OPEN\<rparr>
                        in (0, Some d, st\<lparr>fildev_fp := FpOpen fp\<rparr>)))
      | _ \<Rightarrow> (- 1, dev, st))"

definition device_close ::
  "device option \<Rightarrow> 'a dev_st_scheme \<Rightarrow> (int \<times> device option \<times> 'a dev_st_scheme) res" where
  "device_close dev st =
     (case dev of
        None \<Rightarrow> Inr (- 1, dev, st)
      | Some d \<Rightarrow>
          if fildev_fp st = FpNull then Inr (- 1, dev, st)
          else if DEVICE_IS_OPEN d
          then rbind (the_stream (fildev_fp st)) (\<lambda>_.
                 Inr (0, Some (d\<lparr>status := status d AND NOT DEV_OPEN\<rparr>), st\<lparr>fildev_fp := FpNull\<rparr>))
          else Inr (0, dev, st))"

text \<open>
  \<open>count\<close> is an \<open>int\<close> that becomes a \<open>size_t\<close> in the call of \<open>fread\<close> and in the comparison with
  its result.
\<close>

definition device_read ::
  "device option \<Rightarrow> block option \<Rightarrow> u64 \<Rightarrow> int \<Rightarrow> 'a dev_st_scheme
    \<Rightarrow> (int \<times> block option \<times> 'a dev_st_scheme) res" where
  "device_read dev buff lba count st =
     (case (dev, buff) of
        (Some d, Some b) \<Rightarrow>
          if count = 0 then Inr (- 1, buff, st)
          else if \<not> DEVICE_IS_OPEN d then Inr (- 1, buff, st)
          else rbind (the_stream (fildev_fp st)) (\<lambda>fp.
            case fseek_set (ucast (ph_secsz d) * lba) fp of (r, fp) \<Rightarrow>
              if r \<noteq> 0 then Inr (- 1, buff, st\<lparr>fildev_fp := FpOpen fp\<rparr>)
              else let cnt = unat (of_int count :: u64);
                       (n, bs, fp) = fread (unat (ph_secsz d)) cnt fp st
                   in rbind (store_bytes b 0 bs) (\<lambda>b.
                        Inr (if n \<noteq> cnt then - 1 else 0, Some b, st\<lparr>fildev_fp := FpOpen fp\<rparr>)))
      | _ \<Rightarrow> Inr (- 1, buff, st))"

definition device_write ::
  "device option \<Rightarrow> block option \<Rightarrow> u64 \<Rightarrow> int \<Rightarrow> 'a dev_st_scheme \<Rightarrow> (int \<times> 'a dev_st_scheme) res" where
  "device_write dev buff lba count st =
     (case (dev, buff) of
        (Some d, Some b) \<Rightarrow>
          if fildev_fp st = FpNull \<or> count = 0 then Inr (- 1, st)
          else if \<not> DEVICE_IS_OPEN d then Inr (- 1, st)
          else rbind (the_stream (fildev_fp st)) (\<lambda>fp.
            case fseek_set (ucast (ph_secsz d) * lba) fp of (r, fp) \<Rightarrow>
              if r \<noteq> 0 then Inr (- 1, st\<lparr>fildev_fp := FpOpen fp\<rparr>)
              else let cnt = unat (of_int count :: u64)
                   in rbind (load_bytes b 0 (unat (ph_secsz d) * cnt)) (\<lambda>bs.
                        let (n, fp, st) = fwrite bs (unat (ph_secsz d)) fp st
                        in Inr (if n \<noteq> cnt then - 1 else 0, st\<lparr>fildev_fp := FpOpen fp\<rparr>)))
      | _ \<Rightarrow> Inr (- 1, st))"

section \<open>The image\<close>

text \<open>
  A device is attached to a path when its stream is open on it; the image is the file as a
  list of bytes, seen in sectors.
\<close>

definition attached :: "device \<Rightarrow> u8 list \<Rightarrow> 'a dev_st_scheme \<Rightarrow> bool" where
  "attached d p st \<longleftrightarrow> DEVICE_IS_OPEN d \<and> ph_secsz d = DEFAULT_SECSZ \<and> files st p \<noteq> None
     \<and> (\<exists>fp. fildev_fp st = FpOpen fp \<and> s_path fp = p)"

definition sectors :: "nat \<Rightarrow> nat \<Rightarrow> u8 list \<Rightarrow> u8 list" where
  "sectors lba n img = take (512 * n) (drop (512 * lba) img)"

lemma secsz [simp]: "unat DEFAULT_SECSZ = 512" "(ucast DEFAULT_SECSZ :: u64) = 512"
  by (simp_all add: DEFAULT_SECSZ_def)

lemma dev_open_mask [simp]: "DEV_OPEN AND DEV_OPEN \<noteq> 0" "(x AND NOT DEV_OPEN) AND DEV_OPEN = 0"
  by (simp_all add: DEV_OPEN_def and.assoc)

text \<open>Seeking to a sector whose byte offset fits in a \<open>long\<close>.\<close>

lemma fseek_sector:
  assumes "512 * unat lba < 2 ^ 63"
  shows "fseek_set (512 * lba) fp = (0, fp\<lparr>s_pos := 512 * unat lba\<rparr>)"
proof -
  have u: "unat (512 * lba) = 512 * unat lba"
    using assms by (simp add: unat_word_ariths)
  then have "\<not> bit (512 * lba) 63"
    using assms by (simp add: bit_iff_odd drop_bit_eq_div not_bit_length unsigned_drop_bit_eq [symmetric]
        word_arith_nat_div bit_word_iff_drop_bit_and flip: bit_unsigned_iff)
  then show ?thesis
    using u bit_last_iff [of "512 * lba"] by (simp add: fseek_set_def)
qed

lemma count_word: "n < 2 ^ 31 \<Longrightarrow> unat (of_int (int n) :: u64) = n"
  by (simp add: unat_of_nat)

lemma device_read_ok:
  assumes att: "attached d p st" and img: "files st p = Some img" and n: "0 < n" "n < 2 ^ 31"
    and fits: "512 * (unat lba + n) \<le> length img" and small: "length img < 2 ^ 63"
    and buf: "512 * n \<le> length b"
  shows "\<exists>st'. device_read (Some d) (Some b) lba (int n) st
      = Inr (0, Some (map Some (sectors (unat lba) n img) @ drop (512 * n) b), st')
    \<and> attached d p st' \<and> files st' = files st \<and> room st' = room st"
proof -
  obtain fp where fp: "fildev_fp st = FpOpen fp" "s_path fp = p"
    and d: "DEVICE_IS_OPEN d" "ph_secsz d = DEFAULT_SECSZ"
    using att by (auto simp: attached_def)
  have lba: "512 * unat lba < 2 ^ 63" using fits small by (simp add: distrib_left)
  have len: "length (sectors (unat lba) n img) = 512 * n"
    using fits by (simp add: sectors_def)
  let ?fp = "fp\<lparr>s_pos := 512 * unat lba\<rparr>"
  have rd: "fread 512 n ?fp st = (n, sectors (unat lba) n img, ?fp\<lparr>s_pos := 512 * unat lba + 512 * n\<rparr>)"
    using img fp(2) len by (simp add: fread_def content_def Let_def sectors_def)
  show ?thesis
    using n d fp rd len buf att count_word [OF n(2)]
    by (simp add: device_read_def the_stream_def fseek_sector [OF lba] store_bytes_def attached_def)
qed

lemma device_write_ok:
  assumes att: "attached d p st" and img: "files st p = Some img" and n: "0 < n" "n < 2 ^ 31"
    and fits: "512 * (unat lba + n) \<le> length img" and small: "length img < 2 ^ 63"
    and buf: "load_bytes b 0 (512 * n) = Inr bs"
  shows "\<exists>st'. device_write (Some d) (Some b) lba (int n) st = Inr (0, st')
    \<and> attached d p st' \<and> files st' = (files st)(p \<mapsto> put_at img (512 * unat lba) bs)"
proof -
  obtain fp where fp: "fildev_fp st = FpOpen fp" "s_path fp = p"
    and d: "DEVICE_IS_OPEN d" "ph_secsz d = DEFAULT_SECSZ"
    using att by (auto simp: attached_def)
  have lba: "512 * unat lba < 2 ^ 63" using fits small by (simp add: distrib_left)
  have len: "length bs = 512 * n"
    using buf by (auto simp: load_bytes_def split: if_splits)
  let ?fp = "fp\<lparr>s_pos := 512 * unat lba\<rparr>"
  have c: "content st (s_path ?fp) = img" using img fp(2) by (simp add: content_def)
  have k: "min (length bs) (length img + room st - 512 * unat lba) = 512 * n"
    using fits len by simp
  obtain st1 where wr: "fwrite bs 512 ?fp st = (n, ?fp\<lparr>s_pos := 512 * unat lba + 512 * n\<rparr>, st1)"
    and st1: "files st1 = (files st)(p \<mapsto> put_at img (512 * unat lba) bs)"
    using k len c fp(2) by (simp add: fwrite_def Let_def)
  show ?thesis
    using n d fp wr st1 buf count_word [OF n(2)]
    by (simp add: device_write_def the_stream_def fseek_sector [OF lba] attached_def)
qed

section \<open>The contract of a block store\<close>

text \<open>
  What a user of the device relies on: reads give the sectors of the image and do not change
  it, writes replace exactly the sectors written.  From this the locale derives that a read
  sees the last write to its sectors, that other sectors keep their contents, and that writes
  to different sectors commute.
\<close>

lemma sectors_put_same:
  "length bs = 512 * n \<Longrightarrow> sectors lba n (put_at img (512 * lba) bs) = bs"
  using read_put_at [of bs "512 * lba" img] by (simp add: sectors_def)

lemma nth_put_at:
  assumes "pos + length bs \<le> length img" and "i < length img"
  shows "put_at img pos bs ! i = (if pos \<le> i \<and> i < pos + length bs then bs ! (i - pos) else img ! i)"
  using assms by (auto simp: put_at_def nth_append min_def)

lemma length_put_inside: "pos + length bs \<le> length img \<Longrightarrow> length (put_at img pos bs) = length img"
  by (simp add: length_put_at)

lemma sectors_put_other:
  assumes apart: "lba' + m \<le> lba \<or> lba + n \<le> lba'" and len: "length bs = 512 * n"
    and fits: "512 * (lba + n) \<le> length img" "512 * (lba' + m) \<le> length img"
  shows "sectors lba' m (put_at img (512 * lba) bs) = sectors lba' m img"
proof (rule nth_equalityI)
  have inside: "512 * lba + length bs \<le> length img" using fits(1) len by simp
  have l: "length (put_at img (512 * lba) bs) = length img" by (rule length_put_inside [OF inside])
  show "length (sectors lba' m (put_at img (512 * lba) bs)) = length (sectors lba' m img)"
    by (simp add: sectors_def l)
  fix i assume "i < length (sectors lba' m (put_at img (512 * lba) bs))"
  then have i: "i < 512 * m" "512 * lba' + i < length img"
    using fits(2) by (auto simp: sectors_def l)
  have "\<not> (512 * lba \<le> 512 * lba' + i \<and> 512 * lba' + i < 512 * lba + length bs)"
    using apart i(1) len by auto
  then have "put_at img (512 * lba) bs ! (512 * lba' + i) = img ! (512 * lba' + i)"
    using nth_put_at [OF inside i(2)] by (simp only: if_False)
  then show "sectors lba' m (put_at img (512 * lba) bs) ! i = sectors lba' m img ! i"
    using i by (simp add: sectors_def l)
qed

lemma put_put_other:
  assumes "length xs = 512 * m" and "length ys = 512 * n" and apart: "a + m \<le> b \<or> b + n \<le> a"
    and "512 * (a + m) \<le> length img" and "512 * (b + n) \<le> length img"
  shows "put_at (put_at img (512 * a) xs) (512 * b) ys = put_at (put_at img (512 * b) ys) (512 * a) xs"
proof (rule nth_equalityI)
  have x: "512 * a + length xs \<le> length img" and y: "512 * b + length ys \<le> length img"
    using assms by simp_all
  note l = length_put_inside [OF x] length_put_inside [OF y]
  show "length (put_at (put_at img (512 * a) xs) (512 * b) ys)
      = length (put_at (put_at img (512 * b) ys) (512 * a) xs)"
    using x y by (simp add: length_put_inside l)
  fix i assume "i < length (put_at (put_at img (512 * a) xs) (512 * b) ys)"
  then have i: "i < length img" using y by (simp add: length_put_inside l)
  have "\<not> ((512 * a \<le> i \<and> i < 512 * a + length xs) \<and> (512 * b \<le> i \<and> i < 512 * b + length ys))"
    using apart assms(1,2) by auto
  then show "put_at (put_at img (512 * a) xs) (512 * b) ys ! i
      = put_at (put_at img (512 * b) ys) (512 * a) xs ! i"
    using x y i by (auto simp: nth_put_at l)
qed

locale block_store =
  fixes rd :: "nat \<Rightarrow> nat \<Rightarrow> 's \<Rightarrow> (u8 list \<times> 's) option" and wr :: "nat \<Rightarrow> u8 list \<Rightarrow> 's \<Rightarrow> 's option"
    and ok :: "'s \<Rightarrow> bool" and view :: "'s \<Rightarrow> u8 list" and limit :: nat
  assumes rd_sectors: "ok s \<Longrightarrow> 0 < n \<Longrightarrow> n < limit \<Longrightarrow> 512 * (lba + n) \<le> length (view s) \<Longrightarrow>
      \<exists>s'. rd lba n s = Some (sectors lba n (view s), s') \<and> ok s' \<and> view s' = view s"
    and wr_sectors: "ok s \<Longrightarrow> 0 < n \<Longrightarrow> n < limit \<Longrightarrow> 512 * (lba + n) \<le> length (view s) \<Longrightarrow>
      length bs = 512 * n \<Longrightarrow>
      \<exists>s'. wr lba bs s = Some s' \<and> ok s' \<and> view s' = put_at (view s) (512 * lba) bs"
begin

lemma length_after_write:
  "512 * (lba + n) \<le> length img \<Longrightarrow> length bs = 512 * n \<Longrightarrow> length (put_at img (512 * lba) bs) = length img"
  by (simp add: length_put_at)

lemma read_your_write:
  assumes "ok s" and "0 < n" and "n < limit" and "512 * (lba + n) \<le> length (view s)"
    and "length bs = 512 * n"
  shows "\<exists>s1 s2. wr lba bs s = Some s1 \<and> rd lba n s1 = Some (bs, s2)"
proof -
  obtain s1 where s1: "wr lba bs s = Some s1" "ok s1" "view s1 = put_at (view s) (512 * lba) bs"
    using wr_sectors [OF assms] by blast
  have "512 * (lba + n) \<le> length (view s1)"
    using length_after_write [OF assms(4,5)] s1(3) assms(4) by simp
  from rd_sectors [OF s1(2) assms(2,3) this] show ?thesis
    using s1 sectors_put_same [OF assms(5)] by auto
qed

lemma write_keeps_others:
  assumes "ok s" and "0 < n" and "n < limit" and "512 * (lba + n) \<le> length (view s)"
    and "length bs = 512 * n" and "0 < m" and "m < limit" and "512 * (lba' + m) \<le> length (view s)"
    and "lba' + m \<le> lba \<or> lba + n \<le> lba'"
  shows "\<exists>s1 s2. wr lba bs s = Some s1 \<and> rd lba' m s1 = Some (sectors lba' m (view s), s2)"
proof -
  obtain s1 where s1: "wr lba bs s = Some s1" "ok s1" "view s1 = put_at (view s) (512 * lba) bs"
    using wr_sectors [OF assms(1-5)] by blast
  have "512 * (lba' + m) \<le> length (view s1)"
    using length_after_write [OF assms(4,5)] s1(3) assms(8) by simp
  from rd_sectors [OF s1(2) assms(6,7) this] show ?thesis
    using s1 sectors_put_other [OF assms(9,5,4,8)] by auto
qed

lemma writes_commute:
  assumes "ok s" and "0 < m" and "m < limit" and "0 < n" and "n < limit"
    and "512 * (a + m) \<le> length (view s)" and "512 * (b + n) \<le> length (view s)"
    and "length xs = 512 * m" and "length ys = 512 * n" and "a + m \<le> b \<or> b + n \<le> a"
  shows "\<exists>s1 s2 t1 t2. wr a xs s = Some s1 \<and> wr b ys s1 = Some s2
    \<and> wr b ys s = Some t1 \<and> wr a xs t1 = Some t2 \<and> view s2 = view t2"
proof -
  obtain s1 where s1: "wr a xs s = Some s1" "ok s1" "view s1 = put_at (view s) (512 * a) xs"
    using wr_sectors [OF assms(1,2,3,6,8)] by blast
  obtain t1 where t1: "wr b ys s = Some t1" "ok t1" "view t1 = put_at (view s) (512 * b) ys"
    using wr_sectors [OF assms(1,4,5,7,9)] by blast
  have l: "512 * (b + n) \<le> length (view s1)" "512 * (a + m) \<le> length (view t1)"
    using length_after_write [OF assms(6,8)] length_after_write [OF assms(7,9)] s1(3) t1(3) assms(6,7)
    by simp_all
  show ?thesis
    using wr_sectors [OF s1(2) assms(4,5) l(1) assms(9)] wr_sectors [OF t1(2) assms(2,3) l(2) assms(8)]
      s1 t1 put_put_other [OF assms(8,9,10,6,7)] by auto
qed

end

text \<open>The device is a block store: a read into a fresh buffer, a write from an initialised one.\<close>

definition dev_rd :: "device \<Rightarrow> nat \<Rightarrow> nat \<Rightarrow> 'a dev_st_scheme \<Rightarrow> (u8 list \<times> 'a dev_st_scheme) option" where
  "dev_rd d lba n st =
     (case device_read (Some d) (Some (replicate (512 * n) None)) (of_nat lba) (int n) st of
        Inr (r, Some b, st) \<Rightarrow> (if r = 0 then Some (map the b, st) else None)
      | _ \<Rightarrow> None)"

definition dev_wr :: "device \<Rightarrow> nat \<Rightarrow> u8 list \<Rightarrow> 'a dev_st_scheme \<Rightarrow> 'a dev_st_scheme option" where
  "dev_wr d lba bs st =
     (case device_write (Some d) (Some (map Some bs)) (of_nat lba) (int (length bs div 512)) st of
        Inr (r, st) \<Rightarrow> (if r = 0 then Some st else None)
      | _ \<Rightarrow> None)"

lemma dev_rd_Some:
  "dev_rd d lba n st = Some (bs, st') \<Longrightarrow>
   \<exists>b. device_read (Some d) (Some (replicate (512 * n) None)) (of_nat lba) (int n) st = Inr (0, Some b, st')
     \<and> map the b = bs"
  by (auto simp: dev_rd_def split: sum.splits option.splits if_splits)

lemma dev_wr_Some:
  "dev_wr d lba bs st = Some st' \<Longrightarrow> length bs = 512 * n \<Longrightarrow>
   device_write (Some d) (Some (map Some bs)) (of_nat lba) (int n) st = Inr (0, st')"
  by (auto simp: dev_wr_def split: sum.splits if_splits)

definition dev_ok :: "device \<Rightarrow> u8 list \<Rightarrow> 'a dev_st_scheme \<Rightarrow> bool" where
  "dev_ok d p st \<longleftrightarrow> attached d p st \<and> length (content st p) < 2 ^ 63"

lemma lba_word: "512 * (lba + n) \<le> k \<Longrightarrow> k < 2 ^ 63 \<Longrightarrow> unat (of_nat lba :: u64) = lba"
  by (simp add: unat_of_nat)

interpretation dev: block_store "dev_rd d" "dev_wr d" "dev_ok d p" "\<lambda>st. content st p" "2 ^ 31"
  for d :: device and p :: "u8 list"
proof
  fix s :: "'a dev_st_scheme" and n lba :: nat
  assume asm: "dev_ok d p s" "0 < n" "n < 2 ^ 31" "512 * (lba + n) \<le> length (content s p)"
  have att: "attached d p s" and small: "length (content s p) < 2 ^ 63"
    using asm(1) by (simp_all add: dev_ok_def)
  obtain img where img: "files s p = Some img" "content s p = img"
    using att by (auto simp: attached_def content_def)
  have lba: "unat (of_nat lba :: u64) = lba" using lba_word [OF asm(4) small] .
  have fits: "512 * (unat (of_nat lba :: u64) + n) \<le> length img" using asm(4) img(2) lba by simp
  have buf: "512 * n \<le> length (replicate (512 * n) (None :: u8 option))" by simp
  obtain s' where rd: "device_read (Some d) (Some (replicate (512 * n) None)) (of_nat lba) (int n) s
      = Inr (0, Some (map Some (sectors lba n img)), s')"
    and s': "attached d p s'" "files s' = files s"
    using device_read_ok [OF att img(1) asm(2,3) fits _ buf] small img(2) lba by auto
  show "\<exists>s'. dev_rd d lba n s = Some (sectors lba n (content s p), s') \<and> dev_ok d p s'
      \<and> content s' p = content s p"
    using rd s' img small by (auto simp: dev_rd_def dev_ok_def content_def comp_def)
  fix bs :: "u8 list" assume len: "length bs = 512 * n"
  have "load_bytes (map Some bs) 0 (512 * n) = Inr bs" using len by simp
  then obtain s2 where wr: "device_write (Some d) (Some (map Some bs)) (of_nat lba) (int n) s = Inr (0, s2)"
    and s2: "attached d p s2" "files s2 = (files s)(p \<mapsto> put_at img (512 * lba) bs)"
    using device_write_ok [OF att img(1) asm(2,3) fits] small img(2) lba by auto
  have "length (put_at img (512 * lba) bs) = length img"
    using asm(4) img(2) len by (simp add: length_put_at)
  then show "\<exists>s'. dev_wr d lba bs s = Some s' \<and> dev_ok d p s'
      \<and> content s' p = put_at (content s p) (512 * lba) bs"
    using wr s2 img small len by (simp add: dev_wr_def dev_ok_def content_def)
qed

end
