(* ===== verification/Repl.thy ===== *)
theory Repl
  imports Device
begin

text \<open>
  The command loop of \<open>fdisk\<close>: reading lines (\<open>src/sbin/fdisk/repl.c\<close>), the commands
  (\<open>src/sbin/fdisk/cmd.c\<close>, \<open>src/sbin/fdisk/fdisk/cmd.h\<close>) and the version text
  (\<open>src/sbin/fdisk/version.c\<close>).  The package name and the commit come from the build and are
  parameters.  A local variable that C leaves indeterminate is \<open>Indet\<close>.
\<close>

section \<open>State\<close>

datatype 'a cell = Indet | Val 'a

definition cell_read :: "'a cell \<Rightarrow> 'a res" where
  "cell_read c = (case c of Indet \<Rightarrow> Inl UninitRead | Val x \<Rightarrow> Inr x)"

record repl_st = dev_st +
  stdin :: "u8 list"
  fdisk_name :: "u8 list"

record fdisk_context =
  dsk_fname :: "u8 list cell"
  dsk_fp :: "fp cell"
  script :: "int cell"

datatype callback = Cmd_help | Cmd_version | Cmd_print | Cmd_mklabel | Cmd_rm | Cmd_set | Cmd_quit

record cmd_entry =
  cmd :: "u8 list"
  cmd_args :: "u8 list option"
  desc :: "u8 list"
  cb :: "callback option"

definition BUFFSZ :: nat where "BUFFSZ = 128"
definition MAXARGS :: nat where "MAXARGS = 6"

section \<open>Reading a line\<close>

text \<open>
  \<open>fgets\<close>: at most \<open>n - 1\<close> bytes, up to and including a newline; none at the end of the input.
\<close>

definition first_line :: "u8 list \<Rightarrow> u8 list" where
  "first_line inp = takeWhile (\<lambda>c. c \<noteq> newline) inp @ (if newline \<in> set inp then [newline] else [])"

definition fgets :: "nat \<Rightarrow> u8 list \<Rightarrow> (u8 list \<times> u8 list) option" where
  "fgets n inp =
     (if inp = [] then None
      else let chunk = take (n - 1) (first_line inp) in Some (chunk, drop (length chunk) inp))"

lemma first_line_nonempty: "inp \<noteq> [] \<Longrightarrow> first_line inp \<noteq> []"
  by (cases inp) (auto simp: first_line_def)

lemma fgets_less:
  assumes "fgets BUFFSZ inp = Some (chunk, rest)"
  shows "length rest < length inp"
  using assms first_line_nonempty [of inp]
  by (auto simp: fgets_def Let_def BUFFSZ_def split: if_splits)

lemma c_realloc_stdin [simp]: "stdin (snd (c_realloc p n st)) = stdin st"
  by (auto simp: c_realloc_def c_malloc_def Let_def split: option.split)

text \<open>
  The loop of \<open>readline\<close>: append what \<open>fgets\<close> delivered (up to its first NUL) to the line and
  stop at a newline.  The test \<open>line[linsz - 1]\<close> is outside the block when \<open>linsz\<close> is 0.
\<close>

function readline_loop ::
  "block option \<Rightarrow> nat \<Rightarrow> 'a repl_st_scheme \<Rightarrow> (block option \<times> 'a repl_st_scheme) res" where
  "readline_loop line linsz st =
     (case fgets BUFFSZ (stdin st) of
        None \<Rightarrow> Inr (None, st)
      | Some (chunk, rest) \<Rightarrow>
         (let bs = takeWhile (\<lambda>c. c \<noteq> 0) chunk;
              r = c_realloc line (of_nat (linsz + length bs + 1)) (st\<lparr>stdin := rest\<rparr>)
          in case fst r of
               None \<Rightarrow> Inr (None, snd r)
             | Some blk \<Rightarrow>
                 rbind (store_bytes blk linsz bs) (\<lambda>blk.
                 rbind (store_byte blk (linsz + length bs) 0) (\<lambda>blk.
                 if linsz + length bs = 0 then Inl OutOfBounds
                 else rbind (load_byte blk (linsz + length bs - 1)) (\<lambda>c.
                   if c = newline
                   then rbind (store_byte blk (linsz + length bs - 1) 0) (\<lambda>blk. Inr (Some blk, snd r))
                   else readline_loop (Some blk) (linsz + length bs) (snd r))))))"
  by pat_completeness auto

termination readline_loop
  by (relation "measure (\<lambda>(line, linsz, st). length (stdin st))")
    (auto dest: fgets_less)

declare readline_loop.simps [simp del]

definition readline :: "u8 list \<Rightarrow> 'a repl_st_scheme \<Rightarrow> (block option \<times> 'a repl_st_scheme) res" where
  "readline prompt st = rbind (format0 prompt) (\<lambda>t. readline_loop None 0 (print_out t st))"

section \<open>Commands\<close>

definition esc :: "string \<Rightarrow> u8 list" where
  "esc s = 27 # ascii s"

definition cmds :: "cmd_entry list" where
  "cmds =
     [\<lparr>cmd = ascii ''help'', cmd_args = Some (ascii ''[command]''),
       desc = ascii ''Display general help or '' @ [39] @ ascii ''command'' @ [39] @ ascii '' help'',
       cb = Some Cmd_help\<rparr>,
      \<lparr>cmd = ascii ''version'', cmd_args = None,
       desc = ascii ''Display version information and copyright message'', cb = Some Cmd_version\<rparr>,
      \<lparr>cmd = ascii ''print'', cmd_args = None, desc = ascii ''Display partition table'',
       cb = Some Cmd_print\<rparr>,
      \<lparr>cmd = ascii ''mklabel'', cmd_args = Some (ascii ''label-type''),
       desc = ascii ''Create a new partition table of '' @ [39] @ ascii ''label-type'' @ [39] @ ascii ''. ''
         @ [39] @ ascii ''label-type'' @ [39] @ ascii '' should be one of '' @ [34] @ ascii ''msdos'' @ [34]
         @ ascii '' or '' @ [34] @ ascii ''gpt'' @ [34] @ ascii ''.'', cb = Some Cmd_mklabel\<rparr>,
      \<lparr>cmd = ascii ''rm'', cmd_args = Some (ascii ''partition''),
       desc = ascii ''Delete '' @ [39] @ ascii ''partition'' @ [39], cb = Some Cmd_rm\<rparr>,
      \<lparr>cmd = ascii ''set'', cmd_args = Some (ascii ''partition flag [state]''), desc = ascii ''XXX'',
       cb = Some Cmd_set\<rparr>,
      \<lparr>cmd = ascii ''quit'', cmd_args = None, desc = ascii ''Exit from fdisk'', cb = Some Cmd_quit\<rparr>]"

definition copyright :: "u8 list" where
  "copyright = ascii ''Copyright (c) 2025, d0p1'' @ [newline] @ ascii ''License BSD-3-Clause: ''
     @ ascii ''<https://directory.fsf.org/wiki/License:BSD-3-Clause>'' @ [newline]
     @ ascii ''This is free software: you are free to change and redistribute it.'' @ [newline]
     @ ascii ''There is NO WARRANTY, to the extent permitterd by law.'' @ [newline]"

definition print_version :: "u8 list \<Rightarrow> u8 list \<Rightarrow> 'a repl_st_scheme \<Rightarrow> 'a repl_st_scheme" where
  "print_version package commit st =
     print_out copyright
       (print_out (fdisk_name st @ ascii '' ('' @ package @ ascii '') '' @ commit @ [newline]) st)"

text \<open>A command returns to the loop or ends the program.\<close>

datatype outcome = Return int | Exit int

definition cmd_help_print_idx :: "cmd_entry \<Rightarrow> 'a os_scheme \<Rightarrow> 'a os_scheme" where
  "cmd_help_print_idx c st =
     (let st = print_out (esc ''[1m'' @ cmd c @ esc ''[0m'') st;
          st = (case cmd_args c of
                  None \<Rightarrow> st
                | Some a \<Rightarrow> print_out (ascii '' '' @ esc ''[3m'' @ a @ esc ''[0m'') st)
      in print_out ([newline, 9] @ desc c @ [newline]) st)"

fun cmd_help_loop ::
  "cmd_entry list \<Rightarrow> u8 list option \<Rightarrow> 'a os_scheme \<Rightarrow> int \<times> 'a os_scheme" where
  "cmd_help_loop [] arg st =
     (case arg of
        None \<Rightarrow> (0, st)
      | Some a \<Rightarrow> (- 1, print_out (esc ''[31mError:'' @ esc ''[0m Unknown command '' @ [34] @ a @ [34, newline]) st))"
| "cmd_help_loop (c # cs) arg st =
     (case arg of
        None \<Rightarrow> cmd_help_loop cs arg (cmd_help_print_idx c st)
      | Some a \<Rightarrow> if a = cmd c then (0, cmd_help_print_idx c st) else cmd_help_loop cs arg st)"

text \<open>\<open>argv\<close> holds \<open>MAXARGS\<close> pointers; with \<open>argc \<ge> 2\<close> the second one is a string.\<close>

definition cmd_help :: "int \<Rightarrow> u8 list option list \<Rightarrow> 'a os_scheme \<Rightarrow> int \<times> 'a os_scheme" where
  "cmd_help argc argv st = cmd_help_loop cmds (if 2 \<le> argc then argv ! 1 else None) st"

definition cmd_print :: "fdisk_context \<Rightarrow> 'a os_scheme \<Rightarrow> (int \<times> fdisk_context \<times> 'a os_scheme) res" where
  "cmd_print ctx st =
     rbind (cell_read (dsk_fp ctx)) (\<lambda>f. rbind (the_stream f) (\<lambda>fp.
       let disk_sz = length (content st (s_path fp));
           ctx = ctx\<lparr>dsk_fp := Val (FpOpen (fp\<lparr>s_pos := 0\<rparr>))\<rparr>
       in rbind (cell_read (dsk_fname ctx)) (\<lambda>nm.
            Inr (0, ctx, print_out (ascii ''Disk '' @ nm @ ascii '': '' @ fmt_dec disk_sz @ ascii ''B'' @ [newline]) st))))"

definition cmd_quit :: "fdisk_context \<Rightarrow> outcome res" where
  "cmd_quit ctx =
     rbind (cell_read (dsk_fp ctx)) (\<lambda>f.
       if f = FpNull then Inr (Exit 0) else rbind (the_stream f) (\<lambda>_. Inr (Exit 0)))"

definition cmd_set :: int where "cmd_set = 0"
definition cmd_rm :: int where "cmd_rm = 0"
definition cmd_mklabel :: int where "cmd_mklabel = 0"

definition run_cb ::
  "u8 list \<Rightarrow> u8 list \<Rightarrow> callback \<Rightarrow> fdisk_context \<Rightarrow> int \<Rightarrow> u8 list option list \<Rightarrow> 'a repl_st_scheme
    \<Rightarrow> (outcome \<times> fdisk_context \<times> 'a repl_st_scheme) res" where
  "run_cb package commit c ctx argc argv st =
     (case c of
        Cmd_help \<Rightarrow> (let (r, st) = cmd_help argc argv st in Inr (Return r, ctx, st))
      | Cmd_version \<Rightarrow> Inr (Return 0, ctx, print_version package commit st)
      | Cmd_print \<Rightarrow> rbind (cmd_print ctx st) (\<lambda>(r, ctx, st). Inr (Return r, ctx, st))
      | Cmd_mklabel \<Rightarrow> Inr (Return cmd_mklabel, ctx, st)
      | Cmd_rm \<Rightarrow> Inr (Return cmd_rm, ctx, st)
      | Cmd_set \<Rightarrow> Inr (Return cmd_set, ctx, st)
      | Cmd_quit \<Rightarrow> rbind (cmd_quit ctx) (\<lambda>r. Inr (r, ctx, st)))"

section \<open>The loop\<close>

text \<open>\<open>strtok\<close> with the delimiters space and tab, called until it returns null.\<close>

definition delim :: "u8 \<Rightarrow> bool" where
  "delim c \<longleftrightarrow> c = 32 \<or> c = 9"

function tokens :: "u8 list \<Rightarrow> u8 list list" where
  "tokens [] = []"
| "tokens (c # cs) =
     (if delim c then tokens cs
      else takeWhile (\<lambda>x. \<not> delim x) (c # cs) # tokens (dropWhile (\<lambda>x. \<not> delim x) (c # cs)))"
  by pat_completeness auto

termination tokens
  by (relation "measure length") (auto simp: le_imp_less_Suc length_dropWhile_le)

declare tokens.simps [simp del]

lemma tokens_simps [simp]:
  "tokens [] = []"
  "delim c \<Longrightarrow> tokens (c # cs) = tokens cs"
  "\<not> delim c \<Longrightarrow> tokens (c # cs) = (c # takeWhile (\<lambda>x. \<not> delim x) cs) # tokens (dropWhile (\<lambda>x. \<not> delim x) cs)"
  by (simp_all add: tokens.simps)

definition pad_argv :: "u8 list list \<Rightarrow> u8 list option list" where
  "pad_argv ts = map Some ts @ replicate (MAXARGS - length ts) None"

fun find_cmd :: "cmd_entry list \<Rightarrow> u8 list option \<Rightarrow> cmd_entry option res" where
  "find_cmd [] a = Inr None"
| "find_cmd (c # cs) None = Inl NullDeref"
| "find_cmd (c # cs) (Some a) = (if a = cmd c then Inr (Some c) else find_cmd cs (Some a))"

definition parse_cmd ::
  "u8 list \<Rightarrow> u8 list \<Rightarrow> fdisk_context \<Rightarrow> block \<Rightarrow> 'a repl_st_scheme
    \<Rightarrow> (outcome \<times> fdisk_context \<times> 'a repl_st_scheme) res" where
  "parse_cmd package commit ctx line st =
     rbind (cstr line) (\<lambda>s.
       let ts = take MAXARGS (tokens s); argv = pad_argv ts
       in rbind (find_cmd cmds (argv ! 0)) (\<lambda>r.
            case r of
              Some c \<Rightarrow>
                (case cb c of
                   Some f \<Rightarrow> run_cb package commit f ctx (int (length ts)) argv st
                 | None \<Rightarrow> Inr (Return (- 1), ctx, print_out (ascii ''not implemented'' @ [newline]) st))
            | None \<Rightarrow>
                Inr (Return (- 1), ctx,
                     print_err (esc ''[31mError:'' @ esc ''[0m unknown command '' @ [39]
                       @ the (argv ! 0) @ [39, newline]) st)))"

fun repl_ask_loop :: "u8 list \<Rightarrow> u8 \<Rightarrow> u8 list \<Rightarrow> 'a os_scheme \<Rightarrow> int \<times> u8 list \<times> 'a os_scheme" where
  "repl_ask_loop str c [] st =
     (- 1, [], if c = newline then print_out (str @ ascii '' [y/n] '') st else st)"
| "repl_ask_loop str c (d # inp) st =
     (let st = (if c = newline then print_out (str @ ascii '' [y/n] '') st else st)
      in if d = of_char (CHR ''Y'') \<or> d = of_char (CHR ''y'') then (1, inp, print_out [newline] st)
         else if d = of_char (CHR ''N'') \<or> d = of_char (CHR ''n'') then (0, inp, print_out [newline] st)
         else repl_ask_loop str d inp st)"

definition repl_ask :: "u8 list \<Rightarrow> 'a repl_st_scheme \<Rightarrow> int \<times> 'a repl_st_scheme" where
  "repl_ask str st =
     (let (r, inp, st) = repl_ask_loop str newline (stdin st) st in (r, st\<lparr>stdin := inp\<rparr>))"

end
