(* ===== verification/Fdisk.thy ===== *)
theory Fdisk
  imports Repl Getopt
begin

text \<open>
  The loop \<open>repl\<close> of \<open>src/sbin/fdisk/repl.c\<close> and the program \<open>fdisk\<close>
  (\<open>src/sbin/fdisk/main.c\<close>; its second half, disabled by \<open>#if 0\<close>, is in \<open>Mbr\<close>).
\<close>

section \<open>The loop terminates\<close>

text \<open>Every line read consumes input, and no command does.\<close>

lemma readline_loop_stdin:
  "readline_loop line linsz st = Inr (Some l, st') \<Longrightarrow> length (stdin st') < length (stdin st)"
proof (induction line linsz st rule: readline_loop.induct)
  case (1 line linsz st)
  obtain chunk rest where f: "fgets BUFFSZ (stdin st) = Some (chunk, rest)"
    using "1.prems" by (subst (asm) readline_loop.simps) (auto split: option.splits)
  define bs where "bs = takeWhile (\<lambda>c. c \<noteq> 0) chunk"
  define r where "r = c_realloc line (of_nat (linsz + length bs + 1)) (st\<lparr>stdin := rest\<rparr>)"
  have less: "length (stdin (snd r)) < length (stdin st)"
    using fgets_less [OF f] by (simp add: r_def)
  have body: "(case fst r of
               None \<Rightarrow> Inr (None, snd r)
             | Some blk \<Rightarrow>
                 rbind (store_bytes blk linsz bs) (\<lambda>blk.
                 rbind (store_byte blk (linsz + length bs) 0) (\<lambda>blk.
                 if linsz + length bs = 0 then Inl OutOfBounds
                 else rbind (load_byte blk (linsz + length bs - 1)) (\<lambda>c.
                   if c = newline
                   then rbind (store_byte blk (linsz + length bs - 1) 0) (\<lambda>blk. Inr (Some blk, snd r))
                   else readline_loop (Some blk) (linsz + length bs) (snd r))))) = Inr (Some l, st')"
    using "1.prems" f by (subst (asm) readline_loop.simps) (simp only: option.case prod.case Let_def bs_def r_def)
  note IH = "1.IH" [OF f refl bs_def r_def]
  show ?case
    using body less
    by (fastforce simp: rbind_Inr_iff dest: IH split: option.splits if_splits)
qed

lemma print_out_stdin [simp]: "stdin (print_out t st) = stdin st" "stdin (print_err t st) = stdin st"
  by (simp_all add: print_out_def print_err_def)

lemma readline_stdin: "readline p st = Inr (Some l, st') \<Longrightarrow> length (stdin st') < length (stdin st)"
  by (auto simp: readline_def rbind_Inr_iff dest: readline_loop_stdin)

lemma cmd_help_stdin: "stdin (snd (cmd_help_loop cs arg st)) = stdin (st :: 'a repl_st_scheme)"
  by (induction cs arg st rule: cmd_help_loop.induct)
    (auto simp: cmd_help_print_idx_def Let_def split: option.splits)

lemma parse_cmd_stdin:
  assumes "parse_cmd package commit ctx line st = Inr (r, ctx', st')"
  shows "stdin st' = stdin st"
proof -
  have hlp: "cmd_help argc argv st = (k, s) \<Longrightarrow> stdin s = stdin st" for argc argv k s
    using cmd_help_stdin [of cmds "if 2 \<le> argc then argv ! 1 else None" st] by (simp add: cmd_help_def)
  have run: "run_cb package commit c ctx argc argv st = Inr (r, ctx', st') \<Longrightarrow> stdin st' = stdin st" for c argc argv
    by (cases c) (auto simp: run_cb_def cmd_print_def print_version_def rbind_Inr_iff Let_def
        dest: hlp split: prod.splits)
  obtain s q where "find_cmd cmds (pad_argv (take MAXARGS (tokens s)) ! 0) = Inr q"
    and b: "(case q of
              Some c \<Rightarrow>
                (case cb c of
                   Some f \<Rightarrow> run_cb package commit f ctx (int (length (take MAXARGS (tokens s))))
                     (pad_argv (take MAXARGS (tokens s))) st
                 | None \<Rightarrow> Inr (Return (- 1), ctx, print_out (ascii ''not implemented'' @ [newline]) st))
            | None \<Rightarrow>
                Inr (Return (- 1), ctx,
                     print_err (esc ''[31mError:'' @ esc ''[0m unknown command '' @ [39]
                       @ the (pad_argv (take MAXARGS (tokens s)) ! 0) @ [39, newline]) st)) = Inr (r, ctx', st')"
    using assms unfolding parse_cmd_def rbind_Inr_iff Let_def by blast
  show ?thesis
  proof (cases q)
    case (Some c)
    then show ?thesis using b run by (cases "cb c") auto
  qed (use b in auto)
qed

function repl ::
  "u8 list \<Rightarrow> u8 list \<Rightarrow> fdisk_context \<Rightarrow> 'a repl_st_scheme
    \<Rightarrow> (outcome \<times> fdisk_context \<times> 'a repl_st_scheme) res" where
  "repl package commit ctx st =
     rbind (readline (ascii ''(fdisk) '') st) (\<lambda>(line, st).
       case line of
         None \<Rightarrow> Inr (Return 0, ctx, st)
       | Some l \<Rightarrow>
           rbind (load_byte l 0) (\<lambda>c.
             if c = 0 then repl package commit ctx st
             else rbind (parse_cmd package commit ctx l st) (\<lambda>(r, ctx, st).
                    case r of
                      Exit k \<Rightarrow> Inr (Exit k, ctx, st)
                    | Return _ \<Rightarrow> repl package commit ctx st)))"
  by pat_completeness auto

termination repl
proof (relation "measure (\<lambda>(package, commit, ctx, st). length (stdin st))", goal_cases)
  case (3 package commit ctx st p line s l c q r t ctx' s')
  then show ?case using parse_cmd_stdin readline_stdin by fastforce
qed (auto dest: readline_stdin)

declare repl.simps [simp del]

section \<open>The program\<close>

record fdisk_st = repl_st +
  partfile :: "u8 list option list"
  do_list :: int
  do_script :: int
  do_import :: int
  do_export :: int

definition fdisk_usage :: "u8 list \<Rightarrow> int \<Rightarrow> 'a fdisk_st_scheme \<Rightarrow> int \<times> 'a fdisk_st_scheme" where
  "fdisk_usage bugreport retcode st =
     (retcode,
      if retcode = EXIT_FAILURE
      then print_err (ascii ''Try '' @ [39] @ fdisk_name st @ ascii '' -h'' @ [39]
             @ ascii '' for more information.'' @ [newline]) st
      else print_out (ascii ''Usage: '' @ fdisk_name st @ ascii '' [-hVlsei] [-p0-3 img] disk'' @ [newline]
             @ ascii '' Options:'' @ [newline]
             @ ascii ''  -l'' @ [9] @ ascii ''dump disk information'' @ [newline]
             @ ascii ''  -s'' @ [9] @ ascii ''script mode'' @ [newline]
             @ ascii ''  -h'' @ [9] @ ascii ''display this help and exit'' @ [newline]
             @ ascii ''  -p0-3 img'' @ [9] @ ascii ''XXX'' @ [newline]
             @ ascii ''  -i'' @ [9] @ ascii ''import'' @ [newline]
             @ ascii ''  -e'' @ [9] @ ascii ''extract'' @ [newline]
             @ ascii ''  -V'' @ [9] @ ascii ''output version information.'' @ [newline]
             @ [newline] @ ascii ''Report bugs to <'' @ bugreport @ ascii ''>'' @ [newline]) st)"

definition fdisk_version ::
  "u8 list \<Rightarrow> u8 list \<Rightarrow> 'a fdisk_st_scheme \<Rightarrow> int \<times> 'a fdisk_st_scheme" where
  "fdisk_version package commit st = (EXIT_SUCCESS, print_version package commit st)"

text \<open>The locals of \<open>parted\<close> are indeterminate: the device is any device, the context unset.\<close>

definition parted ::
  "u8 list \<Rightarrow> u8 list \<Rightarrow> device \<Rightarrow> u8 list \<Rightarrow> 'a fdisk_st_scheme \<Rightarrow> (int \<times> 'a fdisk_st_scheme) res" where
  "parted package commit dev0 disk_path st =
     (case device_open (Some dev0) (Some disk_path) st of (r, dev, st) \<Rightarrow>
        if r \<noteq> 0 then Inr (EXIT_FAILURE, st)
        else rbind (repl package commit \<lparr>dsk_fname = Indet, dsk_fp = Indet, script = Indet\<rparr> st)
               (\<lambda>(r, ctx, st). case r of
                  Exit k \<Rightarrow> Inr (k, st)
                | Return _ \<Rightarrow> rbind (device_close dev st) (\<lambda>(_, _, st). Inr (EXIT_SUCCESS, st))))"

text \<open>
  \<open>partfile[optarg[0] - '0'] = argv[optind]\<close>: \<open>char\<close> is signed, and the array has four entries.
\<close>

definition first_char :: "u8 list \<Rightarrow> int" where
  "first_char s = (case s of [] \<Rightarrow> 0 | c # _ \<Rightarrow> sint c)"

definition set_partfile :: "u8 list \<Rightarrow> u8 list \<Rightarrow> 'a fdisk_st_scheme \<Rightarrow> 'a fdisk_st_scheme res" where
  "set_partfile optarg file st =
     (let i = first_char optarg - 48
      in if 0 \<le> i \<and> i < int (length (partfile st))
         then Inr (st\<lparr>partfile := (partfile st)[nat i := Some file]\<rparr>)
         else Inl OutOfBounds)"

text \<open>
  The option loop with \<open>getopt\<close> called step by step, because \<open>-p\<close> takes a second argument by
  advancing \<open>optind\<close>.  The test on \<open>optarg[0]\<close> compares signed characters.
\<close>

function fdisk_opts ::
  "u8 list \<Rightarrow> u8 list \<Rightarrow> u8 list \<Rightarrow> u8 list \<Rightarrow> u8 list \<Rightarrow> u8 list list \<Rightarrow> 'a fdisk_st_scheme
    \<Rightarrow> (int option \<times> u8 list list \<times> 'a fdisk_st_scheme) res" where
  "fdisk_opts package commit bugreport argv0 cl args st =
     (let stop = (\<lambda>(r, st). Inr (Some r, [], st))
      in case getopt1 (ascii ''hVlsp:ei'') cl args of
           (None, _, rest) \<Rightarrow> Inr (None, rest, st)
         | (Some e, cl, args) \<Rightarrow>
             (case e of
                Opt c optarg \<Rightarrow>
                  (if c = of_char (CHR ''h'') then stop (fdisk_usage bugreport EXIT_SUCCESS st)
                   else if c = of_char (CHR ''V'') then stop (fdisk_version package commit st)
                   else if c = of_char (CHR ''l'')
                   then fdisk_opts package commit bugreport argv0 cl args (st\<lparr>do_list := 1\<rparr>)
                   else if c = of_char (CHR ''s'')
                   then fdisk_opts package commit bugreport argv0 cl args (st\<lparr>do_script := 1\<rparr>)
                   else if c = of_char (CHR ''p'')
                   then (case args of
                           [] \<Rightarrow> stop (fdisk_usage bugreport EXIT_FAILURE st)
                         | file # args' \<Rightarrow>
                             if first_char optarg < 48 \<and> first_char optarg > 51
                             then stop (fdisk_usage bugreport EXIT_FAILURE st)
                             else rbind (set_partfile optarg file st) (\<lambda>st.
                                    fdisk_opts package commit bugreport argv0 cl args' st))
                   else if c = of_char (CHR ''e'')
                   then fdisk_opts package commit bugreport argv0 cl args (st\<lparr>do_export := 0\<rparr>)
                   else if c = of_char (CHR ''i'')
                   then fdisk_opts package commit bugreport argv0 cl args (st\<lparr>do_import := 0\<rparr>)
                   else stop (fdisk_usage bugreport EXIT_FAILURE st))
              | _ \<Rightarrow> stop (fdisk_usage bugreport EXIT_FAILURE (print_err (getopt_message argv0 e) st))))"
  by pat_completeness auto

termination fdisk_opts
proof (relation "measure (\<lambda>(package, commit, bugreport, argv0, cl, args, st). args_size cl args)", goal_cases)
  case 1
  show ?case by simp
qed (auto dest!: getopt1_less [OF sym] simp: args_size_def)

declare fdisk_opts.simps [simp del]

definition fdisk_main ::
  "u8 list \<Rightarrow> u8 list \<Rightarrow> u8 list \<Rightarrow> device \<Rightarrow> u8 list \<Rightarrow> u8 list list \<Rightarrow> 'a fdisk_st_scheme
    \<Rightarrow> (int \<times> 'a fdisk_st_scheme) res" where
  "fdisk_main package commit bugreport dev0 argv0 args st =
     rbind (fdisk_opts package commit bugreport argv0 [] args (st\<lparr>fdisk_name := basename argv0\<rparr>))
       (\<lambda>(r, operands, st).
          case r of
            Some code \<Rightarrow> Inr (code, st)
          | None \<Rightarrow>
              (case operands of
                 [] \<Rightarrow> Inr (fdisk_usage bugreport EXIT_FAILURE st)
               | disk_path # _ \<Rightarrow> parted package commit dev0 disk_path st))"

end
