(* ===== verification/DeviceProps.thy ===== *)
theory DeviceProps
  imports Device
begin

text \<open>
  The life cycle of the block device as a step relation, its invariant, and the properties of
  the device with their instances.
\<close>

section \<open>The life cycle\<close>

text \<open>
  One step of a program that opens the device only while it is closed, and otherwise calls the
  operations in any order with any arguments.
\<close>

inductive dev_step :: "device \<times> 'a dev_st_scheme \<Rightarrow> device \<times> 'a dev_st_scheme \<Rightarrow> bool" where
  step_open: "\<not> DEVICE_IS_OPEN d \<Longrightarrow> device_open (Some d) (Some p) st = (r, Some d', st') \<Longrightarrow>
    dev_step (d, st) (d', st')"
| step_close: "device_close (Some d) st = Inr (r, Some d', st') \<Longrightarrow> dev_step (d, st) (d', st')"
| step_read: "device_read (Some d) b lba count st = Inr (r, b', st') \<Longrightarrow> dev_step (d, st) (d, st')"
| step_write: "device_write (Some d) b lba count st = Inr (r, st') \<Longrightarrow> dev_step (d, st) (d, st')"

inductive dev_reach :: "device \<times> 'a dev_st_scheme \<Rightarrow> device \<times> 'a dev_st_scheme \<Rightarrow> bool" for s0 where
  reach_start: "dev_reach s0 s0"
| reach_step: "dev_reach s0 s \<Longrightarrow> dev_step s s' \<Longrightarrow> dev_reach s0 s'"

inductive_cases dev_stepE: "dev_step (d, st) s'"

text \<open>An open device has an open stream.\<close>

definition dev_inv :: "device \<times> 'a dev_st_scheme \<Rightarrow> bool" where
  "dev_inv s \<longleftrightarrow> (DEVICE_IS_OPEN (fst s) \<longrightarrow> (\<exists>fp. fildev_fp (snd s) = FpOpen fp))"

lemma dev_inv_step:
  assumes "dev_step (d, st) s'" and "dev_inv (d, st)"
  shows "dev_inv s'"
  using assms(1)
proof (rule dev_stepE)
  fix p r d' st'
  assume "s' = (d', st')" "\<not> DEVICE_IS_OPEN d" "device_open (Some d) (Some p) st = (r, Some d', st')"
  then show ?thesis
    by (auto simp: dev_inv_def device_open_def DEVICE_IS_OPEN_def Let_def split: option.splits if_splits)
next
  fix r d' st'
  assume "s' = (d', st')" "device_close (Some d) st = Inr (r, Some d', st')"
  then show ?thesis using assms(2)
    by (auto simp: dev_inv_def device_close_def DEVICE_IS_OPEN_def rbind_Inr_iff split: if_splits)
next
  fix b lba count r b' st'
  assume "s' = (d, st')" "device_read (Some d) b lba count st = Inr (r, b', st')"
  then show ?thesis using assms(2)
    by (auto simp: dev_inv_def device_read_def rbind_Inr_iff Let_def the_stream_def fseek_set_def
        case_prod_beta split: option.splits if_splits)
next
  fix b lba count r st'
  assume "s' = (d, st')" "device_write (Some d) b lba count st = Inr (r, st')"
  then show ?thesis using assms(2)
    by (auto simp: dev_inv_def device_write_def rbind_Inr_iff Let_def the_stream_def fseek_set_def
        case_prod_beta split: option.splits if_splits)
qed

lemma dev_inv_reach: "dev_reach s0 s \<Longrightarrow> dev_inv s0 \<Longrightarrow> dev_inv s"
proof (induction rule: dev_reach.induct)
  case (reach_step s s')
  then show ?case using dev_inv_step by (cases s) blast
qed

text \<open>C14: in a program that opens the device only while it is closed, no operation ever uses a null or
  closed stream: a read faults only on a buffer that is too short, a write only on a buffer that
  is too short or uninitialised, closing never faults.\<close>

theorem device_protocol_safe:
  fixes st :: "'a dev_st_scheme"
  assumes "dev_reach (d0, st0) (d, st)" and "\<not> DEVICE_IS_OPEN d0"
  shows "(device_read (Some d) b lba count st = Inl e \<longrightarrow> e = OutOfBounds)
    \<and> (device_write (Some d) b lba count st = Inl e \<longrightarrow> e = OutOfBounds \<or> e = UninitRead)
    \<and> device_close (Some d) st \<noteq> Inl e"
proof -
  have inv: "dev_inv (d, st)"
    using dev_inv_reach [OF assms(1)] assms(2) by (simp add: dev_inv_def)
  show ?thesis
  proof (cases "DEVICE_IS_OPEN d")
    case True
    then obtain fp where "fildev_fp st = FpOpen fp" using inv by (auto simp: dev_inv_def)
    then show ?thesis
      by (auto simp: device_read_def device_write_def device_close_def the_stream_def rbind_Inl_iff
          Let_def store_bytes_def load_bytes_def split: option.splits if_splits prod.splits)
  next
    case False
    then show ?thesis
      by (auto simp: device_read_def device_write_def device_close_def split: option.splits)
  qed
qed

section \<open>Samples\<close>

definition closed_dev :: device where
  "closed_dev = \<lparr>path = [], status = 0, ph_secsz = 0, lg_secsz = 0, dev_size = 0, ph_secnt = 0, lg_secnt = 0\<rparr>"

definition disk_host :: dev_st where
  "disk_host = \<lparr>heap_ok = \<lambda>_. True, files = [ascii ''d'' \<mapsto> replicate 1600 0], writable = \<lambda>_. True,
     room = 0, out = [], err = [], errtext = [], seekable = \<lambda>_. True, fildev_fp = FpNull\<rparr>"

definition open_dev :: device where
  "open_dev = closed_dev\<lparr>path := ascii ''d'', status := DEV_OPEN, ph_secsz := DEFAULT_SECSZ,
     dev_size := 1600, ph_secnt := 3\<rparr>"

definition open_host :: dev_st where
  "open_host = disk_host\<lparr>fildev_fp := FpOpen \<lparr>s_path = ascii ''d'', s_pos = 1600\<rparr>\<rparr>"

lemma open_dev_is: "device_open (Some closed_dev) (Some (ascii ''d'')) disk_host = (0, Some open_dev, open_host)"
  by (simp add: device_open_def fopen_rpb_def fopen_rb_def fseek_end_def disk_host_def content_def
      open_dev_def open_host_def closed_dev_def DEFAULT_SECSZ_def)

lemma open_host_ok: "dev_ok open_dev (ascii ''d'') open_host" "content open_host (ascii ''d'') = replicate 1600 0"
  "attached open_dev (ascii ''d'') open_host" "files open_host (ascii ''d'') = Some (replicate 1600 0)"
  by (simp_all add: dev_ok_def attached_def open_host_def open_dev_def disk_host_def content_def
      DEVICE_IS_OPEN_def DEV_OPEN_def)

theorem device_protocol_safe_instance:
  "device_read (Some open_dev) (Some []) 0 1 open_host \<noteq> Inl NullDeref
    \<and> device_write (Some open_dev) (Some []) 0 1 open_host \<noteq> Inl NullDeref
    \<and> device_close (Some open_dev) open_host \<noteq> Inl NullDeref"
proof -
  have o: "\<not> DEVICE_IS_OPEN closed_dev" by (simp add: DEVICE_IS_OPEN_def closed_dev_def)
  then have "dev_step (closed_dev, disk_host) (open_dev, open_host)"
    by (rule step_open [OF _ open_dev_is])
  then have r: "dev_reach (closed_dev, disk_host) (open_dev, open_host)"
    using reach_step reach_start by blast
  show ?thesis
    using device_protocol_safe [OF r o, of "Some []" 0 1 NullDeref] by auto
qed

section \<open>Properties\<close>

text \<open>Opening an image that exists, is writable and can be sought sets the geometry: the size is the
  size of the file, and the sector count the number of whole 512-byte sectors in it.\<close>

lemma device_open_geometry:
  fixes st :: "'a dev_st_scheme"
  assumes "files st p = Some img" and "writable st p" and "seekable st p" and "length img < 2 ^ 63"
  shows "\<exists>d' st'. device_open (Some d) (Some p) st = (0, Some d', st') \<and> attached d' p st'
    \<and> unat (dev_size d') = length img
    \<and> 512 * unat (ph_secnt d') \<le> length img \<and> length img < 512 * (unat (ph_secnt d') + 1)
    \<and> files st' = files st"
proof -
  have u: "unat (of_nat (length img) :: u64) = length img"
    using assms(4) by (simp add: unat_of_nat)
  have "length img < 512 + 512 * (length img div 512)"
    by (rule dividend_less_times_div) simp
  then show ?thesis
    using assms u
    by (simp add: device_open_def fopen_rpb_def fopen_rb_def fseek_end_def content_def attached_def
        DEVICE_IS_OPEN_def DEV_OPEN_def unat_div Let_def)
qed

text \<open>C15: a device refines a block store: after a write of whole sectors inside the image, a read of the
  same sectors returns exactly the bytes written.\<close>

theorem device_read_your_write:
  fixes st :: "'a dev_st_scheme"
  assumes "dev_ok d p st" and "0 < n" and "n < 2 ^ 31" and "512 * (lba + n) \<le> length (content st p)"
    and "length bs = 512 * n"
  shows "\<exists>st1 b st2. device_write (Some d) (Some (map Some bs)) (of_nat lba) (int n) st = Inr (0, st1)
    \<and> device_read (Some d) (Some (replicate (512 * n) None)) (of_nat lba) (int n) st1 = Inr (0, Some b, st2)
    \<and> map the b = bs"
  using dev.read_your_write [OF assms] dev_wr_Some [OF _ assms(5)] dev_rd_Some by blast

theorem device_read_your_write_instance:
  "\<exists>st1 b st2. device_write (Some open_dev) (Some (map Some (replicate 512 7))) (of_nat 1) (int 1) open_host = Inr (0, st1)
    \<and> device_read (Some open_dev) (Some (replicate (512 * 1) None)) (of_nat 1) (int 1) st1 = Inr (0, Some b, st2)
    \<and> map the b = replicate 512 7"
  by (rule device_read_your_write [OF open_host_ok(1)]) (simp_all add: open_host_ok(2) [simplified])

text \<open>C16: a write leaves every sector outside the written range as it was.\<close>

theorem device_write_frame:
  fixes st :: "'a dev_st_scheme"
  assumes "dev_ok d p st" and "0 < n" and "n < 2 ^ 31" and "512 * (lba + n) \<le> length (content st p)"
    and "length bs = 512 * n" and "0 < m" and "m < 2 ^ 31" and "512 * (lba' + m) \<le> length (content st p)"
    and "lba' + m \<le> lba \<or> lba + n \<le> lba'"
  shows "\<exists>st1 b st2. device_write (Some d) (Some (map Some bs)) (of_nat lba) (int n) st = Inr (0, st1)
    \<and> device_read (Some d) (Some (replicate (512 * m) None)) (of_nat lba') (int m) st1 = Inr (0, Some b, st2)
    \<and> map the b = sectors lba' m (content st p)"
  using dev.write_keeps_others [OF assms] dev_wr_Some [OF _ assms(5)] dev_rd_Some by blast

theorem device_write_frame_instance:
  "\<exists>st1 b st2. device_write (Some open_dev) (Some (map Some (replicate 512 7))) (of_nat 1) (int 1) open_host = Inr (0, st1)
    \<and> device_read (Some open_dev) (Some (replicate (512 * 1) None)) (of_nat 0) (int 1) st1 = Inr (0, Some b, st2)
    \<and> map the b = sectors 0 1 (replicate 1600 0)"
  using device_write_frame [OF open_host_ok(1), of 1 1 "replicate 512 7" 1 0] by (simp add: open_host_ok(2) [simplified])

text \<open>C33: opening a second image that does not exist resets the stream but leaves the device marked open;
  the next read then uses a null stream, which \<open>device_write\<close> checks for and \<open>device_read\<close> does not.\<close>

theorem device_reopen_failure:
  fixes st :: "'a dev_st_scheme"
  assumes "DEVICE_IS_OPEN d" and "files st p = None" and "count \<noteq> 0"
    and "device_open (Some d) (Some p) st = (r, Some d', st')"
  shows "device_read (Some d') (Some b) lba count st' = Inl NullDeref
    \<and> device_write (Some d') (Some b) lba count st' = Inr (- 1, st')"
  using assms
  by (auto simp: device_open_def fopen_rpb_def fopen_rb_def DEVICE_IS_OPEN_def device_read_def
      device_write_def the_stream_def Let_def split: if_splits)

theorem device_reopen_failure_instance:
  "device_read (Some (open_dev\<lparr>path := ascii ''x''\<rparr>)) (Some []) 0 1 (open_host\<lparr>fildev_fp := FpNull\<rparr>) = Inl NullDeref
    \<and> device_write (Some (open_dev\<lparr>path := ascii ''x''\<rparr>)) (Some []) 0 1 (open_host\<lparr>fildev_fp := FpNull\<rparr>)
      = Inr (- 1, open_host\<lparr>fildev_fp := FpNull\<rparr>)"
proof (rule device_reopen_failure [where d = open_dev and st = open_host and p = "ascii ''x''" and r = "- 1"])
  show "DEVICE_IS_OPEN open_dev" using open_host_ok(3) by (simp add: attached_def)
  show x: "files open_host (ascii ''x'') = None" by (simp add: open_host_def disk_host_def)
  show "device_open (Some open_dev) (Some (ascii ''x'')) open_host
      = (- 1, Some (open_dev\<lparr>path := ascii ''x''\<rparr>), open_host\<lparr>fildev_fp := FpNull\<rparr>)"
    using x by (simp add: device_open_def fopen_rpb_def fopen_rb_def)
qed simp

end
