(* ===== verification/FdiskProps.thy ===== *)
theory FdiskProps
  imports Fdisk DeviceProps
begin

text \<open>
  The properties of the command loop of \<open>fdisk\<close> and of its options: what a line is, how it is
  split and dispatched, how the loop goes through the input, and the inputs that make the
  program leave defined behaviour.
\<close>

section \<open>Reading lines\<close>

text \<open>The line read so far: no block yet, or a block with the bytes and a NUL.\<close>

definition line_is :: "block option \<Rightarrow> u8 list \<Rightarrow> bool" where
  "line_is p acc \<longleftrightarrow> (if acc = [] then p = None else p = Some (map Some acc @ [Some 0]))"

lemma c_realloc_line:
  assumes "heap_good st" and "line_is p acc" and "xs \<noteq> []" and "length acc + length xs + 1 < 2 ^ 63"
  shows "\<exists>c. c_realloc p (of_nat (length acc + length xs + 1)) st
    = (Some (map Some acc @ c # replicate (length xs) None), st)"
proof -
  let ?n = "of_nat (length acc + length xs + 1) :: u64"
  have n: "unat ?n = length acc + length xs + 1"
    using assms(4) unat_of_nat [where 'a = 64, of "length acc + length xs + 1"]
    by (simp del: of_nat_add of_nat_Suc)
  have m: "c_malloc ?n st = (Some (replicate (length acc + length xs + 1) None), st)"
    using c_malloc_good [OF assms(1), of ?n] n assms(4) by (simp del: of_nat_add)
  show ?thesis
  proof (cases "acc = []")
    case True
    then show ?thesis using assms(2) m n
      by (simp add: line_is_def c_realloc_def Let_def del: of_nat_add)
  next
    case False
    then have "p = Some (map Some acc @ [Some 0])" using assms(2) by (simp add: line_is_def)
    then show ?thesis using m n
      by (simp add: c_realloc_def Let_def del: of_nat_add)
  qed
qed

text \<open>One round of the loop on a chunk without NUL.\<close>

lemma readline_step:
  fixes st :: "'a repl_st_scheme"
  assumes good: "heap_good st" and line: "line_is p acc"
    and f: "fgets BUFFSZ (stdin st) = Some (chunk, rest)" and nz: "0 \<notin> set chunk" "chunk \<noteq> []"
    and small: "length acc + length chunk + 1 < 2 ^ 63"
  shows "readline_loop p (length acc) st =
    (if last chunk = newline
     then Inr (Some (map Some (acc @ butlast chunk) @ [Some 0, Some 0]), st\<lparr>stdin := rest\<rparr>)
     else readline_loop (Some (map Some (acc @ chunk) @ [Some 0])) (length (acc @ chunk)) (st\<lparr>stdin := rest\<rparr>))"
proof -
  let ?st = "st\<lparr>stdin := rest\<rparr>"
  have "heap_good ?st" using good by (simp add: heap_good_def)
  from c_realloc_line [OF this line nz(2) small] obtain c where
    r: "c_realloc p (of_nat (length acc + length chunk + 1)) ?st
      = (Some (map Some acc @ c # replicate (length chunk) None), ?st)"
    by blast
  have bs: "takeWhile (\<lambda>c. c \<noteq> 0) chunk = chunk" using nz(1) by (auto simp: takeWhile_eq_all_conv)
  obtain xs x where ch: "chunk = xs @ [x]" using nz(2) by (cases chunk rule: rev_cases) auto
  have s1: "store_bytes (map Some acc @ c # replicate (length chunk) None) (length acc) chunk
      = Inr (map Some (acc @ chunk) @ [None])"
    using replicate_append_same [of "length xs" "None :: u8 option"]
    by (simp add: store_bytes_def ch flip: replicate_append_same)
  have s2: "store_byte (map Some (acc @ chunk) @ [None]) (length acc + length chunk) 0
      = Inr (map Some (acc @ chunk) @ [Some 0])"
    by (simp add: store_byte_def list_update_append)
  have l: "load_byte (map Some (acc @ chunk) @ [Some 0]) (length acc + length chunk - 1) = Inr x"
    by (simp add: load_byte_def ch nth_append)
  have s3: "store_byte (map Some (acc @ chunk) @ [Some 0]) (length acc + length chunk - 1) 0
      = Inr (map Some (acc @ xs) @ [Some 0, Some 0])"
    by (simp add: store_byte_def ch list_update_append)
  have nonzero: "length acc + length chunk \<noteq> 0" using nz(2) by simp
  have "readline_loop p (length acc) st =
      (if x = newline then Inr (Some (map Some (acc @ xs) @ [Some 0, Some 0]), ?st)
       else readline_loop (Some (map Some (acc @ chunk) @ [Some 0])) (length acc + length chunk) ?st)"
    by (subst readline_loop.simps)
      (simp only: f bs Let_def r fst_conv snd_conv option.case prod.case s1 s2 l s3 nonzero rbind_simps if_False)
  then show ?thesis by (simp add: ch)
qed

lemma first_line_split:
  "newline \<notin> set l \<Longrightarrow> first_line (l @ newline # rest) = l @ [newline]"
  "newline \<notin> set l \<Longrightarrow> first_line l = l"
proof -
  show "first_line l = l" if "newline \<notin> set l"
    using that by (auto simp: first_line_def takeWhile_eq_all_conv)
  have "takeWhile (\<lambda>c. c \<noteq> newline) (l @ newline # rest) = l" if "newline \<notin> set l"
    using that by (induction l) auto
  then show "first_line (l @ newline # rest) = l @ [newline]" if "newline \<notin> set l"
    using that by (simp add: first_line_def)
qed

lemma last_take_absent: "x \<notin> set l \<Longrightarrow> take n l \<noteq> [] \<Longrightarrow> last (take n l) \<noteq> x"
  by (metis in_set_takeD last_in_set)

text \<open>A line of any length is read whole, in as many chunks as it takes.\<close>

lemma readline_loop_line:
  fixes st :: "'a repl_st_scheme"
  assumes "heap_good st" and "line_is p acc" and "stdin st = l @ newline # rest"
    and "newline \<notin> set l" and "0 \<notin> set l" and "length acc + length l + 2 < 2 ^ 63"
  shows "readline_loop p (length acc) st
    = Inr (Some (map Some (acc @ l) @ [Some 0, Some 0]), st\<lparr>stdin := rest\<rparr>)"
  using assms
proof (induction "length l" arbitrary: l acc p st rule: less_induct)
  case less
  let ?nl = "length l < 127"
  have fl: "first_line (stdin st) = l @ [newline]"
    using less.prems(3,4) first_line_split(1) by simp
  have nz: "(0 :: u8) \<noteq> newline" by (simp add: newline_def)
  show ?case
  proof (cases "length l < 127")
    case True
    then have f: "fgets BUFFSZ (stdin st) = Some (l @ [newline], rest)"
      using less.prems(3) fl by (simp add: fgets_def Let_def BUFFSZ_def)
    show ?thesis
      using readline_step [OF less.prems(1,2) f] less.prems(5,6) nz by (simp add: butlast_append)
  next
    case False
    let ?c = "take 127 l"
    have f: "fgets BUFFSZ (stdin st) = Some (?c, drop 127 l @ newline # rest)"
      using False less.prems(3) fl by (simp add: fgets_def Let_def BUFFSZ_def)
    have ne: "l \<noteq> []" using False by auto
    have c: "0 \<notin> set ?c" "?c \<noteq> []" "last ?c \<noteq> newline" "length acc + length ?c + 1 < 2 ^ 63"
      using ne less.prems(4-6) last_take_absent [of newline l 127] by (auto dest: in_set_takeD)
    have s: "readline_loop p (length acc) st = readline_loop (Some (map Some (acc @ ?c) @ [Some 0]))
        (length (acc @ ?c)) (st\<lparr>stdin := drop 127 l @ newline # rest\<rparr>)"
      using readline_step [OF less.prems(1,2) f c(1,2,4)] c(3) by simp
    have good: "heap_good (st\<lparr>stdin := drop 127 l @ newline # rest\<rparr>)"
      using less.prems(1) by (simp add: heap_good_def)
    have line: "line_is (Some (map Some (acc @ ?c) @ [Some 0])) (acc @ ?c)"
      using c(2) by (simp add: line_is_def)
    have "readline_loop (Some (map Some (acc @ ?c) @ [Some 0])) (length (acc @ ?c))
        (st\<lparr>stdin := drop 127 l @ newline # rest\<rparr>)
      = Inr (Some (map Some ((acc @ ?c) @ drop 127 l) @ [Some 0, Some 0]),
          st\<lparr>stdin := drop 127 l @ newline # rest\<rparr>\<lparr>stdin := rest\<rparr>)"
      using less.prems(4-6) False
      by (intro less.hyps [OF _ good line]) (auto dest: in_set_dropD)
    then show ?thesis using s by simp
  qed
qed

lemma readline_loop_eof:
  fixes st :: "'a repl_st_scheme"
  assumes "heap_good st" and "line_is p acc" and "stdin st = l"
    and "newline \<notin> set l" and "0 \<notin> set l" and "length acc + length l + 2 < 2 ^ 63"
  shows "readline_loop p (length acc) st = Inr (None, st\<lparr>stdin := []\<rparr>)"
  using assms
proof (induction "length l" arbitrary: l acc p st rule: less_induct)
  case less
  show ?case
  proof (cases "l = []")
    case True
    then show ?thesis using less.prems(3) by (subst readline_loop.simps) (simp add: fgets_def)
  next
    case False
    let ?c = "take 127 l"
    have "drop (min (length l) 127) l = drop 127 l" by (simp add: min_def)
    then have f: "fgets BUFFSZ (stdin st) = Some (?c, drop 127 l)"
      using False less.prems(3) first_line_split(2) [OF less.prems(4)]
      by (simp add: fgets_def Let_def BUFFSZ_def)
    have ne: "l \<noteq> []" using False by auto
    have c: "0 \<notin> set ?c" "?c \<noteq> []" "last ?c \<noteq> newline" "length acc + length ?c + 1 < 2 ^ 63"
      using ne less.prems(4-6) last_take_absent [of newline l 127] by (auto dest: in_set_takeD)
    have s: "readline_loop p (length acc) st = readline_loop (Some (map Some (acc @ ?c) @ [Some 0]))
        (length (acc @ ?c)) (st\<lparr>stdin := drop 127 l\<rparr>)"
      using readline_step [OF less.prems(1,2) f c(1,2,4)] c(3) by simp
    have good: "heap_good (st\<lparr>stdin := drop 127 l\<rparr>)"
      using less.prems(1) by (simp add: heap_good_def)
    have line: "line_is (Some (map Some (acc @ ?c) @ [Some 0])) (acc @ ?c)"
      using c(2) by (simp add: line_is_def)
    have "readline_loop (Some (map Some (acc @ ?c) @ [Some 0])) (length (acc @ ?c)) (st\<lparr>stdin := drop 127 l\<rparr>)
      = Inr (None, st\<lparr>stdin := drop 127 l\<rparr>\<lparr>stdin := []\<rparr>)"
      using less.prems(4-6) False
      by (intro less.hyps [OF _ good line, where l = "drop 127 l"]) (auto dest: in_set_dropD)
    then show ?thesis using s by simp
  qed
qed

lemma line_start: "line_is None []"
  by (simp add: line_is_def)

lemma readline_line:
  assumes "heap_good st" and "stdin st = l @ newline # rest" and "newline \<notin> set l" and "0 \<notin> set l"
    and "length l < 2 ^ 62" and "37 \<notin> set prompt"
  shows "readline prompt st
    = Inr (Some (map Some l @ [Some 0, Some 0]), (print_out prompt st)\<lparr>stdin := rest\<rparr>)"
proof -
  have "heap_good (print_out prompt st)" using assms(1) by (simp add: heap_good_def print_out_def)
  from readline_loop_line [OF this line_start, of l rest] show ?thesis
    using assms by (simp add: readline_def format0_plain)
qed

section \<open>Samples\<close>

definition fdisk_host :: "u8 list \<Rightarrow> fdisk_st" where
  "fdisk_host inp = \<lparr>heap_ok = \<lambda>_. True, files = [ascii ''d'' \<mapsto> replicate 1600 0], writable = \<lambda>_. True,
     room = 0, out = [], err = [], errtext = [], seekable = \<lambda>_. True, fildev_fp = FpNull,
     stdin = inp, fdisk_name = ascii ''fdisk'', partfile = [None, None, None, None],
     do_list = 0, do_script = 0, do_import = 0, do_export = 0\<rparr>"

lemma fdisk_host_good [simp]: "heap_good (fdisk_host inp)" "stdin (fdisk_host inp) = inp"
  "partfile (fdisk_host inp) = [None, None, None, None]"
  by (simp_all add: fdisk_host_def heap_good_def)

definition unset_context :: fdisk_context where
  "unset_context = \<lparr>dsk_fname = Indet, dsk_fp = Indet, script = Indet\<rparr>"

section \<open>Lines\<close>

text \<open>C27: with memory to spare, \<open>readline\<close> returns the next line of the input, however long, as a
  C string without its newline, and leaves the rest of the input unread.\<close>

theorem readline_reads_line:
  assumes "heap_good st" and "stdin st = l @ newline # rest" and "newline \<notin> set l" and "0 \<notin> set l"
    and "length l < 2 ^ 62" and "37 \<notin> set prompt"
  shows "\<exists>b. readline prompt st = Inr (Some b, (print_out prompt st)\<lparr>stdin := rest\<rparr>) \<and> cstr b = Inr l"
  using readline_line [OF assms] cstr_append_zero [OF assms(4)] by simp

theorem readline_reads_line_instance:
  "\<exists>b. readline (ascii ''> '') (fdisk_host (replicate 300 65 @ newline # [66]))
      = Inr (Some b, (print_out (ascii ''> '') (fdisk_host (replicate 300 65 @ newline # [66])))\<lparr>stdin := [66]\<rparr>)
    \<and> cstr b = Inr (replicate 300 65)"
  by (rule readline_reads_line) (simp_all add: newline_def)

text \<open>The last line is lost when it does not end in a newline: \<open>readline\<close> reports the end of the input.\<close>

lemma readline_drops_last:
  fixes st :: "'a repl_st_scheme"
  assumes "heap_good st" and "newline \<notin> set (stdin st)" and "0 \<notin> set (stdin st)"
    and "length (stdin st) < 2 ^ 62" and "37 \<notin> set prompt"
  shows "readline prompt st = Inr (None, (print_out prompt st)\<lparr>stdin := []\<rparr>)"
proof -
  have "heap_good (print_out prompt st)" using assms(1) by (simp add: heap_good_def print_out_def)
  from readline_loop_eof [OF this line_start, of "stdin st"] show ?thesis
    using assms by (simp add: readline_def format0_plain)
qed



text \<open>The tokens of a line are not empty, contain no separator, and are the line without its separators.\<close>

lemma tokens_words:
  "concat (tokens s) = filter (\<lambda>c. \<not> delim c) s
    \<and> (\<forall>t \<in> set (tokens s). t \<noteq> [] \<and> (\<forall>c \<in> set t. \<not> delim c))"
proof (induction s rule: tokens.induct)
  case (2 c cs)
  let ?P = "\<lambda>x. \<not> delim x"
  show ?case
  proof (cases "delim c")
    case False
    let ?w = "takeWhile ?P cs" and ?r = "dropWhile ?P cs"
    have w: "\<forall>x \<in> set ?w. ?P x" by (auto dest: set_takeWhileD)
    have "filter ?P cs = filter ?P ?w @ filter ?P ?r"
      by (simp only: filter_append [symmetric] takeWhile_dropWhile_id)
    then have f: "filter ?P cs = ?w @ filter ?P ?r" using w by (simp add: filter_True)
    have t: "tokens (c # cs) = (c # ?w) # tokens ?r" using False by simp
    have r: "dropWhile ?P (c # cs) = ?r" using False by simp
    have IH: "concat (tokens ?r) = filter ?P ?r" "\<forall>t \<in> set (tokens ?r). t \<noteq> [] \<and> (\<forall>c \<in> set t. ?P c)"
      using "2.IH"(2) [OF False] unfolding r by blast+
    have "concat (tokens (c # cs)) = filter ?P (c # cs)"
      unfolding t by (simp only: concat.simps append_Cons IH(1) f filter.simps False not_False_eq_True if_True)
    moreover have "u \<noteq> [] \<and> (\<forall>x \<in> set u. ?P x)" if u: "u \<in> set (tokens (c # cs))" for u
    proof -
      from u consider (first) "u = c # ?w" | (other) "u \<in> set (tokens ?r)"
        unfolding t list.set by blast
      then show ?thesis
      proof cases
        case first
        have "\<forall>x \<in> set (c # ?w). ?P x" using w False unfolding list.set by blast
        then show ?thesis unfolding first by (intro conjI list.distinct(2))
      next
        case other
        then show ?thesis using IH(2) by blast
      qed
    qed
    ultimately show ?thesis by blast
  next
    case True
    then have same: "tokens (c # cs) = tokens cs" "filter ?P (c # cs) = filter ?P cs" by simp_all
    show ?thesis unfolding same by (rule "2.IH"(1) [OF True])
  qed
qed simp



section \<open>The loop\<close>

lemma repl_step:
  fixes st :: "'a repl_st_scheme"
  assumes "readline (ascii ''(fdisk) '') st = Inr (Some b, st1)" and "load_byte b 0 = Inr c" and "c \<noteq> 0"
  shows "repl package commit ctx st = rbind (parse_cmd package commit ctx b st1)
    (\<lambda>(r, ctx, st). case r of Exit k \<Rightarrow> Inr (Exit k, ctx, st) | Return _ \<Rightarrow> repl package commit ctx st)"
  unfolding repl.simps [of package commit ctx st] assms(1) using assms(2,3) by simp

lemma repl_line:
  fixes st :: "'a repl_st_scheme"
  assumes "heap_good st" and "stdin st = l @ newline # rest" and "l \<noteq> []" and "newline \<notin> set l"
    and "0 \<notin> set l" and "length l < 2 ^ 62"
  shows "repl package commit ctx st
    = rbind (parse_cmd package commit ctx (map Some l @ [Some 0, Some 0])
              ((print_out (ascii ''(fdisk) '') st)\<lparr>stdin := rest\<rparr>))
        (\<lambda>(r, ctx, st). case r of Exit k \<Rightarrow> Inr (Exit k, ctx, st) | Return _ \<Rightarrow> repl package commit ctx st)"
proof -
  have "37 \<notin> set (ascii ''(fdisk) '')" by simp
  note rd = readline_line [OF assms(1,2,4,5,6) this]
  obtain c cs where l: "l = c # cs" "c \<noteq> 0" using assms(3,5) by (cases l) auto
  then have "load_byte (map Some l @ [Some 0, Some 0]) 0 = Inr c"
    by (simp add: load_byte_def)
  from repl_step [OF rd this l(2)] show ?thesis .
qed



lemma tokens_blank: "\<forall>c \<in> set l. delim c \<Longrightarrow> tokens l = []"
  by (induction l) auto

text \<open>C34: a line of spaces and tabs has no first word, and the loop passes the null pointer to \<open>strcmp\<close>.\<close>

theorem repl_blank_line:
  fixes st :: "'a repl_st_scheme"
  assumes "heap_good st" and "stdin st = l @ newline # rest" and "l \<noteq> []" and "\<forall>c \<in> set l. delim c"
    and "length l < 2 ^ 62"
  shows "repl package commit ctx st = Inl NullDeref"
proof -
  have nz: "newline \<notin> set l" "0 \<notin> set l"
    using assms(4) by (auto simp: delim_def newline_def)
  have "cstr (map Some l @ [Some 0, Some 0]) = Inr l" using cstr_append_zero [OF nz(2)] by simp
  then have "parse_cmd package commit ctx (map Some l @ [Some 0, Some 0]) s = Inl NullDeref" for s :: "'a repl_st_scheme"
    by (simp add: parse_cmd_def tokens_blank [OF assms(4)] pad_argv_def MAXARGS_def cmds_def)
  then show ?thesis
    using repl_line [OF assms(1,2,3) nz assms(5)] by simp
qed

theorem repl_blank_line_instance:
  "repl [] [] unset_context (fdisk_host ([32, 9] @ newline # [])) = Inl NullDeref"
  by (rule repl_blank_line [where l = "[32, 9]" and rest = "[]"]) (simp_all add: delim_def)

section \<open>Commands and the program\<close>

text \<open>\<open>help\<close> with the name of a command prints that command's entry and succeeds; with any other word
  it prints an error and fails.\<close>

lemma help_finds_command:
  "cmd_help 2 (pad_argv [ascii ''help'', a]) st =
    (case find (\<lambda>c. cmd c = a) cmds of
       Some c \<Rightarrow> (0, cmd_help_print_idx c st)
     | None \<Rightarrow> (- 1, print_out (esc ''[31mError:'' @ esc ''[0m Unknown command '' @ [34] @ a @ [34, newline]) st))"
proof -
  have "cmd_help_loop cs (Some a) st =
    (case find (\<lambda>c. cmd c = a) cs of
       Some c \<Rightarrow> (0, cmd_help_print_idx c st)
     | None \<Rightarrow> (- 1, print_out (esc ''[31mError:'' @ esc ''[0m Unknown command '' @ [34] @ a @ [34, newline]) st))" for cs
    by (induction cs) auto
  then show ?thesis by (simp add: cmd_help_def pad_argv_def)
qed

lemma print_unset: "run_cb package commit Cmd_print unset_context argc argv st = Inl UninitRead"
  and quit_unset: "run_cb package commit Cmd_quit unset_context argc argv st = Inl UninitRead"
  by (simp_all add: run_cb_def cmd_print_def cmd_quit_def unset_context_def cell_read_def)

text \<open>C35: \<open>parted\<close> runs the loop with a context it never set up: once the disk is open, \<open>print\<close> and \<open>quit\<close>
  read an indeterminate pointer.\<close>

theorem parted_unset_context:
  fixes st :: "'a fdisk_st_scheme"
  assumes "files st disk = Some img" and "writable st disk" and "seekable st disk" and "heap_good st"
    and "stdin st = word @ newline # rest" and "word = ascii ''print'' \<or> word = ascii ''quit''"
  shows "parted package commit dev0 disk st = Inl UninitRead"
proof -
  obtain dev st1 where o: "device_open (Some dev0) (Some disk) st = (0, dev, st1)"
    and s1: "heap_good st1" "stdin st1 = stdin st"
    using assms(1-4)
    by (simp add: device_open_def fopen_rpb_def fopen_rb_def Let_def heap_good_def)
  have w: "newline \<notin> set word" "0 \<notin> set word" "word \<noteq> []" "length word < 2 ^ 62" "\<forall>c \<in> set word. \<not> delim c"
    using assms(6) by (auto simp: newline_def delim_def)
  have tk: "tokens word = [word]"
    using assms(6) by (elim disjE) (simp_all add: delim_def)
  have "cstr (map Some word @ [Some 0, Some 0]) = Inr word" using cstr_append_zero [OF w(2)] by simp
  then have "parse_cmd package commit unset_context (map Some word @ [Some 0, Some 0]) s = Inl UninitRead" for s :: "'a fdisk_st_scheme"
    using assms(6) print_unset quit_unset
    by (elim disjE) (simp_all add: parse_cmd_def tk [simplified] delim_def pad_argv_def MAXARGS_def cmds_def)
  moreover have "stdin st1 = word @ newline # rest" using s1(2) assms(5) by simp
  ultimately have "repl package commit unset_context st1 = Inl UninitRead"
    using repl_line [OF s1(1) _ w(3,1,2,4)] by simp
  then show ?thesis by (simp add: parted_def o unset_context_def)
qed

theorem parted_unset_context_instance:
  "parted [] [] closed_dev (ascii ''d'') (fdisk_host (ascii ''quit'' @ newline # [])) = Inl UninitRead"
  by (rule parted_unset_context [where img = "replicate 1600 0" and word = "ascii ''quit''" and rest = "[]"]) (simp_all add: fdisk_host_def heap_good_def)

text \<open>C36: the check of the digit of \<open>-p\<close> can never fail, so an option such as \<open>-p 7 img\<close> writes outside the
  array of four file names; a digit from 0 to 3 sets its entry.\<close>

theorem fdisk_partfile_bounds:
  fixes st :: "'a fdisk_st_scheme"
  assumes "length (partfile st) = 4"
  shows "(first_char optarg < 48 \<or> 51 < first_char optarg \<longrightarrow>
      fdisk_main package commit bugreport dev0 argv0 [ascii ''-p'', optarg, img, disk] st = Inl OutOfBounds)
    \<and> (48 \<le> first_char optarg \<and> first_char optarg \<le> 51 \<and> disk \<noteq> [] \<and> hd disk \<noteq> 45 \<longrightarrow>
      fdisk_main package commit bugreport dev0 argv0 [ascii ''-p'', optarg, img, disk] st
      = parted package commit dev0 disk (st\<lparr>fdisk_name := basename argv0,
          partfile := (partfile st)[nat (first_char optarg - 48) := Some img]\<rparr>))"
proof -
  have never: "\<not> (first_char optarg < 48 \<and> 51 < first_char optarg)" by linarith
  have "fdisk_main package commit bugreport dev0 argv0 [ascii ''-p'', optarg, img, disk] st
    = rbind (rbind (set_partfile optarg img (st\<lparr>fdisk_name := basename argv0\<rparr>))
        (fdisk_opts package commit bugreport argv0 [] [disk])) (\<lambda>(r, operands, st).
          case r of
            Some code \<Rightarrow> Inr (code, st)
          | None \<Rightarrow>
              (case operands of
                 [] \<Rightarrow> Inr (fdisk_usage bugreport EXIT_FAILURE st)
               | disk_path # _ \<Rightarrow> parted package commit dev0 disk_path st))"
    unfolding fdisk_main_def
    by (subst fdisk_opts.simps) (simp add: Let_def never del: not_less de_Morgan_conj)
  moreover have "disk \<noteq> [] \<and> hd disk \<noteq> 45 \<Longrightarrow>
      fdisk_opts package commit bugreport argv0 [] [disk] s = Inr (None, [disk], s)" for s :: "'a fdisk_st_scheme"
    by (subst fdisk_opts.simps) simp
  ultimately show ?thesis
    using assms by (auto simp: set_partfile_def Let_def)
qed

theorem fdisk_partfile_bounds_instance:
  "fdisk_main [] [] [] closed_dev (ascii ''fdisk'') [ascii ''-p'', ascii ''7'', ascii ''img'', ascii ''d''] (fdisk_host [])
    = Inl OutOfBounds"
  using fdisk_partfile_bounds [of "fdisk_host []" "ascii ''7''" "[]" "[]" "[]" closed_dev "ascii ''fdisk''"
      "ascii ''img''" "ascii ''d''"]
  by (simp add: first_char_def)

end
