(* ===== verification/Mbr.thy ===== *)
theory Mbr
  imports Fdisk Codec
begin

text \<open>
  The partition table of a disk (\<open>src/sbin/fdisk/mbr.h\<close>) and the program that prints it: the former
  \<open>main\<close> of \<open>fdisk\<close>, which \<open>src/sbin/fdisk/main.c\<close> keeps under \<open>#if 0\<close> behind the current one.  It
  shares \<open>usage\<close> and the program name with it.
\<close>

section \<open>The master boot record\<close>




record Partition =
  attributes :: u8
  chs_start :: "u8 list"
  part_type :: u8
  chs_last_sector :: "u8 list"
  lba_start :: u32
  sectors_count :: u32

record MBRHeader =
  mbr_raw :: "u8 list"
  mbr_uid :: "u8 list"
  mbr_part :: "Partition list"
  mbr_magic :: "u8 list"
















section \<open>The program\<close>

record mbr_st = fdisk_st +
  dump_info :: int
  diskpath :: "u8 list option"
  partfp :: "stream option list"
  header :: MBRHeader




text \<open>
  The option \<open>-p\<close>: \<open>argv\<close> was advanced past the option, so that \<open>argv[2]\<close> is the second argument behind
  it; the first one is skipped afterwards.  A path that cannot be opened is reported with
  \<open>diskpath\<close>, which is still null.
\<close>

definition set_partfp ::
  "u8 list \<Rightarrow> u8 list \<Rightarrow> u8 list list \<Rightarrow> 'a mbr_st_scheme \<Rightarrow> (int option \<times> 'a mbr_st_scheme) res" where
  "set_partfp bugreport a args st =
     (let c = sint ((case drop 2 a of [] \<Rightarrow> 0 | x # _ \<Rightarrow> x) - 48 :: u8)
      in if c < 0 \<and> c > 3 then (let (r, st) = fdisk_usage bugreport EXIT_FAILURE st in Inr (Some r, st))
         else case args of
           [] \<Rightarrow> Inl OutOfBounds
         | [img] \<Rightarrow> Inl NullDeref
         | img # file # _ \<Rightarrow>
             if 0 \<le> c \<and> c < int (length (partfp st))
             then (let st = st\<lparr>partfp := (partfp st)[nat c := fopen_rb file st]\<rparr>
                   in if partfp st ! nat c \<noteq> None then Inr (None, st)
                      else case diskpath st of
                             None \<Rightarrow> Inl NullDeref
                           | Some d \<Rightarrow> Inr (Some EXIT_FAILURE, print_err (d @ ascii '': '' @ errtext st @ [newline]) st))
             else Inl OutOfBounds)"




section \<open>What the program prints\<close>






text \<open>The option \<open>-p0 img\<close> opens the argument behind the image.\<close>

lemma set_partfp_skips:
  assumes "files st disk = Some c" and "partfp st = f # fs"
  shows "set_partfp bugreport (ascii ''-p0'') (img # disk # args) st
    = Inr (None, st\<lparr>partfp := Some \<lparr>s_path = disk, s_pos = 0\<rparr> # fs\<rparr>)"
  using assms by (simp add: set_partfp_def fopen_rb_def)





end
