(* ===== verification/Gpt.thy ===== *)
theory Gpt
  imports Codec
begin

text \<open>
  The header of a GUID partition table and the identifiers it uses (\<open>src/sbin/fdisk/gpt.h\<close>,
  \<open>src/sbin/fdisk/guid.h\<close>) as they lie in memory.  No code of the repository reads them yet; a struct
  read from a disk has these layouts, with four bytes behind the last field of the header.
\<close>

section \<open>Records\<close>

definition GPT_MAGIC :: "u8 list" where "GPT_MAGIC = ascii ''EFI PART''"

record gpt_header =
  gpt_magic :: "u8 list"
  revision :: u32
  hsize :: u32
  hcrc32 :: u32
  reserved :: u32
  curr_LBA :: u64
  alt_LBA :: u64
  fuse_LBA :: u64
  luse_LBA :: u64
  gpt_guid :: "u8 list"
  start_LBA :: u64
  pentnum :: u32
  pentsize :: u32
  pentcrc32 :: u32

record GUID =
  d1 :: u32
  d2 :: u16
  d3 :: u16
  d4 :: u16
  d5 :: "u8 list"

section \<open>Layout\<close>

text \<open>The fields take 92 bytes; the compiler pads the struct to a multiple of eight.\<close>

definition gpt_size :: nat where "gpt_size = 92"
definition sizeof_GUID :: nat where "sizeof_GUID = 16"

definition enc_gpt :: "gpt_header \<Rightarrow> u8 list" where
  "enc_gpt h = gpt_magic h @ le32 (revision h) @ le32 (hsize h) @ le32 (hcrc32 h) @ le32 (reserved h)
     @ le64 (curr_LBA h) @ le64 (alt_LBA h) @ le64 (fuse_LBA h) @ le64 (luse_LBA h) @ gpt_guid h
     @ le64 (start_LBA h) @ le32 (pentnum h) @ le32 (pentsize h) @ le32 (pentcrc32 h)"

definition dec_gpt :: "u8 list \<Rightarrow> gpt_header" where
  "dec_gpt bs =
     \<lparr>gpt_magic = take 8 bs, revision = rd32 bs 8, hsize = rd32 bs 12, hcrc32 = rd32 bs 16, reserved = rd32 bs 20,
      curr_LBA = rd64 bs 24, alt_LBA = rd64 bs 32, fuse_LBA = rd64 bs 40, luse_LBA = rd64 bs 48,
      gpt_guid = take 16 (drop 56 bs), start_LBA = rd64 bs 72, pentnum = rd32 bs 80, pentsize = rd32 bs 84,
      pentcrc32 = rd32 bs 88\<rparr>"

definition gpt_ok :: "gpt_header \<Rightarrow> bool" where
  "gpt_ok h \<longleftrightarrow> length (gpt_magic h) = 8 \<and> length (gpt_guid h) = 16"

definition enc_guid :: "GUID \<Rightarrow> u8 list" where
  "enc_guid g = le32 (d1 g) @ le16 (d2 g) @ le16 (d3 g) @ le16 (d4 g) @ d5 g"

definition dec_guid :: "u8 list \<Rightarrow> GUID" where
  "dec_guid bs = \<lparr>d1 = rd32 bs 0, d2 = rd16 bs 4, d3 = rd16 bs 6, d4 = rd16 bs 8, d5 = take 6 (drop 10 bs)\<rparr>"

definition guid_ok :: "GUID \<Rightarrow> bool" where
  "guid_ok g \<longleftrightarrow> length (d5 g) = 6"

lemma dec_enc_gpt: "gpt_ok h \<Longrightarrow> dec_gpt (enc_gpt h) = h"
  by (simp add: gpt_ok_def dec_gpt_def enc_gpt_def decode_rules)

lemma enc_dec_gpt: "length bs = gpt_size \<Longrightarrow> enc_gpt (dec_gpt bs) = bs"
  by (simp add: dec_gpt_def enc_gpt_def gpt_size_def encode_rules)

interpretation gpt: layout enc_gpt dec_gpt gpt_size gpt_ok
  by unfold_locales
    (simp add: gpt_size_def, simp add: gpt_size_def enc_gpt_def gpt_ok_def, erule dec_enc_gpt, erule enc_dec_gpt,
      simp add: gpt_size_def dec_gpt_def gpt_ok_def)

lemma dec_enc_guid: "guid_ok g \<Longrightarrow> dec_guid (enc_guid g) = g"
  by (simp add: guid_ok_def dec_guid_def enc_guid_def decode_rules)

lemma enc_dec_guid: "length bs = sizeof_GUID \<Longrightarrow> enc_guid (dec_guid bs) = bs"
  by (simp add: dec_guid_def enc_guid_def sizeof_GUID_def encode_rules)

interpretation guid: layout enc_guid dec_guid sizeof_GUID guid_ok
  by unfold_locales
    (simp add: sizeof_GUID_def, simp add: sizeof_GUID_def enc_guid_def guid_ok_def, erule dec_enc_guid,
      erule enc_dec_guid, simp add: sizeof_GUID_def dec_guid_def guid_ok_def)

text \<open>The identifier field of the header is the layout of a \<open>GUID\<close>.\<close>

lemma header_guid: "gpt_ok h \<Longrightarrow> enc_guid (dec_guid (gpt_guid h)) = gpt_guid h"
  by (simp add: gpt_ok_def guid.enc_dec sizeof_GUID_def)

end
