(* ===== verification/Archive.thy ===== *)
theory Archive
  imports CLib
begin

text \<open>
  Reading \<open>ar\<close> archives (\<open>src/bin/ar/archive.c\<close>, \<open>src/bin/ar/archive.h\<close>, \<open>src/include/ar.h\<close>).  An
  open file descriptor is a \<open>stream\<close> (path and offset).  The system call \<open>read\<close> may deliver
  fewer bytes than asked for, or fail; the host decides each time: \<open>io\<close> lists its coming
  answers, negative for a failure, 0 for a full read, a positive number for an upper bound on
  the bytes delivered.  The loop over \<open>read\<close> may run forever when reads keep failing, so the
  functions that read are partial: \<open>None\<close> is a call that does not return.
\<close>

section \<open>State\<close>

record ar_st = os +
  io :: "nat \<Rightarrow> int"

record archive_entry_hdr =
  ae_offset :: u32
  ae_date :: u64
  ae_gid :: u32
  ae_uid :: u32
  ae_mode :: u16
  ae_size :: u64
  ae_name :: block

record arhdr =
  ar_name :: "u8 list"
  ar_date :: "u8 list"
  ar_uid :: "u8 list"
  ar_gid :: "u8 list"
  ar_mode :: "u8 list"
  ar_size :: "u8 list"
  ar_fmag :: "u8 list"

definition ARMAG :: "u8 list" where "ARMAG = ascii ''!<arch>'' @ [newline]"
definition SARMAG :: nat where "SARMAG = 8"
definition ARFMAG :: "u8 list" where "ARFMAG = [96, newline]"
definition AR_SYMTAB_NAME :: "u8 list" where "AR_SYMTAB_NAME = ascii ''__.SYMDEF''"
definition AR_EXTNAME :: "u8 list" where "AR_EXTNAME = ascii ''#1/''"
definition AR_EXTNAME_SZ :: nat where "AR_EXTNAME_SZ = 3"
definition SAR_HDR :: nat where "SAR_HDR = 60"
definition AR_NAMESZ :: nat where "AR_NAMESZ = 255"

definition dec_arhdr :: "u8 list \<Rightarrow> arhdr" where
  "dec_arhdr bs =
     \<lparr>ar_name = take 16 bs, ar_date = take 12 (drop 16 bs), ar_uid = take 6 (drop 28 bs),
      ar_gid = take 6 (drop 34 bs), ar_mode = take 8 (drop 40 bs), ar_size = take 10 (drop 48 bs),
      ar_fmag = take 2 (drop 58 bs)\<rparr>"

text \<open>Sequencing of partial, fallible steps.\<close>

definition pbind :: "'a res option \<Rightarrow> ('a \<Rightarrow> 'b res option) \<Rightarrow> 'b res option" where
  "pbind m f = Option.bind m (\<lambda>r. case r of Inl e \<Rightarrow> Some (Inl e) | Inr x \<Rightarrow> f x)"

lemma pbind_simps [simp]:
  "pbind None f = None" "pbind (Some (Inl e)) f = Some (Inl e)" "pbind (Some (Inr x)) f = f x"
  by (simp_all add: pbind_def)

lemma pbind_mono [partial_function_mono]:
  assumes m: "mono_option m" and f: "\<And>x. mono_option (\<lambda>g. f x g)"
  shows "mono_option (\<lambda>g. pbind (m g) (\<lambda>x. f x g))"
proof -
  have "mono_option (\<lambda>g. case r of Inl e \<Rightarrow> Some (Inl e) | Inr x \<Rightarrow> f x g)" for r
    by (cases r) (auto intro: f partial_function_mono)
  then show ?thesis
    unfolding pbind_def by (intro bind_mono m)
qed

lemma pbind_Some: "pbind m f = Some y \<longleftrightarrow>
    (\<exists>e. m = Some (Inl e) \<and> y = Inl e) \<or> (\<exists>x. m = Some (Inr x) \<and> f x = Some y)"
  by (cases m; cases "the m") auto

section \<open>System calls and number parsing\<close>

definition sys_read :: "nat \<Rightarrow> stream \<Rightarrow> 'a ar_st_scheme \<Rightarrow> int \<times> u8 list \<times> stream \<times> 'a ar_st_scheme" where
  "sys_read n s st =
     (let v = io st 0;
          st = st\<lparr>io := \<lambda>i. io st (Suc i)\<rparr>;
          bs = take (if v = 0 then n else min n (nat v)) (drop (s_pos s) (content st (s_path s)))
      in if v < 0 then (- 1, [], s, st)
         else (int (length bs), bs, s\<lparr>s_pos := s_pos s + length bs\<rparr>, st))"

text \<open>\<open>lseek\<close> from the current offset refuses an offset below 0 or beyond what a \<open>long\<close> holds.\<close>

definition lseek_cur :: "int \<Rightarrow> stream \<Rightarrow> int \<times> stream" where
  "lseek_cur d s =
     (let p = int (s_pos s) + d
      in if p < 0 \<or> 2 ^ 63 \<le> p then (- 1, s) else (p, s\<lparr>s_pos := nat p\<rparr>))"

definition is_space :: "u8 \<Rightarrow> bool" where
  "is_space c \<longleftrightarrow> c = 32 \<or> 9 \<le> c \<and> c \<le> 13"

fun digits_val :: "nat \<Rightarrow> u8 list \<Rightarrow> nat \<Rightarrow> nat" where
  "digits_val base [] acc = acc"
| "digits_val base (c # cs) acc =
     (if 48 \<le> unat c \<and> unat c < 48 + base then digits_val base cs (acc * base + (unat c - 48)) else acc)"

text \<open>\<open>strtol\<close> in base 8 or 10: white space, a sign, digits; the value is clamped to a \<open>long\<close>.\<close>

definition strtol :: "nat \<Rightarrow> u8 list \<Rightarrow> int" where
  "strtol base s =
     (let t = dropWhile is_space s;
          v = (case t of
                 [] \<Rightarrow> 0
               | c # cs \<Rightarrow>
                   if c = 45 then - int (digits_val base cs 0)
                   else if c = 43 then int (digits_val base cs 0) else int (digits_val base t 0))
      in max (- (2 ^ 63)) (min (2 ^ 63 - 1) v))"

section \<open>Reading\<close>

text \<open>
  The loop of \<open>read_data\<close>; \<open>size\<close> and \<open>total\<close> are \<open>ssize_t\<close>, the count passed to \<open>read\<close> a
  \<open>size_t\<close>.  A failed read adds \<open>- 1\<close> to the total.
\<close>

definition store_at :: "block \<Rightarrow> int \<Rightarrow> u8 list \<Rightarrow> block res" where
  "store_at b i bs =
     (if bs = [] then Inr b else if i < 0 then Inl OutOfBounds else store_bytes b (nat i) bs)"

partial_function (option) read_loop ::
  "int \<Rightarrow> int \<Rightarrow> block \<Rightarrow> stream \<Rightarrow> 'a ar_st_scheme \<Rightarrow> (int \<times> block \<times> stream \<times> 'a ar_st_scheme) res option" where
  [code]: "read_loop sz tot b s st =
     (case sys_read (unat (of_int (sz - tot) :: u64)) s st of (rbytes, bs, s, st) \<Rightarrow>
        if rbytes = 0 then Some (Inr (tot, b, s, st))
        else pbind (Some (store_at b tot bs)) (\<lambda>b.
               if sz \<le> tot + rbytes then Some (Inr (tot + rbytes, b, s, st))
               else read_loop sz (tot + rbytes) b s st))"

definition read_data ::
  "block \<Rightarrow> int \<Rightarrow> stream \<Rightarrow> 'a ar_st_scheme \<Rightarrow> (int \<times> block \<times> stream \<times> 'a ar_st_scheme) res option" where
  "read_data buff sz s st = read_loop sz 0 buff s st"

definition archive_open ::
  "u8 list \<Rightarrow> 'a ar_st_scheme \<Rightarrow> (stream option \<times> 'a ar_st_scheme) res option" where
  "archive_open path st =
     (case fopen_rpb path st of
        None \<Rightarrow> Some (Inr (None, st))
      | Some s \<Rightarrow>
          pbind (read_data (replicate SARMAG None) (int SARMAG) s st) (\<lambda>(n, buff, s, st).
            if n \<noteq> int SARMAG then Some (Inr (None, st))
            else pbind (Some (load_bytes buff 0 SARMAG)) (\<lambda>bs.
              if bs \<noteq> ARMAG then Some (Inr (None, st)) else Some (Inr (Some s, st)))))"

text \<open>\<open>AR_STR_TO_NUM\<close>: a field as a C string, read as a number.\<close>

definition AR_STR_TO_NUM :: "u8 list \<Rightarrow> nat \<Rightarrow> int" where
  "AR_STR_TO_NUM from base = strtol base (takeWhile (\<lambda>c. c \<noteq> 0) from)"

text \<open>The loop that removes trailing spaces, from index 15 down; it does not stop before the array.\<close>

fun strip_spaces :: "block \<Rightarrow> nat \<Rightarrow> block res" where
  "strip_spaces b i =
     rbind (load_byte b i) (\<lambda>c.
       if c \<noteq> 32 then Inr b
       else rbind (store_byte b i 0) (\<lambda>b.
              case i of 0 \<Rightarrow> Inl OutOfBounds | Suc j \<Rightarrow> strip_spaces b j))"

declare strip_spaces.simps [simp del]

definition store_nul :: "block \<Rightarrow> int \<Rightarrow> block res" where
  "store_nul b i = (if i < 0 then Inl OutOfBounds else store_byte b (nat i) 0)"

definition archive_get_entry_hdr ::
  "archive_entry_hdr \<Rightarrow> stream \<Rightarrow> 'a ar_st_scheme
    \<Rightarrow> (int \<times> archive_entry_hdr \<times> stream \<times> 'a ar_st_scheme) res option" where
  "archive_get_entry_hdr e s st =
     (let e = e\<lparr>ae_offset := of_nat (s_pos s)\<rparr>
      in pbind (read_data (replicate SAR_HDR None) (int SAR_HDR) s st) (\<lambda>(res, buff, s, st).
         if res \<noteq> int SAR_HDR
         then Some (Inr (if res = 0 then 0 else - 1, e, s, st))
         else pbind (Some (load_bytes buff 0 SAR_HDR)) (\<lambda>bs.
           let hdr = dec_arhdr bs
           in if ar_fmag hdr \<noteq> ARFMAG then Some (Inr (- 1, e, s, st))
              else
                let e = e\<lparr>ae_date := of_int (AR_STR_TO_NUM (ar_date hdr) 10),
                          ae_uid := of_int (AR_STR_TO_NUM (ar_uid hdr) 10),
                          ae_gid := of_int (AR_STR_TO_NUM (ar_gid hdr) 10),
                          ae_mode := of_int (AR_STR_TO_NUM (ar_mode hdr) 8),
                          ae_size := of_int (AR_STR_TO_NUM (ar_size hdr) 10)\<rparr>
                in if take AR_EXTNAME_SZ (ar_name hdr) = AR_EXTNAME
                   then
                     let res = sint (of_int (strtol 10 (takeWhile (\<lambda>c. c \<noteq> 0) (drop AR_EXTNAME_SZ bs))) :: u32)
                     in pbind (read_data (ae_name e) res s st) (\<lambda>(_, name, s, st).
                        pbind (Some (store_nul name res)) (\<lambda>name.
                        Some (Inr (1, e\<lparr>ae_name := name, ae_size := ae_size e - of_int res\<rparr>, s, st))))
                   else pbind (Some (store_bytes (ae_name e) 0 (ar_name hdr))) (\<lambda>name.
                        pbind (Some (strip_spaces name 15)) (\<lambda>name.
                        Some (Inr (1, e\<lparr>ae_name := name\<rparr>, s, st)))))))"

text \<open>The size, rounded up to even, is passed to \<open>lseek\<close> as a signed offset.\<close>

definition archive_skip_entry :: "stream \<Rightarrow> archive_entry_hdr \<Rightarrow> int \<times> stream" where
  "archive_skip_entry s e =
     (let sz = ae_size e; sz = (if ae_size e mod 2 \<noteq> 0 then sz + 1 else sz)
      in lseek_cur (sint sz) s)"

text \<open>A descriptor that is closed is gone; closing it again fails.\<close>

definition archive_close :: "stream option \<Rightarrow> int \<times> stream option" where
  "archive_close fd = (if fd = None then - 1 else 0, None)"

end
