(* ===== verification/ArchiveFormat.thy ===== *)
theory ArchiveFormat
  imports ArchiveRead
begin

text \<open>
  The archive format as \<open>ar\<close> writes it, and the reading of a member header: the numbers that
  were printed into the fields come back, and so does the name, which is in the header or, when
  the header says so, behind it.
\<close>

section \<open>Numbers\<close>

definition fmt_base :: "nat \<Rightarrow> nat \<Rightarrow> u8 list" where
  "fmt_base base n = map (digit_char False) (digits_acc base n [])"

lemma unat_digit_char: "d < 10 \<Longrightarrow> unat (digit_char u d) = 48 + d"
  by (simp add: digit_char_def unat_of_nat del: of_nat_add)

text \<open>The digits that follow a number do not belong to it when the first is no digit.\<close>

definition no_digit :: "u8 list \<Rightarrow> bool" where
  "no_digit r \<longleftrightarrow> r = [] \<or> unat (hd r) < 48 \<or> 58 \<le> unat (hd r)"

lemma digits_val_stop: "no_digit r \<Longrightarrow> base \<le> 10 \<Longrightarrow> digits_val base r acc = acc"
  by (cases r) (auto simp: no_digit_def)

lemma digits_val_digits:
  "2 \<le> b \<Longrightarrow> b \<le> 10 \<Longrightarrow> digits_val b (map (digit_char False) (digits_acc b n ds) @ r) 0
    = digits_val b (map (digit_char False) ds @ r) n"
proof (induction b n ds rule: digits_acc.induct)
  case (1 b n ds)
  show ?case
  proof (cases "n < b")
    case True
    then show ?thesis using "1.prems" by (simp add: digits_acc.simps [of b n ds] unat_digit_char)
  next
    case False
    have "n mod b < b" using "1.prems" by simp
    then have "n mod b < 10" using "1.prems" by linarith
    then have "unat (digit_char False (n mod b)) = 48 + n mod b" by (rule unat_digit_char)
    then show ?thesis
      using False 1 \<open>n mod b < b\<close> by (simp add: digits_acc.simps [of b n ds])
  qed
qed

lemma digits_acc_small: "2 \<le> b \<Longrightarrow> set ds \<subseteq> {..<b} \<Longrightarrow> set (digits_acc b n ds) \<subseteq> {..<b}"
proof (induction b n ds rule: digits_acc.induct)
  case (1 b n ds)
  then show ?case by (cases "n < b") (simp_all add: digits_acc.simps [of b n ds])
qed

lemma digits_acc_nonempty: "digits_acc b n ds \<noteq> []"
proof (induction b n ds rule: digits_acc.induct)
  case (1 b n ds)
  then show ?case by (cases "b < 2 \<or> n < b") (simp_all add: digits_acc.simps [of b n ds])
qed

lemma fmt_base_chars:
  assumes "2 \<le> b" and "b \<le> 10" and "c \<in> set (fmt_base b n)"
  shows "48 \<le> unat c \<and> unat c < 58"
proof -
  obtain d where "c = digit_char False d" "d < b"
    using assms(3) digits_acc_small [OF assms(1), of "[]" n] by (auto simp: fmt_base_def)
  then show ?thesis using assms(2) unat_digit_char [of d False] by simp
qed

lemma strtol_fmt:
  assumes "2 \<le> b" and "b \<le> 10" and "no_digit r" and "n < 2 ^ 63"
  shows "strtol b (fmt_base b n @ r) = int n"
proof -
  obtain c cs where c: "fmt_base b n = c # cs"
    using digits_acc_nonempty [of b n "[]"] by (cases "fmt_base b n") (auto simp: fmt_base_def)
  then have u: "48 \<le> unat c" "unat c < 58" using fmt_base_chars [OF assms(1,2), of c n] by simp_all
  have "c \<noteq> 45" "c \<noteq> 43" "\<not> is_space c"
    using u by (auto simp: is_space_def word_le_nat_alt)
  moreover have "digits_val b (c # cs @ r) 0 = n"
    using digits_val_digits [OF assms(1,2), of n "[]" r] digits_val_stop [OF assms(3,2)] c
    by (simp add: fmt_base_def)
  ultimately show ?thesis
    using assms(4) c by (simp add: strtol_def del: digits_val.simps)
qed

lemma no_digit_spaces [simp]: "no_digit (replicate k 32 @ r) = (k \<noteq> 0 \<or> no_digit r)"
  by (cases k) (simp_all add: no_digit_def)

lemma no_digit_Nil [simp]: "no_digit []"
  by (simp add: no_digit_def)

text \<open>A field of a header, as \<open>AR_STR_TO_NUM\<close> reads it.\<close>

lemma field_num:
  assumes "2 \<le> b" and "b \<le> 10" and "n < 2 ^ 63"
  shows "AR_STR_TO_NUM (pad_right w (fmt_base b n)) b = int n"
proof -
  have "\<forall>c \<in> set (pad_right w (fmt_base b n)). c \<noteq> 0"
    using fmt_base_chars [OF assms(1,2), of 0 n] by (auto simp: pad_right_def)
  then have "takeWhile (\<lambda>c. c \<noteq> 0) (pad_right w (fmt_base b n)) = pad_right w (fmt_base b n)"
    by (simp add: takeWhile_eq_all_conv)
  then show ?thesis
    using strtol_fmt [OF assms(1,2) _ assms(3), of "replicate (w - length (fmt_base b n)) 32"]
      no_digit_spaces [of _ "[]"]
    by (simp add: AR_STR_TO_NUM_def pad_right_def)
qed

lemma length_digits_acc: "2 \<le> b \<Longrightarrow> n < b ^ Suc k \<Longrightarrow> length (digits_acc b n ds) \<le> length ds + Suc k"
proof (induction b n ds arbitrary: k rule: digits_acc.induct)
  case (1 b n ds)
  show ?case
  proof (cases "n < b")
    case True
    then show ?thesis by (simp add: digits_acc.simps [of b n ds])
  next
    case False
    then obtain j where k: "k = Suc j" using "1.prems"(2) by (cases k) auto
    then have "n div b < b ^ Suc j"
      using "1.prems" by (simp add: less_mult_imp_div_less mult.commute)
    then show ?thesis
      using False 1 k by (simp add: digits_acc.simps [of b n ds])
  qed
qed

lemma length_fmt_base: "2 \<le> b \<Longrightarrow> 0 < w \<Longrightarrow> n < b ^ w \<Longrightarrow> length (fmt_base b n) \<le> w"
  using length_digits_acc [of b n "w - 1" "[]"] by (simp add: fmt_base_def)

lemma length_pad_right: "length (pad_right w s) = max w (length s)"
  by (simp add: pad_right_def)

section \<open>Headers\<close>

text \<open>One step of the reader on a whole header, whatever its fields say.\<close>

definition header_fields :: "arhdr \<Rightarrow> archive_entry_hdr \<Rightarrow> archive_entry_hdr" where
  "header_fields hdr e =
     e\<lparr>ae_date := of_int (AR_STR_TO_NUM (ar_date hdr) 10), ae_uid := of_int (AR_STR_TO_NUM (ar_uid hdr) 10),
       ae_gid := of_int (AR_STR_TO_NUM (ar_gid hdr) 10), ae_mode := of_int (AR_STR_TO_NUM (ar_mode hdr) 8),
       ae_size := of_int (AR_STR_TO_NUM (ar_size hdr) 10)\<rparr>"

definition ext_len :: "u8 list \<Rightarrow> int" where
  "ext_len bs = sint (of_int (strtol 10 (takeWhile (\<lambda>c. c \<noteq> 0) (drop AR_EXTNAME_SZ bs))) :: u32)"

definition entry_name ::
  "u8 list \<Rightarrow> archive_entry_hdr \<Rightarrow> stream \<Rightarrow> 'a ar_st_scheme
    \<Rightarrow> (int \<times> archive_entry_hdr \<times> stream \<times> 'a ar_st_scheme) res option" where
  "entry_name hb e s st =
     (if take AR_EXTNAME_SZ (ar_name (dec_arhdr hb)) = AR_EXTNAME
      then pbind (read_data (ae_name e) (ext_len hb) s st) (\<lambda>(_, name, s, st).
             pbind (Some (store_nul name (ext_len hb))) (\<lambda>name.
             Some (Inr (1, e\<lparr>ae_name := name, ae_size := ae_size e - of_int (ext_len hb)\<rparr>, s, st))))
      else pbind (Some (store_bytes (ae_name e) 0 (ar_name (dec_arhdr hb)))) (\<lambda>name.
             pbind (Some (strip_spaces name 15)) (\<lambda>name.
             Some (Inr (1, e\<lparr>ae_name := name\<rparr>, s, st)))))"

lemma get_entry_step:
  fixes st :: "'a ar_st_scheme"
  assumes "reads_ok st" and "rest s st = hb @ tail" and "length hb = SAR_HDR"
    and "ar_fmag (dec_arhdr hb) = ARFMAG"
  obtains f e1 where "\<forall>i. 0 \<le> f i"
    and "e1 = header_fields (dec_arhdr hb) (e\<lparr>ae_offset := of_nat (s_pos s)\<rparr>)"
    and "archive_get_entry_hdr e s st = entry_name hb e1 (adv SAR_HDR s) (st\<lparr>io := f\<rparr>)"
proof -
  have len: "SAR_HDR \<le> length (replicate SAR_HDR (None :: u8 option))" "SAR_HDR < 2 ^ 63"
    by (simp_all add: SAR_HDR_def)
  obtain f where f: "\<forall>i. 0 \<le> f i" and rd: "read_data (replicate SAR_HDR None) (int SAR_HDR) s st =
      (let k = min SAR_HDR (length (rest s st))
       in Some (Inr (int k, map Some (take k (rest s st)) @ drop k (replicate SAR_HDR None), adv k s, st\<lparr>io := f\<rparr>)))"
    by (rule read_data_ok [OF assms(1) len])
  have "min SAR_HDR (length (rest s st)) = SAR_HDR" using assms(2,3) by simp
  then have "read_data (replicate SAR_HDR None) (int SAR_HDR) s st
      = Some (Inr (int SAR_HDR, map Some hb, adv SAR_HDR s, st\<lparr>io := f\<rparr>))"
    unfolding rd using assms(2,3) by (simp add: Let_def)
  moreover have "load_bytes (map Some hb) 0 SAR_HDR = Inr hb"
    using assms(3) by simp
  ultimately show ?thesis
    using assms(4) f
    by (intro that [of f "header_fields (dec_arhdr hb) (e\<lparr>ae_offset := of_nat (s_pos s)\<rparr>)"])
      (simp_all add: archive_get_entry_hdr_def header_fields_def ext_len_def entry_name_def Let_def)
qed

lemma strip_spaces_ok:
  assumes "nm \<noteq> []" and "last nm \<noteq> 32"
  shows "strip_spaces (map Some (nm @ replicate k 32) @ r) (length nm + k - 1)
    = Inr (map Some (nm @ replicate k 0) @ r)"
proof (induction k arbitrary: r)
  case 0
  have "load_byte (map Some nm @ r) (length nm - 1) = Inr (last nm)"
    using assms(1) by (simp add: load_byte_prefix last_conv_nth)
  then have "strip_spaces (map Some nm @ r) (length nm - 1) = Inr (map Some nm @ r)"
    using assms(2) by (simp add: strip_spaces.simps [of _ "length nm - Suc 0"])
  then show ?case by simp
next
  case (Suc k)
  let ?p = "map Some (nm @ replicate k 32)"
  have eq: "map Some (nm @ replicate (Suc k) c) @ r = map Some (nm @ replicate k c) @ Some c # r" for c
    by (simp add: replicate_app_Cons_same)
  have ix: "length nm + Suc k - 1 = length ?p" by simp
  obtain j where j: "length ?p = Suc j" using assms(1) by (cases nm) auto
  have "Suc j < length (?p @ Some 32 # r)" unfolding length_append j by simp
  then have "strip_spaces (?p @ Some 32 # r) (Suc j) = strip_spaces (?p @ Some 0 # r) j"
    using j by (simp add: strip_spaces.simps [of _ "Suc j"] load_byte_def store_byte_def nth_append
        list_update_append del: map_append length_append length_map)
  moreover have "length nm + k - 1 = j" using j by simp
  ultimately show ?case
    unfolding eq ix j using Suc.IH [of "Some 0 # r"] by simp
qed

section \<open>Members\<close>

record member =
  m_name :: "u8 list"
  m_long :: bool        \<comment> \<open>the name is stored behind the header\<close>
  m_date :: nat
  m_uid :: nat
  m_gid :: nat
  m_mode :: nat
  m_data :: "u8 list"

definition m_size :: "member \<Rightarrow> nat" where
  "m_size m = (if m_long m then length (m_name m) else 0) + length (m_data m)"

definition header_bytes :: "member \<Rightarrow> u8 list" where
  "header_bytes m =
     pad_right 16 (if m_long m then AR_EXTNAME @ fmt_dec (length (m_name m)) else m_name m)
     @ pad_right 12 (fmt_dec (m_date m)) @ pad_right 6 (fmt_dec (m_uid m)) @ pad_right 6 (fmt_dec (m_gid m))
     @ pad_right 8 (fmt_base 8 (m_mode m)) @ pad_right 10 (fmt_dec (m_size m)) @ ARFMAG"

definition member_bytes :: "member \<Rightarrow> u8 list" where
  "member_bytes m =
     header_bytes m @ (if m_long m then m_name m else []) @ m_data m
     @ (if odd (m_size m) then [newline] else [])"

text \<open>
  What a header can hold.  A name in the header has up to 15 characters, does not end in a space
  and does not look like the mark of a long one; a long name fits the buffer of the entry with its
  terminator.
\<close>

definition fields_ok :: "member \<Rightarrow> bool" where
  "fields_ok m \<longleftrightarrow> m_date m < 10 ^ 12 \<and> m_uid m < 10 ^ 6 \<and> m_gid m < 10 ^ 6 \<and> m_mode m < 8 ^ 8
     \<and> m_size m < 10 ^ 10"

definition short_name :: "u8 list \<Rightarrow> bool" where
  "short_name nm \<longleftrightarrow> nm \<noteq> [] \<and> length nm < 16 \<and> last nm \<noteq> 32 \<and> take AR_EXTNAME_SZ nm \<noteq> AR_EXTNAME \<and> 0 \<notin> set nm"

definition name_ok :: "member \<Rightarrow> bool" where
  "name_ok m \<longleftrightarrow> (if m_long m then 0 \<notin> set (m_name m) \<and> length (m_name m) < AR_NAMESZ else short_name (m_name m))"

lemma dec_arhdr_fields:
  assumes "length n = 16" "length d = 12" "length u = 6" "length g = 6" "length p = 8" "length z = 10"
    and "length k = 2"
  shows "dec_arhdr (n @ d @ u @ g @ p @ z @ k)
    = \<lparr>ar_name = n, ar_date = d, ar_uid = u, ar_gid = g, ar_mode = p, ar_size = z, ar_fmag = k\<rparr>"
  using assms by (simp add: dec_arhdr_def)

lemma fmt_dec_base: "fmt_dec = fmt_base 10"
  by (simp add: fun_eq_iff fmt_dec_def fmt_base_def)

lemma name_field_length:
  assumes "name_ok m"
  shows "length (if m_long m then AR_EXTNAME @ fmt_dec (length (m_name m)) else m_name m) \<le> 15"
proof (cases "m_long m")
  case True
  then have "length (m_name m) < 10 ^ 3" using assms by (simp add: name_ok_def AR_NAMESZ_def)
  then have "length (fmt_dec (length (m_name m))) \<le> 3"
    using length_fmt_base [of 10 3 "length (m_name m)"] by (simp add: fmt_dec_base)
  then show ?thesis using True by (simp add: AR_EXTNAME_def)
next
  case False
  then show ?thesis using assms by (simp add: name_ok_def short_name_def)
qed

lemma header_dec:
  assumes "fields_ok m" and "name_ok m"
  shows "dec_arhdr (header_bytes m)
    = \<lparr>ar_name = pad_right 16 (if m_long m then AR_EXTNAME @ fmt_dec (length (m_name m)) else m_name m),
       ar_date = pad_right 12 (fmt_dec (m_date m)), ar_uid = pad_right 6 (fmt_dec (m_uid m)),
       ar_gid = pad_right 6 (fmt_dec (m_gid m)), ar_mode = pad_right 8 (fmt_base 8 (m_mode m)),
       ar_size = pad_right 10 (fmt_dec (m_size m)), ar_fmag = ARFMAG\<rparr>"
    and "length (header_bytes m) = SAR_HDR"
proof -
  note f = assms(1) [unfolded fields_ok_def]
  have l: "length (fmt_dec (m_date m)) \<le> 12" "length (fmt_dec (m_uid m)) \<le> 6"
    "length (fmt_dec (m_gid m)) \<le> 6" "length (fmt_base 8 (m_mode m)) \<le> 8"
    "length (fmt_dec (m_size m)) \<le> 10"
    using f by (simp_all add: fmt_dec_base length_fmt_base)
  show "dec_arhdr (header_bytes m)
    = \<lparr>ar_name = pad_right 16 (if m_long m then AR_EXTNAME @ fmt_dec (length (m_name m)) else m_name m),
       ar_date = pad_right 12 (fmt_dec (m_date m)), ar_uid = pad_right 6 (fmt_dec (m_uid m)),
       ar_gid = pad_right 6 (fmt_dec (m_gid m)), ar_mode = pad_right 8 (fmt_base 8 (m_mode m)),
       ar_size = pad_right 10 (fmt_dec (m_size m)), ar_fmag = ARFMAG\<rparr>"
    unfolding header_bytes_def
    using l name_field_length [OF assms(2)]
    by (intro dec_arhdr_fields) (simp_all add: length_pad_right ARFMAG_def)
  show "length (header_bytes m) = SAR_HDR"
    using l name_field_length [OF assms(2)]
    by (simp add: header_bytes_def length_pad_right ARFMAG_def SAR_HDR_def)
qed

text \<open>The numbers of the entry are those of the member.\<close>

lemma header_fields_ok:
  assumes "fields_ok m" and "name_ok m"
  shows "header_fields (dec_arhdr (header_bytes m)) e
    = e\<lparr>ae_date := of_nat (m_date m), ae_uid := of_nat (m_uid m), ae_gid := of_nat (m_gid m),
        ae_mode := of_nat (m_mode m), ae_size := of_nat (m_size m)\<rparr>"
proof -
  have "m_date m < 2 ^ 63" "m_uid m < 2 ^ 63" "m_gid m < 2 ^ 63" "m_mode m < 2 ^ 63" "m_size m < 2 ^ 63"
    using assms(1) by (simp_all add: fields_ok_def)
  then show ?thesis
    by (simp add: header_fields_def header_dec [OF assms] fmt_dec_base field_num)
qed

text \<open>The number behind the mark of a long name is read up to the first blank.\<close>

lemma ext_len_ok:
  assumes "fields_ok m" and "name_ok m" and "m_long m"
  shows "ext_len (header_bytes m) = int (length (m_name m))"
proof -
  let ?n = "length (m_name m)" and ?f = "fmt_base 10 (length (m_name m))"
  let ?k = "13 - length ?f"
  have n: "?n < 10 ^ 3" using assms by (simp add: name_ok_def AR_NAMESZ_def)
  then have l: "length ?f \<le> 3" using length_fmt_base [of 10 3 ?n] by simp
  obtain r where r: "drop AR_EXTNAME_SZ (header_bytes m) = ?f @ replicate ?k 32 @ r"
    using assms(3) by (simp add: header_bytes_def pad_right_def AR_EXTNAME_def AR_EXTNAME_SZ_def fmt_dec_base)
  have z: "c \<noteq> 0" if "c \<in> set (?f @ replicate ?k 32)" for c
    using that fmt_base_chars [of 10 0 ?n] by auto
  have "takeWhile (\<lambda>c. c \<noteq> 0) (?f @ replicate ?k 32 @ r) = ?f @ replicate ?k 32 @ takeWhile (\<lambda>c. c \<noteq> 0) r"
    using z takeWhile_append2 [of "?f @ replicate ?k 32" "\<lambda>c. c \<noteq> 0" r] by simp
  then have "strtol 10 (takeWhile (\<lambda>c. c \<noteq> 0) (drop AR_EXTNAME_SZ (header_bytes m))) = int ?n"
    unfolding r using l n strtol_fmt [of 10 "replicate ?k 32 @ takeWhile (\<lambda>c. c \<noteq> 0) r" ?n] by simp
  moreover have "sint (of_nat ?n :: u32) = int ?n"
    using n by (simp add: signed_of_nat signed_take_bit_int_eq_self)
  ultimately show ?thesis by (simp add: ext_len_def)
qed

definition entry_of :: "nat \<Rightarrow> member \<Rightarrow> block \<Rightarrow> archive_entry_hdr" where
  "entry_of off m b =
     \<lparr>ae_offset = of_nat off, ae_date = of_nat (m_date m), ae_gid = of_nat (m_gid m), ae_uid = of_nat (m_uid m),
      ae_mode = of_nat (m_mode m), ae_size = of_nat (length (m_data m)), ae_name = b\<rparr>"

definition name_behind :: "member \<Rightarrow> nat" where
  "name_behind m = (if m_long m then length (m_name m) else 0)"

lemma not_long_name:
  assumes "nm \<noteq> []" and "take AR_EXTNAME_SZ nm \<noteq> AR_EXTNAME"
  shows "take AR_EXTNAME_SZ (nm @ replicate k 32) \<noteq> AR_EXTNAME"
proof (cases "AR_EXTNAME_SZ \<le> length nm")
  case False
  then consider a where "nm = [a]" | a b where "nm = [a, b]"
    using assms(1) by (cases nm; cases "tl nm"; cases "tl (tl nm)") (auto simp: AR_EXTNAME_SZ_def)
  then show ?thesis
    by cases (cases k; cases "k - 1"; simp add: AR_EXTNAME_SZ_def AR_EXTNAME_def numeral_3_eq_3)+
qed (use assms in simp)

lemma get_entry_short:
  fixes st :: "'a ar_st_scheme"
  assumes "reads_ok st" and "rest s st = hb @ tail" and "length hb = SAR_HDR"
    and "ar_fmag (dec_arhdr hb) = ARFMAG"
    and name: "ar_name (dec_arhdr hb) = pad_right 16 nm" and n: "short_name nm" and e: "length (ae_name e) = AR_NAMESZ"
  obtains f b where "\<forall>i. 0 \<le> f i" and "cstr b = Inr nm" and "length b = AR_NAMESZ"
    and "archive_get_entry_hdr e s st = Some (Inr (1,
      (header_fields (dec_arhdr hb) (e\<lparr>ae_offset := of_nat (s_pos s)\<rparr>))\<lparr>ae_name := b\<rparr>, adv SAR_HDR s, st\<lparr>io := f\<rparr>))"
proof -
  have nm: "nm \<noteq> []" "length nm < 16" "last nm \<noteq> 32" "take AR_EXTNAME_SZ nm \<noteq> AR_EXTNAME" "0 \<notin> set nm"
    using n by (simp_all add: short_name_def)
  let ?b = "map Some (nm @ replicate (16 - length nm) 0) @ drop 16 (ae_name e)"
  have p: "pad_right 16 nm = nm @ replicate (16 - length nm) 32" by (simp add: pad_right_def)
  have ext: "take AR_EXTNAME_SZ (pad_right 16 nm) \<noteq> AR_EXTNAME" unfolding p by (rule not_long_name [OF nm(1,4)])
  have "store_bytes (ae_name e) 0 (pad_right 16 nm)
      = Inr (map Some (nm @ replicate (16 - length nm) 32) @ drop 16 (ae_name e))"
    using nm e by (simp add: store_bytes_def p AR_NAMESZ_def)
  moreover have "length nm + (16 - length nm) - 1 = 15" using nm by simp
  then have "strip_spaces (map Some (nm @ replicate (16 - length nm) 32) @ drop 16 (ae_name e)) 15 = Inr ?b"
    using strip_spaces_ok [OF nm(1,3), of "16 - length nm" "drop 16 (ae_name e)"] by simp
  moreover obtain f e1 where f: "\<forall>i. 0 \<le> f i"
    and e1: "e1 = header_fields (dec_arhdr hb) (e\<lparr>ae_offset := of_nat (s_pos s)\<rparr>)"
    and eq: "archive_get_entry_hdr e s st = entry_name hb e1 (adv SAR_HDR s) (st\<lparr>io := f\<rparr>)"
    by (rule get_entry_step [OF assms(1-4), of e])
  moreover have "ae_name e1 = ae_name e" by (simp add: e1 header_fields_def)
  ultimately have "archive_get_entry_hdr e s st = Some (Inr (1, e1\<lparr>ae_name := ?b\<rparr>, adv SAR_HDR s, st\<lparr>io := f\<rparr>))"
    using ext by (simp add: name entry_name_def)
  moreover have "cstr ?b = Inr nm"
  proof -
    obtain k where "16 - length nm = Suc k" using nm(2) by (cases "16 - length nm") auto
    then show ?thesis using cstr_append_zero [OF nm(5)] by simp
  qed
  moreover have "length ?b = AR_NAMESZ" using nm e by (simp add: AR_NAMESZ_def)
  ultimately show ?thesis using that f unfolding e1 by blast
qed

lemma get_entry_ok:
  fixes st :: "'a ar_st_scheme"
  assumes ok: "reads_ok st" and m: "fields_ok m" "name_ok m"
    and rest: "rest s st = member_bytes m @ tail" and e: "length (ae_name e) = AR_NAMESZ"
  obtains f b where "\<forall>i. 0 \<le> f i" and "cstr b = Inr (m_name m)" and "length b = AR_NAMESZ"
    and "archive_get_entry_hdr e s st
      = Some (Inr (1, entry_of (s_pos s) m b, adv (SAR_HDR + name_behind m) s, st\<lparr>io := f\<rparr>))"
proof -
  let ?hb = "header_bytes m" and ?nm = "m_name m"
  let ?tl = "(if m_long m then ?nm else []) @ m_data m @ (if odd (m_size m) then [newline] else []) @ tail"
  have hb: "rest s st = ?hb @ ?tl" using rest by (simp add: member_bytes_def)
  have fmag: "ar_fmag (dec_arhdr ?hb) = ARFMAG" by (simp add: header_dec(1) [OF m])
  obtain f e1 where f: "\<forall>i. 0 \<le> f i"
    and e1: "e1 = header_fields (dec_arhdr ?hb) (e\<lparr>ae_offset := of_nat (s_pos s)\<rparr>)"
    and eq: "archive_get_entry_hdr e s st = entry_name ?hb e1 (adv SAR_HDR s) (st\<lparr>io := f\<rparr>)"
    using get_entry_step [OF ok hb header_dec(2) [OF m] fmag, of e] by metis
  have e1: "e1 = (entry_of (s_pos s) m (ae_name e))\<lparr>ae_size := of_nat (m_size m)\<rparr>"
    by (simp add: e1 header_fields_ok [OF m] entry_of_def)
  show ?thesis
  proof (cases "m_long m")
    case True
    have n: "length ?nm < AR_NAMESZ" using m(2) True by (simp add: name_ok_def)
    let ?b = "map Some ?nm @ Some 0 # drop (Suc (length ?nm)) (ae_name e)"
    have ext: "take AR_EXTNAME_SZ (ar_name (dec_arhdr ?hb)) = AR_EXTNAME"
      using True by (simp add: header_dec(1) [OF m] pad_right_def AR_EXTNAME_def AR_EXTNAME_SZ_def)
    have "rest (adv SAR_HDR s) (st\<lparr>io := f\<rparr>) = ?tl"
      using rest header_dec(2) [OF m] by (simp add: member_bytes_def)
    moreover obtain g where g: "\<forall>i. 0 \<le> g i"
      and "read_data (ae_name e) (int (length ?nm)) (adv SAR_HDR s) (st\<lparr>io := f\<rparr>) =
        (let k = min (length ?nm) (length (rest (adv SAR_HDR s) (st\<lparr>io := f\<rparr>)))
         in Some (Inr (int k, map Some (take k (rest (adv SAR_HDR s) (st\<lparr>io := f\<rparr>))) @ drop k (ae_name e),
              adv k (adv SAR_HDR s), st\<lparr>io := f, io := g\<rparr>)))"
      using read_data_ok [of "st\<lparr>io := f\<rparr>" "length ?nm" "ae_name e" "adv SAR_HDR s"] f n e
      by (auto simp: AR_NAMESZ_def)
    ultimately have "read_data (ae_name e1) (int (length ?nm)) (adv SAR_HDR s) (st\<lparr>io := f\<rparr>)
      = Some (Inr (int (length ?nm), map Some ?nm @ drop (length ?nm) (ae_name e),
          adv (SAR_HDR + name_behind m) s, st\<lparr>io := g\<rparr>))"
      using True by (simp add: e1 entry_of_def name_behind_def Let_def)
    moreover have "store_nul (map Some ?nm @ drop (length ?nm) (ae_name e)) (int (length ?nm)) = Inr ?b"
    proof -
      have "drop (length ?nm) (ae_name e) = ae_name e ! length ?nm # drop (Suc (length ?nm)) (ae_name e)"
        using n e by (simp add: Cons_nth_drop_Suc)
      then show ?thesis using n e by (simp add: store_nul_def store_byte_def list_update_append)
    qed
    ultimately have "archive_get_entry_hdr e s st
      = Some (Inr (1, entry_of (s_pos s) m ?b, adv (SAR_HDR + name_behind m) s, st\<lparr>io := g\<rparr>))"
      unfolding eq entry_name_def using ext True by (simp add: ext_len_ok [OF m True] e1 entry_of_def m_size_def)
    moreover have "cstr ?b = Inr ?nm" using m(2) True by (simp add: name_ok_def cstr_append_zero)
    moreover have "length ?b = AR_NAMESZ" using n e by simp
    ultimately show ?thesis using that g by blast
  next
    case False
    have nm: "short_name ?nm" using m(2) False by (simp add: name_ok_def)
    have "ar_name (dec_arhdr ?hb) = pad_right 16 ?nm" using False by (simp add: header_dec(1) [OF m])
    from get_entry_short [OF ok hb header_dec(2) [OF m] fmag this nm e]
    obtain f b where f: "\<forall>i. 0 \<le> f i" and b: "cstr b = Inr ?nm" "length b = AR_NAMESZ"
      and "archive_get_entry_hdr e s st = Some (Inr (1,
        (header_fields (dec_arhdr ?hb) (e\<lparr>ae_offset := of_nat (s_pos s)\<rparr>))\<lparr>ae_name := b\<rparr>, adv SAR_HDR s, st\<lparr>io := f\<rparr>))"
      by blast
    then have "archive_get_entry_hdr e s st
        = Some (Inr (1, entry_of (s_pos s) m b, adv (SAR_HDR + name_behind m) s, st\<lparr>io := f\<rparr>))"
      using False by (simp add: header_fields_ok [OF m] entry_of_def m_size_def name_behind_def)
    then show ?thesis using that f b by blast
  qed
qed

text \<open>Behind the header and the name the next member starts where \<open>archive_skip_entry\<close> seeks to, provided
  that a name behind the header has an even length.\<close>

lemma length_member_bytes:
  assumes "fields_ok m" and "name_ok m"
  shows "length (member_bytes m) = SAR_HDR + m_size m + m_size m mod 2"
proof -
  have "length (if m_long m then m_name m else []) + length (m_data m) = m_size m"
    by (simp add: m_size_def)
  moreover have "length (if odd (m_size m) then [newline] else []) = m_size m mod 2"
    by (cases "odd (m_size m)") (simp_all add: odd_iff_mod_2_eq_one)
  ultimately show ?thesis
    unfolding member_bytes_def length_append header_dec(2) [OF assms] by linarith
qed

lemma skip_entry_ok:
  assumes "fields_ok m" and "s_pos s < 2 ^ 62"
  shows "archive_skip_entry s (entry_of off m b)
    = (int (s_pos s + (length (m_data m) + length (m_data m) mod 2)),
       adv (length (m_data m) + length (m_data m) mod 2) s)"
proof -
  let ?n = "length (m_data m)"
  let ?k = "?n + ?n mod 2"
  have n: "?n < 2 ^ 34" using assms(1) by (simp add: fields_ok_def m_size_def)
  have "?n mod 2 < 2" by simp
  then have k: "?k < 2 ^ 35" using n by simp
  have "unat ((of_nat ?n :: u64) mod 2) = ?n mod 2"
    using n by (simp add: unat_mod unat_of_nat)
  then have "((of_nat ?n :: u64) mod 2 \<noteq> 0) = (?n mod 2 \<noteq> 0)"
    by (simp only: unat_eq_0 [symmetric])
  then have "(if (of_nat ?n :: u64) mod 2 \<noteq> 0 then (of_nat ?n :: u64) + 1 else of_nat ?n) = of_nat ?k"
    by auto
  moreover have "sint (of_nat ?k :: u64) = int ?k"
    using k by (simp add: signed_of_nat signed_take_bit_int_eq_self del: of_nat_add)
  ultimately have "archive_skip_entry s (entry_of off m b) = lseek_cur (int ?k) s"
    by (simp add: archive_skip_entry_def entry_of_def Let_def)
  then show ?thesis
    using k assms(2) by (simp add: lseek_cur_def Let_def adv_def nat_add_distrib)
qed

end
