(* ===== verification/CoffFormat.thy ===== *)
theory CoffFormat
  imports Codec
begin

text \<open>
  The COFF structures of \<open>src/include/coff.h\<close> that the tools read: the file header, the optional
  header, the section header and the symbol table entry, which is packed to 18 bytes.  The signed fields are kept as words and read
  with \<open>sint\<close> where the code uses their sign.
\<close>

section \<open>Records\<close>

record FILHDR =
  f_magic :: u16
  f_nscns :: u16
  f_timdat :: u32
  f_symptr :: u32
  f_nsyms :: u32
  f_opthdr :: u16
  f_flags :: u16

definition FILHSZ :: nat where "FILHSZ = 20"

definition F_MACH_UNKNOWN :: u16 where "F_MACH_UNKNOWN = 0"
definition F_MACH_AM33 :: u16 where "F_MACH_AM33 = 0x1d3"
definition F_MACH_AMD64 :: u16 where "F_MACH_AMD64 = 0x8664"
definition F_MACH_ARM :: u16 where "F_MACH_ARM = 0x1c0"
definition F_MACH_ARMNT :: u16 where "F_MACH_ARMNT = 0x1c4"
definition F_MACH_EBC :: u16 where "F_MACH_EBC = 0xebc"
definition F_MACH_I386 :: u16 where "F_MACH_I386 = 0x14c"
definition F_MACH_IA64 :: u16 where "F_MACH_IA64 = 0x200"
definition F_MACH_M32R :: u16 where "F_MACH_M32R = 0x9041"

definition F_RELFLG :: u16 where "F_RELFLG = 0x0001"
definition F_EXEC :: u16 where "F_EXEC = 0x0002"
definition F_LNNO :: u16 where "F_LNNO = 0x0004"
definition F_LSYMS :: u16 where "F_LSYMS = 0x0008"
definition F_LITTLE :: u16 where "F_LITTLE = 0x0100"
definition F_BIG :: u16 where "F_BIG = 0x0200"
definition F_SYMMERGE :: u16 where "F_SYMMERGE = 0x1000"

record AOUTHDR =
  aout_magic :: u16
  vstamp :: u16
  tsize :: u32
  dsize :: u32
  bsize :: u32
  entry_addr :: u32
  text_start :: u32
  data_start :: u32

definition AOUTHSZ :: nat where "AOUTHSZ = 28"

text \<open>The magic numbers of the optional header; the header file writes them in octal.\<close>

definition OMAGIC :: u16 where "OMAGIC = 260"
definition NMAGIC :: u16 where "NMAGIC = 264"
definition ZMAGIC :: u16 where "ZMAGIC = 267"
definition STMAGIC :: u16 where "STMAGIC = 257"
definition SHMAGIC :: u16 where "SHMAGIC = 291"

record SCNHDR =
  s_name :: "u8 list"   \<comment> \<open>eight bytes\<close>
  s_paddr :: u32
  s_vaddr :: u32
  s_size :: u32
  s_scnptr :: u32
  s_relptr :: u32
  s_lnnoptr :: u32
  s_nreloc :: u16
  s_nlnno :: u16
  s_flags :: u32

definition SCNHSZ :: nat where "SCNHSZ = 40"

definition STYP_TEXT :: u32 where "STYP_TEXT = 0x020"
definition STYP_DATA :: u32 where "STYP_DATA = 0x040"
definition STYP_BSS :: u32 where "STYP_BSS = 0x080"

record RELOC =
  r_vaddr :: u32
  r_symndx :: u32
  r_type :: u16

definition RELSZ :: nat where "RELSZ = 10"

record SYMENT =
  n_name :: "u8 list"   \<comment> \<open>eight bytes; \<open>n_zeroes\<close> and \<open>n_offset\<close> are its halves\<close>
  n_value :: u32
  n_scnum :: u16
  n_type :: u16
  n_sclass :: u8
  n_numaux :: u8

definition SYMESZ :: nat where "SYMESZ = 18"
definition AUXESZ :: nat where "AUXESZ = 18"
definition C_EXT :: int where "C_EXT = 2"

definition n_zeroes :: "SYMENT \<Rightarrow> u32" where "n_zeroes s = rd32 (n_name s) 0"
definition n_offset :: "SYMENT \<Rightarrow> u32" where "n_offset s = rd32 (n_name s) 4"

section \<open>Layout\<close>

definition enc_filhdr :: "FILHDR \<Rightarrow> u8 list" where
  "enc_filhdr h = le16 (f_magic h) @ le16 (f_nscns h) @ le32 (f_timdat h) @ le32 (f_symptr h)
     @ le32 (f_nsyms h) @ le16 (f_opthdr h) @ le16 (f_flags h)"

definition dec_filhdr :: "u8 list \<Rightarrow> FILHDR" where
  "dec_filhdr bs =
     \<lparr>f_magic = rd16 bs 0, f_nscns = rd16 bs 2, f_timdat = rd32 bs 4, f_symptr = rd32 bs 8,
      f_nsyms = rd32 bs 12, f_opthdr = rd16 bs 16, f_flags = rd16 bs 18\<rparr>"

definition enc_syment :: "SYMENT \<Rightarrow> u8 list" where
  "enc_syment s = n_name s @ le32 (n_value s) @ le16 (n_scnum s) @ le16 (n_type s)
     @ [n_sclass s] @ [n_numaux s]"

definition dec_syment :: "u8 list \<Rightarrow> SYMENT" where
  "dec_syment bs =
     \<lparr>n_name = take 8 bs, n_value = rd32 bs 8, n_scnum = rd16 bs 12, n_type = rd16 bs 14,
      n_sclass = rd8 bs 16, n_numaux = rd8 bs 17\<rparr>"

definition enc_reloc :: "RELOC \<Rightarrow> u8 list" where
  "enc_reloc r = le32 (r_vaddr r) @ le32 (r_symndx r) @ le16 (r_type r)"

definition dec_reloc :: "u8 list \<Rightarrow> RELOC" where
  "dec_reloc bs = \<lparr>r_vaddr = rd32 bs 0, r_symndx = rd32 bs 4, r_type = rd16 bs 8\<rparr>"

definition enc_aouthdr :: "AOUTHDR \<Rightarrow> u8 list" where
  "enc_aouthdr h = le16 (aout_magic h) @ le16 (vstamp h) @ le32 (tsize h) @ le32 (dsize h) @ le32 (bsize h)
     @ le32 (entry_addr h) @ le32 (text_start h) @ le32 (data_start h)"

definition dec_aouthdr :: "u8 list \<Rightarrow> AOUTHDR" where
  "dec_aouthdr bs =
     \<lparr>aout_magic = rd16 bs 0, vstamp = rd16 bs 2, tsize = rd32 bs 4, dsize = rd32 bs 8, bsize = rd32 bs 12,
      entry_addr = rd32 bs 16, text_start = rd32 bs 20, data_start = rd32 bs 24\<rparr>"

definition enc_scnhdr :: "SCNHDR \<Rightarrow> u8 list" where
  "enc_scnhdr s = s_name s @ le32 (s_paddr s) @ le32 (s_vaddr s) @ le32 (s_size s) @ le32 (s_scnptr s)
     @ le32 (s_relptr s) @ le32 (s_lnnoptr s) @ le16 (s_nreloc s) @ le16 (s_nlnno s) @ le32 (s_flags s)"

definition dec_scnhdr :: "u8 list \<Rightarrow> SCNHDR" where
  "dec_scnhdr bs =
     \<lparr>s_name = take 8 bs, s_paddr = rd32 bs 8, s_vaddr = rd32 bs 12, s_size = rd32 bs 16, s_scnptr = rd32 bs 20,
      s_relptr = rd32 bs 24, s_lnnoptr = rd32 bs 28, s_nreloc = rd16 bs 32, s_nlnno = rd16 bs 34,
      s_flags = rd32 bs 36\<rparr>"

lemma dec_enc_aouthdr: "dec_aouthdr (enc_aouthdr h) = h"
  by (simp add: dec_aouthdr_def enc_aouthdr_def decode_rules)

lemma enc_dec_aouthdr: "length bs = AOUTHSZ \<Longrightarrow> enc_aouthdr (dec_aouthdr bs) = bs"
  by (simp add: dec_aouthdr_def enc_aouthdr_def AOUTHSZ_def encode_rules)

interpretation aouthdr: codec enc_aouthdr dec_aouthdr AOUTHSZ
  by unfold_locales
    (simp add: AOUTHSZ_def, simp add: AOUTHSZ_def enc_aouthdr_def, rule dec_enc_aouthdr, erule enc_dec_aouthdr)

lemma dec_enc_scnhdr: "length (s_name s) = 8 \<Longrightarrow> dec_scnhdr (enc_scnhdr s) = s"
  by (simp add: dec_scnhdr_def enc_scnhdr_def decode_rules del: append_Cons append_Nil)

lemma enc_dec_scnhdr: "length bs = SCNHSZ \<Longrightarrow> enc_scnhdr (dec_scnhdr bs) = bs"
  by (simp add: dec_scnhdr_def enc_scnhdr_def SCNHSZ_def encode_rules)

interpretation scnhdr: layout enc_scnhdr dec_scnhdr SCNHSZ "\<lambda>s. length (s_name s) = 8"
  by unfold_locales
    (simp add: SCNHSZ_def, simp add: SCNHSZ_def enc_scnhdr_def, erule dec_enc_scnhdr, erule enc_dec_scnhdr,
      simp add: SCNHSZ_def dec_scnhdr_def)

lemma dec_enc_filhdr: "dec_filhdr (enc_filhdr h) = h"
  by (simp add: dec_filhdr_def enc_filhdr_def decode_rules)

lemma enc_dec_filhdr: "length bs = FILHSZ \<Longrightarrow> enc_filhdr (dec_filhdr bs) = bs"
  by (simp add: dec_filhdr_def enc_filhdr_def FILHSZ_def encode_rules)

interpretation filhdr: codec enc_filhdr dec_filhdr FILHSZ
  by unfold_locales
    (simp add: FILHSZ_def, simp add: FILHSZ_def enc_filhdr_def, rule dec_enc_filhdr, erule enc_dec_filhdr)

lemma dec_enc_syment: "length (n_name s) = 8 \<Longrightarrow> dec_syment (enc_syment s) = s"
  by (simp add: dec_syment_def enc_syment_def decode_rules del: append_Cons append_Nil)

lemma enc_dec_syment: "length bs = SYMESZ \<Longrightarrow> enc_syment (dec_syment bs) = bs"
  by (simp add: dec_syment_def enc_syment_def SYMESZ_def encode_rules del: append_Cons append_Nil)

interpretation syment: layout enc_syment dec_syment SYMESZ "\<lambda>s. length (n_name s) = 8"
  by unfold_locales
    (simp add: SYMESZ_def, simp add: SYMESZ_def enc_syment_def, erule dec_enc_syment, erule enc_dec_syment,
      simp add: SYMESZ_def dec_syment_def)

lemma dec_enc_reloc: "dec_reloc (enc_reloc r) = r"
  by (simp add: dec_reloc_def enc_reloc_def decode_rules)

lemma enc_dec_reloc: "length bs = RELSZ \<Longrightarrow> enc_reloc (dec_reloc bs) = bs"
  by (simp add: dec_reloc_def enc_reloc_def RELSZ_def encode_rules)

interpretation reloc: codec enc_reloc dec_reloc RELSZ
  by unfold_locales
    (simp add: RELSZ_def, simp add: RELSZ_def enc_reloc_def, rule dec_enc_reloc, erule enc_dec_reloc)

end
