(* ===== verification/Ranlib.thy ===== *)
theory Ranlib
  imports Archive CoffFormat Getopt
begin

text \<open>
  \<open>ranlib\<close> (\<open>src/bin/ranlib/main.c\<close>): it walks the members of an archive and prints their names.
  The collection of COFF symbols, \<open>coff_getsym\<close> and \<open>coff_addsym\<close>, is in the file but not called
  yet.  The host decides whether \<open>mkstemp\<close> succeeds (\<open>mk_ok\<close>); the temporary file is unlinked
  at once, so it is not among the files.
\<close>

record ranlib_st = ar_st +
  mk_ok :: bool
  opt_U :: int

definition sizeof_rsym :: u64 where "sizeof_rsym = 32"

definition tmp_path :: "u8 list" where "tmp_path = ascii ''ranlib.XXXXXX''"

definition temp_archive :: "'a ranlib_st_scheme \<Rightarrow> (int \<times> 'a ranlib_st_scheme) res" where
  "temp_archive st =
     rbind (load_bytes (str_block tmp_path) 0 19) (\<lambda>p.
       if mk_ok st then Inr (3, st)
       else rbind (cstr (map Some p)) (\<lambda>p.
              Inr (- 1, print_err (p @ ascii '': '' @ errtext st @ [newline]) st)))"

section \<open>COFF symbols\<close>

text \<open>
  The entry allocated for an external symbol is freed again.  The name is a pointer into the
  string table, or a copy of the eight bytes, and is not used.
\<close>

definition coff_addsym :: "SYMENT \<Rightarrow> 'a ranlib_st_scheme \<Rightarrow> 'a ranlib_st_scheme" where
  "coff_addsym s st =
     (if sint (n_scnum s) < 1 \<or> sint (n_sclass s) \<noteq> C_EXT then st else snd (c_malloc sizeof_rsym st))"

text \<open>One symbol table entry is read, and its auxiliary entries are skipped.\<close>

definition read_syment ::
  "stream \<Rightarrow> 'a ranlib_st_scheme \<Rightarrow> SYMENT option \<times> stream \<times> 'a ranlib_st_scheme" where
  "read_syment s st =
     (case sys_read SYMESZ s st of (n, bs, s, st) \<Rightarrow>
        if n \<noteq> int SYMESZ then (None, s, st)
        else let e = dec_syment bs
             in (Some e,
                 if n_numaux e \<noteq> 0 then snd (lseek_cur (int AUXESZ * sint (n_numaux e)) s) else s, st))"

fun skip_symtab :: "nat \<Rightarrow> stream \<Rightarrow> 'a ranlib_st_scheme \<Rightarrow> bool \<times> stream \<times> 'a ranlib_st_scheme" where
  "skip_symtab 0 s st = (True, s, st)"
| "skip_symtab (Suc n) s st =
     (case read_syment s st of
        (None, s, st) \<Rightarrow> (False, s, st)
      | (Some _, s, st) \<Rightarrow> skip_symtab n s st)"

fun add_symtab :: "nat \<Rightarrow> stream \<Rightarrow> 'a ranlib_st_scheme \<Rightarrow> stream \<times> 'a ranlib_st_scheme" where
  "add_symtab 0 s st = (s, st)"
| "add_symtab (Suc n) s st =
     (case read_syment s st of
        (None, s, st) \<Rightarrow> (s, st)
      | (Some e, s, st) \<Rightarrow> add_symtab n s (coff_addsym e st))"

text \<open>
  Every exit goes through \<open>end\<close>, which frees the string table and goes back to where the
  member started.
\<close>

definition coff_getsym :: "stream \<Rightarrow> 'a ranlib_st_scheme \<Rightarrow> stream \<times> 'a ranlib_st_scheme" where
  "coff_getsym s0 st =
     (let off = s_pos s0; back = (\<lambda>s. snd (lseek_cur (int off - int (s_pos s)) s))
      in case sys_read FILHSZ s0 st of (n, bs, s, st) \<Rightarrow>
         if n \<noteq> int FILHSZ then (back s, st)
         else
           let hdr = dec_filhdr bs
           in if f_magic hdr \<noteq> F_MACH_I386 \<or> f_flags hdr AND F_EXEC \<noteq> 0 \<or> f_flags hdr AND F_LSYMS \<noteq> 0
              then (back s, st)
              else
                let symtab = int off + sint (f_symptr hdr);
                    s = snd (lseek_cur (symtab - int (s_pos s)) s)
                in case skip_symtab (nat (sint (f_nsyms hdr))) s st of (ok, s, st) \<Rightarrow>
                   if \<not> ok then (back s, st)
                   else case sys_read 4 s st of (n, bs, s, st) \<Rightarrow>
                     if n \<noteq> 4 then (back s, st)
                     else
                       let strtabsz = rd32 bs 0
                       in case c_malloc (ucast strtabsz) st of (p, st) \<Rightarrow>
                          if p = None then (back s, st)
                          else case sys_read (unat strtabsz) s st of (n, bs, s, st) \<Rightarrow>
                            if n \<noteq> int (unat strtabsz) then (back s, st)
                            else
                              let s = snd (lseek_cur (symtab - int (s_pos s)) s)
                              in case add_symtab (nat (sint (f_nsyms hdr))) s st of (s, st) \<Rightarrow> (back s, st))"

section \<open>The program\<close>

text \<open>A local \<open>struct archive_entry_hdr\<close>; its numbers are written before they are read.\<close>

definition unset_entry :: archive_entry_hdr where
  "unset_entry =
     \<lparr>ae_offset = 0, ae_date = 0, ae_gid = 0, ae_uid = 0, ae_mode = 0, ae_size = 0,
      ae_name = replicate AR_NAMESZ None\<rparr>"

text \<open>The loop over the members; both branches of the test on the name skip the member.\<close>

partial_function (option) ranlib_loop ::
  "archive_entry_hdr \<Rightarrow> stream \<Rightarrow> 'a ranlib_st_scheme \<Rightarrow> 'a ranlib_st_scheme res option" where
  [code]: "ranlib_loop entry s st =
     pbind (archive_get_entry_hdr entry s st) (\<lambda>(r, entry, s, st).
       if r \<le> 0 then Some (Inr st)
       else pbind (Some (cstr (ae_name entry))) (\<lambda>name.
            let st = print_out (ascii ''Entry: '' @ name @ [newline]) st
            in pbind (Some (strcmp0 (str_block AR_SYMTAB_NAME) (ae_name entry))) (\<lambda>is_symtab.
               if is_symtab then ranlib_loop entry (snd (archive_skip_entry s entry)) st
               else ranlib_loop entry (snd (archive_skip_entry s entry)) st)))"

definition ranlib :: "u8 list \<Rightarrow> 'a ranlib_st_scheme \<Rightarrow> (int \<times> 'a ranlib_st_scheme) res option" where
  "ranlib archive st =
     pbind (archive_open archive st) (\<lambda>(fd, st).
       case fd of
         None \<Rightarrow> Some (Inr (- 1, st))
       | Some s \<Rightarrow>
           pbind (Some (temp_archive st)) (\<lambda>(tmpfd, st).
             if tmpfd < 0 then (case archive_close fd of (r, fd) \<Rightarrow> Some (Inr (- 1, st)))
             else pbind (ranlib_loop unset_entry s st) (\<lambda>st.
               case archive_close fd of (r, fd) \<Rightarrow> Some (Inr (0, st)))))"

definition ranlib_usage :: "int \<Rightarrow> 'a ranlib_st_scheme \<Rightarrow> int \<times> 'a ranlib_st_scheme" where
  "ranlib_usage retval st =
     (retval,
      if retval = EXIT_FAILURE
      then print_err (ascii ''Try 'ranlib -h' for more information.'' @ [newline]) st
      else print_out (ascii ''Usage: ranlib [-D] [-U] archive...'' @ [newline]
             @ [9] @ ascii ''-h'' @ [9] @ ascii ''display this help and exit'' @ [newline]
             @ [9] @ ascii ''-D'' @ [9] @ ascii ''fill mtime, uid, gid with 0 (DEFAULT)'' @ [newline]
             @ [9] @ ascii ''-U'' @ [9] @ ascii ''insert the real mtime, uid, gid ...'' @ [newline]) st)"

text \<open>The options; \<open>-h\<close> exits, any other letter than \<open>D\<close> and \<open>U\<close> is skipped.\<close>

fun ranlib_opts ::
  "u8 list list \<Rightarrow> 'a ranlib_st_scheme \<Rightarrow> int option \<times> u8 list list \<times> 'a ranlib_st_scheme" where
  "ranlib_opts [] st = (None, [], st)"
| "ranlib_opts (a # args) st =
     (if a = [] \<or> hd a \<noteq> 45 then (None, a # args, st)
      else if take 1 (tl a) = ascii ''h''
           then (let (k, st) = ranlib_usage EXIT_SUCCESS st in (Some k, a # args, st))
      else if take 1 (tl a) = ascii ''D'' then ranlib_opts args (st\<lparr>opt_U := 0\<rparr>)
      else if take 1 (tl a) = ascii ''U'' then ranlib_opts args (st\<lparr>opt_U := 1\<rparr>)
      else ranlib_opts args st)"

fun ranlib_all :: "u8 list list \<Rightarrow> 'a ranlib_st_scheme \<Rightarrow> 'a ranlib_st_scheme res option" where
  "ranlib_all [] st = Some (Inr st)"
| "ranlib_all (a # args) st = pbind (ranlib a st) (\<lambda>(_, st). ranlib_all args st)"

definition ranlib_main ::
  "u8 list list \<Rightarrow> 'a ranlib_st_scheme \<Rightarrow> (int \<times> 'a ranlib_st_scheme) res option" where
  "ranlib_main args st =
     (case ranlib_opts args st of
        (Some k, _, st) \<Rightarrow> Some (Inr (k, st))
      | (None, args, st) \<Rightarrow>
          if args = [] then Some (Inr (ranlib_usage EXIT_FAILURE st))
          else pbind (ranlib_all args st) (\<lambda>st. Some (Inr (EXIT_SUCCESS, st))))"

end
