(* ===== verification/RanlibProps.thy ===== *)
theory RanlibProps
  imports ArchiveFormat Ranlib
begin

text \<open>
  What \<open>archive.c\<close> and \<open>ranlib\<close> do with well-formed archives, and what they do with headers and
  hosts that \<open>archive.c\<close> does not reckon with.
\<close>

section \<open>The loop over the members\<close>

definition member_ok :: "member \<Rightarrow> bool" where
  "member_ok m \<longleftrightarrow> fields_ok m \<and> name_ok m \<and> even (name_behind m)"

definition entry_line :: "member \<Rightarrow> u8 list" where
  "entry_line m = ascii ''Entry: '' @ m_name m @ [newline]"

lemma get_entry_eof:
  fixes st :: "'a ar_st_scheme"
  assumes "reads_ok st" and "rest s st = []"
  obtains f where "\<forall>i. 0 \<le> f i"
    and "archive_get_entry_hdr e s st = Some (Inr (0, e\<lparr>ae_offset := of_nat (s_pos s)\<rparr>, s, st\<lparr>io := f\<rparr>))"
proof -
  have "SAR_HDR \<le> length (replicate SAR_HDR (None :: u8 option))" "SAR_HDR < 2 ^ 63"
    by (simp_all add: SAR_HDR_def)
  from read_data_ok [OF assms(1) this, of s]
  obtain f where "\<forall>i. 0 \<le> f i" and "read_data (replicate SAR_HDR None) (int SAR_HDR) s st
      = Some (Inr (0, replicate SAR_HDR None, s, st\<lparr>io := f\<rparr>))"
    using assms(2) by (auto simp: Let_def)
  then show ?thesis
    by (intro that [of f]) (simp_all add: archive_get_entry_hdr_def SAR_HDR_def)
qed

text \<open>One round of the loop on a whole member, and the descriptor at the next one.\<close>

lemma skip_member:
  assumes "member_ok m" and "s_pos s + length (member_bytes m) < 2 ^ 62"
  shows "snd (archive_skip_entry (adv (SAR_HDR + name_behind m) s) (entry_of off m b))
    = adv (length (member_bytes m)) s"
proof -
  have m: "fields_ok m" "name_ok m" "even (name_behind m)" using assms(1) by (simp_all add: member_ok_def)
  have sz: "m_size m = name_behind m + length (m_data m)" by (simp add: m_size_def name_behind_def)
  have "m_size m mod 2 = length (m_data m) mod 2" unfolding sz using m(3) by (simp add: mod_add_left_eq [symmetric])
  then have l: "length (member_bytes m) = SAR_HDR + name_behind m + (length (m_data m) + length (m_data m) mod 2)"
    unfolding length_member_bytes [OF m(1,2)] sz by simp
  have "s_pos (adv (SAR_HDR + name_behind m) s) < 2 ^ 62" using assms(2) l by simp
  from skip_entry_ok [OF m(1) this] show ?thesis by (simp add: l)
qed

lemma io_out_swap: "st\<lparr>io := f, out := t\<rparr> = st\<lparr>out := t, io := f\<rparr>"
  by (cases st) simp

lemma symtab_name: "cstr (str_block AR_SYMTAB_NAME) = Inr AR_SYMTAB_NAME"
  by (rule cstr_str_block) (simp add: AR_SYMTAB_NAME_def)

lemma ranlib_loop_member:
  fixes st :: "'a ranlib_st_scheme"
  assumes "reads_ok st" and "member_ok m" and "rest s st = member_bytes m @ tail"
    and "length (ae_name e) = AR_NAMESZ" and "s_pos s + length (member_bytes m) < 2 ^ 62"
  obtains f e' where "\<forall>i. 0 \<le> f i" and "length (ae_name e') = AR_NAMESZ"
    and "ranlib_loop e s st
      = ranlib_loop e' (adv (length (member_bytes m)) s) (st\<lparr>out := out st @ entry_line m, io := f\<rparr>)"
proof -
  have m: "fields_ok m" "name_ok m" using assms(2) by (simp_all add: member_ok_def)
  obtain f b where f: "\<forall>i. 0 \<le> f i" and b: "cstr b = Inr (m_name m)" "length b = AR_NAMESZ"
    and g: "archive_get_entry_hdr e s st
      = Some (Inr (1, entry_of (s_pos s) m b, adv (SAR_HDR + name_behind m) s, st\<lparr>io := f\<rparr>))"
    by (rule get_entry_ok [OF assms(1) m assms(3,4)])
  have cmp: "strcmp0 (str_block AR_SYMTAB_NAME) b = Inr (AR_SYMTAB_NAME = m_name m)"
    using symtab_name b(1) by (rule strcmp0_cstr)
  have "ae_name (entry_of (s_pos s) m b) = b" by (simp add: entry_of_def)
  then have "ranlib_loop e s st = ranlib_loop (entry_of (s_pos s) m b) (adv (length (member_bytes m)) s)
      (st\<lparr>out := out st @ entry_line m, io := f\<rparr>)"
    unfolding ranlib_loop.simps [of e s st] g
    by (simp add: b(1) cmp skip_member [OF assms(2,5)] print_out_def entry_line_def io_out_swap)
  then show ?thesis
    using f b(2) \<open>ae_name (entry_of (s_pos s) m b) = b\<close> by (intro that [of f "entry_of (s_pos s) m b"]) simp_all
qed

lemma ranlib_loop_lists:
  fixes st :: "'a ranlib_st_scheme"
  assumes "reads_ok st" and "list_all member_ok ms" and "rest s st = concat (map member_bytes ms)"
    and "length (ae_name e) = AR_NAMESZ" and "s_pos s + length (concat (map member_bytes ms)) < 2 ^ 62"
  shows "\<exists>f. ranlib_loop e s st = Some (Inr (st\<lparr>out := out st @ concat (map entry_line ms), io := f\<rparr>))"
  using assms
proof (induction ms arbitrary: e s st)
  case Nil
  then obtain f where "archive_get_entry_hdr e s st = Some (Inr (0, e\<lparr>ae_offset := of_nat (s_pos s)\<rparr>, s, st\<lparr>io := f\<rparr>))"
    using get_entry_eof [of st s e] by auto
  then show ?case by (intro exI [of _ f]) (simp add: ranlib_loop.simps [of e s st])
next
  case (Cons m ms)
  from Cons.prems obtain f e' where f: "\<forall>i. 0 \<le> f i" and e': "length (ae_name e') = AR_NAMESZ"
    and eq: "ranlib_loop e s st
      = ranlib_loop e' (adv (length (member_bytes m)) s) (st\<lparr>out := out st @ entry_line m, io := f\<rparr>)"
    using ranlib_loop_member [of st m s "concat (map member_bytes ms)" e] by auto
  from Cons.prems f e' have "\<exists>g. ranlib_loop e' (adv (length (member_bytes m)) s)
      (st\<lparr>out := out st @ entry_line m, io := f\<rparr>)
      = Some (Inr ((st\<lparr>out := out st @ entry_line m, io := f\<rparr>)
          \<lparr>out := out (st\<lparr>out := out st @ entry_line m, io := f\<rparr>) @ concat (map entry_line ms), io := g\<rparr>))"
    by (intro Cons.IH) (simp_all add: add.assoc)
  then show ?case unfolding eq by (simp add: io_out_swap)
qed

section \<open>Opening\<close>

lemma archive_open_ok:
  fixes st :: "'a ar_st_scheme"
  assumes "reads_ok st" and "files st p = Some c" and "writable st p"
  obtains f where "\<forall>i. 0 \<le> f i" and "archive_open p st
    = Some (Inr (if take SARMAG c = ARMAG then Some \<lparr>s_path = p, s_pos = SARMAG\<rparr> else None, st\<lparr>io := f\<rparr>))"
proof -
  let ?s = "\<lparr>s_path = p, s_pos = 0\<rparr>"
  have op: "fopen_rpb p st = Some ?s" using assms(2,3) by (simp add: fopen_rpb_def fopen_rb_def)
  have r: "rest ?s st = c" using assms(2) by (simp add: rest_def content_def)
  have len: "SARMAG \<le> length (replicate SARMAG (None :: u8 option))" "SARMAG < 2 ^ 63"
    by (simp_all add: SARMAG_def)
  obtain f where f: "\<forall>i. 0 \<le> f i" and rd: "read_data (replicate SARMAG None) (int SARMAG) ?s st =
      (let k = min SARMAG (length (rest ?s st))
       in Some (Inr (int k, map Some (take k (rest ?s st)) @ drop k (replicate SARMAG None), adv k ?s, st\<lparr>io := f\<rparr>)))"
    by (rule read_data_ok [OF assms(1) len])
  show ?thesis
  proof (cases "SARMAG \<le> length c")
    case True
    have "load_bytes (map Some (take SARMAG c)) 0 SARMAG = Inr (take SARMAG c)"
      using True by simp
    then show ?thesis
      using f rd True
      by (intro that [of f]) (simp_all add: archive_open_def op r Let_def adv_def)
  next
    case False
    then have "take SARMAG c \<noteq> ARMAG" by (auto simp: ARMAG_def SARMAG_def dest: arg_cong [where f = length])
    then show ?thesis
      using f rd False
      by (intro that [of f]) (simp_all add: archive_open_def op r Let_def)
  qed
qed

section \<open>Headers that are not reckoned with\<close>

lemma strip_spaces_all:
  "strip_spaces (map Some (replicate (Suc k) 32) @ r) k = Inl OutOfBounds"
proof (induction k arbitrary: r)
  case 0
  show ?case by (simp add: strip_spaces.simps [of _ 0] load_byte_def store_byte_def)
next
  case (Suc k)
  let ?p = "map Some (replicate (Suc k) (32 :: u8))"
  have "map Some (replicate (Suc (Suc k)) 32) @ r = ?p @ Some 32 # r"
    by (simp add: replicate_app_Cons_same)
  moreover have "length ?p = Suc k" by simp
  then have "strip_spaces (?p @ Some 32 # r) (Suc k) = strip_spaces (?p @ Some 0 # r) k"
    by (simp add: strip_spaces.simps [of _ "Suc k"] load_byte_def store_byte_def nth_append
        list_update_append del: replicate.simps map_replicate)
  ultimately show ?case using Suc.IH [of "Some 0 # r"] by (simp only:)
qed

text \<open>A read of more bytes than the buffer holds leaves the buffer or keeps its size.\<close>

lemma store_at_size: "store_at b i bs = Inr b' \<Longrightarrow> length b' = length b"
  by (auto simp: store_at_def dest: store_bytes_length split: if_splits)

lemma store_at_error: "store_at b i bs = Inl x \<Longrightarrow> x = OutOfBounds"
  by (auto simp: store_at_def store_bytes_def split: if_splits)

lemma read_loop_size:
  fixes st :: "'a ar_st_scheme"
  assumes "reads_ok st" and "0 < sz - tot" and "sz - tot < 2 ^ 63"
  shows "read_loop sz tot b s st = Some (Inl OutOfBounds)
    \<or> (\<exists>t b' s' st'. read_loop sz tot b s st = Some (Inr (t, b', s', st')) \<and> length b' = length b)"
  using assms
proof (induction "nat (sz - tot)" arbitrary: tot b s st rule: less_induct)
  case (less tot b s st)
  let ?n = "unat (of_int (sz - tot) :: u64)"
  obtain k f where rd: "sys_read ?n s st = (int k, take k (rest s st), adv k s, st\<lparr>io := f\<rparr>)"
    and f: "\<forall>i. 0 \<le> f i"
    using sys_read_ok [OF less.prems(1), of ?n s] by blast
  note step = read_loop.simps [of sz tot b s st, unfolded rd]
  show ?case
  proof (cases "k = 0")
    case True
    then show ?thesis using step by simp
  next
    case k: False
    show ?thesis
    proof (cases "store_at b tot (take k (rest s st))")
      case (Inl x)
      then show ?thesis using step k store_at_error by auto
    next
      case (Inr b')
      then have l: "length b' = length b" by (rule store_at_size)
      show ?thesis
      proof (cases "sz \<le> tot + int k")
        case True
        then show ?thesis using step k Inr l by simp
      next
        case False
        then have "nat (sz - (tot + int k)) < nat (sz - tot)" and "0 < sz - (tot + int k)"
          and "sz - (tot + int k) < 2 ^ 63"
          using k less.prems by linarith+
        from less.hyps [OF this(1) _ this(2,3), of "st\<lparr>io := f\<rparr>" b' "adv k s"]
        show ?thesis using step k Inr False l f by auto
      qed
    qed
  qed
qed

section \<open>COFF symbols\<close>

text \<open>Nothing but the coming reads and allocations differs, and the descriptor is that of the same file.\<close>

definition same_but_host :: "stream \<times> 'a ranlib_st_scheme \<Rightarrow> stream \<times> 'a ranlib_st_scheme \<Rightarrow> bool" where
  "same_but_host x y \<longleftrightarrow> s_path (fst y) = s_path (fst x)
     \<and> (\<exists>h f. snd y = (snd x)\<lparr>heap_ok := h, io := f\<rparr>)"

lemma same_but_host_refl: "same_but_host x x"
  by (cases "snd x") (auto simp: same_but_host_def)

lemma same_but_host_trans: "same_but_host x y \<Longrightarrow> same_but_host y z \<Longrightarrow> same_but_host x z"
  by (cases "snd x"; cases "snd y"; cases "snd z") (auto simp: same_but_host_def)

lemma same_sys_read: "sys_read n s st = (r, bs, s', st') \<Longrightarrow> same_but_host (s, st) (s', st')"
  by (cases st) (auto simp: sys_read_def same_but_host_def Let_def split: if_splits)

lemma same_seek: "same_but_host (s, st) (snd (lseek_cur d s), st)"
  by (cases st) (auto simp: lseek_cur_def same_but_host_def Let_def)

lemma same_malloc: "c_malloc n st = (p, st') \<Longrightarrow> same_but_host (s, st) (s, st')"
  by (cases st) (auto simp: c_malloc_def same_but_host_def)

lemma same_addsym: "same_but_host (s, st) (s, coff_addsym e st)"
  by (cases st) (auto simp: coff_addsym_def c_malloc_def same_but_host_def)

lemma same_syment:
  assumes "read_syment s st = (r, s', st')"
  shows "same_but_host (s, st) (s', st')"
proof -
  obtain n bs s1 st1 where rd: "sys_read SYMESZ s st = (n, bs, s1, st1)" by (cases "sys_read SYMESZ s st")
  have "st' = st1 \<and> (s' = s1 \<or> (\<exists>d. s' = snd (lseek_cur d s1)))"
    using assms rd by (auto simp: read_syment_def Let_def split: if_splits)
  then show ?thesis using same_sys_read [OF rd] same_seek same_but_host_trans by blast
qed

lemma same_skip_symtab: "skip_symtab n s st = (r, s', st') \<Longrightarrow> same_but_host (s, st) (s', st')"
proof (induction n arbitrary: s st)
  case (Suc n)
  obtain e s1 st1 where e: "read_syment s st = (e, s1, st1)" by (cases "read_syment s st")
  show ?case
  proof (cases e)
    case (Some x)
    then have "same_but_host (s1, st1) (s', st')" using Suc e by simp
    then show ?thesis using same_syment [OF e] same_but_host_trans by blast
  qed (use Suc.prems e same_syment in auto)
qed (simp add: same_but_host_refl)

lemma same_add_symtab: "add_symtab n s st = (s', st') \<Longrightarrow> same_but_host (s, st) (s', st')"
proof (induction n arbitrary: s st)
  case (Suc n)
  obtain e s1 st1 where e: "read_syment s st = (e, s1, st1)" by (cases "read_syment s st")
  show ?case
  proof (cases e)
    case (Some x)
    then have "same_but_host (s1, coff_addsym x st1) (s', st')" using Suc e by simp
    then show ?thesis using same_syment [OF e] same_addsym same_but_host_trans by blast
  qed (use Suc.prems e same_syment in auto)
qed (simp add: same_but_host_refl)

definition home :: "stream \<Rightarrow> stream \<Rightarrow> stream" where
  "home s s' = snd (lseek_cur (int (s_pos s) - int (s_pos s')) s')"

lemma seek_back:
  assumes "s_path s' = s_path s" and "s_pos s < 2 ^ 63"
  shows "home s s' = s"
  using assms by (cases s; cases s') (simp add: home_def lseek_cur_def)

text \<open>Every exit seeks back to where the member starts.\<close>

lemma coff_getsym_exit:
  fixes st :: "'a ranlib_st_scheme"
  shows "\<exists>y. same_but_host (s, st) y \<and> coff_getsym s st = (home s (fst y), snd y)"
proof -
  note tr = same_but_host_trans
  obtain n1 b1 s1 st1 where r1: "sys_read FILHSZ s st = (n1, b1, s1, st1)" by (cases "sys_read FILHSZ s st")
  have 1: "same_but_host (s, st) (s1, st1)" by (rule same_sys_read [OF r1])
  define hdr where "hdr = dec_filhdr b1"
  define sy where "sy = int (s_pos s) + sint (f_symptr hdr)"
  define s2 where "s2 = snd (lseek_cur (sy - int (s_pos s1)) s1)"
  have 2: "same_but_host (s, st) (s2, st1)" unfolding s2_def by (rule tr [OF 1 same_seek])
  obtain ok s3 st3 where r3: "skip_symtab (nat (sint (f_nsyms hdr))) s2 st1 = (ok, s3, st3)"
    by (cases "skip_symtab (nat (sint (f_nsyms hdr))) s2 st1")
  have 3: "same_but_host (s, st) (s3, st3)" by (rule tr [OF 2 same_skip_symtab [OF r3]])
  obtain n4 b4 s4 st4 where r4: "sys_read 4 s3 st3 = (n4, b4, s4, st4)" by (cases "sys_read 4 s3 st3")
  have 4: "same_but_host (s, st) (s4, st4)" by (rule tr [OF 3 same_sys_read [OF r4]])
  obtain p st5 where r5: "c_malloc (ucast (rd32 b4 0)) st4 = (p, st5)"
    by (cases "c_malloc (ucast (rd32 b4 0) :: u64) st4") auto
  have 5: "same_but_host (s, st) (s4, st5)" by (rule tr [OF 4 same_malloc [OF r5]])
  obtain n6 b6 s6 st6 where r6: "sys_read (unat (rd32 b4 0)) s4 st5 = (n6, b6, s6, st6)"
    by (cases "sys_read (unat (rd32 b4 0)) s4 st5")
  have 6: "same_but_host (s, st) (s6, st6)" by (rule tr [OF 5 same_sys_read [OF r6]])
  define s7 where "s7 = snd (lseek_cur (sy - int (s_pos s6)) s6)"
  have 7: "same_but_host (s, st) (s7, st6)" unfolding s7_def by (rule tr [OF 6 same_seek])
  obtain s8 st8 where r8: "add_symtab (nat (sint (f_nsyms hdr))) s7 st6 = (s8, st8)"
    by (cases "add_symtab (nat (sint (f_nsyms hdr))) s7 st6")
  have 8: "same_but_host (s, st) (s8, st8)" by (rule tr [OF 7 same_add_symtab [OF r8]])
  have "coff_getsym s st \<in> {(home s s1, st1), (home s s3, st3), (home s s4, st4), (home s s4, st5), (home s s6, st6),
      (home s s8, st8)}"
    unfolding coff_getsym_def Let_def r1 prod.case hdr_def [symmetric] sy_def [symmetric] s2_def [symmetric]
      r3 r4 r5 r6 s7_def [symmetric] r8 home_def [symmetric]
    by (simp split del: if_split) (simp split: if_split)
  then show ?thesis
    using 1 3 4 5 6 8 by fastforce
qed

section \<open>Samples\<close>

definition sample_members :: "member list" where
  "sample_members =
     [\<lparr>m_name = ascii ''a.o'', m_long = False, m_date = 7, m_uid = 1, m_gid = 2, m_mode = 420, m_data = [1, 2, 3]\<rparr>,
      \<lparr>m_name = ascii ''a-long-file-name.o'', m_long = True, m_date = 8, m_uid = 0, m_gid = 0, m_mode = 420,
       m_data = [4, 5]\<rparr>]"

text \<open>A host whose reads deliver at most three bytes each.\<close>

definition ar_host :: "u8 list \<Rightarrow> ranlib_st" where
  "ar_host c = \<lparr>heap_ok = \<lambda>_. True, files = [ascii ''l.a'' \<mapsto> c], writable = \<lambda>_. True, room = 0, out = [],
     err = [], errtext = [], io = \<lambda>_. 3, mk_ok = True, opt_U = 0\<rparr>"

definition sample_archive :: ranlib_st where
  "sample_archive = ar_host (ARMAG @ concat (map member_bytes sample_members))"

lemma sample_members_ok: "list_all member_ok sample_members"
  by (simp add: sample_members_def member_ok_def fields_ok_def name_ok_def short_name_def name_behind_def m_size_def
      AR_NAMESZ_def AR_EXTNAME_def AR_EXTNAME_SZ_def)

lemma ar_host_ok: "reads_ok (ar_host c)" "files (ar_host c) (ascii ''l.a'') = Some c"
  "writable (ar_host c) p" "content (ar_host c) (ascii ''l.a'') = c"
  by (simp_all add: ar_host_def reads_ok_def content_def)



section \<open>Properties\<close>

text \<open>C17: an archive of well-formed members, with short names or with long ones of even length, is opened,
  and the loop of \<open>ranlib\<close> ends and prints one line per member, in order; reads may be short.\<close>

theorem ranlib_lists_members:
  fixes st :: "'a ranlib_st_scheme"
  assumes "reads_ok st" and "writable st p" and "files st p = Some (ARMAG @ concat (map member_bytes ms))"
    and "list_all member_ok ms" and "length (concat (map member_bytes ms)) < 2 ^ 61"
  shows "\<exists>s f g. archive_open p st = Some (Inr (Some s, st\<lparr>io := f\<rparr>))
    \<and> ranlib_loop unset_entry s (st\<lparr>io := f\<rparr>)
      = Some (Inr (st\<lparr>out := out st @ concat (map entry_line ms), io := g\<rparr>))"
proof -
  let ?s = "\<lparr>s_path = p, s_pos = SARMAG\<rparr>"
  have "take SARMAG (ARMAG @ concat (map member_bytes ms)) = ARMAG" by (simp add: ARMAG_def SARMAG_def)
  then obtain f where f: "\<forall>i. 0 \<le> f i" and op: "archive_open p st = Some (Inr (Some ?s, st\<lparr>io := f\<rparr>))"
    using archive_open_ok [OF assms(1,3,2)] by auto
  have "rest ?s (st\<lparr>io := f\<rparr>) = concat (map member_bytes ms)"
    using assms(3) by (simp add: rest_def content_def ARMAG_def SARMAG_def)
  then obtain g where "ranlib_loop unset_entry ?s (st\<lparr>io := f\<rparr>)
      = Some (Inr ((st\<lparr>io := f\<rparr>)\<lparr>out := out (st\<lparr>io := f\<rparr>) @ concat (map entry_line ms), io := g\<rparr>))"
    using ranlib_loop_lists [of "st\<lparr>io := f\<rparr>" ms ?s unset_entry] f assms(4,5)
    by (auto simp: unset_entry_def SARMAG_def)
  then show ?thesis using op by (intro exI [of _ ?s] exI [of _ f] exI [of _ g]) (simp add: io_out_swap)
qed

theorem ranlib_lists_members_instance:
  "\<exists>s f g. archive_open (ascii ''l.a'') sample_archive = Some (Inr (Some s, sample_archive\<lparr>io := f\<rparr>))
    \<and> ranlib_loop unset_entry s (sample_archive\<lparr>io := f\<rparr>)
      = Some (Inr (sample_archive\<lparr>out := out sample_archive @ concat (map entry_line sample_members), io := g\<rparr>))"
  unfolding sample_archive_def
proof (rule ranlib_lists_members)
  show "length (concat (map member_bytes sample_members)) < 2 ^ 61"
    using sample_members_ok by (simp add: sample_members_def length_member_bytes member_ok_def m_size_def SAR_HDR_def)
qed (simp_all only: ar_host_ok sample_members_ok)

text \<open>C20: collecting the symbols of a member returns on every host and every file, with the descriptor back
  at the member; it changes no file and prints nothing.\<close>

theorem coff_getsym_restores:
  fixes st :: "'a ranlib_st_scheme"
  assumes "s_pos s < 2 ^ 63"
  shows "\<exists>h f. coff_getsym s st = (s, st\<lparr>heap_ok := h, io := f\<rparr>)"
proof -
  obtain y where y: "same_but_host (s, st) y" "coff_getsym s st = (home s (fst y), snd y)"
    using coff_getsym_exit by blast
  then show ?thesis using seek_back [of "fst y" s] assms by (auto simp: same_but_host_def)
qed

theorem coff_getsym_restores_instance:
  "\<exists>h f. coff_getsym \<lparr>s_path = ascii ''l.a'', s_pos = 68\<rparr> sample_archive
    = (\<lparr>s_path = ascii ''l.a'', s_pos = 68\<rparr>, sample_archive\<lparr>heap_ok := h, io := f\<rparr>)"
  by (rule coff_getsym_restores) simp

text \<open>C18: a header as \<open>ar\<close> writes it, with the name in it or behind it, is read back: the entry has the
  numbers of the member, the length of the data, the offset of the header and the name, and the
  descriptor is at the data.\<close>

theorem entry_header_roundtrip:
  fixes st :: "'a ar_st_scheme"
  assumes "reads_ok st" and "fields_ok m" and "name_ok m" and "rest s st = member_bytes m @ tail"
    and "length (ae_name e) = AR_NAMESZ"
  shows "\<exists>f b. cstr b = Inr (m_name m) \<and> archive_get_entry_hdr e s st
    = Some (Inr (1, entry_of (s_pos s) m b, adv (SAR_HDR + name_behind m) s, st\<lparr>io := f\<rparr>))"
  using get_entry_ok [OF assms] by metis

theorem entry_header_roundtrip_instance:
  "\<exists>f b. cstr b = Inr (ascii ''a.o'')
    \<and> archive_get_entry_hdr unset_entry \<lparr>s_path = ascii ''l.a'', s_pos = 8\<rparr> sample_archive
      = Some (Inr (1, entry_of 8 (hd sample_members) b,
          \<lparr>s_path = ascii ''l.a'', s_pos = 68\<rparr>, sample_archive\<lparr>io := f\<rparr>))"
proof -
  let ?s = "\<lparr>s_path = ascii ''l.a'', s_pos = 8\<rparr>"
  have m: "fields_ok (hd sample_members)" "name_ok (hd sample_members)"
    using sample_members_ok by (simp_all add: sample_members_def member_ok_def)
  have "content sample_archive (ascii ''l.a'') = ARMAG @ concat (map member_bytes sample_members)"
    unfolding sample_archive_def by (rule ar_host_ok)
  then have "rest ?s sample_archive = member_bytes (hd sample_members) @ member_bytes (sample_members ! 1)"
    by (simp add: rest_def ARMAG_def sample_members_def del: ascii_simps)
  from entry_header_roundtrip [OF _ m this, of unset_entry] show ?thesis
    by (simp add: sample_archive_def ar_host_ok unset_entry_def sample_members_def adv_def name_behind_def SAR_HDR_def)
qed

text \<open>C19: a loop over reads that deliver any positive number of bytes yields what one full read would: as
  many bytes as asked for, or as the file still has.\<close>

theorem read_data_short_reads:
  fixes st :: "'a ar_st_scheme"
  assumes "reads_ok st" and "n \<le> length b" and "n < 2 ^ 63"
  shows "\<exists>f k. k = min n (length (rest s st)) \<and> read_data b (int n) s st
    = Some (Inr (int k, map Some (take k (rest s st)) @ drop k b, adv k s, st\<lparr>io := f\<rparr>))"
proof -
  obtain f where "read_data b (int n) s st = (let k = min n (length (rest s st))
     in Some (Inr (int k, map Some (take k (rest s st)) @ drop k b, adv k s, st\<lparr>io := f\<rparr>)))"
    by (rule read_data_ok [OF assms])
  then show ?thesis unfolding Let_def by blast
qed

theorem read_data_short_reads_instance:
  "\<exists>f k. k = min 8 (length (rest \<lparr>s_path = ascii ''l.a'', s_pos = 0\<rparr> sample_archive))
    \<and> read_data (replicate 8 None) (int 8) \<lparr>s_path = ascii ''l.a'', s_pos = 0\<rparr> sample_archive
      = Some (Inr (int k, map Some (take k (rest \<lparr>s_path = ascii ''l.a'', s_pos = 0\<rparr> sample_archive))
          @ drop k (replicate 8 None), adv k \<lparr>s_path = ascii ''l.a'', s_pos = 0\<rparr>, sample_archive\<lparr>io := f\<rparr>))"
  by (rule read_data_short_reads) (simp_all add: sample_archive_def ar_host_ok)





text \<open>C39: a header whose name is all blank, or whose long name has 255 bytes or more, makes
  \<open>archive_get_entry_hdr\<close> leave the array of the name.\<close>

theorem archive_name_bounds:
  fixes st :: "'a ar_st_scheme"
  assumes "reads_ok st" and "rest s st = hb @ tail" and "length hb = SAR_HDR"
    and "ar_fmag (dec_arhdr hb) = ARFMAG" and "length (ae_name e) = AR_NAMESZ"
    and "ar_name (dec_arhdr hb) = replicate 16 32
      \<or> take AR_EXTNAME_SZ (ar_name (dec_arhdr hb)) = AR_EXTNAME \<and> int AR_NAMESZ \<le> ext_len hb"
  shows "archive_get_entry_hdr e s st = Some (Inl OutOfBounds)"
proof -
  obtain f e1 where f: "\<forall>i. 0 \<le> f i"
    and e1: "e1 = header_fields (dec_arhdr hb) (e\<lparr>ae_offset := of_nat (s_pos s)\<rparr>)"
    and eq: "archive_get_entry_hdr e s st = entry_name hb e1 (adv SAR_HDR s) (st\<lparr>io := f\<rparr>)"
    by (rule get_entry_step [OF assms(1-4), of e])
  have nm: "length (ae_name e1) = AR_NAMESZ" using assms(5) by (simp add: e1 header_fields_def)
  then have n16: "16 \<le> length (ae_name e1)" by (simp add: AR_NAMESZ_def)
  from assms(6) show ?thesis
  proof (elim disjE conjE)
    assume blank: "ar_name (dec_arhdr hb) = replicate 16 32"
    have "store_bytes (ae_name e1) 0 (replicate 16 32) = Inr (map Some (replicate 16 32) @ drop 16 (ae_name e1))"
      using n16 by (simp add: store_bytes_def)
    moreover have "strip_spaces (map Some (replicate 16 32) @ drop 16 (ae_name e1)) 15 = Inl OutOfBounds"
      using strip_spaces_all [of 15] by simp
    moreover have "take AR_EXTNAME_SZ (replicate 16 32) \<noteq> AR_EXTNAME"
      by (simp add: AR_EXTNAME_def AR_EXTNAME_SZ_def take_replicate numeral_3_eq_3)
    ultimately show ?thesis by (simp add: eq entry_name_def blank)
  next
    assume long: "take AR_EXTNAME_SZ (ar_name (dec_arhdr hb)) = AR_EXTNAME" "int AR_NAMESZ \<le> ext_len hb"
    have "ext_len hb < 2 ^ 63"
      unfolding ext_len_def by (rule order.strict_trans [OF sint_lt]) simp
    then have "read_loop (ext_len hb) 0 (ae_name e1) (adv SAR_HDR s) (st\<lparr>io := f\<rparr>) = Some (Inl OutOfBounds)
      \<or> (\<exists>t b' s' st'. read_loop (ext_len hb) 0 (ae_name e1) (adv SAR_HDR s) (st\<lparr>io := f\<rparr>) = Some (Inr (t, b', s', st'))
          \<and> length b' = length (ae_name e1))"
      using long(2) f by (intro read_loop_size) (simp_all add: AR_NAMESZ_def)
    then show ?thesis
      using long nm by (auto simp: eq entry_name_def read_data_def store_nul_def store_byte_def)
  qed
qed

definition long_header :: "u8 list" where
  "long_header = ascii ''#1/300'' @ replicate 42 32 @ ascii ''300'' @ replicate 7 32 @ ARFMAG"

theorem archive_name_bounds_instance:
  "archive_get_entry_hdr unset_entry \<lparr>s_path = ascii ''l.a'', s_pos = 8\<rparr> (ar_host (ARMAG @ long_header))
    = Some (Inl OutOfBounds)"
proof (rule archive_name_bounds [where hb = long_header and tail = "[]"])
  have "digits_val 10 (replicate 42 32 @ r) 300 = 300" for r
    using no_digit_spaces [of 42 r] by (intro digits_val_stop) simp_all
  moreover have "takeWhile (\<lambda>c. c \<noteq> 0) (replicate 42 32 @ r) = replicate 42 32 @ takeWhile (\<lambda>c. c \<noteq> 0) r" for r :: "u8 list"
    by (rule takeWhile_append2) simp
  ultimately have "ext_len long_header = 300"
    by (simp add: ext_len_def long_header_def AR_EXTNAME_SZ_def ARFMAG_def newline_def strtol_def is_space_def)
  then show "ar_name (dec_arhdr long_header) = replicate 16 32
      \<or> take AR_EXTNAME_SZ (ar_name (dec_arhdr long_header)) = AR_EXTNAME \<and> int AR_NAMESZ \<le> ext_len long_header"
    by (simp add: dec_arhdr_def long_header_def AR_EXTNAME_def AR_EXTNAME_SZ_def AR_NAMESZ_def)
  show "rest \<lparr>s_path = ascii ''l.a'', s_pos = 8\<rparr> (ar_host (ARMAG @ long_header)) = long_header @ []"
    by (simp only: rest_def stream.simps ar_host_ok) (simp add: ARMAG_def)
qed (simp_all add: ar_host_ok long_header_def dec_arhdr_def SAR_HDR_def ARFMAG_def unset_entry_def)

text \<open>Behind a member whose long name has an odd length the loop does not arrive at the next header,
  which the format puts at an even offset.\<close>

lemma odd_long_name_misplaced:
  fixes st :: "'a ar_st_scheme"
  assumes "reads_ok st" and "fields_ok m" and "name_ok m" and "rest s st = member_bytes m @ tail"
    and "length (ae_name e) = AR_NAMESZ" and "odd (name_behind m)" and "s_pos s < 2 ^ 61"
  shows "\<exists>e' s' f. archive_get_entry_hdr e s st = Some (Inr (1, e', s', st\<lparr>io := f\<rparr>))
    \<and> rest s st = member_bytes m @ tail
    \<and> s_pos (snd (archive_skip_entry s' e')) \<noteq> s_pos s + length (member_bytes m)"
proof -
  obtain f b where g: "archive_get_entry_hdr e s st
      = Some (Inr (1, entry_of (s_pos s) m b, adv (SAR_HDR + name_behind m) s, st\<lparr>io := f\<rparr>))"
    by (rule get_entry_ok [OF assms(1-5)])
  let ?s = "adv (SAR_HDR + name_behind m) s" and ?d = "length (m_data m)"
  have "name_behind m < 10 ^ 10" using assms(2) by (simp add: fields_ok_def m_size_def name_behind_def)
  then have "s_pos ?s < 2 ^ 62" using assms(7) by (simp add: SAR_HDR_def)
  then have "s_pos (snd (archive_skip_entry ?s (entry_of (s_pos s) m b)))
      = s_pos s + SAR_HDR + name_behind m + (?d + ?d mod 2)"
    by (simp add: skip_entry_ok [OF assms(2)])
  moreover have "m_size m = name_behind m + ?d" by (simp add: m_size_def name_behind_def)
  then have "length (member_bytes m) = SAR_HDR + name_behind m + ?d + (name_behind m + ?d) mod 2"
    by (simp add: length_member_bytes [OF assms(2,3)])
  moreover have "?d mod 2 \<noteq> (name_behind m + ?d) mod 2" using assms(6) by presburger
  ultimately show ?thesis using g assms(4) by auto
qed

text \<open>C40: \<open>temp_archive\<close> copies 19 bytes of a string of 14, so that \<open>ranlib\<close> leaves defined behaviour on every
  archive it can open; on any other file it reports failure.\<close>

theorem ranlib_temp_overread:
  fixes st :: "'a ranlib_st_scheme"
  assumes "reads_ok st"
  shows "\<exists>f. ranlib p st =
    (if writable st p \<and> (\<exists>c. files st p = Some c \<and> take SARMAG c = ARMAG) then Some (Inl OutOfBounds)
     else Some (Inr (- 1, st\<lparr>io := f\<rparr>)))"
proof (cases "writable st p \<and> files st p \<noteq> None")
  case True
  then obtain c where c: "files st p = Some c" by auto
  have t: "temp_archive st' = Inl OutOfBounds" for st' :: "'a ranlib_st_scheme"
    by (simp add: temp_archive_def tmp_path_def str_block_def load_bytes_def)
  obtain f where "archive_open p st
      = Some (Inr (if take SARMAG c = ARMAG then Some \<lparr>s_path = p, s_pos = SARMAG\<rparr> else None, st\<lparr>io := f\<rparr>))"
    using archive_open_ok [OF assms c] True by blast
  then show ?thesis using True c t by (intro exI [of _ f]) (simp add: ranlib_def)
next
  case False
  then have "fopen_rpb p st = None" by (auto simp: fopen_rpb_def fopen_rb_def split: option.splits)
  then show ?thesis using False by (intro exI [of _ "io st"]) (auto simp: ranlib_def archive_open_def)
qed

theorem ranlib_temp_overread_instance: "ranlib (ascii ''l.a'') sample_archive = Some (Inl OutOfBounds)"
proof -
  have c: "files sample_archive (ascii ''l.a'') = Some (ARMAG @ concat (map member_bytes sample_members))"
    unfolding sample_archive_def by (rule ar_host_ok)
  have "reads_ok sample_archive" "writable sample_archive (ascii ''l.a'')"
    unfolding sample_archive_def by (rule ar_host_ok)+
  then show ?thesis
    using ranlib_temp_overread [of sample_archive "ascii ''l.a''"] c by (auto simp: ARMAG_def SARMAG_def)
qed

end
