(* ===== verification/Fasdump.thy ===== *)
theory Fasdump
  imports FasLoad Getopt
begin

text \<open>
  The program \<open>fasdump\<close> (\<open>src/bin/fasdump/main.c\<close>): it loads the header and four tables of a FAS
  file and prints the parts the options ask for.  Its \<open>pstr2cstr\<close> is word for word that of
  \<open>fas.c\<close>.  The package name and the commit that \<open>-V\<close> prints come from the build.
\<close>

record dump_st = os +
  dump_name :: "u8 list"
  hdr :: FAS_Hdr
  strtab :: "block option"
  symtab :: "block option"
  psrc :: "block option"
  sectab :: "block option"
  sec_cnt :: u64
  sym_cnt :: u64
  display_header :: bool
  display_sections :: bool
  display_symbols :: bool

section \<open>Loading\<close>

definition dump_cleanup :: "'a dump_st_scheme \<Rightarrow> 'a dump_st_scheme" where
  "dump_cleanup st = st\<lparr>sectab := None, psrc := None, symtab := None, strtab := None\<rparr>"

text \<open>The result and the table that \<open>*dest\<close> points to afterwards.\<close>

definition dump_load_table ::
  "block option \<Rightarrow> u64 \<Rightarrow> u64 \<Rightarrow> stream \<Rightarrow> 'a dump_st_scheme
    \<Rightarrow> (int \<times> block option \<times> stream \<times> 'a dump_st_scheme) res" where
  "dump_load_table dest offset sz fp st =
     (if sz = 0 then Inr (0, dest, fp, st)
      else case c_malloc sz st of
        (None, st) \<Rightarrow> Inr (- 1, None, fp, st)
      | (Some blk, st) \<Rightarrow>
          (case fseek_set offset fp of (r, fp) \<Rightarrow>
             if r \<noteq> 0 then Inr (- 1, Some blk, fp, st)
             else case fread (unat sz) 1 fp st of (n, bs, fp) \<Rightarrow>
               rbind (store_bytes blk 0 bs) (\<lambda>blk. Inr (if n \<noteq> 1 then - 1 else 0, Some blk, fp, st))))"

definition dump_load_file :: "u8 list \<Rightarrow> 'a dump_st_scheme \<Rightarrow> (int \<times> 'a dump_st_scheme) res" where
  "dump_load_file file st =
     (case fopen_rb file st of
        None \<Rightarrow> Inr (- 1, st)
      | Some fp \<Rightarrow>
        (case fread sizeof_FAS_Hdr 1 fp st of (n, bs, fp) \<Rightarrow>
         let st = st\<lparr>hdr := dec_fhdr (bs @ drop (length bs) (enc_fhdr (hdr st)))\<rparr>;
             h = hdr st
         in if n \<noteq> 1 then Inr (- 1, st)
            else if magic h \<noteq> FAS_MAGIC then Inr (- 1, st)
            else rbind (dump_load_table (strtab st) (ucast (strtab_off h)) (ucast (strtab_len h)) fp st) (\<lambda>(r, t, fp, st).
              let st = st\<lparr>strtab := t\<rparr>
              in if r \<noteq> 0 then Inr (- 1, dump_cleanup st)
            else rbind (dump_load_table (symtab st) (ucast (symtab_off h)) (ucast (symtab_len h)) fp st) (\<lambda>(r, t, fp, st).
              let st = st\<lparr>symtab := t\<rparr>
              in if r \<noteq> 0 then Inr (- 1, dump_cleanup st)
            else rbind (dump_load_table (psrc st) (ucast (psrc_off h)) (ucast (psrc_len h)) fp st) (\<lambda>(r, t, fp, st).
              let st = st\<lparr>psrc := t\<rparr>
              in if r \<noteq> 0 then Inr (- 1, dump_cleanup st)
            else rbind (dump_load_table (sectab st) (ucast (sectab_off h)) (ucast (sectab_len h)) fp st) (\<lambda>(r, t, fp, st).
              let st = st\<lparr>sectab := t\<rparr>
              in if r \<noteq> 0 then Inr (- 1, dump_cleanup st)
            else Inr (0, st\<lparr>sym_cnt := ucast (symtab_len h) div of_nat sizeof_FAS_Sym,
                           sec_cnt := ucast (sectab_len h) div 4\<rparr>)))))))"

section \<open>Printing\<close>

text \<open>The string at an offset of a table, as \<open>%s\<close> prints it.\<close>

definition str_arg :: "block option \<Rightarrow> u32 \<Rightarrow> u8 list res" where
  "str_arg tab off = rbind (deref tab) (\<lambda>blk. cstr_at blk (unat off))"

definition hex8 :: "u32 \<Rightarrow> u8 list" where
  "hex8 w = ascii ''0x'' @ pad_left 48 8 (fmt_hex True (unat w))"

definition header_text :: "FAS_Hdr \<Rightarrow> u8 list \<Rightarrow> u8 list \<Rightarrow> u8 list" where
  "header_text h ifnm ofnm =
     (let dec = (\<lambda>w. fmt_dec (unat (w :: u32)))
      in ascii ''FAS Header:'' @ [newline]
         @ ascii ''  Magic:                       '' @ fmt_hex True (unat (magic h)) @ [newline]
         @ ascii ''  Fasm version:                '' @ fmt_dec (unat (ver_major h)) @ ascii ''.''
             @ fmt_dec (unat (ver_minor h)) @ [newline]
         @ ascii ''  Header Length:               '' @ fmt_dec (unat (hdr_length h)) @ [newline]
         @ ascii ''  Input file:                  '' @ ifnm @ [newline]
         @ ascii ''  Output file:                 '' @ ofnm @ [newline]
         @ ascii ''  String table offset:         '' @ hex8 (strtab_off h) @ [newline]
         @ ascii ''  String table length:         '' @ dec (strtab_len h) @ [newline]
         @ ascii ''  Symbol table offset:         '' @ hex8 (symtab_off h) @ [newline]
         @ ascii ''  Symbol table length:         '' @ dec (symtab_len h) @ [newline]
         @ ascii ''  Preprocessed sources offset: '' @ hex8 (psrc_off h) @ [newline]
         @ ascii ''  Preprocessed sources length: '' @ dec (psrc_len h) @ [newline]
         @ ascii ''  ASM dump offset:             '' @ hex8 (asmdmp_off h) @ [newline]
         @ ascii ''  ASM dump length:             '' @ dec (asmdmp_len h) @ [newline]
         @ ascii ''  Section table offset:        '' @ hex8 (sectab_off h) @ [newline]
         @ ascii ''  Section table length:        '' @ dec (sectab_len h) @ [newline]
         @ ascii ''  Symref table offset:         '' @ hex8 (symref_off h) @ [newline]
         @ ascii ''  Symref table length:         '' @ dec (symref_len h) @ [newline]
         @ [newline])"

definition print_header :: "'a dump_st_scheme \<Rightarrow> 'a dump_st_scheme res" where
  "print_header st =
     rbind (str_arg (strtab st) (ifnm_off (hdr st))) (\<lambda>ifnm.
     rbind (str_arg (strtab st) (ofnm_off (hdr st))) (\<lambda>ofnm.
     Inr (print_out (header_text (hdr st) ifnm ofnm) st)))"

fun print_sections_loop :: "nat list \<Rightarrow> 'a dump_st_scheme \<Rightarrow> 'a dump_st_scheme res" where
  "print_sections_loop [] st = Inr st"
| "print_sections_loop (idx # idxs) st =
     rbind (deref (sectab st)) (\<lambda>blk. rbind (load_bytes blk (idx * 4) 4) (\<lambda>bs.
     rbind (str_arg (strtab st) (rd32 bs 0)) (\<lambda>s.
       print_sections_loop idxs (print_out (ascii ''  '' @ s @ [newline]) st))))"

definition print_sections :: "'a dump_st_scheme \<Rightarrow> 'a dump_st_scheme res" where
  "print_sections st =
     rbind (print_sections_loop [0..<unat (sec_cnt st)] (print_out (ascii ''Section names:'' @ [newline]) st))
       (\<lambda>st. Inr (print_out [newline] st))"

definition print_symbol_section :: "u8 \<Rightarrow> u32 \<Rightarrow> 'a dump_st_scheme \<Rightarrow> 'a dump_st_scheme" where
  "print_symbol_section ty rel st =
     (if ty = type_code FAS_ABS then print_out (ascii ''ABS '') st
      else if rel AND 0x80000000 \<noteq> 0 then print_out (ascii ''UND '') st
      else print_out (pad_right 3 (fmt_dec (unat rel)) @ ascii '' '') st)"

definition print_symbol_name :: "u32 \<Rightarrow> 'a dump_st_scheme \<Rightarrow> 'a dump_st_scheme res" where
  "print_symbol_name off st =
     (if off = 0 then Inr st
      else if off AND 0x80000000 \<noteq> 0
      then rbind (str_arg (strtab st) (off AND NOT 0x80000000)) (\<lambda>s. Inr (print_out s st))
      else rbind (pstr2cstr (replicate 256 (Some 0)) (psrc st) (unat off)) (\<lambda>name_str.
           rbind (cstr name_str) (\<lambda>s. Inr (print_out s st))))"

fun print_symbols_loop :: "nat list \<Rightarrow> 'a dump_st_scheme \<Rightarrow> 'a dump_st_scheme res" where
  "print_symbols_loop [] st = Inr st"
| "print_symbols_loop (idx # idxs) st =
     (let st = print_out (pad_left 32 6 (fmt_dec idx) @ ascii '': '') st
      in rbind (fsym_load (symtab st) idx) (\<lambda>s.
         let st = print_out (ascii ''0x'' @ pad_left 48 16 (fmt_hex False (unat (sym_value s))) @ ascii '' ''
                    @ pad_right 4 (fmt_dec (unat (sym_size s))) @ ascii '' '') st;
             st = print_symbol_section (sym_type s) (sym_reloc s) st
         in rbind (print_symbol_name (name_off s) st) (\<lambda>st.
            print_symbols_loop idxs (print_out [newline] st))))"

definition print_symbols :: "'a dump_st_scheme \<Rightarrow> 'a dump_st_scheme res" where
  "print_symbols st =
     rbind (print_symbols_loop [0..<unat (sym_cnt st)] (print_out (ascii ''Symbol table:'' @ [newline]
         @ ascii ''   Num: Value              Size Ndx Name'' @ [newline]) st))
       (\<lambda>st. Inr (print_out [newline] st))"

section \<open>The program\<close>

definition dump_version :: "u8 list \<Rightarrow> u8 list \<Rightarrow> 'a dump_st_scheme \<Rightarrow> int \<times> 'a dump_st_scheme" where
  "dump_version package commit st =
     (EXIT_SUCCESS, print_out (dump_name st @ ascii '' ('' @ package @ ascii '') '' @ commit @ [newline]) st)"

definition dump_usage :: "int \<Rightarrow> 'a dump_st_scheme \<Rightarrow> int \<times> 'a dump_st_scheme" where
  "dump_usage retval st =
     (retval,
      if retval = EXIT_FAILURE
      then print_err (ascii ''Try '' @ [39] @ dump_name st @ ascii '' -h'' @ [39]
             @ ascii '' for more informations.'' @ [newline]) st
      else print_out (ascii ''Usage: '' @ dump_name st @ ascii '' [-aHsS] file'' @ [newline]) st)"

definition process_file :: "u8 list \<Rightarrow> 'a dump_st_scheme \<Rightarrow> (int \<times> 'a dump_st_scheme) res" where
  "process_file file st =
     rbind (dump_load_file file st) (\<lambda>(r, st).
       if r \<noteq> 0 then Inr (EXIT_FAILURE, st)
       else rbind (if display_header st then print_header st else Inr st) (\<lambda>st.
            rbind (if display_sections st then print_sections st else Inr st) (\<lambda>st.
            rbind (if display_symbols st then print_symbols st else Inr st) (\<lambda>st.
            Inr (EXIT_SUCCESS, dump_cleanup st)))))"

fun dump_opts ::
  "u8 list \<Rightarrow> u8 list \<Rightarrow> u8 list \<Rightarrow> opt list \<Rightarrow> 'a dump_st_scheme \<Rightarrow> int option \<times> 'a dump_st_scheme" where
  "dump_opts package commit argv0 [] st = (None, st)"
| "dump_opts package commit argv0 (e # es) st =
     (let stop = (\<lambda>(r, st). (Some r, st))
      in case e of
        Opt c _ \<Rightarrow>
          (if c = of_char (CHR ''h'') then stop (dump_usage EXIT_SUCCESS st)
           else if c = of_char (CHR ''V'') then stop (dump_version package commit st)
           else if c = of_char (CHR ''H'')
           then dump_opts package commit argv0 es (st\<lparr>display_header := True\<rparr>)
           else if c = of_char (CHR ''s'')
           then dump_opts package commit argv0 es (st\<lparr>display_symbols := True\<rparr>)
           else if c = of_char (CHR ''S'')
           then dump_opts package commit argv0 es (st\<lparr>display_sections := True\<rparr>)
           else if c = of_char (CHR ''a'')
           then dump_opts package commit argv0 es
                  (st\<lparr>display_header := True, display_symbols := True, display_sections := True\<rparr>)
           else stop (dump_usage EXIT_FAILURE st))
      | _ \<Rightarrow> stop (dump_usage EXIT_FAILURE (print_err (getopt_message argv0 e) st)))"

definition dump_main ::
  "u8 list \<Rightarrow> u8 list \<Rightarrow> u8 list \<Rightarrow> u8 list list \<Rightarrow> 'a dump_st_scheme \<Rightarrow> (int \<times> 'a dump_st_scheme) res" where
  "dump_main package commit argv0 args st =
     (let st = st\<lparr>dump_name := basename argv0\<rparr>;
          (es, operands) = getopts (ascii ''hHVSsa'') [] args
      in case dump_opts package commit argv0 es st of
           (Some status, st) \<Rightarrow> Inr (status, st)
         | (None, st) \<Rightarrow>
             (case operands of
                [] \<Rightarrow> Inr (dump_usage EXIT_FAILURE st)
              | file # _ \<Rightarrow> process_file file st))"

end
