(* ===== verification/FasdumpProps.thy ===== *)
theory FasdumpProps
  imports Fasdump Samples
begin

text \<open>
  What \<open>fasdump\<close> prints for a well-formed FAS file, and that loading is safe on every file.  The
  names are those that \<open>fas2sym\<close> exports: both are given by \<open>fas_name\<close>.
\<close>

section \<open>Loading\<close>

interpretation dump: table_loader dump_load_table heap_good files
proof unfold_locales
  fix d fp c and off sz :: u64 and st :: "'a dump_st_scheme"
  show "dump_load_table d off 0 fp st = Inr (0, d, fp, st)" by (simp add: dump_load_table_def)
  assume h: "heap_good st" "files st (s_path fp) = Some c" "sz \<noteq> 0" "unat sz < 2 ^ 63" "0 \<le> sint off"
    "unat off + unat sz \<le> length c"
  then have "0 < unat sz" by (simp add: unat_gt_0)
  then show "dump_load_table d off sz fp st = Inr (0, Some (map Some (slice (unat off) (unat sz) c)),
      fp\<lparr>s_pos := unat off + unat sz\<rparr>, st)"
    using h fread_inside [OF h(2,6)]
    by (simp add: dump_load_table_def c_malloc_good fseek_nonneg store_bytes_def slice_def)
qed

definition dump_file :: "u8 list \<Rightarrow> FAS_Hdr \<Rightarrow> u8 list \<Rightarrow> u8 list \<Rightarrow> u8 list \<Rightarrow> u8 list \<Rightarrow> bool" where
  "dump_file c h strs src sbs secs \<longleftrightarrow> fas_file c h strs src sbs \<and> table_at c (sectab_off h) (sectab_len h) secs"

definition dump_loaded :: "'a dump_st_scheme \<Rightarrow> u8 list \<Rightarrow> u8 list \<Rightarrow> u8 list \<Rightarrow> u8 list \<Rightarrow> bool" where
  "dump_loaded st strs src sbs secs \<longleftrightarrow>
     table_is (strtab st) strs \<and> table_is (psrc st) src \<and> table_is (symtab st) sbs \<and> table_is (sectab st) secs
     \<and> unat (sym_cnt st) = length sbs div sizeof_FAS_Sym \<and> unat (sec_cnt st) = length secs div 4"

definition no_tables :: "'a dump_st_scheme \<Rightarrow> bool" where
  "no_tables st \<longleftrightarrow> strtab st = None \<and> symtab st = None \<and> psrc st = None \<and> sectab st = None"

lemma dump_load_file_ok:
  fixes st :: "'a dump_st_scheme"
  assumes good: "heap_good st" and f: "files st file = Some c" and df: "dump_file c h strs src sbs secs"
    and init: "no_tables st"
  obtains p q r u n m where "dump_load_file file st = Inr (0, st\<lparr>hdr := h, strtab := p, symtab := q, psrc := r,
      sectab := u, sec_cnt := m, sym_cnt := n\<rparr>)"
    and "dump_loaded (st\<lparr>hdr := h, strtab := p, symtab := q, psrc := r, sectab := u, sec_cnt := m, sym_cnt := n\<rparr>)
      strs src sbs secs"
proof -
  let ?fp = "\<lparr>s_path = file, s_pos = 0\<rparr>" and ?hb = "take sizeof_FAS_Hdr c"
  have ff: "fas_file c h strs src sbs" using df by (simp add: dump_file_def)
  have len: "length ?hb = sizeof_FAS_Hdr" using ff by (simp add: fas_file_def)
  have h: "dec_fhdr ?hb = h" "magic h = FAS_MAGIC" using ff by (simp_all add: fas_file_def)
  have rd: "fread sizeof_FAS_Hdr 1 ?fp st = (1, ?hb, ?fp\<lparr>s_pos := sizeof_FAS_Hdr\<rparr>)"
    using f len by (simp add: fread_def content_def Let_def sizeof_FAS_Hdr_def)
  have hd: "dec_fhdr (?hb @ drop (length ?hb) (enc_fhdr (hdr st))) = h"
    using h(1) len fhdr.enc_length by simp
  have tab: "table_at c (strtab_off h) (strtab_len h) strs" "table_at c (symtab_off h) (symtab_len h) sbs"
    "table_at c (psrc_off h) (psrc_len h) src" "table_at c (sectab_off h) (sectab_len h) secs"
    using df by (simp_all add: dump_file_def fas_file_def)
  let ?s0 = "st\<lparr>hdr := h\<rparr>"
  have at0: "s_path (?fp\<lparr>s_pos := sizeof_FAS_Hdr\<rparr>) = file" by simp
  obtain p fp1 where t1: "dump_load_table None (ucast (strtab_off h)) (ucast (strtab_len h))
      (?fp\<lparr>s_pos := sizeof_FAS_Hdr\<rparr>) ?s0 = Inr (0, p, fp1, ?s0)" and p: "s_path fp1 = file" "table_is p strs"
    by (rule dump.load_next [OF _ _ at0 tab(1), of ?s0]) (use f good in \<open>simp_all add: heap_good_def\<close>)
  let ?s1 = "?s0\<lparr>strtab := p\<rparr>"
  obtain q fp2 where t2: "dump_load_table None (ucast (symtab_off h)) (ucast (symtab_len h)) fp1 ?s1
      = Inr (0, q, fp2, ?s1)" and q: "s_path fp2 = file" "table_is q sbs"
    by (rule dump.load_next [OF _ _ p(1) tab(2), of ?s1]) (use f good in \<open>simp_all add: heap_good_def\<close>)
  let ?s2 = "?s1\<lparr>symtab := q\<rparr>"
  obtain r fp3 where t3: "dump_load_table None (ucast (psrc_off h)) (ucast (psrc_len h)) fp2 ?s2
      = Inr (0, r, fp3, ?s2)" and r: "s_path fp3 = file" "table_is r src"
    by (rule dump.load_next [OF _ _ q(1) tab(3), of ?s2]) (use f good in \<open>simp_all add: heap_good_def\<close>)
  let ?s3 = "?s2\<lparr>psrc := r\<rparr>"
  obtain u fp4 where t4: "dump_load_table None (ucast (sectab_off h)) (ucast (sectab_len h)) fp3 ?s3
      = Inr (0, u, fp4, ?s3)" and u: "s_path fp4 = file" "table_is u secs"
    by (rule dump.load_next [OF _ _ r(1) tab(4), of ?s3]) (use f good in \<open>simp_all add: heap_good_def\<close>)
  let ?n = "ucast (symtab_len h) div of_nat sizeof_FAS_Sym :: u64" and ?m = "ucast (sectab_len h) div 4 :: u64"
  have n: "unat ?n = length sbs div sizeof_FAS_Sym" "unat ?m = length secs div 4"
    using table_at_length [OF tab(2)] table_at_length [OF tab(4)]
    by (simp_all add: unat_div unat_ucast_wide sizeof_FAS_Sym_def)
  show ?thesis
    using f rd hd h(2) t1 t2 t3 t4 init n p(2) q(2) r(2) u(2)
    by (intro that [where p = p and q = q and r = r and u = u and m = ?m and n = ?n])
      (simp_all add: dump_load_file_def fopen_rb_def Let_def no_tables_def dump_loaded_def)
qed

text \<open>A table load returns on every host, and changes nothing but the allocations to come.\<close>

lemma dump_load_table_total:
  fixes st :: "'a dump_st_scheme"
  shows "\<exists>k p fp' h. dump_load_table d off sz fp st = Inr (k, p, fp', st\<lparr>heap_ok := h\<rparr>) \<and> (k = 0 \<or> k = - 1)"
proof (cases "sz = 0")
  case True
  then have "dump_load_table d off sz fp st = Inr (0, d, fp, st\<lparr>heap_ok := heap_ok st\<rparr>)"
    by (simp add: dump_load_table_def)
  then show ?thesis by blast
next
  case nz: False
  let ?st = "st\<lparr>heap_ok := \<lambda>i. heap_ok st (Suc i)\<rparr>"
  show ?thesis
  proof (cases "c_malloc sz st")
    case (Pair b st')
    then have st': "st' = ?st" and b: "b = None \<or> b = Some (replicate (unat sz) None)"
      by (auto simp: c_malloc_def split: if_splits)
    obtain r fp1 where fs: "fseek_set off fp = (r, fp1)" by fastforce
    obtain n bs fp2 where rd: "fread (unat sz) 1 fp1 ?st = (n, bs, fp2)" using prod_cases3 by blast
    then have "length bs \<le> unat sz" by (auto simp: fread_def Let_def)
    then show ?thesis
      using nz Pair st' b fs rd by (auto simp: dump_load_table_def store_bytes_def)
  qed
qed

text \<open>The whole load returns on every host and every file, reports success or \<open>- 1\<close>, and prints nothing.\<close>

definition quiet :: "'a dump_st_scheme \<Rightarrow> 'a dump_st_scheme \<Rightarrow> bool" where
  "quiet st st' \<longleftrightarrow> out st' = out st \<and> err st' = err st \<and> files st' = files st"

lemma dump_load_file_total:
  fixes st :: "'a dump_st_scheme"
  shows "\<exists>r st'. dump_load_file file st = Inr (r, st') \<and> quiet st st'
    \<and> (r = 0 \<or> r = - 1 \<and> (no_tables st \<longrightarrow> no_tables st'))"
proof (cases "fopen_rb file st")
  case None
  then show ?thesis by (simp add: dump_load_file_def quiet_def)
next
  case (Some fp)
  obtain n bs fp0 where rd: "fread sizeof_FAS_Hdr 1 fp st = (n, bs, fp0)" using prod_cases3 by blast
  let ?h = "dec_fhdr (bs @ drop (length bs) (enc_fhdr (hdr st)))"
  let ?s0 = "st\<lparr>hdr := ?h\<rparr>"
  obtain k1 p fp1 h1 where t1: "dump_load_table (strtab st) (ucast (strtab_off ?h)) (ucast (strtab_len ?h)) fp0 ?s0
      = Inr (k1, p, fp1, ?s0\<lparr>heap_ok := h1\<rparr>)"
    using dump_load_table_total by blast
  let ?s1 = "?s0\<lparr>heap_ok := h1, strtab := p\<rparr>"
  obtain k2 q fp2 h2 where t2: "dump_load_table (symtab st) (ucast (symtab_off ?h)) (ucast (symtab_len ?h)) fp1 ?s1
      = Inr (k2, q, fp2, ?s1\<lparr>heap_ok := h2\<rparr>)"
    using dump_load_table_total by blast
  let ?s2 = "?s1\<lparr>heap_ok := h2, symtab := q\<rparr>"
  obtain k3 r fp3 h3 where t3: "dump_load_table (psrc st) (ucast (psrc_off ?h)) (ucast (psrc_len ?h)) fp2 ?s2
      = Inr (k3, r, fp3, ?s2\<lparr>heap_ok := h3\<rparr>)"
    using dump_load_table_total by blast
  let ?s3 = "?s2\<lparr>heap_ok := h3, psrc := r\<rparr>"
  obtain k4 u fp4 h4 where t4: "dump_load_table (sectab st) (ucast (sectab_off ?h)) (ucast (sectab_len ?h)) fp3 ?s3
      = Inr (k4, u, fp4, ?s3\<lparr>heap_ok := h4\<rparr>)"
    using dump_load_table_total by blast
  show ?thesis
    using Some rd t1 t2 t3 t4
    by (simp add: dump_load_file_def Let_def quiet_def no_tables_def dump_cleanup_def)
qed

section \<open>Printing\<close>

definition section_text :: "u8 \<Rightarrow> u32 \<Rightarrow> u8 list" where
  "section_text ty rel =
     (if ty = type_code FAS_ABS then ascii ''ABS ''
      else if rel AND 0x80000000 \<noteq> 0 then ascii ''UND '' else pad_right 3 (fmt_dec (unat rel)) @ ascii '' '')"

definition symbol_row :: "nat \<Rightarrow> FAS_Sym \<Rightarrow> u8 list \<Rightarrow> u8 list" where
  "symbol_row i s nm =
     pad_left 32 6 (fmt_dec i) @ ascii '': 0x'' @ pad_left 48 16 (fmt_hex False (unat (sym_value s))) @ ascii '' ''
     @ pad_right 4 (fmt_dec (unat (sym_size s))) @ ascii '' '' @ section_text (sym_type s) (sym_reloc s) @ nm @ [newline]"

definition symbol_rows :: "u8 list \<Rightarrow> u8 list \<Rightarrow> FAS_Sym list \<Rightarrow> nat list \<Rightarrow> u8 list" where
  "symbol_rows strs src syms idxs =
     concat (map (\<lambda>i. symbol_row i (syms ! i) (projr (fas_name strs src (name_off (syms ! i))))) idxs)"

lemma print_out_upd [simp]:
  "print_out t (print_out s st) = print_out (s @ t) st"
  "strtab (print_out s st) = strtab st" "symtab (print_out s st) = symtab st"
  "psrc (print_out s st) = psrc st" "sectab (print_out s st) = sectab st" "hdr (print_out s st) = hdr st"
  "sym_cnt (print_out s st) = sym_cnt st" "sec_cnt (print_out s st) = sec_cnt st"
  "display_header (print_out s st) = display_header st" "display_sections (print_out s st) = display_sections st"
  "display_symbols (print_out s st) = display_symbols st"
  for st :: "'a dump_st_scheme"
  by (simp_all add: print_out_def)

lemma print_symbol_section_text: "print_symbol_section ty rel st = print_out (section_text ty rel) st"
  by (simp add: print_symbol_section_def section_text_def)

lemma print_symbol_name_ok:
  assumes "table_is (strtab st) strs" and "table_is (psrc st) src" and "fas_name strs src off = Inr nm"
  shows "print_symbol_name off st = Inr (print_out nm st)"
proof (cases "off = 0")
  case True
  then show ?thesis using assms(3) by (simp add: print_symbol_name_def fas_name_def print_out_def)
next
  case False
  show ?thesis
  proof (cases "name_in_strtab off")
    case True
    then have c: "cstr_at (map Some strs) (unat (off AND NOT 0x80000000)) = Inr nm"
      using False assms(3) by (simp add: fas_name_def)
    then have "strs \<noteq> []" by (auto simp: cstr_at_def)
    then show ?thesis
      using False True c assms(1) by (simp add: print_symbol_name_def name_in_strtab_def str_arg_def table_is_def)
  next
    case nostr: False
    then have c: "pascal src (unat off) = Inr nm" using False assms(3) by (simp add: fas_name_def)
    then have "src \<noteq> []" by (auto simp: pascal_def)
    then have "psrc st = Some (map Some src)" using assms(2) by (simp add: table_is_def)
    then obtain b where "pstr2cstr (replicate 256 (Some 0)) (psrc st) (unat off) = Inr b" "cstr b = Inr nm"
      using pstr2cstr_pascal [of src "unat off"] c by (auto simp: rbind_Inr_iff)
    then show ?thesis
      using False nostr by (simp add: print_symbol_name_def name_in_strtab_def)
  qed
qed

lemma print_symbols_loop_ok:
  assumes "dump_loaded st strs src sbs secs" and "\<forall>i \<in> set idxs. i < length sbs div sizeof_FAS_Sym"
    and "\<forall>s \<in> set (decode_table sizeof_FAS_Sym dec_fsym sbs). \<exists>t. fas_name strs src (name_off s) = Inr t"
  shows "print_symbols_loop idxs st
    = Inr (print_out (symbol_rows strs src (decode_table sizeof_FAS_Sym dec_fsym sbs) idxs) st)"
  using assms(1,2)
proof (induction idxs arbitrary: st)
  case Nil
  then show ?case by (simp add: symbol_rows_def print_out_def)
next
  case (Cons i idxs)
  let ?T = "decode_table sizeof_FAS_Sym dec_fsym sbs"
  have i: "i < length sbs div sizeof_FAS_Sym" using Cons.prems(2) by simp
  then have "?T ! i \<in> set ?T" by simp
  then obtain t where t: "fas_name strs src (name_off (?T ! i)) = Inr t" using assms(3) by blast
  have ld: "fsym_load (symtab st) i = Inr (?T ! i)"
    by (rule fsym_load_ok [OF _ i]) (use Cons.prems(1) in \<open>simp add: dump_loaded_def\<close>)
  have tabs: "table_is (strtab st) strs" "table_is (psrc st) src" using Cons.prems(1) by (simp_all add: dump_loaded_def)
  have "dump_loaded (print_out s st) strs src sbs secs" for s using Cons.prems(1) by (simp add: dump_loaded_def)
  note IH = Cons.IH [OF this]
  show ?case
    using Cons.prems(2) tabs t
    by (simp add: ld print_symbol_section_text print_symbol_name_ok IH symbol_rows_def symbol_row_def Let_def)
qed

lemma str_arg_ok: "table_is tab strs \<Longrightarrow> cstr_at (map Some strs) (unat off) = Inr s \<Longrightarrow> str_arg tab off = Inr s"
  by (auto simp: str_arg_def table_is_def cstr_at_def)

definition section_rows :: "u8 list \<Rightarrow> u32 list \<Rightarrow> u8 list" where
  "section_rows strs offs =
     concat (map (\<lambda>off. ascii ''  '' @ projr (cstr_at (map Some strs) (unat off)) @ [newline]) offs)"

definition words :: "u8 list \<Rightarrow> u32 list" where
  "words secs = decode_table 4 (\<lambda>bs. rd32 bs 0) secs"

lemma word_load:
  assumes "table_is p secs" and "i < length secs div 4"
  shows "rbind (deref p) (\<lambda>blk. rbind (load_bytes blk (i * 4) 4) f) = f (chunk 4 i secs)"
proof -
  have "secs \<noteq> []" using assms(2) by auto
  then have p: "p = Some (map Some secs)" using assms(1) by (simp add: table_is_def)
  have "(i + 1) * 4 \<le> length secs" using assms(2) by simp
  then show ?thesis by (simp add: p chunk_def)
qed

lemma print_sections_loop_ok:
  assumes "dump_loaded st strs src sbs secs" and "\<forall>i \<in> set idxs. i < length secs div 4"
    and "\<forall>off \<in> set (words secs). \<exists>t. cstr_at (map Some strs) (unat off) = Inr t"
  shows "print_sections_loop idxs st = Inr (print_out (section_rows strs (map ((!) (words secs)) idxs)) st)"
  using assms(1,2)
proof (induction idxs arbitrary: st)
  case Nil
  then show ?case by (simp add: section_rows_def print_out_def)
next
  case (Cons i idxs)
  have i: "i < length secs div 4" using Cons.prems(2) by simp
  then have w: "words secs ! i = rd32 (chunk 4 i secs) 0" by (simp add: words_def nth_decode_table)
  have "i < length (words secs)" using i by (simp add: words_def)
  then have "words secs ! i \<in> set (words secs)" by (rule nth_mem)
  then obtain t where t: "cstr_at (map Some strs) (unat (words secs ! i)) = Inr t" using assms(3) by blast
  have tabs: "table_is (strtab st) strs" "table_is (sectab st) secs" using Cons.prems(1) by (simp_all add: dump_loaded_def)
  have "dump_loaded (print_out s st) strs src sbs secs" for s using Cons.prems(1) by (simp add: dump_loaded_def)
  note IH = Cons.IH [OF this]
  have "str_arg (strtab st) (rd32 (chunk 4 i secs) 0) = Inr t" using str_arg_ok [OF tabs(1) t] w by simp
  then show ?case
    using Cons.prems(2) t by (simp add: word_load [OF tabs(2) i] IH section_rows_def)
qed

text \<open>What the program prints, as the options ask for it.\<close>

definition dump_text ::
  "'a dump_st_scheme \<Rightarrow> FAS_Hdr \<Rightarrow> u8 list \<Rightarrow> u8 list \<Rightarrow> u8 list \<Rightarrow> u8 list \<Rightarrow> u8 list" where
  "dump_text st h strs src sbs secs =
     (let name = (\<lambda>off. projr (cstr_at (map Some strs) (unat off))); syms = decode_table sizeof_FAS_Sym dec_fsym sbs
      in (if display_header st then header_text h (name (ifnm_off h)) (name (ofnm_off h)) else [])
       @ (if display_sections st
          then ascii ''Section names:'' @ [newline] @ section_rows strs (words secs) @ [newline] else [])
       @ (if display_symbols st
          then ascii ''Symbol table:'' @ [newline] @ ascii ''   Num: Value              Size Ndx Name'' @ [newline]
             @ symbol_rows strs src syms [0..<length syms] @ [newline] else []))"

definition names_ok :: "FAS_Hdr \<Rightarrow> u8 list \<Rightarrow> u8 list \<Rightarrow> u8 list \<Rightarrow> u8 list \<Rightarrow> bool" where
  "names_ok h strs src sbs secs \<longleftrightarrow>
     (\<forall>off \<in> set (ifnm_off h # ofnm_off h # words secs). \<exists>t. cstr_at (map Some strs) (unat off) = Inr t)
     \<and> (\<forall>s \<in> set (decode_table sizeof_FAS_Sym dec_fsym sbs). \<exists>t. fas_name strs src (name_off s) = Inr t)"

lemma dump_prints:
  fixes st :: "'a dump_st_scheme"
  assumes l: "dump_loaded st strs src sbs secs" and nm: "names_ok (hdr st) strs src sbs secs"
  shows "rbind (if display_header st then print_header st else Inr st) (\<lambda>st.
      rbind (if display_sections st then print_sections st else Inr st) (\<lambda>st.
      rbind (if display_symbols st then print_symbols st else Inr st) f))
    = f (print_out (dump_text st (hdr st) strs src sbs secs) st)"
proof -
  let ?T = "decode_table sizeof_FAS_Sym dec_fsym sbs" and ?n = "length sbs div sizeof_FAS_Sym"
  have l': "dump_loaded (print_out s st) strs src sbs secs" for s using l by (simp add: dump_loaded_def)
  have tab: "table_is (strtab st) strs" and cnt: "unat (sym_cnt st) = ?n" "unat (sec_cnt st) = length secs div 4"
    using l by (simp_all add: dump_loaded_def)
  obtain ti tn where t: "cstr_at (map Some strs) (unat (ifnm_off (hdr st))) = Inr ti"
    "cstr_at (map Some strs) (unat (ofnm_off (hdr st))) = Inr tn"
    using nm by (auto simp: names_ok_def)
  have w: "\<forall>off \<in> set (words secs). \<exists>t. cstr_at (map Some strs) (unat off) = Inr t"
    and s: "\<forall>s \<in> set ?T. \<exists>t. fas_name strs src (name_off s) = Inr t"
    using nm by (auto simp: names_ok_def)
  have H: "print_header st = Inr (print_out (header_text (hdr st) ti tn) st)"
    using str_arg_ok [OF tab t(1)] str_arg_ok [OF tab t(2)] by (simp add: print_header_def)
  have "map ((!) (words secs)) [0..<length secs div 4] = words secs"
    using map_nth [of "words secs"] by (simp add: words_def)
  then have S: "print_sections (print_out x st) = Inr (print_out (x @ ascii ''Section names:'' @ [newline]
      @ section_rows strs (words secs) @ [newline]) st)" for x
    using print_sections_loop_ok [OF l' _ w, of "[0..<length secs div 4]"] cnt by (simp add: print_sections_def)
  have Y: "print_symbols (print_out x st) = Inr (print_out (x @ ascii ''Symbol table:'' @ [newline]
      @ ascii ''   Num: Value              Size Ndx Name'' @ [newline] @ symbol_rows strs src ?T [0..<?n] @ [newline]) st)" for x
    using print_symbols_loop_ok [OF l' _ s, of "[0..<?n]"] cnt by (simp add: print_symbols_def)
  have E: "print_out [] st = st" by (simp add: print_out_def)
  show ?thesis
    using H S [of "[]"] S Y [of "[]"] Y t
    by (cases "display_header st"; cases "display_sections st"; cases "display_symbols st")
      (simp_all add: E dump_text_def del: ascii_simps)
qed

lemma process_file_ok:
  fixes st :: "'a dump_st_scheme"
  assumes good: "heap_good st" and f: "files st file = Some c" and df: "dump_file c h strs src sbs secs"
    and init: "no_tables st" and nm: "names_ok h strs src sbs secs"
  shows "\<exists>st'. process_file file st = Inr (EXIT_SUCCESS, st') \<and> out st' = out st @ dump_text st h strs src sbs secs"
proof -
  obtain p q r u n m where ld: "dump_load_file file st = Inr (0, st\<lparr>hdr := h, strtab := p, symtab := q, psrc := r,
      sectab := u, sec_cnt := m, sym_cnt := n\<rparr>)"
    and l: "dump_loaded (st\<lparr>hdr := h, strtab := p, symtab := q, psrc := r, sectab := u, sec_cnt := m, sym_cnt := n\<rparr>)
      strs src sbs secs"
    by (rule dump_load_file_ok [OF good f df init])
  let ?s = "st\<lparr>hdr := h, strtab := p, symtab := q, psrc := r, sectab := u, sec_cnt := m, sym_cnt := n\<rparr>"
  have h: "hdr ?s = h" by simp
  have "names_ok (hdr ?s) strs src sbs secs" using nm by simp
  note pr = dump_prints [OF l this, unfolded h]
  have "process_file file st = Inr (EXIT_SUCCESS, dump_cleanup (print_out (dump_text ?s h strs src sbs secs) ?s))"
    unfolding process_file_def ld rbind_simps prod.case pr by simp
  moreover have "dump_text ?s h strs src sbs secs = dump_text st h strs src sbs secs" by (simp add: dump_text_def)
  ultimately show ?thesis by (simp add: dump_cleanup_def print_out_def)
qed

section \<open>Samples\<close>

definition dump_host :: dump_st where
  "dump_host = \<lparr>heap_ok = \<lambda>_. True, files = [ascii ''a.fas'' \<mapsto> sample_file], writable = \<lambda>_. True, room = 0,
     out = [], err = [], errtext = [], dump_name = [], hdr = dec_fhdr (replicate 64 0), strtab = None, symtab = None,
     psrc = None, sectab = None, sec_cnt = 0, sym_cnt = 0, display_header = False, display_sections = False,
     display_symbols = False\<rparr>"

lemma sample_dump_ok:
  "dump_file sample_file sample_hdr sample_strs sample_src (concat (map enc_fsym sample_syms)) []"
  "names_ok sample_hdr sample_strs sample_src (concat (map enc_fsym sample_syms)) []"
proof -
  show "dump_file sample_file sample_hdr sample_strs sample_src (concat (map enc_fsym sample_syms)) []"
    using sample_file_ok by (simp add: dump_file_def table_at_def sample_hdr_def)
  show "names_ok sample_hdr sample_strs sample_src (concat (map enc_fsym sample_syms)) []"
    unfolding names_ok_def fsym.table_concat
    by (simp add: words_def decode_table_def sample_hdr_def sample_syms_def sample_sym_def fas_name_def name_in_strtab_def
        sample_strs_def sample_src_def pascal_def cstr_at_def)
qed

section \<open>Properties\<close>

text \<open>C21: \<open>fasdump\<close> on a well-formed FAS file whose offsets are sound prints what its options ask for - the
  header with the names of the files, the names of the sections in order, one row per symbol with the
  name that \<open>fas2sym\<close> gives it - and exits with success.\<close>

theorem fasdump_prints_file:
  fixes st :: "'a dump_st_scheme"
  assumes "getopts (ascii ''hHVSsa'') [] args = (es, file # others)"
    and "dump_opts package commit argv0 es (st\<lparr>dump_name := basename argv0\<rparr>) = (None, st1)"
    and "heap_good st1" and "files st1 file = Some c" and "dump_file c h strs src sbs secs"
    and "no_tables st1" and "names_ok h strs src sbs secs"
  shows "\<exists>st'. dump_main package commit argv0 args st = Inr (EXIT_SUCCESS, st')
    \<and> out st' = out st1 @ dump_text st1 h strs src sbs secs"
proof -
  have "dump_main package commit argv0 args st = process_file file st1"
    using assms(1,2) by (simp add: dump_main_def)
  then show ?thesis using process_file_ok [OF assms(3-7)] by simp
qed

theorem fasdump_prints_file_instance:
  "\<exists>st'. dump_main [] [] (ascii ''fasdump'') [ascii ''-s'', ascii ''a.fas''] dump_host = Inr (EXIT_SUCCESS, st')
    \<and> out st' = out dump_host @ dump_text (dump_host\<lparr>dump_name := ascii ''fasdump'', display_symbols := True\<rparr>)
        sample_hdr sample_strs sample_src (concat (map enc_fsym sample_syms)) []"
proof -
  let ?st = "dump_host\<lparr>dump_name := ascii ''fasdump'', display_symbols := True\<rparr>"
  have "getopts (ascii ''hHVSsa'') [] [ascii ''-s'', ascii ''a.fas''] = ([Opt 115 []], [ascii ''a.fas''])" by simp
  moreover have "dump_opts [] [] (ascii ''fasdump'') [Opt 115 []] (dump_host\<lparr>dump_name := basename (ascii ''fasdump'')\<rparr>)
      = (None, ?st)" by (simp add: basename_def)
  moreover have "heap_good ?st" "files ?st (ascii ''a.fas'') = Some sample_file" "no_tables ?st" "out ?st = out dump_host"
    by (simp_all add: dump_host_def heap_good_def no_tables_def)
  ultimately show ?thesis
    using fasdump_prints_file [of "[ascii ''-s'', ascii ''a.fas'']" "[Opt 115 []]" "ascii ''a.fas''" "[]" "[]" "[]"
        "ascii ''fasdump''" dump_host ?st sample_file sample_hdr sample_strs sample_src
        "concat (map enc_fsym sample_syms)" "[]"] sample_dump_ok by metis
qed

text \<open>C22: loading a file never leaves defined behaviour, whatever the file holds and whether or not memory is
  available: it returns 0, or \<open>- 1\<close> with the tables released, and prints nothing.\<close>

theorem fasdump_load_safe:
  fixes st :: "'a dump_st_scheme"
  assumes "no_tables st"
  shows "\<exists>r st'. dump_load_file file st = Inr (r, st') \<and> out st' = out st \<and> err st' = err st \<and> files st' = files st
    \<and> (r = 0 \<or> r = - 1 \<and> no_tables st')"
proof -
  obtain r st' where "dump_load_file file st = Inr (r, st')" "quiet st st'"
    "r = 0 \<or> r = - 1 \<and> (no_tables st \<longrightarrow> no_tables st')"
    using dump_load_file_total by blast
  then show ?thesis using assms by (auto simp: quiet_def)
qed

theorem fasdump_load_safe_instance:
  "\<exists>r st'. dump_load_file (ascii ''a.fas'') dump_host = Inr (r, st') \<and> out st' = out dump_host
    \<and> err st' = err dump_host \<and> files st' = files dump_host \<and> (r = 0 \<or> r = - 1 \<and> no_tables st')"
  by (rule fasdump_load_safe) (simp add: dump_host_def no_tables_def)

text \<open>The offsets of the header are not checked: \<open>-H\<close> on a file without a string table reads through a null
  pointer, and with an input name behind the string table it reads outside it.\<close>

theorem fasdump_unchecked_offsets:
  fixes st :: "'a dump_st_scheme"
  assumes "heap_good st" and "files st file = Some c" and "dump_file c h strs src sbs secs"
    and "no_tables st" and "display_header st" and "length strs \<le> unat (ifnm_off h)"
  shows "process_file file st = Inl NullDeref \<or> process_file file st = Inl OutOfBounds"
proof -
  obtain p q r u n m where ld: "dump_load_file file st = Inr (0, st\<lparr>hdr := h, strtab := p, symtab := q, psrc := r,
      sectab := u, sec_cnt := m, sym_cnt := n\<rparr>)"
    and l: "dump_loaded (st\<lparr>hdr := h, strtab := p, symtab := q, psrc := r, sectab := u, sec_cnt := m, sym_cnt := n\<rparr>)
      strs src sbs secs"
    by (rule dump_load_file_ok [OF assms(1-4)])
  have "p = None \<or> p = Some (map Some strs)" using l by (auto simp: dump_loaded_def table_is_def)
  then show ?thesis
    using assms(5,6) by (auto simp: process_file_def ld print_header_def str_arg_def cstr_at_def)
qed

theorem fasdump_unchecked_offsets_instance:
  "process_file (ascii ''x'') (dump_host\<lparr>files := [ascii ''x'' \<mapsto> enc_fhdr (sample_hdr\<lparr>strtab_len := 0, symtab_len := 0,
      psrc_len := 0\<rparr>)], display_header := True\<rparr>) = Inl NullDeref
    \<or> process_file (ascii ''x'') (dump_host\<lparr>files := [ascii ''x'' \<mapsto> enc_fhdr (sample_hdr\<lparr>strtab_len := 0, symtab_len := 0,
      psrc_len := 0\<rparr>)], display_header := True\<rparr>) = Inl OutOfBounds"
proof -
  let ?h = "sample_hdr\<lparr>strtab_len := 0, symtab_len := 0, psrc_len := 0\<rparr>"
  have "dump_file (enc_fhdr ?h) ?h [] [] [] []"
    using fhdr.enc_length [of ?h] fhdr.dec_enc [of ?h]
    by (simp add: dump_file_def fas_file_def table_at_def) (simp add: sample_hdr_def)
  then show ?thesis
    by (intro fasdump_unchecked_offsets [where strs = "[]" and h = ?h and src = "[]" and sbs = "[]" and secs = "[]"])
      (simp_all add: dump_host_def heap_good_def no_tables_def)
qed

end
