(* ===== verification/Readcoff.thy ===== *)
theory Readcoff
  imports CoffFormat Getopt
begin

text \<open>
  The program \<open>readcoff\<close> (\<open>src/bin/readcoff/main.c\<close>, up to its \<open>#if 0\<close>): it loads the headers of
  a COFF file and prints those the options ask for.  The arrays \<open>relocs\<close> and \<open>secdata\<close> hold one
  pointer per section, which are all null so far; the tables of symbols and strings are never
  loaded.  The text that \<open>ctime\<close> makes of a time depends on the host's time zone (\<open>ctime\<close>).
\<close>

record coff_st = os +
  ctime :: "int \<Rightarrow> u8 list"
  coff_prg :: "u8 list"
  filhdr :: FILHDR
  aouthdr :: AOUTHDR
  scnhdrs :: "block option"
  coff_symtab :: "block option"
  coff_strtab :: "block option"
  coff_sym_cnt :: u64
  coff_sec_cnt :: u64
  machine :: "u8 list option"
  aoutmag :: "u8 list option"
  relocs :: "block option list option"
  secdata :: "block option list option"
  display_file_header :: bool
  display_optional_header :: bool
  display_scns :: bool

definition MACHINES :: "(u16 \<times> u8 list) list" where
  "MACHINES =
     [(F_MACH_AM33, ascii ''Matsushita AM33''), (F_MACH_AMD64, ascii ''Intel amd64''), (F_MACH_ARM, ascii ''ARM''),
      (F_MACH_ARMNT, ascii ''ARM Thumb-2''), (F_MACH_EBC, ascii ''EFI byte code''), (F_MACH_I386, ascii ''Intel 80386''),
      (F_MACH_IA64, ascii ''IA64''), (F_MACH_M32R, ascii ''Mitsubishi M32R''), (F_MACH_UNKNOWN, ascii ''unknown'')]"

definition FLAGS :: "(u16 \<times> u8 list option) list" where
  "FLAGS =
     [(F_RELFLG, Some (ascii ''F_RELFLG'')), (F_EXEC, Some (ascii ''F_EXEC'')), (F_LNNO, Some (ascii ''F_LNNO'')),
      (F_LSYMS, Some (ascii ''F_LSYMS'')), (F_LITTLE, Some (ascii ''F_LITTLE'')), (F_BIG, Some (ascii ''F_BIG'')),
      (F_SYMMERGE, Some (ascii ''F_SYMMERGE'')), (0, None)]"

definition AOUTMAG :: "(u16 \<times> u8 list option) list" where
  "AOUTMAG =
     [(OMAGIC, Some (ascii ''OMAGIC'')), (NMAGIC, Some (ascii ''NMAGIC'')), (ZMAGIC, Some (ascii ''ZMAGIC'')),
      (STMAGIC, Some (ascii ''STMAGIC'')), (SHMAGIC, Some (ascii ''SHMAGIC'')), (0, None)]"

section \<open>Messages\<close>

text \<open>Both functions are only called with a format, whose expansion is \<open>text\<close>.\<close>

definition coff_errx :: "u8 list \<Rightarrow> 'a coff_st_scheme \<Rightarrow> 'a coff_st_scheme" where
  "coff_errx msg st = print_err (coff_prg st @ ascii '': '' @ msg @ [newline]) st"

definition coff_err :: "u8 list \<Rightarrow> 'a coff_st_scheme \<Rightarrow> 'a coff_st_scheme" where
  "coff_err msg st = print_err (coff_prg st @ ascii '': '' @ msg @ ascii '': '' @ errtext st @ [newline]) st"

section \<open>Loading\<close>

text \<open>Freeing the entries of a pointer array: each of the \<open>n\<close> entries is read.\<close>

definition free_all :: "nat \<Rightarrow> block option list option \<Rightarrow> unit res" where
  "free_all n p = (case p of None \<Rightarrow> Inr () | Some ps \<Rightarrow> if n \<le> length ps then Inr () else Inl OutOfBounds)"

definition coff_cleanup :: "'a coff_st_scheme \<Rightarrow> 'a coff_st_scheme res" where
  "coff_cleanup st =
     rbind (free_all (unat (f_nscns (filhdr st))) (relocs st)) (\<lambda>_.
     rbind (free_all (unat (f_nscns (filhdr st))) (secdata st)) (\<lambda>_.
       Inr (st\<lparr>scnhdrs := None, coff_symtab := None, coff_strtab := None, coff_sym_cnt := 0, coff_sec_cnt := 0,
              machine := None, aoutmag := None, relocs := None, secdata := None\<rparr>)))"

fun find_machine :: "(u16 \<times> u8 list) list \<Rightarrow> u16 \<Rightarrow> u8 list option" where
  "find_machine [] m = None"
| "find_machine ((k, nm) # ms) m =
     (if k = F_MACH_UNKNOWN then None else if m = k then Some nm else find_machine ms m)"

fun find_magic :: "(u16 \<times> u8 list option) list \<Rightarrow> u16 \<Rightarrow> u8 list option" where
  "find_magic [] m = None"
| "find_magic ((k, None) # ms) m = None"
| "find_magic ((k, Some nm) # ms) m = (if m = k then Some nm else find_magic ms m)"

definition coff_load_headers ::
  "u8 list \<Rightarrow> stream \<Rightarrow> 'a coff_st_scheme \<Rightarrow> int \<times> stream \<times> 'a coff_st_scheme" where
  "coff_load_headers file fp st =
     (case fread FILHSZ 1 fp st of (n, bs, fp) \<Rightarrow>
        let st = st\<lparr>filhdr := dec_filhdr (bs @ drop (length bs) (enc_filhdr (filhdr st)))\<rparr>
        in if n \<noteq> 1
           then (- 1, fp, coff_errx (file @ ascii '': An unexpected error/eof occured while reading COFF header'') st)
           else
             let st = (case find_machine MACHINES (f_magic (filhdr st)) of
                         Some nm \<Rightarrow> st\<lparr>machine := Some nm\<rparr> | None \<Rightarrow> st)
             in if machine st = None
                then (- 1, fp, coff_errx (file @ ascii '': Unknown magic '' @ [39] @ ascii ''0x''
                                @ pad_left 48 4 (fmt_hex True (unat (f_magic (filhdr st)))) @ [39]) st)
                else if f_opthdr (filhdr st) = 0 then (0, fp, st)
                else if unat (f_opthdr (filhdr st)) \<noteq> AOUTHSZ
                then (- 1, fp, coff_errx (file @ ascii '': Invalid optional header size'') st)
                else
                  case fread AOUTHSZ 1 fp st of (n, bs, fp) \<Rightarrow>
                    let st = st\<lparr>aouthdr := dec_aouthdr (bs @ drop (length bs) (enc_aouthdr (aouthdr st)))\<rparr>
                    in if n \<noteq> 1
                       then (- 1, fp, coff_errx (file
                               @ ascii '': An unexpected error/eof occured while reading optional header'') st)
                       else
                         let st = (case find_magic AOUTMAG (aout_magic (aouthdr st)) of
                                     Some nm \<Rightarrow> st\<lparr>aoutmag := Some nm\<rparr> | None \<Rightarrow> st)
                         in if aoutmag st = None
                            then (- 1, fp, coff_errx (file @ ascii '': Invalid optional header magic'') st)
                            else (0, fp, st))"

text \<open>A fresh array of pointers, all null.\<close>

definition null_array :: "u16 \<Rightarrow> 'a coff_st_scheme \<Rightarrow> block option list option \<times> 'a coff_st_scheme" where
  "null_array n st =
     (case c_malloc (8 * ucast n) st of (p, st) \<Rightarrow> (map_option (\<lambda>_. replicate (unat n) None) p, st))"

definition coff_load_sections ::
  "u8 list \<Rightarrow> stream \<Rightarrow> 'a coff_st_scheme \<Rightarrow> (int \<times> stream \<times> 'a coff_st_scheme) res" where
  "coff_load_sections file fp st =
     (case null_array (f_nscns (filhdr st)) st of (p, st) \<Rightarrow>
        let st = st\<lparr>relocs := p\<rparr>
        in if p = None then Inr (- 1, fp, coff_err file st)
           else case null_array (f_nscns (filhdr st)) st of (p, st) \<Rightarrow>
             let st = st\<lparr>secdata := p\<rparr>
             in if p = None then Inr (- 1, fp, coff_err file st)
                else
                  let sz = of_nat SCNHSZ * ucast (f_nscns (filhdr st))
                  in case c_malloc sz st of
                       (None, st) \<Rightarrow> Inr (- 1, fp, coff_err file (st\<lparr>scnhdrs := None\<rparr>))
                     | (Some blk, st) \<Rightarrow>
                         (case fread (unat sz) 1 fp st of (n, bs, fp) \<Rightarrow>
                            rbind (store_bytes blk 0 bs) (\<lambda>blk.
                              let st = st\<lparr>scnhdrs := Some blk\<rparr>
                              in if n \<noteq> 1
                                 then Inr (- 1, fp, coff_errx (file
                                        @ ascii '': An unexpected error/eof occured while reading section headers'') st)
                                 else Inr (0, fp, st))))"

definition coff_load_file :: "u8 list \<Rightarrow> 'a coff_st_scheme \<Rightarrow> (int \<times> 'a coff_st_scheme) res" where
  "coff_load_file file st =
     (case fopen_rb file st of
        None \<Rightarrow> Inr (- 1, st)
      | Some fp \<Rightarrow>
          (case coff_load_headers file fp st of (r, fp, st) \<Rightarrow>
             if r \<noteq> 0 then Inr (- 1, st)
             else rbind (coff_load_sections file fp st) (\<lambda>(r, fp, st).
                    if r \<noteq> 0 then rbind (coff_cleanup st) (\<lambda>st. Inr (- 1, st)) else Inr (0, st))))"

section \<open>Printing\<close>

definition name_arg :: "u8 list option \<Rightarrow> u8 list res" where
  "name_arg p = (case p of None \<Rightarrow> Inl NullDeref | Some s \<Rightarrow> Inr s)"

definition hex_8 :: "u32 \<Rightarrow> u8 list" where
  "hex_8 w = pad_left 48 8 (fmt_hex True (unat w))"

fun flag_names :: "(u16 \<times> u8 list option) list \<Rightarrow> u16 \<Rightarrow> u8 list" where
  "flag_names [] f = []"
| "flag_names ((k, None) # ks) f = []"
| "flag_names ((k, Some nm) # ks) f = (if f AND k \<noteq> 0 then nm @ ascii '' '' else []) @ flag_names ks f"

definition file_header_text :: "(int \<Rightarrow> u8 list) \<Rightarrow> FILHDR \<Rightarrow> u8 list \<Rightarrow> u8 list" where
  "file_header_text ct h mach =
     ascii ''COFF Header:'' @ [newline]
     @ ascii ''  Machine:                   '' @ mach @ [newline]
     @ ascii ''  Number of section headers: '' @ fmt_dec (unat (f_nscns h)) @ [newline]
     @ ascii ''  Created at:                '' @ ct (sint (f_timdat h))
     @ ascii ''  Start of Symbol Table:     '' @ fmt_int (sint (f_symptr h)) @ ascii '' (bytes into file)'' @ [newline]
     @ ascii ''  Number of Symbols:         '' @ fmt_int (sint (f_nsyms h)) @ [newline]
     @ ascii ''  Size of optional header:   '' @ fmt_dec (unat (f_opthdr h)) @ ascii '' (bytes)'' @ [newline]
     @ ascii ''  Flags:                     '' @ flag_names FLAGS (f_flags h) @ [newline] @ [newline]"

definition print_file_header :: "'a coff_st_scheme \<Rightarrow> 'a coff_st_scheme res" where
  "print_file_header st =
     rbind (name_arg (machine st)) (\<lambda>mach. Inr (print_out (file_header_text (ctime st) (filhdr st) mach) st))"

definition aout_header_text :: "AOUTHDR \<Rightarrow> u8 list \<Rightarrow> u8 list" where
  "aout_header_text h mag =
     (let bytes = (\<lambda>w. fmt_int (sint (w :: u32)) @ ascii '' (bytes)'' @ [newline])
      in ascii ''A.out Header:'' @ [newline]
         @ ascii ''  Magic:         '' @ mag @ [newline]
         @ ascii ''  Version stamp: '' @ fmt_int (sint (vstamp h)) @ [newline]
         @ ascii ''  Text size:     '' @ bytes (tsize h)
         @ ascii ''  Data size:     '' @ bytes (dsize h)
         @ ascii ''  BSS size:      '' @ bytes (bsize h)
         @ ascii ''  Entry point:   0x'' @ hex_8 (entry_addr h) @ [newline]
         @ ascii ''  Text start:    0x'' @ hex_8 (text_start h) @ [newline]
         @ ascii ''  Data start:    0x'' @ hex_8 (data_start h) @ [newline]
         @ [newline])"

definition print_optional_header :: "'a coff_st_scheme \<Rightarrow> 'a coff_st_scheme res" where
  "print_optional_header st =
     (if f_opthdr (filhdr st) \<noteq> 0
      then rbind (name_arg (aoutmag st)) (\<lambda>mag. Inr (print_out (aout_header_text (aouthdr st) mag) st))
      else Inr (print_out (ascii ''There is no optional header.'' @ [newline] @ [newline]) st))"

definition print_section_type :: "u32 \<Rightarrow> u8 list" where
  "print_section_type fl =
     (if fl AND STYP_TEXT \<noteq> 0 then ascii ''TEXT ''
      else if fl AND STYP_DATA \<noteq> 0 then ascii ''DATA ''
      else if fl AND STYP_BSS \<noteq> 0 then ascii ''BSS  '' else ascii ''???  '')"

definition scnhdr_load :: "block option \<Rightarrow> nat \<Rightarrow> SCNHDR res" where
  "scnhdr_load p i =
     rbind (deref p) (\<lambda>blk. rbind (load_bytes blk (i * SCNHSZ) SCNHSZ) (\<lambda>bs. Inr (dec_scnhdr bs)))"

fun print_scns_loop :: "nat list \<Rightarrow> 'a coff_st_scheme \<Rightarrow> 'a coff_st_scheme res" where
  "print_scns_loop [] st = Inr st"
| "print_scns_loop (idx # idxs) st =
     (let st = print_out (ascii ''  ['' @ pad_left 32 2 (fmt_dec idx) @ ascii ''] '') st
      in rbind (scnhdr_load (scnhdrs st) idx) (\<lambda>s.
         rbind (cstr (map Some (s_name s @ [0]))) (\<lambda>name.
         let st = print_out (pad_right 8 name @ ascii '' '') st;
             st = print_out (print_section_type (s_flags s)) st;
             st = print_out (hex_8 (s_paddr s) @ ascii '' '' @ hex_8 (s_vaddr s) @ ascii '' '') st;
             st = print_out (hex_8 (s_scnptr s) @ ascii '' '' @ hex_8 (s_size s) @ [newline]) st
         in print_scns_loop idxs st)))"

definition print_scns :: "'a coff_st_scheme \<Rightarrow> 'a coff_st_scheme res" where
  "print_scns st =
     rbind (print_scns_loop [0..<unat (f_nscns (filhdr st))] (print_out (ascii ''Section Headers:'' @ [newline]
         @ ascii ''  [Nr] Name     Type Paddr    Vaddr    Offset   Size'' @ [newline]) st))
       (\<lambda>st. Inr (print_out [newline] st))"

section \<open>The program\<close>

definition coff_usage :: "int \<Rightarrow> 'a coff_st_scheme \<Rightarrow> int \<times> 'a coff_st_scheme" where
  "coff_usage retval st =
     (retval,
      if retval = EXIT_FAILURE
      then print_err (ascii ''Try '' @ [39] @ coff_prg st @ ascii '' -h'' @ [39]
             @ ascii '' for more informations.'' @ [newline]) st
      else print_out (ascii ''Usage: '' @ coff_prg st @ ascii '' [OPTIONS...] [FILES]'' @ [newline]
             @ ascii ''Options are:'' @ [newline]
             @ [9] @ ascii ''-a'' @ [9] @ ascii ''Equivalent to: -H -l -S -s -r -d -v -A -I'' @ [newline]
             @ [9] @ ascii ''-H'' @ [9] @ ascii ''Display the COFF file header'' @ [newline]) st)"

definition coff_version :: "u8 list \<Rightarrow> u8 list \<Rightarrow> 'a coff_st_scheme \<Rightarrow> int \<times> 'a coff_st_scheme" where
  "coff_version package commit st =
     (EXIT_SUCCESS, print_out (coff_prg st @ ascii '' ('' @ package @ ascii '') '' @ commit @ [newline]) st)"

fun coff_opts ::
  "u8 list \<Rightarrow> u8 list \<Rightarrow> u8 list \<Rightarrow> opt list \<Rightarrow> 'a coff_st_scheme \<Rightarrow> int option \<times> 'a coff_st_scheme" where
  "coff_opts package commit argv0 [] st = (None, st)"
| "coff_opts package commit argv0 (e # es) st =
     (let stop = (\<lambda>(r, st). (Some r, st))
      in case e of
        Opt c _ \<Rightarrow>
          (if c = of_char (CHR ''h'') then stop (coff_usage EXIT_SUCCESS st)
           else if c = of_char (CHR ''V'') then stop (coff_version package commit st)
           else if c = of_char (CHR ''H'')
           then coff_opts package commit argv0 es (st\<lparr>display_file_header := True\<rparr>)
           else if c = of_char (CHR ''l'')
           then coff_opts package commit argv0 es (st\<lparr>display_optional_header := True\<rparr>)
           else if c = of_char (CHR ''S'')
           then coff_opts package commit argv0 es (st\<lparr>display_scns := True\<rparr>)
           else stop (coff_usage EXIT_FAILURE st))
      | _ \<Rightarrow> stop (coff_usage EXIT_FAILURE (print_err (getopt_message argv0 e) st)))"

text \<open>From the operand to the exit status.\<close>

definition coff_show :: "u8 list \<Rightarrow> 'a coff_st_scheme \<Rightarrow> (int \<times> 'a coff_st_scheme) res" where
  "coff_show file st =
     rbind (coff_load_file file st) (\<lambda>(r, st).
       if r \<noteq> 0 then Inr (EXIT_FAILURE, st)
       else rbind (if display_file_header st then print_file_header st else Inr st) (\<lambda>st.
            rbind (if display_optional_header st then print_optional_header st else Inr st) (\<lambda>st.
            rbind (if display_scns st then print_scns st else Inr st) (\<lambda>st.
            rbind (coff_cleanup st) (\<lambda>st. Inr (EXIT_SUCCESS, st))))))"

definition coff_main ::
  "u8 list \<Rightarrow> u8 list \<Rightarrow> u8 list \<Rightarrow> u8 list list \<Rightarrow> 'a coff_st_scheme \<Rightarrow> (int \<times> 'a coff_st_scheme) res" where
  "coff_main package commit argv0 args st =
     (let st = st\<lparr>coff_prg := basename argv0\<rparr>;
          (es, operands) = getopts (ascii ''hVHlS'') [] args
      in case coff_opts package commit argv0 es st of
           (Some status, st) \<Rightarrow> Inr (status, st)
         | (None, st) \<Rightarrow>
             (case operands of
                [] \<Rightarrow> Inr (coff_usage EXIT_FAILURE st)
              | file # _ \<Rightarrow> coff_show file st))"

end
