(* ===== verification/ReadcoffProps.thy ===== *)
theory ReadcoffProps
  imports Readcoff
begin

text \<open>
  \<open>readcoff\<close> never leaves defined behaviour, whatever the file holds and whichever allocations
  fail, and prints the headers of a well-formed COFF file.
\<close>

section \<open>Loading\<close>

definition coff_fresh :: "'a coff_st_scheme \<Rightarrow> bool" where
  "coff_fresh st \<longleftrightarrow> machine st = None \<and> aoutmag st = None \<and> scnhdrs st = None \<and> relocs st = None
     \<and> secdata st = None"

definition headers_loaded :: "'a coff_st_scheme \<Rightarrow> bool" where
  "headers_loaded st \<longleftrightarrow> machine st \<noteq> None \<and> (f_opthdr (filhdr st) = 0 \<or> aoutmag st \<noteq> None)"

text \<open>What printing and the final cleanup rely on.\<close>

definition coff_loaded :: "'a coff_st_scheme \<Rightarrow> bool" where
  "coff_loaded st \<longleftrightarrow> headers_loaded st
     \<and> relocs st = Some (replicate (unat (f_nscns (filhdr st))) None)
     \<and> secdata st = Some (replicate (unat (f_nscns (filhdr st))) None)
     \<and> (\<exists>bs. scnhdrs st = Some (map Some bs) \<and> length bs = SCNHSZ * unat (f_nscns (filhdr st)))"

lemma coff_load_headers_total:
  fixes st :: "'a coff_st_scheme"
  assumes "coff_load_headers file fp st = (r, fp', st')"
  shows "(r = 0 \<and> headers_loaded st' \<or> r = - 1)
    \<and> relocs st' = relocs st \<and> secdata st' = secdata st \<and> scnhdrs st' = scnhdrs st"
  using assms
  by (auto simp: coff_load_headers_def headers_loaded_def coff_errx_def print_err_def Let_def
      simp del: ascii_simps split: prod.splits if_splits option.splits)

lemma section_size: "unat (of_nat SCNHSZ * ucast (n :: u16) :: u64) = SCNHSZ * unat n"
  "unat (8 * ucast (n :: u16) :: u64) = 8 * unat n"
proof -
  have n: "unat n < 2 ^ 16" using unsigned_less [of n, where 'a = nat] by simp
  have u: "unat (ucast n :: u64) = unat n" using n by (simp add: unsigned_ucast_eq take_bit_eq_mod)
  show "unat (of_nat SCNHSZ * ucast n :: u64) = SCNHSZ * unat n" "unat (8 * ucast n :: u64) = 8 * unat n"
    using n by (simp_all add: unat_word_ariths u SCNHSZ_def)
qed

lemma null_array_cases:
  obtains (none) "null_array n st = (None, st\<lparr>heap_ok := \<lambda>i. heap_ok st (Suc i)\<rparr>)"
  | (some) "null_array n st = (Some (replicate (unat n) None), st\<lparr>heap_ok := \<lambda>i. heap_ok st (Suc i)\<rparr>)"
  by (cases "heap_ok st 0 \<and> unat (8 * ucast n :: u64) < 2 ^ 63")
    (auto simp: null_array_def c_malloc_def)

lemma fread_whole:
  assumes "fread sz 1 fp st = (n, bs, fp')"
  shows "length bs \<le> sz" and "n = 1 \<Longrightarrow> length bs = sz"
proof -
  have bs: "bs = take sz (drop (s_pos fp) (content st (s_path fp)))" and n: "n = length bs div sz"
    using assms by (auto simp: fread_def Let_def)
  show le: "length bs \<le> sz" by (simp add: bs)
  show "n = 1 \<Longrightarrow> length bs = sz" using n le by (metis div_less le_neq_implies_less zero_neq_one)
qed

lemma coff_cleanup_ok:
  assumes "relocs st = None \<or> (\<exists>ps. relocs st = Some ps \<and> length ps = unat (f_nscns (filhdr st)))"
    and "secdata st = None \<or> (\<exists>ps. secdata st = Some ps \<and> length ps = unat (f_nscns (filhdr st)))"
  shows "coff_cleanup st = Inr (st\<lparr>scnhdrs := None, coff_symtab := None, coff_strtab := None, coff_sym_cnt := 0,
    coff_sec_cnt := 0, machine := None, aoutmag := None, relocs := None, secdata := None\<rparr>)"
  using assms by (auto simp: coff_cleanup_def free_all_def)

lemma coff_load_sections_total:
  fixes st :: "'a coff_st_scheme"
  assumes "headers_loaded st" and "secdata st = None"
  obtains r fp' st' where "coff_load_sections file fp st = Inr (r, fp', st')"
    and "r = 0 \<and> coff_loaded st' \<or> r = - 1 \<and> (\<exists>st''. coff_cleanup st' = Inr st'' \<and> coff_fresh st'')"
proof -
  let ?n = "f_nscns (filhdr st)"
  let ?s1 = "st\<lparr>heap_ok := \<lambda>i. heap_ok st (Suc i)\<rparr>"
  show ?thesis
  proof (cases rule: null_array_cases [of ?n st])
    case none
    then show ?thesis using that assms(2)
      by (simp add: coff_load_sections_def coff_err_def print_err_def coff_cleanup_ok coff_fresh_def)
  next
    case some
    let ?ps = "replicate (unat ?n) (None :: block option)"
    let ?s2 = "?s1\<lparr>relocs := Some ?ps\<rparr>"
    let ?s3 = "?s2\<lparr>heap_ok := \<lambda>i. heap_ok st (Suc (Suc i))\<rparr>"
    note first = some
    show ?thesis
    proof (cases rule: null_array_cases [of ?n ?s2])
      case none
      then show ?thesis using that first assms(2)
        by (simp add: coff_load_sections_def coff_err_def print_err_def coff_cleanup_ok coff_fresh_def)
    next
      case some
      let ?s4 = "?s3\<lparr>secdata := Some ?ps\<rparr>" and ?sz = "of_nat SCNHSZ * ucast ?n :: u64"
      have sz: "unat ?sz = SCNHSZ * unat ?n" by (rule section_size)
      let ?h = "\<lambda>i. heap_ok st (Suc (Suc (Suc i)))"
      note second = some
      show ?thesis
      proof (cases "heap_ok st (Suc (Suc 0))")
        case False
        then show ?thesis using that first second
          by (simp add: coff_load_sections_def coff_err_def print_err_def coff_cleanup_ok coff_fresh_def c_malloc_def)
      next
        case True
        have "SCNHSZ * unat ?n < 2 ^ 63"
          using unsigned_less [of ?n, where 'a = nat] by (simp add: SCNHSZ_def)
        then have "unat ?sz < 2 ^ 63" by (simp only: sz)
        then have m: "c_malloc ?sz ?s4 = (Some (replicate (unat ?sz) None), ?s4\<lparr>heap_ok := ?h\<rparr>)"
          using True by (simp add: c_malloc_def)
        obtain n bs fp2 where rd: "fread (unat ?sz) 1 fp (?s4\<lparr>heap_ok := ?h\<rparr>) = (n, bs, fp2)" using prod_cases3 by blast
        note len = fread_whole [OF rd]
        let ?b = "map Some bs @ drop (length bs) (replicate (unat ?sz) None)"
        have sb: "store_bytes (replicate (unat ?sz) None) 0 bs = Inr ?b" using len(1) by (simp add: store_bytes_def)
        let ?s5 = "?s4\<lparr>heap_ok := ?h, scnhdrs := Some ?b\<rparr>"
        have ld: "coff_load_sections file fp st = Inr (if n = 1 then (0, fp2, ?s5) else
            (- 1, fp2, coff_errx (file @ ascii '': An unexpected error/eof occured while reading section headers'') ?s5))"
          using first second m rd sb by (simp add: coff_load_sections_def Let_def del: ascii_simps)
        show ?thesis
        proof (cases "n = 1")
          case True
          then have "length bs = SCNHSZ * unat ?n" using len(2) sz by simp
          then have "coff_loaded ?s5"
            using assms(1) by (simp add: coff_loaded_def headers_loaded_def sz)
          then show ?thesis using that ld True by simp
        next
          case False
          then show ?thesis
            using that ld by (simp add: coff_errx_def print_err_def coff_cleanup_ok coff_fresh_def)
        qed
      qed
    qed
  qed
qed

lemma coff_load_file_total:
  fixes st :: "'a coff_st_scheme"
  assumes "coff_fresh st"
  obtains r st' where "coff_load_file file st = Inr (r, st')" and "r = 0 \<and> coff_loaded st' \<or> r = - 1"
proof (cases "fopen_rb file st")
  case None
  then show ?thesis using that by (simp add: coff_load_file_def)
next
  case (Some fp)
  obtain r fp1 st1 where h: "coff_load_headers file fp st = (r, fp1, st1)" using prod_cases3 by blast
  note h' = coff_load_headers_total [OF h]
  show ?thesis
  proof (cases "r = 0")
    case False
    then show ?thesis using that h Some by (simp add: coff_load_file_def)
  next
    case True
    then have "headers_loaded st1" "secdata st1 = None" using h' assms by (auto simp: coff_fresh_def)
    then obtain k fp2 st2 where "coff_load_sections file fp1 st1 = Inr (k, fp2, st2)"
      and "k = 0 \<and> coff_loaded st2 \<or> k = - 1 \<and> (\<exists>st''. coff_cleanup st2 = Inr st'' \<and> coff_fresh st'')"
      by (rule coff_load_sections_total)
    then show ?thesis using that h True Some by (auto simp: coff_load_file_def)
  qed
qed

section \<open>Printing\<close>

lemma coff_print_upd [simp]:
  "print_out t (print_out s st) = print_out (s @ t) st"
  "filhdr (print_out s st) = filhdr st" "scnhdrs (print_out s st) = scnhdrs st"
  "machine (print_out s st) = machine st" "aoutmag (print_out s st) = aoutmag st"
  "aouthdr (print_out s st) = aouthdr st" "ctime (print_out s st) = ctime st"
  "display_file_header (print_out s st) = display_file_header st"
  "display_optional_header (print_out s st) = display_optional_header st"
  "display_scns (print_out s st) = display_scns st"
  "coff_loaded (print_out s st) = coff_loaded st" "headers_loaded (print_out s st) = headers_loaded st"
  for st :: "'a coff_st_scheme"
  by (simp_all add: print_out_def coff_loaded_def headers_loaded_def)

definition section_row :: "nat \<Rightarrow> SCNHDR \<Rightarrow> u8 list" where
  "section_row i s =
     ascii ''  ['' @ pad_left 32 2 (fmt_dec i) @ ascii ''] '' @ pad_right 8 (takeWhile (\<lambda>c. c \<noteq> 0) (s_name s)) @ ascii '' ''
     @ print_section_type (s_flags s) @ hex_8 (s_paddr s) @ ascii '' '' @ hex_8 (s_vaddr s) @ ascii '' ''
     @ hex_8 (s_scnptr s) @ ascii '' '' @ hex_8 (s_size s) @ [newline]"

lemma cstr_terminated: "cstr (map Some (xs @ [0])) = Inr (takeWhile (\<lambda>c. c \<noteq> 0) xs)"
  by (induction xs) auto

lemma print_scns_loop_ok:
  fixes st :: "'a coff_st_scheme"
  assumes "scnhdrs st = Some (map Some bs)" and "\<forall>i \<in> set idxs. i < length bs div SCNHSZ"
  shows "print_scns_loop idxs st = Inr (print_out
    (concat (map (\<lambda>i. section_row i (decode_table SCNHSZ dec_scnhdr bs ! i)) idxs)) st)"
  using assms
proof (induction idxs arbitrary: st)
  case Nil
  then show ?case by (simp add: print_out_def)
next
  case (Cons i idxs)
  let ?s = "decode_table SCNHSZ dec_scnhdr bs ! i"
  have i: "i < length bs div SCNHSZ" using Cons.prems(2) by simp
  then have "i * SCNHSZ + SCNHSZ \<le> length bs" by (simp add: SCNHSZ_def)
  then have ld: "scnhdr_load (scnhdrs st) i = Inr ?s"
    using i Cons.prems(1) by (simp add: scnhdr_load_def nth_decode_table chunk_def)
  have "scnhdrs (print_out s st) = Some (map Some bs)" for s using Cons.prems(1) by simp
  note IH = Cons.IH [OF this]
  show ?case
    using Cons.prems(2)
    by (simp add: ld cstr_terminated IH section_row_def Let_def del: map_append)
qed

definition sections_text :: "SCNHDR list \<Rightarrow> u8 list" where
  "sections_text shs =
     ascii ''Section Headers:'' @ [newline] @ ascii ''  [Nr] Name     Type Paddr    Vaddr    Offset   Size'' @ [newline]
     @ concat (map (\<lambda>i. section_row i (shs ! i)) [0..<length shs]) @ [newline]"

lemma print_scns_ok:
  fixes st :: "'a coff_st_scheme"
  assumes "scnhdrs st = Some (map Some bs)" and "length bs = SCNHSZ * unat (f_nscns (filhdr st))"
  shows "print_scns st = Inr (print_out (sections_text (decode_table SCNHSZ dec_scnhdr bs)) st)"
proof -
  have n: "length bs div SCNHSZ = unat (f_nscns (filhdr st))" using assms(2) by (simp add: SCNHSZ_def)
  show ?thesis
    using print_scns_loop_ok [of "print_out s st" bs "[0..<unat (f_nscns (filhdr st))]" for s] assms(1) n
    by (simp add: print_scns_def sections_text_def del: ascii_simps)
qed

section \<open>Well-formed files\<close>







lemma coff_prints:
  fixes st :: "'a coff_st_scheme"
  assumes m: "machine st = Some mach" and a: "f_opthdr (filhdr st) = 0 \<or> aoutmag st = Some mag"
    and s: "scnhdrs st = Some (map Some bs)" "length bs = SCNHSZ * unat (f_nscns (filhdr st))"
  shows "rbind (if display_file_header st then print_file_header st else Inr st) (\<lambda>st.
      rbind (if display_optional_header st then print_optional_header st else Inr st) (\<lambda>st.
      rbind (if display_scns st then print_scns st else Inr st) f))
    = f (print_out
      ((if display_file_header st then file_header_text (ctime st) (filhdr st) mach else [])
       @ (if display_optional_header st
          then if f_opthdr (filhdr st) \<noteq> 0 then aout_header_text (aouthdr st) mag
               else ascii ''There is no optional header.'' @ [newline] @ [newline]
          else [])
       @ (if display_scns st then sections_text (decode_table SCNHSZ dec_scnhdr bs) else [])) st)"
proof -
  define t1 where "t1 = file_header_text (ctime st) (filhdr st) mach"
  define t2 where "t2 = (if f_opthdr (filhdr st) \<noteq> 0 then aout_header_text (aouthdr st) mag
    else ascii ''There is no optional header.'' @ [newline] @ [newline])"
  define t3 where "t3 = sections_text (decode_table SCNHSZ dec_scnhdr bs)"
  have H: "print_file_header st = Inr (print_out t1 st)"
    using m by (simp add: print_file_header_def name_arg_def t1_def)
  have O: "print_optional_header (print_out x st) = Inr (print_out (x @ t2) st)" for x
    using a by (auto simp: print_optional_header_def name_arg_def t2_def simp del: ascii_simps)
  have S: "print_scns (print_out x st) = Inr (print_out (x @ t3) st)" for x
    using print_scns_ok [of "print_out x st" bs] s by (simp add: t3_def)
  have E: "print_out [] st = st" by (simp add: print_out_def)
  note O0 = O [of "[]", unfolded E append_Nil] and S0 = S [of "[]", unfolded E append_Nil]
  show ?thesis
    unfolding t1_def [symmetric] t2_def [symmetric] t3_def [symmetric]
    by (cases "display_file_header st"; cases "display_optional_header st"; cases "display_scns st")
      (simp_all add: E H O S O0 S0)
qed



section \<open>Every file\<close>

lemma coff_opts_total:
  fixes st :: "'a coff_st_scheme"
  assumes "coff_opts package commit argv0 es st = (r, st')" and "coff_fresh st"
  shows "case r of None \<Rightarrow> coff_fresh st' | Some k \<Rightarrow> k \<in> {EXIT_SUCCESS, EXIT_FAILURE}"
  using assms
proof (induction es arbitrary: st)
  case Nil
  then show ?case by auto
next
  case (Cons e es)
  have "coff_fresh (st\<lparr>display_file_header := True\<rparr>)" "coff_fresh (st\<lparr>display_optional_header := True\<rparr>)"
    "coff_fresh (st\<lparr>display_scns := True\<rparr>)"
    using Cons.prems(2) by (simp_all add: coff_fresh_def)
  then show ?case
    using Cons.prems(1) Cons.IH
    by (auto simp: coff_usage_def coff_version_def Let_def simp del: ascii_simps split: opt.splits if_splits)
qed

lemma coff_show_total:
  fixes st :: "'a coff_st_scheme"
  assumes "coff_fresh st"
  shows "\<exists>k st'. coff_show file st = Inr (k, st') \<and> k \<in> {EXIT_SUCCESS, EXIT_FAILURE}"
proof -
  obtain r s1 where ld: "coff_load_file file st = Inr (r, s1)" and r: "r = 0 \<and> coff_loaded s1 \<or> r = - 1"
    by (rule coff_load_file_total [OF assms])
  show ?thesis
  proof (cases "r = 0")
    case True
    then have l: "coff_loaded s1" using r by simp
    then obtain mach mag bs where "machine s1 = Some mach" "f_opthdr (filhdr s1) = 0 \<or> aoutmag s1 = Some mag"
      "scnhdrs s1 = Some (map Some bs)" "length bs = SCNHSZ * unat (f_nscns (filhdr s1))"
      by (auto simp: coff_loaded_def headers_loaded_def)
    note pr = coff_prints [OF this]
    have cl: "\<exists>k st'. rbind (coff_cleanup (print_out x s1)) (\<lambda>st. Inr (EXIT_SUCCESS, st)) = Inr (k, st')
        \<and> k \<in> {EXIT_SUCCESS, EXIT_FAILURE}" for x
      using l by (subst coff_cleanup_ok) (auto simp: coff_loaded_def print_out_def)
    show ?thesis
      unfolding coff_show_def ld rbind_simps prod.case pr by (simp only: True cl simp_thms if_False)
  qed (simp add: coff_show_def ld)
qed

section \<open>Samples\<close>

definition sample_filhdr :: FILHDR where
  "sample_filhdr = \<lparr>f_magic = F_MACH_I386, f_nscns = 1, f_timdat = 0, f_symptr = 0, f_nsyms = 0, f_opthdr = 0, f_flags = 4\<rparr>"

definition sample_scnhdr :: SCNHDR where
  "sample_scnhdr = \<lparr>s_name = ascii ''.text'' @ [0, 0, 0], s_paddr = 0, s_vaddr = 0, s_size = 16, s_scnptr = 60, s_relptr = 0,
     s_lnnoptr = 0, s_nreloc = 0, s_nlnno = 0, s_flags = STYP_TEXT\<rparr>"

definition coff_bytes :: "u8 list" where
  "coff_bytes = enc_filhdr sample_filhdr @ enc_scnhdr sample_scnhdr"

definition coff_host :: coff_st where
  "coff_host = \<lparr>heap_ok = \<lambda>_. True, files = [ascii ''a.o'' \<mapsto> coff_bytes], writable = \<lambda>_. True, room = 0, out = [],
     err = [], errtext = [], ctime = \<lambda>_. [newline], coff_prg = [], filhdr = sample_filhdr,
     aouthdr = dec_aouthdr (replicate 28 0), scnhdrs = None, coff_symtab = None, coff_strtab = None, coff_sym_cnt = 0,
     coff_sec_cnt = 0, machine = None, aoutmag = None, relocs = None, secdata = None, display_file_header = False,
     display_optional_header = False, display_scns = False\<rparr>"


section \<open>Properties\<close>



text \<open>C24: \<open>readcoff\<close>, started with its tables unset, never leaves defined behaviour: for every command line,
  every file and every host it exits with status 0 or 1.\<close>

theorem readcoff_safe:
  fixes st :: "'a coff_st_scheme"
  assumes "coff_fresh st"
  shows "\<exists>k st'. coff_main package commit argv0 args st = Inr (k, st') \<and> k \<in> {EXIT_SUCCESS, EXIT_FAILURE}"
proof -
  obtain es operands where go: "getopts (ascii ''hVHlS'') [] args = (es, operands)" by fastforce
  let ?s0 = "st\<lparr>coff_prg := basename argv0\<rparr>"
  have f: "coff_fresh ?s0" using assms by (simp add: coff_fresh_def)
  obtain r s1 where op: "coff_opts package commit argv0 es ?s0 = (r, s1)" by fastforce
  note o = coff_opts_total [OF op f]
  show ?thesis
  proof (cases r)
    case None
    then show ?thesis
      using o coff_show_total go op by (cases operands) (auto simp: coff_main_def coff_usage_def simp del: ascii_simps)
  next
    case (Some k)
    then show ?thesis using o go op by (simp add: coff_main_def del: ascii_simps)
  qed
qed

theorem readcoff_safe_instance:
  "\<exists>k st'. coff_main [] [] (ascii ''readcoff'') [ascii ''x''] coff_host = Inr (k, st') \<and> k \<in> {EXIT_SUCCESS, EXIT_FAILURE}"
  by (rule readcoff_safe) (simp add: coff_host_def coff_fresh_def)

text \<open>A COFF file without sections, which the format allows, is rejected: reading zero bytes counts as a
  failure.\<close>

lemma readcoff_no_sections:
  fixes st :: "'a coff_st_scheme"
  assumes "f_nscns (filhdr st) = 0"
  shows "\<exists>fp' st'. coff_load_sections file fp st = Inr (- 1, fp', st')"
proof -
  have "fread 0 1 fp s = (0, [], fp)" for s :: "'a coff_st_scheme" by (simp add: fread_def Let_def)
  then show ?thesis
    using assms by (auto simp: coff_load_sections_def null_array_def c_malloc_def store_bytes_def Let_def)
qed

end
