(* ===== verification/OldReadcoff.thy ===== *)
theory OldReadcoff
  imports Readcoff
begin

text \<open>
  The former \<open>main\<close> of \<open>readcoff\<close>, which \<open>src/bin/readcoff/main.c\<close> keeps under \<open>#if 0\<close> behind the
  current one: it reads the file as it prints, and prints relocations and symbols, which the current
  program does not do yet.  It shares \<open>usage\<close>, \<open>version\<close> and the tables of names with it.  The file
  header is a local variable that is only read with \<open>-H\<close> (\<open>None\<close> when it was not); the entries of the
  relocation and symbol tables are read into locals whose bytes are indeterminate at first.
\<close>

record oldcoff_st = coff_st +
  display_symbol_table :: bool
  display_relocs :: bool

definition fmt_oct :: "nat \<Rightarrow> u8 list" where
  "fmt_oct n = map (digit_char False) (digits_acc 8 n [])"

definition set_local :: "'a option \<Rightarrow> 'a res" where
  "set_local v = (case v of None \<Rightarrow> Inl UninitRead | Some x \<Rightarrow> Inr x)"

text \<open>The bytes of a local after \<open>fread\<close> has delivered \<open>bs\<close>.\<close>

definition read_into :: "block \<Rightarrow> u8 list \<Rightarrow> block" where
  "read_into blk bs = map Some bs @ drop (length bs) blk"

section \<open>Headers\<close>

definition old_header_text :: "(int \<Rightarrow> u8 list) \<Rightarrow> FILHDR \<Rightarrow> u8 list \<Rightarrow> u8 list" where
  "old_header_text ct h mach =
     ascii ''COFF Header:'' @ [newline]
     @ ascii ''  Machine:                   '' @ mach @ [newline]
     @ ascii ''  Number of section headers: '' @ fmt_int (sint (f_nscns h)) @ [newline]
     @ ascii ''  Created at:                '' @ ct (sint (f_timdat h))
     @ ascii ''  Start of Symbol Table:     '' @ fmt_int (sint (f_symptr h)) @ ascii '' (bytes into file)'' @ [newline]
     @ ascii ''  Number of Symbols:         '' @ fmt_int (sint (f_nsyms h)) @ [newline]
     @ ascii ''  Size of optional header:   '' @ fmt_dec (unat (f_opthdr h)) @ [newline]
     @ ascii ''  Flags:                     '' @ flag_names FLAGS (f_flags h) @ [newline] @ [newline]"

definition old_header ::
  "stream \<Rightarrow> 'a oldcoff_st_scheme \<Rightarrow> int option \<times> FILHDR option \<times> stream \<times> 'a oldcoff_st_scheme" where
  "old_header fp st =
     (if \<not> display_file_header st then (None, None, fp, st)
      else case fread 1 FILHSZ fp st of (n, bs, fp) \<Rightarrow>
        if n \<noteq> FILHSZ then (Some EXIT_FAILURE, None, fp, st)
        else
          let h = dec_filhdr bs;
              st = (case find_machine MACHINES (f_magic h) of Some nm \<Rightarrow> st\<lparr>machine := Some nm\<rparr> | None \<Rightarrow> st)
          in case machine st of
               None \<Rightarrow> (Some EXIT_FAILURE, Some h, fp, st)
             | Some mach \<Rightarrow> (None, Some h, fp, print_out (old_header_text (ctime st) h mach) st))"

definition old_aout ::
  "FILHDR option \<Rightarrow> stream \<Rightarrow> 'a oldcoff_st_scheme \<Rightarrow> (stream \<times> 'a oldcoff_st_scheme) res" where
  "old_aout fh fp st =
     (if \<not> display_optional_header st then Inr (fp, st)
      else rbind (set_local fh) (\<lambda>h.
        if f_opthdr h = 0
        then Inr (fp, print_out (ascii ''There are no optional header.'' @ [newline] @ [newline]) st)
        else case fread 1 AOUTHSZ fp st of (n, bs, fp) \<Rightarrow>
          let aout_header = read_into (replicate AOUTHSZ None) bs
          in rbind (load_bytes aout_header 0 2) (\<lambda>m.
             let st = (case find_magic AOUTMAG (rd16 m 0) of Some nm \<Rightarrow> st\<lparr>aoutmag := Some nm\<rparr> | None \<Rightarrow> st)
             in rbind (name_arg (aoutmag st)) (\<lambda>mag.
                rbind (load_bytes aout_header 16 4) (\<lambda>e.
                  Inr (fp, print_out (ascii ''A.out header'' @ [newline] @ ascii ''  Magic: '' @ mag @ [newline]
                    @ ascii ''  Entry: 0x'' @ hex_8 (rd32 e 0) @ [newline] @ [newline]) st))))))"

section \<open>Sections\<close>

definition old_type :: "u32 \<Rightarrow> u8 list" where
  "old_type fl =
     (if fl AND STYP_TEXT \<noteq> 0 then ascii ''TEXT''
      else if fl AND STYP_DATA \<noteq> 0 then ascii ''DATA''
      else if fl AND STYP_BSS \<noteq> 0 then ascii ''BSS'' else ascii ''???'')"

definition old_section_row :: "nat \<Rightarrow> u8 list \<Rightarrow> SCNHDR \<Rightarrow> u8 list" where
  "old_section_row idx name s =
     ascii ''['' @ pad_left 32 2 (fmt_dec idx) @ ascii ''] '' @ pad_right 8 name @ ascii ''  ''
     @ pad_right 8 (old_type (s_flags s)) @ ascii ''  '' @ hex_8 (s_vaddr s) @ ascii ''  '' @ hex_8 (s_scnptr s) @ [newline]
     @ ascii ''     '' @ hex_8 (s_size s) @ [newline]"

fun old_scns_loop ::
  "nat list \<Rightarrow> stream \<Rightarrow> 'a oldcoff_st_scheme \<Rightarrow> (int option \<times> stream \<times> 'a oldcoff_st_scheme) res" where
  "old_scns_loop [] fp st = Inr (None, fp, st)"
| "old_scns_loop (idx # idxs) fp st =
     (case fread 1 SCNHSZ fp st of (n, bs, fp) \<Rightarrow>
        if n \<noteq> SCNHSZ then Inr (Some EXIT_FAILURE, fp, st)
        else let s = dec_scnhdr bs
             in rbind (cstr (map Some (s_name s @ [0]))) (\<lambda>name.
                  old_scns_loop idxs fp (print_out (old_section_row idx name s) st)))"

definition old_scns ::
  "FILHDR option \<Rightarrow> stream \<Rightarrow> 'a oldcoff_st_scheme \<Rightarrow> (int option \<times> stream \<times> 'a oldcoff_st_scheme) res" where
  "old_scns fh fp st =
     (if \<not> display_scns st then Inr (None, fp, st)
      else rbind (set_local fh) (\<lambda>h.
        case fseek_set (ucast (f_opthdr h) + of_nat FILHSZ) fp of (_, fp) \<Rightarrow>
        rbind (old_scns_loop [0..<unat (f_nscns h)] fp
                 (print_out (ascii ''Section Headers:'' @ [newline]
                    @ ascii ''[Nr] Name      Type      Address   Offset'' @ [newline]
                    @ ascii ''     Size'' @ [newline]) st)) (\<lambda>(r, fp, st).
          case r of Some k \<Rightarrow> Inr (Some k, fp, st) | None \<Rightarrow> Inr (None, fp, print_out [newline] st))))"

section \<open>Relocations\<close>

definition old_reloc_row :: "RELOC \<Rightarrow> u8 list" where
  "old_reloc_row r =
     ascii '' '' @ hex_8 (r_vaddr r) @ ascii '' '' @ hex_8 (r_symndx r) @ ascii '' ''
     @ pad_left 48 4 (fmt_oct (unat (r_type r))) @ [newline]"

fun old_relocs_entries ::
  "nat \<Rightarrow> block \<Rightarrow> stream \<Rightarrow> 'a oldcoff_st_scheme \<Rightarrow> (block \<times> stream \<times> 'a oldcoff_st_scheme) res" where
  "old_relocs_entries 0 blk fp st = Inr (blk, fp, st)"
| "old_relocs_entries (Suc j) blk fp st =
     (case fread 1 RELSZ fp st of (n, bs, fp) \<Rightarrow>
        let blk = read_into blk bs
        in rbind (load_bytes blk 0 RELSZ) (\<lambda>bs.
             old_relocs_entries j blk fp (print_out (old_reloc_row (dec_reloc bs)) st)))"

definition old_reloc_title :: "u8 list \<Rightarrow> SCNHDR \<Rightarrow> u8 list" where
  "old_reloc_title name s =
     ascii ''Relocation for section '' @ [39] @ name @ [39] @ ascii '' at offset 0x'' @ fmt_hex True (unat (s_relptr s))
     @ ascii '' contains '' @ fmt_dec (unat (s_nreloc s)) @ ascii '' entries:'' @ [newline]
     @ ascii '' Address  Index    Type'' @ [newline]"

fun old_relocs_loop ::
  "nat list \<Rightarrow> FILHDR \<Rightarrow> block \<Rightarrow> stream \<Rightarrow> 'a oldcoff_st_scheme
    \<Rightarrow> (int option \<times> stream \<times> 'a oldcoff_st_scheme) res" where
  "old_relocs_loop [] h blk fp st = Inr (None, fp, st)"
| "old_relocs_loop (idx # idxs) h blk fp st =
     (case fseek_set (ucast (f_opthdr h) + of_nat FILHSZ + of_nat (SCNHSZ * idx)) fp of (_, fp) \<Rightarrow>
      case fread 1 SCNHSZ fp st of (n, bs, fp) \<Rightarrow>
        if n \<noteq> SCNHSZ then Inr (Some EXIT_FAILURE, fp, st)
        else let s = dec_scnhdr bs
             in if s_relptr s = 0 \<or> s_nreloc s = 0 then old_relocs_loop idxs h blk fp st
                else rbind (cstr (map Some (s_name s @ [0]))) (\<lambda>name.
                  let st = print_out (old_reloc_title name s) st
                  in case fseek_set (scast (s_relptr s)) fp of (_, fp) \<Rightarrow>
                     rbind (old_relocs_entries (unat (s_nreloc s)) blk fp st) (\<lambda>(blk, fp, st).
                       old_relocs_loop idxs h blk fp (print_out [newline] st))))"

definition old_relocs ::
  "FILHDR option \<Rightarrow> stream \<Rightarrow> 'a oldcoff_st_scheme \<Rightarrow> (int option \<times> stream \<times> 'a oldcoff_st_scheme) res" where
  "old_relocs fh fp st =
     (if \<not> display_relocs st then Inr (None, fp, st)
      else rbind (set_local fh) (\<lambda>h. old_relocs_loop [0..<unat (f_nscns h)] h (replicate RELSZ None) fp st))"

section \<open>Symbols\<close>

text \<open>\<open>string_table + n_offset\<close>, with a signed offset.\<close>

definition str_table :: "block option \<Rightarrow> int \<Rightarrow> u8 list res" where
  "str_table tab off = rbind (deref tab) (\<lambda>blk. if off < 0 then Inl OutOfBounds else cstr_at blk (nat off))"

definition old_sym_name :: "block option \<Rightarrow> SYMENT \<Rightarrow> u8 list res" where
  "old_sym_name tab s =
     (if n_zeroes s \<noteq> 0 then cstr (map Some (n_name s @ [0])) else str_table tab (sint (n_offset s)))"

definition old_sym_row :: "nat \<Rightarrow> SYMENT \<Rightarrow> u8 list \<Rightarrow> u8 list" where
  "old_sym_row idx s name =
     ascii ''  '' @ pad_left 32 2 (fmt_dec idx) @ ascii '':    '' @ pad_left 48 8 (fmt_hex False (unat (n_value s)))
     @ ascii ''  '' @ fmt_dec (unat (n_type s)) @ ascii '' '' @ fmt_int (sint (n_sclass s)) @ ascii '' ''
     @ fmt_int (sint (n_scnum s)) @ ascii '' '' @ name @ [newline]"

fun old_syms_loop ::
  "nat list \<Rightarrow> FILHDR \<Rightarrow> block option \<Rightarrow> block \<Rightarrow> stream \<Rightarrow> 'a oldcoff_st_scheme \<Rightarrow> 'a oldcoff_st_scheme res" where
  "old_syms_loop [] h tab blk fp st = Inr st"
| "old_syms_loop (idx # idxs) h tab blk fp st =
     rbind (c_int (int SYMESZ * int idx)) (\<lambda>d. rbind (c_int (sint (f_symptr h) + d)) (\<lambda>off.
       case fseek_set (of_int off) fp of (_, fp) \<Rightarrow>
       case fread 1 SYMESZ fp st of (n, bs, fp) \<Rightarrow>
         let blk = read_into blk bs
         in rbind (load_bytes blk 0 SYMESZ) (\<lambda>bs. rbind (old_sym_name tab (dec_syment bs)) (\<lambda>name.
              old_syms_loop idxs h tab blk fp (print_out (old_sym_row idx (dec_syment bs) name) st)))))"

text \<open>The string table is taken to reach from behind the symbols to the end of the file, and further:
  the size of the symbol table is added instead of subtracted.\<close>

definition old_symtab ::
  "FILHDR option \<Rightarrow> stream \<Rightarrow> 'a oldcoff_st_scheme \<Rightarrow> 'a oldcoff_st_scheme res" where
  "old_symtab fh fp st =
     (if \<not> display_symbol_table st then Inr st
      else let fp = fseek_end st fp
           in rbind (set_local fh) (\<lambda>h. rbind (c_int (int SYMESZ * sint (f_nsyms h))) (\<lambda>d.
              let sz_stable = of_int (int (s_pos fp) - sint (f_symptr h) + d) :: u64
              in case c_malloc sz_stable st of (string_table, st) \<Rightarrow>
                 rbind (c_int (sint (f_symptr h) + d)) (\<lambda>off.
                 case fseek_set (of_int off) fp of (_, fp) \<Rightarrow>
                 case fread 1 (unat sz_stable) fp st of (n, bs, fp) \<Rightarrow>
                 rbind (case string_table of
                          None \<Rightarrow> if bs = [] then Inr None else Inl NullDeref
                        | Some blk \<Rightarrow> rbind (store_bytes blk 0 bs) (\<lambda>blk. Inr (Some blk))) (\<lambda>string_table.
                   old_syms_loop [0..<nat (sint (f_nsyms h))] h string_table (replicate SYMESZ None) fp
                     (print_out (ascii ''Symbol table contains '' @ fmt_int (sint (f_nsyms h)) @ ascii '' entries:'' @ [newline]
                        @ ascii ''  Num:    Value  Type Name'' @ [newline]) st))))))"

section \<open>The program\<close>

fun old_opts ::
  "u8 list \<Rightarrow> u8 list \<Rightarrow> u8 list list \<Rightarrow> 'a oldcoff_st_scheme \<Rightarrow> int option \<times> u8 list list \<times> 'a oldcoff_st_scheme" where
  "old_opts package commit [] st = (None, [], st)"
| "old_opts package commit (a # args) st =
     (let stop = (\<lambda>(r, st). (Some r, [], st)); c = take 1 (tl a)
      in if a = [] \<or> hd a \<noteq> 45 then (None, a # args, st)
         else if c = ascii ''h'' then stop (coff_usage EXIT_SUCCESS st)
         else if c = ascii ''V'' then stop (coff_version package commit st)
         else old_opts package commit args
           (if c = ascii ''a'' then st\<lparr>display_file_header := True, display_optional_header := True,
               display_symbol_table := True, display_scns := True\<rparr>
            else if c = ascii ''r'' then st\<lparr>display_relocs := True\<rparr>
            else if c = ascii ''H'' then st\<lparr>display_file_header := True\<rparr>
            else if c = ascii ''s'' then st\<lparr>display_symbol_table := True\<rparr>
            else if c = ascii ''S'' then st\<lparr>display_scns := True\<rparr> else st))"

definition old_show :: "u8 list \<Rightarrow> 'a oldcoff_st_scheme \<Rightarrow> (int \<times> 'a oldcoff_st_scheme) res" where
  "old_show file st =
     (case fopen_rb file st of
        None \<Rightarrow> Inr (EXIT_FAILURE, st)
      | Some fp \<Rightarrow>
          (case old_header fp st of (r, fh, fp, st) \<Rightarrow>
             case r of Some k \<Rightarrow> Inr (k, st)
             | None \<Rightarrow> rbind (old_aout fh fp st) (\<lambda>(fp, st).
                 rbind (old_scns fh fp st) (\<lambda>(r, fp, st).
                 case r of Some k \<Rightarrow> Inr (k, st)
                 | None \<Rightarrow> rbind (old_relocs fh fp st) (\<lambda>(r, fp, st).
                     case r of Some k \<Rightarrow> Inr (k, st)
                     | None \<Rightarrow> rbind (old_symtab fh fp st) (\<lambda>st. Inr (EXIT_SUCCESS, st)))))))"

definition old_main ::
  "bool \<Rightarrow> u8 list \<Rightarrow> u8 list \<Rightarrow> u8 list \<Rightarrow> u8 list list \<Rightarrow> 'a oldcoff_st_scheme
    \<Rightarrow> (int \<times> 'a oldcoff_st_scheme) res" where
  "old_main stupidos package commit argv0 args st =
     (case old_opts package commit args (st\<lparr>coff_prg := (if stupidos then argv0 else basename argv0)\<rparr>) of
        (Some k, _, st) \<Rightarrow> Inr (k, st)
      | (None, operands, st) \<Rightarrow>
          (case operands of [] \<Rightarrow> Inr (coff_usage EXIT_FAILURE st) | file # _ \<Rightarrow> old_show file st))"

end
