(* ===== verification/OldReadcoffProps.thy ===== *)
theory OldReadcoffProps
  imports ReadcoffProps OldReadcoff
begin

text \<open>
  The former \<open>readcoff\<close> prints what stands at the offsets the headers name: the sections behind the
  optional header, the relocations of a section at its \<open>s_relptr\<close>, the symbols at \<open>f_symptr\<close> and their long
  names in the string table behind them.
\<close>

section \<open>Output\<close>

text \<open>A step that prints \<open>t\<close> and changes nothing that a later step depends on.\<close>

definition emits :: "u8 list \<Rightarrow> 'a oldcoff_st_scheme \<Rightarrow> 'a oldcoff_st_scheme \<Rightarrow> bool" where
  "emits t st st' \<longleftrightarrow> out st' = out st @ t \<and> files st' = files st \<and> heap_ok st' = heap_ok st \<and> ctime st' = ctime st
     \<and> display_optional_header st' = display_optional_header st \<and> display_scns st' = display_scns st
     \<and> display_relocs st' = display_relocs st \<and> display_symbol_table st' = display_symbol_table st"

lemma emits_refl: "emits [] st st"
  by (simp add: emits_def)

lemma emits_print: "emits t st (print_out t st)"
  by (simp add: emits_def print_out_def)

lemma emits_trans: "emits t st st' \<Longrightarrow> emits u st' st'' \<Longrightarrow> emits (t @ u) st st''"
  by (simp add: emits_def)

lemma emits_files: "emits t st st' \<Longrightarrow> files st' = files st"
  by (simp add: emits_def)

section \<open>Reading at an offset\<close>

lemma fread_slice:
  assumes "files st (s_path fp) = Some c" and "s_pos fp + n \<le> length c"
  shows "fread (Suc 0) n fp st = (n, slice (s_pos fp) n c, fp\<lparr>s_pos := s_pos fp + n\<rparr>)"
  using assms by (simp add: fread_def content_def slice_def Let_def)

lemma length_slice: "off + n \<le> length c \<Longrightarrow> length (slice off n c) = n"
  by (simp add: slice_def)

lemma read_into_full: "length bs = length blk \<Longrightarrow> read_into blk bs = map Some bs"
  by (simp add: read_into_def)

lemma fseek_to:
  assumes "0 \<le> off" and "off < 2 ^ 62"
  shows "fseek_set (of_int off) fp = (0, fp\<lparr>s_pos := nat off\<rparr>)"
proof -
  have "sint (of_int off :: u64) = off" using assms by (simp add: sint_sbintrunc' signed_take_bit_int_eq_self_iff)
  moreover have "unat (of_int off :: u64) = nat off"
    using assms by (simp add: unat_eq_nat_uint uint_word_of_int)
  ultimately show ?thesis using assms by (simp add: fseek_set_def)
qed

lemma fseek_nat: "off < 2 ^ 62 \<Longrightarrow> fseek_set (of_nat off) fp = (0, fp\<lparr>s_pos := off\<rparr>)"
  using fseek_to [of "int off" fp] by simp

lemma unat_int_64: "n < 2 ^ 64 \<Longrightarrow> unat (of_int (int n) :: u64) = n"
  by (simp add: unat_of_nat)

section \<open>The parts of a file\<close>

definition name_at :: "u8 list \<Rightarrow> u8 list" where
  "name_at bs = takeWhile (\<lambda>b. b \<noteq> 0) bs"

definition scn_at :: "u8 list \<Rightarrow> FILHDR \<Rightarrow> nat \<Rightarrow> SCNHDR" where
  "scn_at c h i = dec_scnhdr (slice (unat (f_opthdr h) + FILHSZ + SCNHSZ * i) SCNHSZ c)"

definition reloc_at :: "u8 list \<Rightarrow> SCNHDR \<Rightarrow> nat \<Rightarrow> RELOC" where
  "reloc_at c s j = dec_reloc (slice (unat (s_relptr s) + RELSZ * j) RELSZ c)"

definition sym_at :: "u8 list \<Rightarrow> FILHDR \<Rightarrow> nat \<Rightarrow> SYMENT" where
  "sym_at c h i = dec_syment (slice (unat (f_symptr h) + SYMESZ * i) SYMESZ c)"

definition string_table :: "u8 list \<Rightarrow> FILHDR \<Rightarrow> u8 list" where
  "string_table c h = drop (unat (f_symptr h) + SYMESZ * unat (f_nsyms h)) c"

definition sym_text :: "u8 list \<Rightarrow> FILHDR \<Rightarrow> SYMENT \<Rightarrow> u8 list" where
  "sym_text c h s =
     (if n_zeroes s \<noteq> 0 then name_at (n_name s) else name_at (drop (unat (n_offset s)) (string_table c h)))"

definition scn_fits :: "u8 list \<Rightarrow> SCNHDR \<Rightarrow> bool" where
  "scn_fits c s \<longleftrightarrow> s_relptr s = 0 \<or> unat (s_relptr s) + RELSZ * unat (s_nreloc s) \<le> length c"

definition sym_fits :: "u8 list \<Rightarrow> FILHDR \<Rightarrow> SYMENT \<Rightarrow> bool" where
  "sym_fits c h s \<longleftrightarrow> n_zeroes s \<noteq> 0 \<or> 0 \<in> set (drop (unat (n_offset s)) (string_table c h))"

text \<open>A file shorter than 2 GiB whose parts lie inside it.\<close>

definition old_coff_file :: "u8 list \<Rightarrow> FILHDR \<Rightarrow> bool" where
  "old_coff_file c h \<longleftrightarrow>
     FILHSZ \<le> length c \<and> length c < 2 ^ 31 \<and> h = dec_filhdr (slice 0 FILHSZ c)
     \<and> find_machine MACHINES (f_magic h) \<noteq> None
     \<and> (f_opthdr h \<noteq> 0 \<longrightarrow> FILHSZ + AOUTHSZ \<le> length c \<and> find_magic AOUTMAG (rd16 (slice FILHSZ AOUTHSZ c) 0) \<noteq> None)
     \<and> unat (f_opthdr h) + FILHSZ + SCNHSZ * unat (f_nscns h) \<le> length c
     \<and> list_all (\<lambda>i. scn_fits c (scn_at c h i)) [0..<unat (f_nscns h)]
     \<and> unat (f_symptr h) + SYMESZ * unat (f_nsyms h) \<le> length c
     \<and> list_all (\<lambda>i. sym_fits c h (sym_at c h i)) [0..<unat (f_nsyms h)]"

section \<open>The text\<close>

definition aout_part :: "u8 list \<Rightarrow> FILHDR \<Rightarrow> u8 list" where
  "aout_part c h =
     (if f_opthdr h = 0 then ascii ''There are no optional header.'' @ [newline] @ [newline]
      else ascii ''A.out header'' @ [newline] @ ascii ''  Magic: ''
        @ the (find_magic AOUTMAG (rd16 (slice FILHSZ AOUTHSZ c) 0)) @ [newline]
        @ ascii ''  Entry: 0x'' @ hex_8 (rd32 (slice FILHSZ AOUTHSZ c) 16) @ [newline] @ [newline])"

definition scns_part :: "u8 list \<Rightarrow> FILHDR \<Rightarrow> u8 list" where
  "scns_part c h =
     ascii ''Section Headers:'' @ [newline] @ ascii ''[Nr] Name      Type      Address   Offset'' @ [newline]
     @ ascii ''     Size'' @ [newline]
     @ concat (map (\<lambda>i. old_section_row i (name_at (s_name (scn_at c h i))) (scn_at c h i)) [0..<unat (f_nscns h)])
     @ [newline]"

definition scn_relocs :: "u8 list \<Rightarrow> SCNHDR \<Rightarrow> u8 list" where
  "scn_relocs c s =
     (if s_relptr s = 0 \<or> s_nreloc s = 0 then []
      else old_reloc_title (name_at (s_name s)) s
        @ concat (map (\<lambda>j. old_reloc_row (reloc_at c s j)) [0..<unat (s_nreloc s)]) @ [newline])"

definition relocs_part :: "u8 list \<Rightarrow> FILHDR \<Rightarrow> u8 list" where
  "relocs_part c h = concat (map (\<lambda>i. scn_relocs c (scn_at c h i)) [0..<unat (f_nscns h)])"

definition syms_part :: "u8 list \<Rightarrow> FILHDR \<Rightarrow> u8 list" where
  "syms_part c h =
     ascii ''Symbol table contains '' @ fmt_dec (unat (f_nsyms h)) @ ascii '' entries:'' @ [newline]
     @ ascii ''  Num:    Value  Type Name'' @ [newline]
     @ concat (map (\<lambda>i. old_sym_row i (sym_at c h i) (sym_text c h (sym_at c h i))) [0..<unat (f_nsyms h)])"

definition old_coff_text :: "'a oldcoff_st_scheme \<Rightarrow> u8 list \<Rightarrow> FILHDR \<Rightarrow> u8 list" where
  "old_coff_text st c h =
     old_header_text (ctime st) h (the (find_machine MACHINES (f_magic h)))
     @ (if display_optional_header st then aout_part c h else [])
     @ (if display_scns st then scns_part c h else [])
     @ (if display_relocs st then relocs_part c h else [])
     @ (if display_symbol_table st then syms_part c h else [])"

section \<open>Headers\<close>

lemma old_header_ok:
  assumes "files st (s_path fp) = Some c" and "old_coff_file c h" and "s_pos fp = 0" and "display_file_header st"
  obtains st' where "old_header fp st = (None, Some h, fp\<lparr>s_pos := FILHSZ\<rparr>, st')"
    and "emits (old_header_text (ctime st) h (the (find_machine MACHINES (f_magic h)))) st st'"
proof -
  from assms(2) obtain mach where m: "find_machine MACHINES (f_magic h) = Some mach"
    and c: "FILHSZ \<le> length c" "h = dec_filhdr (slice 0 FILHSZ c)"
    by (auto simp: old_coff_file_def)
  have rd: "fread (Suc 0) FILHSZ fp st = (FILHSZ, slice 0 FILHSZ c, fp\<lparr>s_pos := FILHSZ\<rparr>)"
    using fread_slice [of st fp c FILHSZ] assms(1,3) c(1) by simp
  let ?st = "print_out (old_header_text (ctime st) h mach) (st\<lparr>machine := Some mach\<rparr>)"
  have "old_header fp st = (None, Some h, fp\<lparr>s_pos := FILHSZ\<rparr>, ?st)"
    using assms(4) m rd by (simp add: old_header_def Let_def flip: c(2))
  moreover have "emits (old_header_text (ctime st) h mach) st ?st" by (simp add: emits_def print_out_def)
  ultimately show thesis using that m by simp
qed

lemma old_aout_ok:
  assumes "files st (s_path fp) = Some c" and "old_coff_file c h" and "s_pos fp = FILHSZ"
  obtains fp' st' where "old_aout (Some h) fp st = Inr (fp', st')" and "s_path fp' = s_path fp"
    and "emits (if display_optional_header st then aout_part c h else []) st st'"
proof (cases "display_optional_header st \<and> f_opthdr h \<noteq> 0")
  case False
  then have "old_aout (Some h) fp st = Inr (fp, if display_optional_header st then print_out (aout_part c h) st else st)"
    by (auto simp: old_aout_def set_local_def aout_part_def simp del: ascii_simps)
  then show thesis by (rule that) (simp_all add: emits_print emits_refl)
next
  case True
  then obtain mag where mag: "find_magic AOUTMAG (rd16 (slice FILHSZ AOUTHSZ c) 0) = Some mag"
    and c: "FILHSZ + AOUTHSZ \<le> length c" using assms(2) by (auto simp: old_coff_file_def)
  let ?bs = "slice FILHSZ AOUTHSZ c"
  have rd: "fread (Suc 0) AOUTHSZ fp st = (AOUTHSZ, ?bs, fp\<lparr>s_pos := FILHSZ + AOUTHSZ\<rparr>)"
    using fread_slice [of st fp c AOUTHSZ] assms(1,3) c by simp
  have len: "length ?bs = AOUTHSZ" by (rule length_slice [OF c])
  then have fields: "load_bytes (map Some ?bs) 0 2 = Inr (take 2 ?bs)" "rd16 (take 2 ?bs) 0 = rd16 ?bs 0"
    "load_bytes (map Some ?bs) 16 4 = Inr (take 4 (drop 16 ?bs))" "rd32 (take 4 (drop 16 ?bs)) 0 = rd32 ?bs 16"
    by (simp_all add: AOUTHSZ_def rd16_def rd32_def)
  let ?st = "print_out (aout_part c h) (st\<lparr>aoutmag := Some mag\<rparr>)"
  have "old_aout (Some h) fp st = Inr (fp\<lparr>s_pos := FILHSZ + AOUTHSZ\<rparr>, ?st)"
    using True mag rd len
    by (simp add: old_aout_def set_local_def aout_part_def name_arg_def read_into_full fields Let_def del: ascii_simps)
  moreover have "emits (aout_part c h) st ?st" by (simp add: emits_def print_out_def)
  ultimately show thesis using that True by simp
qed

section \<open>Sections and relocations\<close>

lemma scn_name: "cstr (map Some (s_name s @ [0])) = Inr (name_at (s_name s))"
  unfolding name_at_def by (rule cstr_terminated)

lemma old_scns_loop_ok:
  assumes "files st (s_path fp) = Some c" and "k \<le> m" and "unat (f_opthdr h) + FILHSZ + SCNHSZ * m \<le> length c"
    and "s_pos fp = unat (f_opthdr h) + FILHSZ + SCNHSZ * k"
  shows "\<exists>fp' st'. old_scns_loop [k..<m] fp st = Inr (None, fp', st') \<and> s_path fp' = s_path fp
    \<and> emits (concat (map (\<lambda>i. old_section_row i (name_at (s_name (scn_at c h i))) (scn_at c h i)) [k..<m])) st st'"
  using assms(2,1,3,4)
proof (induction arbitrary: fp st rule: inc_induct)
  case base
  then show ?case by (simp add: emits_refl)
next
  case (step k)
  have le: "SCNHSZ * k + SCNHSZ \<le> SCNHSZ * m" using step.hyps by (simp add: SCNHSZ_def)
  let ?fp = "fp\<lparr>s_pos := s_pos fp + SCNHSZ\<rparr>" and ?s = "scn_at c h k"
  let ?row = "old_section_row k (name_at (s_name ?s)) ?s"
  have rd: "fread (Suc 0) SCNHSZ fp st = (SCNHSZ, slice (s_pos fp) SCNHSZ c, ?fp)"
    using step.prems le by (intro fread_slice) simp_all
  obtain fp' st' where
    "old_scns_loop [Suc k..<m] ?fp (print_out ?row st) = Inr (None, fp', st')" "s_path fp' = s_path fp"
    "emits (concat (map (\<lambda>i. old_section_row i (name_at (s_name (scn_at c h i))) (scn_at c h i)) [Suc k..<m]))
      (print_out ?row st) st'"
    using step.IH [of "print_out ?row st" ?fp] step.prems by (auto simp: print_out_def)
  then show ?case
    using step.hyps rd step.prems(3) emits_trans [OF emits_print [of ?row st]]
    by (simp add: upt_conv_Cons scn_name Let_def flip: scn_at_def del: map_append)
qed

lemma old_relocs_entries_ok:
  assumes "files st (s_path fp) = Some c" and "length blk = RELSZ"
    and "s_pos fp = unat (s_relptr s) + RELSZ * k" and "unat (s_relptr s) + RELSZ * (k + n) \<le> length c"
  shows "\<exists>blk' fp' st'. old_relocs_entries n blk fp st = Inr (blk', fp', st') \<and> s_path fp' = s_path fp
    \<and> length blk' = RELSZ \<and> emits (concat (map (\<lambda>j. old_reloc_row (reloc_at c s j)) [k..<k + n])) st st'"
  using assms
proof (induction n arbitrary: k blk fp st)
  case 0
  then show ?case by (simp add: emits_refl)
next
  case (Suc n)
  let ?fp = "fp\<lparr>s_pos := s_pos fp + RELSZ\<rparr>" and ?bs = "slice (s_pos fp) RELSZ c"
  let ?row = "old_reloc_row (reloc_at c s k)"
  have le: "s_pos fp + RELSZ \<le> length c" using Suc.prems(3,4) by (simp add: RELSZ_def)
  have rd: "fread (Suc 0) RELSZ fp st = (RELSZ, ?bs, ?fp)" using Suc.prems(1) le by (rule fread_slice)
  have len: "length ?bs = RELSZ" using le by (rule length_slice)
  obtain blk' fp' st' where
    "old_relocs_entries n (map Some ?bs) ?fp (print_out ?row st) = Inr (blk', fp', st')" "s_path fp' = s_path fp"
    "length blk' = RELSZ"
    "emits (concat (map (\<lambda>j. old_reloc_row (reloc_at c s j)) [Suc k..<Suc k + n])) (print_out ?row st) st'"
    using Suc.IH [of "print_out ?row st" ?fp "map Some ?bs" "Suc k"] Suc.prems len by (auto simp: print_out_def)
  moreover have "[k..<k + Suc n] = k # [Suc k..<Suc k + n]" by (simp add: upt_conv_Cons del: upt_Suc)
  ultimately show ?case
    using rd Suc.prems(2,3) len emits_trans [OF emits_print [of ?row st]]
    by (simp add: read_into_full Let_def del: upt_Suc flip: reloc_at_def)
qed

text \<open>Offsets below 2 GiB are not negative, and no \<open>int\<close> expression that computes one overflows.\<close>

lemma c_int_nat: "n < 2 ^ 31 \<Longrightarrow> c_int (int n) = Inr (int n)"
  by (simp add: c_int_def)

lemma c_int_offset:
  assumes "p + n * k < 2 ^ 31"
  shows "c_int (int n * int k) = Inr (int (n * k))" and "c_int (int p + int (n * k)) = Inr (int (p + n * k))"
  unfolding of_nat_add [symmetric] of_nat_mult [symmetric] using assms by (simp_all only: c_int_nat)

lemma sint_small:
  assumes "unat (w :: u32) < 2 ^ 31"
  shows "sint w = int (unat w)"
proof -
  have "uint w < 2 ^ 31" using assms unfolding unat_eq_nat_uint nat_less_iff [OF unsigned_greater_eq] by simp
  moreover have "- (2 ^ 31) \<le> uint w" by (rule order_trans [of _ 0]) simp_all
  ultimately show ?thesis by (simp add: sint_uint signed_take_bit_int_eq_self)
qed

lemma fseek_headers:
  assumes "unat o16 + FILHSZ + n < 2 ^ 62"
  shows "fseek_set (ucast (o16 :: u16) + of_nat FILHSZ + of_nat n) fp = (0, fp\<lparr>s_pos := unat o16 + FILHSZ + n\<rparr>)"
proof -
  have "ucast o16 = (of_nat (unat o16) :: u64)" by (rule of_nat_unat [symmetric])
  then have "ucast o16 + of_nat FILHSZ + of_nat n = (of_nat (unat o16 + FILHSZ + n) :: u64)"
    by (simp only: of_nat_add)
  with fseek_nat [OF assms] show ?thesis by (simp only:)
qed

lemma fseek_scast:
  assumes "unat (w :: u32) < 2 ^ 31"
  shows "fseek_set (scast w) fp = (0, fp\<lparr>s_pos := unat w\<rparr>)"
proof -
  have "(scast w :: u64) = of_int (int (unat w))" unfolding scast_eq sint_small [OF assms] ..
  then show ?thesis using fseek_nat [of "unat w" fp] assms by simp
qed

lemma old_relocs_loop_ok:
  assumes "files st (s_path fp) = Some c" and "length blk = RELSZ" and "length c < 2 ^ 31" and "k \<le> m"
    and "unat (f_opthdr h) + FILHSZ + SCNHSZ * m \<le> length c" and "\<forall>i < m. scn_fits c (scn_at c h i)"
  shows "\<exists>fp' st'. old_relocs_loop [k..<m] h blk fp st = Inr (None, fp', st') \<and> s_path fp' = s_path fp
    \<and> emits (concat (map (\<lambda>i. scn_relocs c (scn_at c h i)) [k..<m])) st st'"
  using assms(4,1,2)
proof (induction arbitrary: fp st blk rule: inc_induct)
  case base
  then show ?case by (simp add: emits_refl)
next
  case (step k)
  let ?at = "unat (f_opthdr h) + FILHSZ + SCNHSZ * k" and ?s = "scn_at c h k"
  let ?fp1 = "fp\<lparr>s_pos := ?at\<rparr>" and ?fp2 = "fp\<lparr>s_pos := ?at + SCNHSZ\<rparr>"
  have "SCNHSZ * Suc k \<le> SCNHSZ * m" using step.hyps by (intro mult_le_mono2) simp
  then have le: "?at + SCNHSZ \<le> length c" using assms(5) by simp
  then have seek: "fseek_set (ucast (f_opthdr h) + of_nat FILHSZ + of_nat (SCNHSZ * k)) fp = (0, ?fp1)"
    using assms(3) by (intro fseek_headers) simp
  have rd: "fread (Suc 0) SCNHSZ ?fp1 st = (SCNHSZ, slice ?at SCNHSZ c, ?fp2)"
    using fread_slice [of st ?fp1 c SCNHSZ] step.prems(1) le by simp
  note run = seek rd Let_def scn_name scn_at_def [symmetric]
  show ?case
  proof (cases "s_relptr ?s = 0 \<or> s_nreloc ?s = 0")
    case True
    then show ?thesis
      using step.IH [of st ?fp2 blk] step.prems step.hyps
      by (auto simp: run upt_conv_Cons scn_relocs_def simp del: of_nat_mult)
  next
    case False
    let ?title = "old_reloc_title (name_at (s_name ?s)) ?s"
    let ?fp3 = "fp\<lparr>s_pos := unat (s_relptr ?s)\<rparr>" and ?st = "print_out ?title st"
    have fits: "unat (s_relptr ?s) + RELSZ * unat (s_nreloc ?s) \<le> length c"
      using assms(6) step.hyps False by (auto simp: scn_fits_def)
    then have seek3: "fseek_set (scast (s_relptr ?s)) ?fp2 = (0, ?fp3)"
      using fseek_scast [of "s_relptr ?s" ?fp2] assms(3) by simp
    obtain blk' fp4 st4 where e: "old_relocs_entries (unat (s_nreloc ?s)) blk ?fp3 ?st = Inr (blk', fp4, st4)"
      and l: "s_path fp4 = s_path fp" "length blk' = RELSZ"
      and m4: "emits (concat (map (\<lambda>j. old_reloc_row (reloc_at c ?s j)) [0..<unat (s_nreloc ?s)])) ?st st4"
      using old_relocs_entries_ok [of ?st ?fp3 c blk ?s 0 "unat (s_nreloc ?s)"] step.prems fits
      by (auto simp: print_out_def)
    from emits_trans [OF emits_trans [OF emits_print m4] emits_print [of "[newline]"]]
    have m5: "emits (scn_relocs c ?s) st (print_out [newline] st4)" using False by (simp add: scn_relocs_def)
    then obtain fp' st' where "old_relocs_loop [Suc k..<m] h blk' fp4 (print_out [newline] st4) = Inr (None, fp', st')"
      and "s_path fp' = s_path fp"
      and m6: "emits (concat (map (\<lambda>i. scn_relocs c (scn_at c h i)) [Suc k..<m])) (print_out [newline] st4) st'"
      using step.IH [of "print_out [newline] st4" fp4 blk'] step.prems l by (auto simp: emits_files)
    then have "old_relocs_loop [k..<m] h blk fp st = Inr (None, fp', st')" "s_path fp' = s_path fp"
      using False step.hyps e by (simp_all add: upt_conv_Cons run seek3 del: map_append of_nat_mult)
    with emits_trans [OF m5 m6] step.hyps show ?thesis by (auto simp: upt_conv_Cons)
  qed
qed

section \<open>Symbols\<close>

lemma cstr_until: "0 \<in> set xs \<Longrightarrow> cstr (map Some xs @ ys) = Inr (name_at xs)"
  by (induction xs) (auto simp: name_at_def)

lemma old_sym_name_ok:
  assumes "sym_fits c h s" and "length c < 2 ^ 31"
  shows "old_sym_name (Some (map Some (string_table c h) @ ys)) s = Inr (sym_text c h s)"
proof (cases "n_zeroes s = 0")
  case False
  then show ?thesis by (simp add: old_sym_name_def sym_text_def name_at_def cstr_terminated del: map_append)
next
  case True
  let ?o = "unat (n_offset s)" and ?t = "string_table c h"
  have z: "0 \<in> set (drop ?o ?t)" using assms(1) True by (simp add: sym_fits_def)
  then have "drop ?o ?t \<noteq> []" by auto
  then have lt: "?o < length ?t" by simp
  also have "\<dots> \<le> length c" by (simp add: string_table_def)
  finally have "sint (n_offset s) = int ?o" using assms(2) by (intro sint_small) simp
  then show ?thesis
    using True lt cstr_until [OF z] by (simp add: old_sym_name_def str_table_def cstr_at_def sym_text_def drop_map)
qed

lemma old_syms_loop_ok:
  assumes "files st (s_path fp) = Some c" and "length blk = SYMESZ" and "length c < 2 ^ 31" and "k \<le> m"
    and "unat (f_symptr h) + SYMESZ * m \<le> length c" and "\<forall>i < m. sym_fits c h (sym_at c h i)"
  shows "\<exists>st'. old_syms_loop [k..<m] h (Some (map Some (string_table c h) @ ys)) blk fp st = Inr st'
    \<and> emits (concat (map (\<lambda>i. old_sym_row i (sym_at c h i) (sym_text c h (sym_at c h i))) [k..<m])) st st'"
  using assms(4,1,2)
proof (induction arbitrary: fp st blk rule: inc_induct)
  case base
  then show ?case by (simp add: emits_refl)
next
  case (step k)
  let ?at = "unat (f_symptr h) + SYMESZ * k"
  let ?fp = "fp\<lparr>s_pos := ?at\<rparr>" and ?bs = "slice ?at SYMESZ c" and ?s = "sym_at c h k"
  let ?row = "old_sym_row k ?s (sym_text c h ?s)"
  have "SYMESZ * Suc k \<le> SYMESZ * m" using step.hyps by (intro mult_le_mono2) simp
  then have le: "?at + SYMESZ \<le> length c" using assms(5) by simp
  then have sp: "sint (f_symptr h) = int (unat (f_symptr h))" using assms(3) by (intro sint_small) simp
  have "?at < 2 ^ 31" using le assms(3) by simp
  note off = c_int_offset [OF this, folded sp]
  have seek: "fseek_set (of_int (int ?at)) fp = (0, ?fp)"
    using le assms(3) fseek_nat [of ?at fp] by (simp del: of_nat_add of_nat_mult)
  have rd: "fread (Suc 0) SYMESZ ?fp st = (SYMESZ, ?bs, fp\<lparr>s_pos := ?at + SYMESZ\<rparr>)"
    using fread_slice [of st ?fp c SYMESZ] step.prems(1) le by simp
  have len: "length ?bs = SYMESZ" using le by (rule length_slice)
  have "sym_fits c h ?s" using assms(6) step.hyps by simp
  note nm = old_sym_name_ok [OF this assms(3), of ys]
  obtain st' where "old_syms_loop [Suc k..<m] h (Some (map Some (string_table c h) @ ys)) (map Some ?bs)
      (fp\<lparr>s_pos := ?at + SYMESZ\<rparr>) (print_out ?row st) = Inr st'"
    and e: "emits (concat (map (\<lambda>i. old_sym_row i (sym_at c h i) (sym_text c h (sym_at c h i))) [Suc k..<m]))
      (print_out ?row st) st'"
    using step.IH [of "print_out ?row st" "fp\<lparr>s_pos := ?at + SYMESZ\<rparr>" "map Some ?bs"] step.prems(1) len
    by (auto simp: print_out_def)
  then have "old_syms_loop [k..<m] h (Some (map Some (string_table c h) @ ys)) blk fp st = Inr st'"
    using step.hyps step.prems(2) len
    by (simp add: upt_conv_Cons off seek rd nm read_into_full Let_def flip: sym_at_def del: of_nat_add of_nat_mult
        of_int_of_nat_eq)
  with emits_trans [OF emits_print e] step.hyps show ?case by (simp add: upt_conv_Cons)
qed

text \<open>The string table is allocated too large, by twice the symbols, and filled to the end of the file.\<close>

lemma old_symtab_ok:
  assumes "heap_good st" and "files st (s_path fp) = Some c" and "old_coff_file c h"
  obtains st' where "old_symtab (Some h) fp st = Inr st'"
    and "emits (if display_symbol_table st then syms_part c h else []) st st'"
proof (cases "display_symbol_table st")
  case False
  then show thesis using that [of st] by (simp add: old_symtab_def emits_refl)
next
  case True
  let ?p = "unat (f_symptr h)" and ?n = "unat (f_nsyms h)"
  have c: "length c < 2 ^ 31" "?p + SYMESZ * ?n \<le> length c" "\<forall>i < ?n. sym_fits c h (sym_at c h i)"
    using assms(3) by (auto simp: old_coff_file_def list_all_iff)
  then have "?p < 2 ^ 31" "?n < 2 ^ 31" by (simp_all add: SYMESZ_def)
  then have s: "sint (f_symptr h) = int ?p" "sint (f_nsyms h) = int ?n" by (simp_all add: sint_small)
  have "?p + SYMESZ * ?n < 2 ^ 31" using c(1,2) by simp
  note d = c_int_offset [OF this]
  let ?sz = "of_int (int (length c) - int ?p + int (SYMESZ * ?n)) :: u64"
  let ?k = "length c - ?p + SYMESZ * ?n" and ?t = "string_table c h"
  have k: "int (length c) - int ?p + int (SYMESZ * ?n) = int ?k" using c(2) by simp
  have "?k < 2 ^ 63" using c(1,2) by (simp add: SYMESZ_def)
  then have sz: "unat ?sz = ?k" unfolding k by (intro unat_int_64) simp
  have m: "c_malloc ?sz st = (Some (replicate ?k None), st)"
    using c_malloc_good [OF assms(1), of ?sz] \<open>?k < 2 ^ 63\<close> unfolding sz by blast
  let ?at = "?p + SYMESZ * ?n"
  have seek: "fseek_set (of_int (int ?at)) fp' = (0, fp'\<lparr>s_pos := ?at\<rparr>)" for fp'
    using c(1,2) fseek_nat [of ?at fp'] by (simp del: of_nat_add of_nat_mult)
  let ?fp = "fp\<lparr>s_pos := ?at + length ?t\<rparr>"
  have tk: "take ?k ?t = ?t" using c(2) by (intro take_all) (simp add: string_table_def SYMESZ_def)
  then have rd: "fread (Suc 0) ?k (fp\<lparr>s_pos := ?at\<rparr>) st = (length ?t, ?t, ?fp)"
    using assms(2) by (simp add: fread_def content_def Let_def flip: string_table_def)
  have sb: "store_bytes (replicate ?k None) 0 ?t = Inr (map Some ?t @ replicate (?k - length ?t) None)"
    using c(2) by (simp add: store_bytes_def string_table_def SYMESZ_def)
  let ?title = "ascii ''Symbol table contains '' @ fmt_dec ?n @ ascii '' entries:'' @ [newline]
     @ ascii ''  Num:    Value  Type Name'' @ [newline]"
  obtain st' where lp: "old_syms_loop [0..<?n] h (Some (map Some ?t @ replicate (?k - length ?t) None))
      (replicate SYMESZ None) ?fp (print_out ?title st) = Inr st'"
    and e: "emits (concat (map (\<lambda>i. old_sym_row i (sym_at c h i) (sym_text c h (sym_at c h i))) [0..<?n]))
      (print_out ?title st) st'"
    using old_syms_loop_ok [of "print_out ?title st" ?fp c "replicate SYMESZ None" 0 ?n h] assms(2) c
    by (auto simp: print_out_def simp del: ascii_simps)
  have end_: "s_pos (fseek_end st fp) = length c" "fseek_end st fp\<lparr>s_pos := x\<rparr> = fp\<lparr>s_pos := x\<rparr>" for x
    using assms(2) by (simp_all add: fseek_end_def content_def)
  have "fmt_int (int ?n) = fmt_dec ?n" by (simp add: fmt_int_def)
  then have "old_symtab (Some h) fp st = Inr st'"
    using True lp
    by (simp add: old_symtab_def set_local_def s d end_ m sz seek rd sb Let_def del: of_nat_add of_nat_mult ascii_simps
        of_int_of_nat_eq of_int_add of_int_diff of_nat_unat)
  with emits_trans [OF emits_print e] True show thesis by (intro that [of st']) (simp_all add: syms_part_def del: ascii_simps)
qed

section \<open>The program\<close>

lemma emits_view:
  assumes "emits t st st'"
  shows "display_optional_header st' = display_optional_header st" "display_scns st' = display_scns st"
    "display_relocs st' = display_relocs st" "display_symbol_table st' = display_symbol_table st" "files st' = files st"
    "heap_good st' = heap_good st"
  using assms by (simp_all add: emits_def heap_good_def)

lemma old_scns_ok:
  assumes "files st (s_path fp) = Some c" and "old_coff_file c h"
  obtains fp' st' where "old_scns (Some h) fp st = Inr (None, fp', st')" and "s_path fp' = s_path fp"
    and "emits (if display_scns st then scns_part c h else []) st st'"
proof (cases "display_scns st")
  case False
  then show thesis using that [of fp st] by (simp add: old_scns_def emits_refl)
next
  case True
  have c: "unat (f_opthdr h) + FILHSZ + SCNHSZ * unat (f_nscns h) \<le> length c" "length c < 2 ^ 31"
    using assms(2) by (auto simp: old_coff_file_def)
  let ?fp = "fp\<lparr>s_pos := unat (f_opthdr h) + FILHSZ\<rparr>"
  have seek: "fseek_set (ucast (f_opthdr h) + of_nat FILHSZ) fp = (0, ?fp)"
    using fseek_headers [of "f_opthdr h" 0 fp] c by simp
  let ?title = "ascii ''Section Headers:'' @ [newline] @ ascii ''[Nr] Name      Type      Address   Offset'' @ [newline]
     @ ascii ''     Size'' @ [newline]"
  obtain fp' st' where "old_scns_loop [0..<unat (f_nscns h)] ?fp (print_out ?title st) = Inr (None, fp', st')"
    and p: "s_path fp' = s_path fp"
    and e: "emits (concat (map (\<lambda>i. old_section_row i (name_at (s_name (scn_at c h i))) (scn_at c h i))
      [0..<unat (f_nscns h)])) (print_out ?title st) st'"
    using old_scns_loop_ok [of "print_out ?title st" ?fp c 0 "unat (f_nscns h)" h] assms(1) c
    by (auto simp: print_out_def simp del: ascii_simps)
  then have "old_scns (Some h) fp st = Inr (None, fp', print_out [newline] st')"
    using True by (simp add: old_scns_def set_local_def seek del: ascii_simps)
  moreover have "emits (scns_part c h) st (print_out [newline] st')"
    using emits_trans [OF emits_trans [OF emits_print e] emits_print [of "[newline]"]]
    by (simp add: scns_part_def del: ascii_simps)
  ultimately show thesis using that True p by simp
qed

lemma old_relocs_ok:
  assumes "files st (s_path fp) = Some c" and "old_coff_file c h"
  obtains fp' st' where "old_relocs (Some h) fp st = Inr (None, fp', st')" and "s_path fp' = s_path fp"
    and "emits (if display_relocs st then relocs_part c h else []) st st'"
proof (cases "display_relocs st")
  case False
  then show thesis using that [of fp st] by (simp add: old_relocs_def emits_refl)
next
  case True
  then show thesis
    using that assms old_relocs_loop_ok [of st fp c "replicate RELSZ None" 0 "unat (f_nscns h)" h]
    by (auto simp: old_relocs_def set_local_def old_coff_file_def relocs_part_def list_all_iff)
qed

lemma old_show_ok:
  assumes "heap_good st" and "files st file = Some c" and cf: "old_coff_file c h" and "display_file_header st"
  obtains st' where "old_show file st = Inr (EXIT_SUCCESS, st')" and "out st' = out st @ old_coff_text st c h"
proof -
  let ?fp = "\<lparr>s_path = file, s_pos = 0\<rparr>"
  have fp: "fopen_rb file st = Some ?fp" "files st (s_path ?fp) = Some c" "s_pos ?fp = 0"
    using assms(2) by (simp_all add: fopen_rb_def)
  obtain st1 where h: "old_header ?fp st = (None, Some h, ?fp\<lparr>s_pos := FILHSZ\<rparr>, st1)"
    and e1: "emits (old_header_text (ctime st) h (the (find_machine MACHINES (f_magic h)))) st st1"
    by (rule old_header_ok [OF fp(2) cf fp(3) assms(4)])
  let ?fp1 = "?fp\<lparr>s_pos := FILHSZ\<rparr>"
  have f1: "files st1 (s_path ?fp1) = Some c" "s_pos ?fp1 = FILHSZ" using emits_files [OF e1] assms(2) by simp_all
  obtain fp2 st2 where a: "old_aout (Some h) ?fp1 st1 = Inr (fp2, st2)" and p2: "s_path fp2 = s_path ?fp1"
    and e2: "emits (if display_optional_header st1 then aout_part c h else []) st1 st2"
    by (rule old_aout_ok [OF f1(1) cf f1(2)])
  have f2: "files st2 (s_path fp2) = Some c" using emits_files [OF e2] f1(1) p2 by simp
  obtain fp3 st3 where s: "old_scns (Some h) fp2 st2 = Inr (None, fp3, st3)" and p3: "s_path fp3 = s_path fp2"
    and e3: "emits (if display_scns st2 then scns_part c h else []) st2 st3"
    by (rule old_scns_ok [OF f2 cf])
  have f3: "files st3 (s_path fp3) = Some c" using emits_files [OF e3] f2 p3 by simp
  obtain fp4 st4 where r: "old_relocs (Some h) fp3 st3 = Inr (None, fp4, st4)" and p4: "s_path fp4 = s_path fp3"
    and e4: "emits (if display_relocs st3 then relocs_part c h else []) st3 st4"
    by (rule old_relocs_ok [OF f3 cf])
  have f4: "files st4 (s_path fp4) = Some c" using emits_files [OF e4] f3 p4 by simp
  note views = emits_view [OF e1] emits_view [OF e2] emits_view [OF e3] emits_view [OF e4]
  have "heap_good st4" using assms(1) views by simp
  then obtain st5 where y: "old_symtab (Some h) fp4 st4 = Inr st5"
    and e5: "emits (if display_symbol_table st4 then syms_part c h else []) st4 st5"
    by (rule old_symtab_ok [OF _ f4 cf])
  have "old_show file st = Inr (EXIT_SUCCESS, st5)"
    by (simp add: old_show_def fp(1) h a [simplified] s r y)
  moreover have "emits (old_coff_text st c h) st st5"
    using emits_trans [OF e1 emits_trans [OF e2 emits_trans [OF e3 emits_trans [OF e4 e5]]]] views
    by (simp add: old_coff_text_def)
  ultimately show thesis using that by (simp add: emits_def)
qed

text \<open>Without \<open>-H\<close> the file header is never read, and what the other options use of it is indeterminate.\<close>

lemma old_show_no_header:
  assumes "files st file = Some c" and "\<not> display_file_header st"
    and "display_optional_header st \<or> display_scns st \<or> display_relocs st \<or> display_symbol_table st"
  shows "old_show file st = Inl UninitRead"
  using assms by (auto simp: old_show_def fopen_rb_def old_header_def old_aout_def old_scns_def old_relocs_def
    old_symtab_def set_local_def)

section \<open>Samples\<close>

text \<open>One section with a relocation, one symbol with a long name.\<close>

definition old_sample_hdr :: FILHDR where
  "old_sample_hdr = sample_filhdr\<lparr>f_symptr := 70, f_nsyms := 1\<rparr>"

definition old_sample_scn :: SCNHDR where
  "old_sample_scn = sample_scnhdr\<lparr>s_relptr := 60, s_nreloc := 1\<rparr>"

definition old_sample_sym :: SYMENT where
  "old_sample_sym = \<lparr>n_name = [0, 0, 0, 0, 4, 0, 0, 0], n_value = 4, n_scnum = 1, n_type = 0, n_sclass = 2, n_numaux = 0\<rparr>"

definition old_sample :: "u8 list" where
  "old_sample = enc_filhdr old_sample_hdr @ enc_scnhdr old_sample_scn
     @ enc_reloc \<lparr>r_vaddr = 4, r_symndx = 0, r_type = 8\<rparr> @ enc_syment old_sample_sym
     @ le32 14 @ ascii ''long_name'' @ [0]"

definition oldcoff_host :: oldcoff_st where
  "oldcoff_host = coff_st.extend (coff_host\<lparr>files := [ascii ''a.o'' \<mapsto> old_sample]\<rparr>)
     (oldcoff_st.fields False False)"

lemma old_sample_parts:
  "length old_sample = 102" "slice 0 FILHSZ old_sample = enc_filhdr old_sample_hdr"
  "scn_at old_sample old_sample_hdr 0 = old_sample_scn" "sym_at old_sample old_sample_hdr 0 = old_sample_sym"
  "string_table old_sample old_sample_hdr = le32 14 @ ascii ''long_name'' @ [0]"
proof -
  have l: "length (enc_filhdr old_sample_hdr) = 20" "length (enc_scnhdr old_sample_scn) = 40"
    "length (enc_reloc r) = 10" "length (enc_syment old_sample_sym) = 18" for r
    using filhdr.enc_length [of old_sample_hdr] scnhdr.enc_length [of old_sample_scn] reloc.enc_length [of r]
      syment.enc_length [of old_sample_sym]
    by (simp_all add: FILHSZ_def SCNHSZ_def RELSZ_def SYMESZ_def old_sample_scn_def sample_scnhdr_def old_sample_sym_def)
  have h: "unat (f_opthdr old_sample_hdr) = 0" "unat (f_symptr old_sample_hdr) = 70" "unat (f_nsyms old_sample_hdr) = 1"
    by (simp_all add: old_sample_hdr_def sample_filhdr_def)
  show "length old_sample = 102" by (simp add: old_sample_def l)
  show "slice 0 FILHSZ old_sample = enc_filhdr old_sample_hdr"
    using l(1) by (simp add: old_sample_def slice_def FILHSZ_def)
  have "slice 20 40 old_sample = enc_scnhdr old_sample_scn"
    unfolding old_sample_def using l by (intro slice_mid) simp_all
  then show "scn_at old_sample old_sample_hdr 0 = old_sample_scn"
    using scnhdr.dec_enc [of old_sample_scn]
    by (simp add: scn_at_def h FILHSZ_def SCNHSZ_def old_sample_scn_def sample_scnhdr_def)
  have "slice 70 18 old_sample = enc_syment old_sample_sym"
    using slice_mid [of 70 "enc_filhdr old_sample_hdr @ enc_scnhdr old_sample_scn @ enc_reloc \<lparr>r_vaddr = 4, r_symndx = 0, r_type = 8\<rparr>"
        18 "enc_syment old_sample_sym"] l
    by (simp add: old_sample_def)
  then show "sym_at old_sample old_sample_hdr 0 = old_sample_sym"
    using syment.dec_enc [of old_sample_sym] by (simp add: sym_at_def h SYMESZ_def old_sample_sym_def)
  show "string_table old_sample old_sample_hdr = le32 14 @ ascii ''long_name'' @ [0]"
    by (simp add: string_table_def h SYMESZ_def old_sample_def l del: ascii_simps)
qed

lemma old_sample_machine: "find_machine MACHINES (f_magic old_sample_hdr) = Some (ascii ''Intel 80386'')"
  by (simp add: old_sample_hdr_def sample_filhdr_def MACHINES_def F_MACH_I386_def F_MACH_AM33_def F_MACH_AMD64_def
      F_MACH_ARM_def F_MACH_ARMNT_def F_MACH_EBC_def F_MACH_UNKNOWN_def)

lemma old_sample_ok: "old_coff_file old_sample old_sample_hdr"
proof -
  have s: "scn_fits old_sample old_sample_scn" "sym_fits old_sample old_sample_hdr old_sample_sym"
    by (simp_all add: scn_fits_def sym_fits_def old_sample_parts old_sample_scn_def old_sample_sym_def RELSZ_def
        n_offset_def rd32_def rd16_def le32_def le16_def)
  show ?thesis
    using s old_sample_parts filhdr.dec_enc [of old_sample_hdr]
    by (simp add: old_coff_file_def old_sample_machine FILHSZ_def SCNHSZ_def SYMESZ_def)
      (simp add: old_sample_hdr_def sample_filhdr_def)
qed

section \<open>Property\<close>

text \<open>C25: on a file whose headers name parts inside the file, the former \<open>readcoff\<close> prints with \<open>-H\<close> the file
  header and the other parts asked for, each read at the offset the headers give, and exits with success;
  without \<open>-H\<close> any other option makes it read a header it never loaded.\<close>

theorem old_readcoff_prints:
  fixes st :: "'a oldcoff_st_scheme"
  assumes "old_opts package commit args (st\<lparr>coff_prg := if stupidos then argv0 else basename argv0\<rparr>)
      = (None, file # others, st1)"
    and "heap_good st1" and "files st1 file = Some c" and "old_coff_file c h"
  shows "if display_file_header st1
    then \<exists>st'. old_main stupidos package commit argv0 args st = Inr (EXIT_SUCCESS, st')
      \<and> out st' = out st1 @ old_coff_text st1 c h
    else if display_optional_header st1 \<or> display_scns st1 \<or> display_relocs st1 \<or> display_symbol_table st1
    then old_main stupidos package commit argv0 args st = Inl UninitRead
    else old_main stupidos package commit argv0 args st = Inr (EXIT_SUCCESS, st1)"
proof -
  have m: "old_main stupidos package commit argv0 args st = old_show file st1" using assms(1) by (simp add: old_main_def)
  show ?thesis
  proof (cases "display_file_header st1")
    case True
    obtain st' where "old_show file st1 = Inr (EXIT_SUCCESS, st')" "out st' = out st1 @ old_coff_text st1 c h"
      by (rule old_show_ok [OF assms(2-4) True])
    with m True show ?thesis by simp
  next
    case False
    with m old_show_no_header [OF assms(3) False] show ?thesis
      using assms(3) by (auto simp: old_show_def fopen_rb_def old_header_def old_aout_def old_scns_def old_relocs_def old_symtab_def)
  qed
qed

theorem old_readcoff_prints_instance:
  "\<exists>st'. old_main False [] [] (ascii ''readcoff'') [ascii ''-a'', ascii ''-r'', ascii ''a.o''] oldcoff_host
      = Inr (EXIT_SUCCESS, st')
    \<and> out st' = old_header_text (\<lambda>_. [newline]) old_sample_hdr (ascii ''Intel 80386'')
        @ aout_part old_sample old_sample_hdr @ scns_part old_sample old_sample_hdr
        @ relocs_part old_sample old_sample_hdr @ syms_part old_sample old_sample_hdr"
proof -
  let ?s0 = "oldcoff_host\<lparr>coff_prg := ascii ''readcoff''\<rparr>"
  let ?st = "?s0\<lparr>display_file_header := True, display_optional_header := True, display_symbol_table := True,
    display_scns := True, display_relocs := True\<rparr>"
  have o: "old_opts [] [] [ascii ''-a'', ascii ''-r'', ascii ''a.o'']
      (oldcoff_host\<lparr>coff_prg := if False then ascii ''readcoff'' else basename (ascii ''readcoff'')\<rparr>)
    = (None, [ascii ''a.o''], ?st)"
    by (simp add: basename_def Let_def)
  have h: "heap_good ?st" "files ?st (ascii ''a.o'') = Some old_sample" "out ?st = []" "ctime ?st = (\<lambda>_. [newline])"
    by (simp_all add: oldcoff_host_def coff_host_def coff_st.defs oldcoff_st.defs heap_good_def)
  show ?thesis
    using old_readcoff_prints [OF o h(1,2) old_sample_ok] h(3-4) by (simp add: old_coff_text_def old_sample_machine)
qed

end
