(* ===== verification/Layouts.thy ===== *)
theory Layouts
  imports ElfFormat FasFormat CoffFormat
begin

text \<open>
  The structures of \<open>elf.h\<close>, \<open>fas.h\<close> and \<open>coff.h\<close> that the headers declare and no program reads or
  writes yet: program headers and relocations of ELF, line and dump records of the assembler, line numbers
  and auxiliary entries of COFF.  Each has its layout, so that a tool that starts to use them finds the
  laws of \<open>codec\<close>.
\<close>

section \<open>ELF\<close>

record Elf32_Phdr =
  p_type :: u32
  p_offset :: u32
  p_vaddr :: u32
  p_paddr :: u32
  p_filesz :: u32
  p_memsz :: u32
  p_flags :: u32
  p_align :: u32

record Elf32_Rel =
  r_offset :: u32
  r_info :: u32

record Elf32_Rela = Elf32_Rel +
  r_addend :: u32

definition enc_phdr :: "Elf32_Phdr \<Rightarrow> u8 list" where
  "enc_phdr p = le32 (p_type p) @ le32 (p_offset p) @ le32 (p_vaddr p) @ le32 (p_paddr p) @ le32 (p_filesz p)
     @ le32 (p_memsz p) @ le32 (p_flags p) @ le32 (p_align p)"

definition dec_phdr :: "u8 list \<Rightarrow> Elf32_Phdr" where
  "dec_phdr bs =
     \<lparr>p_type = rd32 bs 0, p_offset = rd32 bs 4, p_vaddr = rd32 bs 8, p_paddr = rd32 bs 12, p_filesz = rd32 bs 16,
      p_memsz = rd32 bs 20, p_flags = rd32 bs 24, p_align = rd32 bs 28\<rparr>"

definition enc_rel :: "Elf32_Rel \<Rightarrow> u8 list" where
  "enc_rel r = le32 (r_offset r) @ le32 (r_info r)"

definition dec_rel :: "u8 list \<Rightarrow> Elf32_Rel" where
  "dec_rel bs = \<lparr>r_offset = rd32 bs 0, r_info = rd32 bs 4\<rparr>"

definition enc_rela :: "Elf32_Rela \<Rightarrow> u8 list" where
  "enc_rela r = le32 (r_offset r) @ le32 (r_info r) @ le32 (r_addend r)"

definition dec_rela :: "u8 list \<Rightarrow> Elf32_Rela" where
  "dec_rela bs = \<lparr>r_offset = rd32 bs 0, r_info = rd32 bs 4, r_addend = rd32 bs 8\<rparr>"

lemma enc_dec_phdr: "length bs = sizeof_Phdr \<Longrightarrow> enc_phdr (dec_phdr bs) = bs"
  by (simp add: dec_phdr_def enc_phdr_def sizeof_Phdr_def encode_rules)

interpretation phdr: codec enc_phdr dec_phdr sizeof_Phdr
  by unfold_locales
    (simp add: sizeof_Phdr_def, simp add: sizeof_Phdr_def enc_phdr_def,
      simp add: dec_phdr_def enc_phdr_def decode_rules, erule enc_dec_phdr)

interpretation rel: codec enc_rel dec_rel 8
  by unfold_locales (simp, simp add: enc_rel_def, simp add: dec_rel_def enc_rel_def decode_rules,
      simp add: dec_rel_def enc_rel_def encode_rules)

interpretation rela: codec enc_rela dec_rela 12
  by unfold_locales (simp, simp add: enc_rela_def, simp add: dec_rela_def enc_rela_def decode_rules,
      simp add: dec_rela_def enc_rela_def encode_rules)

text \<open>\<open>ELF32_R_TYPE\<close> expands to a variable that is not its parameter and to a semicolon; nothing can use it.\<close>

definition ELF32_R_SYM :: "u32 \<Rightarrow> u32" where
  "ELF32_R_SYM x = drop_bit 8 x"

definition ELF32_R_INFO :: "u32 \<Rightarrow> u32 \<Rightarrow> u32" where
  "ELF32_R_INFO s t = push_bit 8 s + ucast (ucast t :: u8)"

lemma r_info_or: "ELF32_R_INFO s t = push_bit 8 s OR ucast (ucast t :: u8)"
  unfolding ELF32_R_INFO_def
  by (subst disjunctive_add_eq_or) (auto simp: bit_simps intro!: bit_word_eqI)

lemma r_sym_info:
  assumes "unat s < 2 ^ 24"
  shows "ELF32_R_SYM (ELF32_R_INFO s t) = s"
proof -
  have "unat (take_bit 24 s) = unat s" using assms by (simp add: unsigned_take_bit_eq take_bit_nat_eq_self)
  then have "take_bit 24 s = s" by (rule unsigned_word_eqI)
  then have small: "n < 24" if "bit s n" for n
    using that by (metis bit_take_bit_iff)
  show ?thesis
    unfolding ELF32_R_SYM_def r_info_or
    by (rule bit_word_eqI) (use small in \<open>auto simp: bit_simps\<close>)
qed

section \<open>FAS\<close>

record FAS_Psrc_Line =
  from_off :: u32
  line_number :: u32
  src_off :: u32
  macro_off :: u32

record FAS_Asmdmp =
  of_off :: u32
  dmp_psrc_line_off :: u32
  addr :: u64
  dmp_ext_SIB :: u32
  dmp_reloc :: u32
  dmp_type :: u8
  code :: u8
  virt :: u8
  high :: u8

definition enc_psrc :: "FAS_Psrc_Line \<Rightarrow> u8 list" where
  "enc_psrc l = le32 (from_off l) @ le32 (line_number l) @ le32 (src_off l) @ le32 (macro_off l)"

definition dec_psrc :: "u8 list \<Rightarrow> FAS_Psrc_Line" where
  "dec_psrc bs = \<lparr>from_off = rd32 bs 0, line_number = rd32 bs 4, src_off = rd32 bs 8, macro_off = rd32 bs 12\<rparr>"

definition enc_asmdmp :: "FAS_Asmdmp \<Rightarrow> u8 list" where
  "enc_asmdmp d = le32 (of_off d) @ le32 (dmp_psrc_line_off d) @ le64 (addr d) @ le32 (dmp_ext_SIB d)
     @ le32 (dmp_reloc d) @ [dmp_type d] @ [code d] @ [virt d] @ [high d]"

definition dec_asmdmp :: "u8 list \<Rightarrow> FAS_Asmdmp" where
  "dec_asmdmp bs =
     \<lparr>of_off = rd32 bs 0, dmp_psrc_line_off = rd32 bs 4, addr = rd64 bs 8, dmp_ext_SIB = rd32 bs 16,
      dmp_reloc = rd32 bs 20, dmp_type = rd8 bs 24, code = rd8 bs 25, virt = rd8 bs 26, high = rd8 bs 27\<rparr>"

interpretation psrc: codec enc_psrc dec_psrc 16
  by unfold_locales (simp, simp add: enc_psrc_def, simp add: dec_psrc_def enc_psrc_def decode_rules,
      simp add: dec_psrc_def enc_psrc_def encode_rules)

text \<open>The fields take 28 bytes, the size of a record in the file; the struct itself is padded to 32.\<close>

interpretation asmdmp: codec enc_asmdmp dec_asmdmp 28
  by unfold_locales (simp, simp add: enc_asmdmp_def,
      simp add: dec_asmdmp_def enc_asmdmp_def decode_rules del: append_Cons append_Nil,
      simp add: dec_asmdmp_def enc_asmdmp_def encode_rules del: append_Cons append_Nil)

text \<open>The code of an address register in the extended SIB of a symbol, and the width of the code.\<close>

datatype fas_code = FAS_CODE_16 | FAS_CODE_32 | FAS_CODE_64

primrec code_width :: "fas_code \<Rightarrow> u8" where
  "code_width FAS_CODE_16 = 16"
| "code_width FAS_CODE_32 = 32"
| "code_width FAS_CODE_64 = 64"

datatype fas_register =
    FAS_REG_BX | FAS_REG_BP | FAS_REG_SI | FAS_REG_DI | FAS_REG_EAX | FAS_REG_ECX
  | FAS_REG_EDX | FAS_REG_EBX | FAS_REG_ESP | FAS_REG_EBP | FAS_REG_ESI | FAS_REG_EDI
  | FAS_REG_R8D | FAS_REG_R9D | FAS_REG_R10D | FAS_REG_R11D | FAS_REG_R12D | FAS_REG_R13D
  | FAS_REG_R14D | FAS_REG_R15D | FAS_REG_RAX | FAS_REG_RCX | FAS_REG_RDX | FAS_REG_RBX
  | FAS_REG_RSP | FAS_REG_RBP | FAS_REG_RSI | FAS_REG_RDI | FAS_REG_R8 | FAS_REG_R9
  | FAS_REG_R10 | FAS_REG_R11 | FAS_REG_R12 | FAS_REG_R13 | FAS_REG_R14 | FAS_REG_R15
  | FAS_REG_EIP | FAS_REG_RIP

primrec register_code :: "fas_register \<Rightarrow> u8" where
  "register_code FAS_REG_BX = 0x23"
| "register_code FAS_REG_BP = 0x25"
| "register_code FAS_REG_SI = 0x26"
| "register_code FAS_REG_DI = 0x27"
| "register_code FAS_REG_EAX = 0x40"
| "register_code FAS_REG_ECX = 0x41"
| "register_code FAS_REG_EDX = 0x42"
| "register_code FAS_REG_EBX = 0x43"
| "register_code FAS_REG_ESP = 0x44"
| "register_code FAS_REG_EBP = 0x45"
| "register_code FAS_REG_ESI = 0x46"
| "register_code FAS_REG_EDI = 0x47"
| "register_code FAS_REG_R8D = 0x48"
| "register_code FAS_REG_R9D = 0x49"
| "register_code FAS_REG_R10D = 0x4A"
| "register_code FAS_REG_R11D = 0x4B"
| "register_code FAS_REG_R12D = 0x4C"
| "register_code FAS_REG_R13D = 0x4D"
| "register_code FAS_REG_R14D = 0x4E"
| "register_code FAS_REG_R15D = 0x4F"
| "register_code FAS_REG_RAX = 0x80"
| "register_code FAS_REG_RCX = 0x81"
| "register_code FAS_REG_RDX = 0x82"
| "register_code FAS_REG_RBX = 0x83"
| "register_code FAS_REG_RSP = 0x84"
| "register_code FAS_REG_RBP = 0x85"
| "register_code FAS_REG_RSI = 0x86"
| "register_code FAS_REG_RDI = 0x87"
| "register_code FAS_REG_R8 = 0x88"
| "register_code FAS_REG_R9 = 0x89"
| "register_code FAS_REG_R10 = 0x8A"
| "register_code FAS_REG_R11 = 0x8B"
| "register_code FAS_REG_R12 = 0x8C"
| "register_code FAS_REG_R13 = 0x8D"
| "register_code FAS_REG_R14 = 0x8E"
| "register_code FAS_REG_R15 = 0x8F"
| "register_code FAS_REG_EIP = 0x94"
| "register_code FAS_REG_RIP = 0x98"

lemma register_code_inj: "register_code r = register_code s \<Longrightarrow> r = s"
  by (cases r; cases s) simp_all

text \<open>Registers are ordered by their codes.\<close>

instantiation fas_register :: linorder
begin

definition less_eq_fas_register :: "fas_register \<Rightarrow> fas_register \<Rightarrow> bool" where
  "r \<le> s \<longleftrightarrow> register_code r \<le> register_code s"

definition less_fas_register :: "fas_register \<Rightarrow> fas_register \<Rightarrow> bool" where
  "r < s \<longleftrightarrow> register_code r < register_code s"

instance
  by standard (auto simp: less_eq_fas_register_def less_fas_register_def dest: register_code_inj)

end

section \<open>COFF\<close>

record LINENO =
  l_addr :: u32   \<comment> \<open>\<open>l_symndx\<close> or \<open>l_paddr\<close>\<close>
  l_lnno :: u16

definition LINESZ :: nat where "LINESZ = 6"

definition enc_lineno :: "LINENO \<Rightarrow> u8 list" where
  "enc_lineno l = le32 (l_addr l) @ le16 (l_lnno l)"

definition dec_lineno :: "u8 list \<Rightarrow> LINENO" where
  "dec_lineno bs = \<lparr>l_addr = rd32 bs 0, l_lnno = rd16 bs 4\<rparr>"

interpretation lineno: codec enc_lineno dec_lineno LINESZ
  by unfold_locales (simp add: LINESZ_def, simp add: enc_lineno_def LINESZ_def,
      simp add: dec_lineno_def enc_lineno_def decode_rules, simp add: dec_lineno_def enc_lineno_def LINESZ_def encode_rules)

text \<open>
  The first member of the union \<open>AUXENT\<close>, with the innermost unions as the words they overlay.  Its
  fields take \<open>AUXESZ\<close> bytes; the union, which is not packed, takes 20.
\<close>

record AUXENT_sym =
  x_tagndx :: u32
  x_misc :: u32     \<comment> \<open>\<open>x_lnsz\<close> or \<open>x_fsize\<close>\<close>
  x_fcnary :: u64   \<comment> \<open>\<open>x_fcn\<close> or \<open>x_ary\<close>\<close>
  x_tvndx :: u16

definition enc_auxsym :: "AUXENT_sym \<Rightarrow> u8 list" where
  "enc_auxsym x = le32 (x_tagndx x) @ le32 (x_misc x) @ le64 (x_fcnary x) @ le16 (x_tvndx x)"

definition dec_auxsym :: "u8 list \<Rightarrow> AUXENT_sym" where
  "dec_auxsym bs = \<lparr>x_tagndx = rd32 bs 0, x_misc = rd32 bs 4, x_fcnary = rd64 bs 8, x_tvndx = rd16 bs 16\<rparr>"

interpretation auxsym: codec enc_auxsym dec_auxsym AUXESZ
  by unfold_locales (simp add: AUXESZ_def, simp add: enc_auxsym_def AUXESZ_def,
      simp add: dec_auxsym_def enc_auxsym_def decode_rules, simp add: dec_auxsym_def enc_auxsym_def AUXESZ_def encode_rules)

text \<open>What the two readings of \<open>x_misc\<close> and of \<open>x_fcnary\<close> have in common.\<close>

definition x_lnno :: "AUXENT_sym \<Rightarrow> u16" where "x_lnno x = ucast (x_misc x)"
definition x_size :: "AUXENT_sym \<Rightarrow> u16" where "x_size x = ucast (drop_bit 16 (x_misc x))"
definition x_lnnoptr :: "AUXENT_sym \<Rightarrow> u32" where "x_lnnoptr x = ucast (x_fcnary x)"
definition x_endndx :: "AUXENT_sym \<Rightarrow> u32" where "x_endndx x = ucast (drop_bit 32 (x_fcnary x))"

lemma aux_members:
  "enc_auxsym x = le32 (x_tagndx x) @ le16 (x_lnno x) @ le16 (x_size x) @ le32 (x_lnnoptr x) @ le32 (x_endndx x)
     @ le16 (x_tvndx x)"
  by (simp add: enc_auxsym_def x_lnno_def x_size_def x_lnnoptr_def x_endndx_def le32_def [of "x_misc x"]
      le64_def [of "x_fcnary x"])

end
