(* ===== verification/Stupidc.thy ===== *)
theory Stupidc
  imports CLib
begin

text \<open>
  The library \<open>stupidc\<close>: the array macros of \<open>src/include/stupidc.h\<close>, and the program name and
  version of \<open>src/lib/stupidc\<close>.  An array is a record of its capacity, its count and the block of
  elements, whose slots are unset until they are written; \<open>esz\<close> is the size of an element.
\<close>

section \<open>Arrays\<close>

record 'e arr =
  arr_cap :: u64
  arr_cnt :: u64
  elems :: "'e option list option"

definition ARR_BASE_CAP :: u64 where "ARR_BASE_CAP = 8"

definition ARR_INIT :: "'e arr" where
  "ARR_INIT = \<lparr>arr_cap = 0, arr_cnt = 0, elems = None\<rparr>"

text \<open>\<open>realloc\<close> to \<open>n * esz\<close> bytes: the product wraps around, and what fits in whole slots is kept.\<close>

definition realloc_slots ::
  "'e option list option \<Rightarrow> u64 \<Rightarrow> u64 \<Rightarrow> 'a os_scheme \<Rightarrow> 'e option list option \<times> 'a os_scheme" where
  "realloc_slots p n esz st =
     (case c_malloc (n * esz) st of
        (None, st) \<Rightarrow> (None, st)
      | (Some b, st) \<Rightarrow>
          let slots = length b div unat esz; old = (case p of None \<Rightarrow> [] | Some es \<Rightarrow> es)
          in (Some (take slots old @ replicate (slots - length old) None), st))"

definition ARR_GROW :: "u64 \<Rightarrow> 'e arr \<Rightarrow> 'a os_scheme \<Rightarrow> 'e arr \<times> 'a os_scheme" where
  "ARR_GROW esz a st =
     (if arr_cap a < arr_cnt a + 1
      then let a = a\<lparr>arr_cap := (if arr_cap a > ARR_BASE_CAP then arr_cap a * 2 else ARR_BASE_CAP)\<rparr>;
               (p, st) = realloc_slots (elems a) (arr_cap a) esz st
           in (a\<lparr>elems := p\<rparr>, st)
      else (a, st))"

definition slot :: "'e arr \<Rightarrow> nat \<Rightarrow> 'e res" where
  "slot a i =
     (case elems a of
        None \<Rightarrow> Inl NullDeref
      | Some es \<Rightarrow>
          if i < length es then (case es ! i of None \<Rightarrow> Inl UninitRead | Some x \<Rightarrow> Inr x) else Inl OutOfBounds)"

definition ARR_APPEND :: "u64 \<Rightarrow> 'e arr \<Rightarrow> 'e \<Rightarrow> 'a os_scheme \<Rightarrow> ('e arr \<times> 'a os_scheme) res" where
  "ARR_APPEND esz a x st =
     (let (a, st) = ARR_GROW esz a st
      in case elems a of
           None \<Rightarrow> Inl NullDeref
         | Some es \<Rightarrow>
             if unat (arr_cnt a) < length es
             then Inr (a\<lparr>elems := Some (es[unat (arr_cnt a) := Some x]), arr_cnt := arr_cnt a + 1\<rparr>, st)
             else Inl OutOfBounds)"

definition ARR_RESET :: "'e arr \<Rightarrow> 'e arr" where
  "ARR_RESET a = a\<lparr>arr_cnt := 0\<rparr>"

definition ARR_FREE :: "'e arr \<Rightarrow> 'e arr" where
  "ARR_FREE a = a\<lparr>arr_cap := 0, arr_cnt := 0, elems := None\<rparr>"

definition ARR_COUNT :: "'e arr \<Rightarrow> u64" where "ARR_COUNT a = arr_cnt a"
definition ARR_EMPTY :: "'e arr \<Rightarrow> bool" where "ARR_EMPTY a \<longleftrightarrow> arr_cnt a = 0"
definition ARR_FIRST :: "'e arr \<Rightarrow> 'e res" where "ARR_FIRST a = slot a 0"
definition ARR_LAST :: "'e arr \<Rightarrow> 'e res" where "ARR_LAST a = slot a (unat (arr_cnt a))"

text \<open>The elements that \<open>ARR_FOREACH\<close> visits.\<close>

fun visit :: "nat list \<Rightarrow> 'e arr \<Rightarrow> 'e list res" where
  "visit [] a = Inr []"
| "visit (i # is) a = rbind (slot a i) (\<lambda>x. rbind (visit is a) (\<lambda>xs. Inr (x # xs)))"

definition ARR_FOREACH :: "'e arr \<Rightarrow> 'e list res" where
  "ARR_FOREACH a = visit [0..<unat (arr_cnt a)] a"

text \<open>Appending the elements of a list one after the other.\<close>

fun append_all :: "u64 \<Rightarrow> 'e list \<Rightarrow> 'e arr \<Rightarrow> 'a os_scheme \<Rightarrow> ('e arr \<times> 'a os_scheme) res" where
  "append_all esz [] a st = Inr (a, st)"
| "append_all esz (x # xs) a st = rbind (ARR_APPEND esz a x st) (\<lambda>(a, st). append_all esz xs a st)"

section \<open>Program name and version\<close>

record sc_st = os +
  progname :: "u8 list option"

text \<open>The position of the last occurrence of a character.\<close>

fun strrchr :: "u8 list \<Rightarrow> u8 \<Rightarrow> nat option" where
  "strrchr [] c = None"
| "strrchr (x # xs) c =
     (case strrchr xs c of Some i \<Rightarrow> Some (i + 1) | None \<Rightarrow> if x = c then Some 0 else None)"

definition PATH_SEP :: u8 where "PATH_SEP = 47"

definition set_progname :: "u8 list \<Rightarrow> 'a sc_st_scheme \<Rightarrow> 'a sc_st_scheme" where
  "set_progname name st =
     (case strrchr name PATH_SEP of
        None \<Rightarrow> st\<lparr>progname := Some name\<rparr>
      | Some i \<Rightarrow> st\<lparr>progname := Some (drop (i + 1) name)\<rparr>)"

definition get_progname :: "'a sc_st_scheme \<Rightarrow> u8 list option" where
  "get_progname st = progname st"

definition sc_print_version :: "u8 list \<Rightarrow> u8 list \<Rightarrow> 'a sc_st_scheme \<Rightarrow> 'a sc_st_scheme res" where
  "sc_print_version package commit st =
     (case get_progname st of
        None \<Rightarrow> Inl NullDeref
      | Some name \<Rightarrow>
          Inr (print_out (name @ ascii '' ('' @ package @ ascii '') '' @ commit @ [newline]
            @ ascii ''Copyright (C) 2025, d0p1'' @ [newline]
            @ ascii ''License BSD-3-Clause: <https://directory.fsf.org/wiki/License:BSD-3-Clause>'' @ [newline]
            @ ascii ''This is free software: you are free to change and redistribute it.'' @ [newline]
            @ ascii ''There is NO WARRANTY, to the extent permitterd by law.'' @ [newline]) st))"

lemma strrchr_None: "strrchr s c = None \<longleftrightarrow> c \<notin> set s"
  by (induction s) (auto split: option.splits)

lemma strrchr_last: "c \<notin> set t \<Longrightarrow> strrchr (s @ c # t) c = Some (length s)"
  by (induction s) (auto simp: strrchr_None [THEN iffD2])

text \<open>The program name is what follows the last separator.\<close>

lemma get_progname_base:
  assumes "PATH_SEP \<notin> set base"
  shows "get_progname (set_progname base st) = Some base"
    and "get_progname (set_progname (dir @ PATH_SEP # base) st) = Some base"
  using assms strrchr_None [of base PATH_SEP] strrchr_last [OF assms, of dir]
  by (simp_all add: set_progname_def get_progname_def)

section \<open>Eight elements\<close>

text \<open>An array of base capacity that holds a list.\<close>

definition holds :: "'e arr \<Rightarrow> 'e list \<Rightarrow> bool" where
  "holds a xs \<longleftrightarrow> arr_cnt a = of_nat (length xs) \<and> length xs \<le> 8
     \<and> (if xs = [] then a = ARR_INIT
        else arr_cap a = 8 \<and> elems a = Some (map Some xs @ replicate (8 - length xs) None))"

lemma holds_count: "holds a xs \<Longrightarrow> unat (arr_cnt a) = length xs"
  by (simp add: holds_def unat_of_nat)

lemma slots_of_base:
  assumes "0 < unat esz" and "8 * unat esz < 2 ^ 63" and "heap_good st"
  shows "realloc_slots p 8 esz st
    = (Some (take 8 (case p of None \<Rightarrow> [] | Some es \<Rightarrow> es) @ replicate (8 - length (case p of None \<Rightarrow> [] | Some es \<Rightarrow> es)) None), st)"
proof -
  have "unat (8 * esz) = 8 * unat esz"
    using assms(2) by (simp add: unat_mult_lem [THEN iffD1])
  then show ?thesis using assms by (simp add: realloc_slots_def c_malloc_good Let_def)
qed

lemma append_ok:
  assumes h: "holds a xs" and l: "length xs < 8" and e: "0 < unat esz" "8 * unat esz < 2 ^ 63" and g: "heap_good st"
  shows "\<exists>a'. ARR_APPEND esz a x st = Inr (a', st) \<and> holds a' (xs @ [x])"
proof -
  let ?n = "length xs"
  let ?a = "\<lparr>arr_cap = 8, arr_cnt = of_nat ?n, elems = Some (map Some xs @ replicate (8 - ?n) None)\<rparr>"
  have cnt: "unat (of_nat ?n :: u64) = ?n" using l by (simp add: unat_of_nat)
  have "ARR_GROW esz a st = (?a, st)"
  proof (cases "xs = []")
    case True
    then show ?thesis
      using h slots_of_base [OF e g, of "None :: 'a option list option"]
      by (simp add: holds_def ARR_GROW_def ARR_INIT_def ARR_BASE_CAP_def Let_def)
  next
    case False
    then have a: "a = ?a" using h by (cases a) (simp add: holds_def)
    have "\<not> (8 :: u64) < of_nat ?n + 1"
      using l cnt by (simp add: word_less_nat_alt unat_word_ariths)
    then show ?thesis by (subst a, subst (2) a [symmetric]) (simp add: ARR_GROW_def a)
  qed
  moreover obtain k where k: "8 - ?n = Suc k" using l by (cases "8 - ?n") auto
  ultimately have "ARR_APPEND esz a x st = Inr (?a\<lparr>elems := Some (map Some xs @ Some x # replicate k None),
      arr_cnt := of_nat ?n + 1\<rparr>, st)"
    using l cnt by (simp add: ARR_APPEND_def list_update_append)
  moreover have "k = 7 - ?n" using k by simp
  ultimately show ?thesis using l by (simp add: holds_def)
qed

lemma append_full:
  assumes h: "holds a xs" and l: "length xs = 8" and e: "0 < unat esz" "8 * unat esz < 2 ^ 63" and g: "heap_good st"
  shows "ARR_APPEND esz a x st = Inl OutOfBounds"
proof -
  have a: "arr_cap a = 8" "arr_cnt a = 8" "elems a = Some (map Some xs)"
    using h l by (cases "xs = []"; simp add: holds_def)+
  then show ?thesis
    using slots_of_base [OF e g, of "Some (map Some xs)"] l
    by (simp add: ARR_APPEND_def ARR_GROW_def ARR_BASE_CAP_def)
qed

lemma append_all_holds:
  assumes e: "0 < unat esz" "8 * unat esz < 2 ^ 63" and g: "heap_good st" and h: "holds a ys"
  shows "if length ys + length xs \<le> 8 then \<exists>a'. append_all esz xs a st = Inr (a', st) \<and> holds a' (ys @ xs)
    else append_all esz xs a st = Inl OutOfBounds"
  using h
proof (induction xs arbitrary: a ys)
  case Nil
  then show ?case by (auto simp: holds_def)
next
  case (Cons x xs)
  show ?case
  proof (cases "length ys < 8")
    case True
    obtain a' where "ARR_APPEND esz a x st = Inr (a', st)" "holds a' (ys @ [x])"
      using append_ok [OF Cons.prems True e g] by blast
    then show ?thesis using Cons.IH [of a' "ys @ [x]"] by (auto split: if_splits)
  next
    case False
    then have "length ys = 8" using Cons.prems by (auto simp: holds_def)
    then show ?thesis using append_full [OF Cons.prems _ e g] by simp
  qed
qed

lemma visit_prefix:
  assumes "elems a = Some (map Some xs @ zs)" and "\<forall>i \<in> set is. i < length xs"
  shows "visit is a = Inr (map ((!) xs) is)"
  using assms(2)
proof (induction "is")
  case (Cons i "is")
  then have "slot a i = Inr (xs ! i)" using assms(1) by (simp add: slot_def nth_append)
  then show ?case using Cons by simp
qed simp

lemma holds_foreach:
  assumes "holds a xs"
  shows "ARR_FOREACH a = Inr xs"
proof (cases "xs = []")
  case True
  then show ?thesis using assms by (simp add: holds_def ARR_FOREACH_def ARR_INIT_def)
next
  case False
  then have "elems a = Some (map Some xs @ replicate (8 - length xs) None)" using assms by (simp add: holds_def)
  then show ?thesis
    using visit_prefix [of a xs _ "[0..<length xs]"] map_nth [of xs]
    by (simp add: ARR_FOREACH_def holds_count [OF assms])
qed

lemma holds_last:
  assumes "holds a xs"
  shows "ARR_LAST a \<noteq> Inr x"
  using assms holds_count [OF assms]
  by (cases "xs = []") (auto simp: ARR_LAST_def slot_def holds_def ARR_INIT_def nth_append)

section \<open>Properties\<close>

text \<open>C31: an array holds what was appended, in order, as long as these are at most eight elements; the ninth
  append writes behind the block, as the array does not grow beyond its base capacity.  \<open>ARR_LAST\<close>
  never yields an element.\<close>

theorem array_holds_eight:
  fixes st :: "'a os_scheme" and xs :: "'e list"
  assumes "0 < unat esz" and "8 * unat esz < 2 ^ 63" and "heap_good st"
  shows "if length xs \<le> 8
    then \<exists>a. append_all esz xs ARR_INIT st = Inr (a, st) \<and> ARR_FOREACH a = Inr xs \<and> ARR_COUNT a = of_nat (length xs)
      \<and> (\<nexists>x. ARR_LAST a = Inr x)
    else append_all esz xs ARR_INIT st = Inl OutOfBounds"
proof -
  have "holds (ARR_INIT :: 'e arr) []" by (simp add: holds_def ARR_INIT_def)
  note all = append_all_holds [OF assms this, of xs, unfolded list.size(3) add_0 append_Nil]
  show ?thesis
  proof (cases "length xs \<le> 8")
    case True
    then obtain a where "append_all esz xs ARR_INIT st = Inr (a, st)" and a: "holds a xs"
      using all by auto
    moreover have "ARR_COUNT a = of_nat (length xs)" using a by (simp add: holds_def ARR_COUNT_def)
    ultimately show ?thesis using True holds_foreach [OF a] holds_last [OF a] by auto
  qed (use all in simp)
qed

theorem array_holds_eight_instance:
  "append_all 4 [1 .. 9] ARR_INIT \<lparr>heap_ok = \<lambda>_. True, files = Map.empty, writable = \<lambda>_. False, room = 0, out = [],
    err = [], errtext = []\<rparr> = Inl OutOfBounds"
  using array_holds_eight [of 4 "\<lparr>heap_ok = \<lambda>_. True, files = Map.empty, writable = \<lambda>_. False, room = 0, out = [],
    err = [], errtext = []\<rparr>" "[1 .. 9 :: int]"] by (simp add: heap_good_def)

end
