(* ===== verification/Mtree.thy ===== *)
theory Mtree
  imports Getopt
begin

text \<open>
  \<open>mtree\<close> (\<open>src/sbin/mtree\<close>): the node tree of \<open>mtree.h\<close> and the program \<open>main.c\<close>, which only
  reads its options so far.  Nodes live in a store, a map from addresses to nodes.  The host
  decides what \<open>getcwd\<close> yields (\<open>cwd\<close>, nothing when the path does not fit).
\<close>

section \<open>Nodes\<close>

text \<open>What the field \<open>prev\<close>, a pointer to a pointer, can point to: the \<open>next\<close> or the \<open>child\<close> field
  of a node, or a node itself when a node pointer is stored in it.\<close>

datatype link = LinkNull | LinkNext nat | LinkChild nat | LinkNode nat

record node =
  parent :: "nat option"
  child :: "nat option"
  nxt :: "nat option"
  prev :: link
  node_flags :: u32
  node_mode :: u32
  node_uid :: u32
  node_gid :: u32
  node_name :: "u8 list option"

type_synonym store = "nat \<Rightarrow> node option"

definition FL_TYPE :: u32 where "FL_TYPE = 1"
definition FL_MODE :: u32 where "FL_MODE = 2"
definition FL_UID :: u32 where "FL_UID = 4"
definition FL_GID :: u32 where "FL_GID = 8"

definition node_at :: "store \<Rightarrow> nat \<Rightarrow> node res" where
  "node_at s n = (case s n of None \<Rightarrow> Inl OutOfBounds | Some nd \<Rightarrow> Inr nd)"

definition upd_node :: "nat \<Rightarrow> (node \<Rightarrow> node) \<Rightarrow> store \<Rightarrow> store res" where
  "upd_node n f s = rbind (node_at s n) (\<lambda>nd. Inr (s(n \<mapsto> f nd)))"

definition NODE_PARENT :: "store \<Rightarrow> nat \<Rightarrow> nat option res" where
  "NODE_PARENT s n = rbind (node_at s n) (\<lambda>nd. Inr (parent nd))"

definition NODE_CHILD_FIRST :: "store \<Rightarrow> nat \<Rightarrow> nat option res" where
  "NODE_CHILD_FIRST s n = rbind (node_at s n) (\<lambda>nd. Inr (child nd))"

text \<open>The assignments of the macro, in order; the last one stores the new first child, a node, in \<open>prev\<close>.\<close>

definition NODE_CHILD_ADD :: "nat \<Rightarrow> nat \<Rightarrow> store \<Rightarrow> store res" where
  "NODE_CHILD_ADD p c s =
     rbind (upd_node c (\<lambda>nd. nd\<lparr>parent := Some p\<rparr>) s) (\<lambda>s.
     rbind (NODE_CHILD_FIRST s p) (\<lambda>first.
     rbind (upd_node c (\<lambda>nd. nd\<lparr>nxt := first\<rparr>) s) (\<lambda>s.
     rbind (case first of None \<Rightarrow> Inr s | Some f \<Rightarrow> upd_node f (\<lambda>nd. nd\<lparr>prev := LinkNext c\<rparr>) s) (\<lambda>s.
     rbind (upd_node p (\<lambda>nd. nd\<lparr>child := Some c\<rparr>) s) (\<lambda>s.
     rbind (NODE_CHILD_FIRST s p) (\<lambda>first.
     upd_node c (\<lambda>nd. nd\<lparr>prev := (case first of None \<Rightarrow> LinkNull | Some f \<Rightarrow> LinkNode f)\<rparr>) s))))))"

text \<open>The nodes that are reached from a pointer through \<open>next\<close>.\<close>

fun chain :: "store \<Rightarrow> nat list \<Rightarrow> nat option \<Rightarrow> bool" where
  "chain s [] q \<longleftrightarrow> q = None"
| "chain s (n # ns) q \<longleftrightarrow> q = Some n \<and> (case s n of None \<Rightarrow> False | Some nd \<Rightarrow> chain s ns (nxt nd))"

definition children :: "store \<Rightarrow> nat \<Rightarrow> nat list \<Rightarrow> bool" where
  "children s p ns \<longleftrightarrow> (case s p of None \<Rightarrow> False | Some nd \<Rightarrow> chain s ns (child nd))"

lemma chain_cong:
  assumes "\<And>n. n \<in> set ns \<Longrightarrow> map_option nxt (s' n) = map_option nxt (s n)"
  shows "chain s' ns q = chain s ns q"
  using assms
proof (induction ns arbitrary: q)
  case (Cons n ns)
  have "map_option nxt (s' n) = map_option nxt (s n)" using Cons.prems by simp
  then show ?case using Cons by (cases "s n"; cases "s' n") auto
qed simp

section \<open>The program\<close>

record mtree_st = os +
  cwd :: "u8 list option"
  mtree_prg :: "u8 list"
  specfile :: "u8 list option"
  basepath :: "u8 list option"

definition mtree_usage :: "int \<Rightarrow> 'a mtree_st_scheme \<Rightarrow> int \<times> 'a mtree_st_scheme" where
  "mtree_usage retval st =
     (retval,
      if retval = EXIT_FAILURE
      then print_err (ascii ''Try '' @ [39] @ mtree_prg st @ ascii '' -h'' @ [39]
             @ ascii '' for more informations.'' @ [newline]) st
      else print_out (ascii ''Usage: '' @ mtree_prg st @ ascii '' [-ce] [-p path] [-f spec]'' @ [newline]
             @ ascii '' -c     '' @ [9] @ ascii ''XXX.'' @ [newline]
             @ ascii '' -e     '' @ [9] @ ascii ''XXXX'' @ [newline]
             @ ascii '' -f spec'' @ [9] @ ascii ''XXXX'' @ [newline]
             @ ascii '' -p path'' @ [9] @ ascii ''XXXX'' @ [newline]) st)"

fun mtree_opts :: "u8 list \<Rightarrow> opt list \<Rightarrow> 'a mtree_st_scheme \<Rightarrow> int option \<times> 'a mtree_st_scheme" where
  "mtree_opts argv0 [] st = (None, st)"
| "mtree_opts argv0 (e # es) st =
     (let stop = (\<lambda>(r, st). (Some r, st))
      in case e of
        Opt c optarg \<Rightarrow>
          (if c = of_char (CHR ''h'') then stop (mtree_usage EXIT_SUCCESS st)
           else if c = of_char (CHR ''f'') then mtree_opts argv0 es (st\<lparr>specfile := Some optarg\<rparr>)
           else if c = of_char (CHR ''p'') then mtree_opts argv0 es (st\<lparr>basepath := Some optarg\<rparr>)
           else stop (mtree_usage EXIT_FAILURE st))
      | _ \<Rightarrow> stop (mtree_usage EXIT_FAILURE (print_err (getopt_message argv0 e) st)))"

definition mtree_main :: "u8 list \<Rightarrow> u8 list list \<Rightarrow> 'a mtree_st_scheme \<Rightarrow> int \<times> 'a mtree_st_scheme" where
  "mtree_main argv0 args st =
     (let st = st\<lparr>mtree_prg := basename argv0\<rparr>;
          (es, operands) = getopts (ascii ''hf:'') [] args
      in case mtree_opts argv0 es st of
           (Some status, st) \<Rightarrow> (status, st)
         | (None, st) \<Rightarrow>
             let st = (if basepath st = None then st\<lparr>basepath := cwd st\<rparr> else st)
             in (case basepath st of
                   None \<Rightarrow> (EXIT_FAILURE, st)
                 | Some b \<Rightarrow> (EXIT_SUCCESS, print_out (ascii ''basepath: '' @ b @ [newline]) st)))"

text \<open>The option \<open>-p\<close> of the usage text is not in the option string: it ends the program with a failure.\<close>

lemma mtree_p_rejected: "fst (mtree_main argv0 [ascii ''-p'', path] st) = EXIT_FAILURE"
proof -
  obtain es rest where "getopts (ascii ''hf:'') [] [ascii ''-p'', path] = (BadOpt 112 # es, rest)"
    by (cases "getopts (ascii ''hf:'') [] [path]") simp
  then show ?thesis by (simp add: mtree_main_def mtree_usage_def Let_def)
qed

section \<open>Properties\<close>

text \<open>C30: \<open>NODE_CHILD_ADD\<close> of a fresh node puts it in front of the children of its parent, whose order and
  parents stay; but the back link of the new child is the child itself, and not the link that points
  to it.\<close>

theorem child_add_prepends:
  assumes "s c = Some nd" and "children s p ns" and "c \<noteq> p" and "c \<notin> set ns" and "p \<notin> set ns"
  shows "\<exists>s'. NODE_CHILD_ADD p c s = Inr s' \<and> children s' p (c # ns) \<and> NODE_PARENT s' c = Inr (Some p)
    \<and> (\<forall>n \<in> set ns. map_option parent (s' n) = map_option parent (s n))
    \<and> map_option prev (s' c) = Some (LinkNode c)"
proof -
  obtain pd where p: "s p = Some pd" and ch: "chain s ns (child pd)"
    using assms(2) by (auto simp: children_def split: option.splits)
  let ?c = "nd\<lparr>parent := Some p, nxt := child pd, prev := LinkNode c\<rparr>" and ?p = "pd\<lparr>child := Some c\<rparr>"
  show ?thesis
  proof (cases ns)
    case Nil
    then have "child pd = None" using ch by simp
    then have "NODE_CHILD_ADD p c s = Inr (s(c \<mapsto> ?c, p \<mapsto> ?p))"
      using assms p by (simp add: NODE_CHILD_ADD_def upd_node_def node_at_def NODE_CHILD_FIRST_def fun_upd_twist)
    then show ?thesis
      using assms(3) Nil \<open>child pd = None\<close> by (simp add: children_def NODE_PARENT_def node_at_def)
  next
    case (Cons f fs)
    then obtain fd where f: "child pd = Some f" "s f = Some fd" using ch by (auto split: option.splits)
    have d: "f \<noteq> c" "f \<noteq> p" using Cons assms(4,5) by auto
    let ?s = "s(c \<mapsto> ?c, f \<mapsto> fd\<lparr>prev := LinkNext c\<rparr>, p \<mapsto> ?p)"
    have "NODE_CHILD_ADD p c s = Inr ?s"
      using assms(1,3) p f d
      by (simp add: NODE_CHILD_ADD_def upd_node_def node_at_def NODE_CHILD_FIRST_def fun_upd_twist)
    moreover have "map_option nxt (?s n) = map_option nxt (s n)" "map_option parent (?s n) = map_option parent (s n)"
      if "n \<in> set ns" for n
      using that assms(4,5) f(2) d by auto
    ultimately show ?thesis
      using assms(3) d ch f chain_cong [of ns ?s s "child pd"] by (simp add: children_def NODE_PARENT_def node_at_def)
  qed
qed

definition leaf :: node where
  "leaf = \<lparr>parent = None, child = None, nxt = None, prev = LinkNull, node_flags = 0, node_mode = 0, node_uid = 0,
     node_gid = 0, node_name = None\<rparr>"

theorem child_add_prepends_instance:
  "\<exists>s'. NODE_CHILD_ADD 0 2 [0 \<mapsto> leaf\<lparr>child := Some 1\<rparr>, 1 \<mapsto> leaf, 2 \<mapsto> leaf] = Inr s' \<and> children s' 0 [2, 1]
    \<and> map_option prev (s' 2) = Some (LinkNode 2)"
  using child_add_prepends [of "[0 \<mapsto> leaf\<lparr>child := Some 1\<rparr>, 1 \<mapsto> leaf, 2 \<mapsto> leaf]" 2 leaf 0 "[1]"]
  by (auto simp: children_def leaf_def)

end
