(* ===== verification/Tools.thy ===== *)
theory Tools
  imports CoffFormat Getopt
begin

text \<open>
  The programs that only read their options so far: \<open>ld\<close> (\<open>src/bin/ld\<close>), \<open>elf2coff\<close>
  (\<open>src/bin/elf2coff/main.c\<close>) and \<open>boot-install\<close> (\<open>src/sbin/boot-install/main.c\<close>), with the COFF
  output routine of \<open>ld\<close>, which is not called yet.  The package, the commit and the address for bug
  reports come from the build.
\<close>

record tool_st = os +
  tool_prg :: "u8 list"
  tool_outfile :: "u8 list"

section \<open>ld\<close>

definition ld_usage :: "u8 list \<Rightarrow> int \<Rightarrow> 'a tool_st_scheme \<Rightarrow> int \<times> 'a tool_st_scheme" where
  "ld_usage bugreport retcode st =
     (retcode,
      if retcode = EXIT_FAILURE
      then print_err (ascii ''Try '' @ [39] @ tool_prg st @ ascii '' -h'' @ [39]
             @ ascii '' form more information.'' @ [newline]) st
      else print_out (ascii ''Usage: '' @ tool_prg st @ ascii '' [-hV] [-o outfile] [OBJS...]'' @ [newline]
             @ [9] @ ascii ''-h'' @ [9] @ ascii ''display this help and exit'' @ [newline]
             @ [9] @ ascii ''-V'' @ [9] @ ascii ''output version information'' @ [newline]
             @ [9] @ ascii ''-o outfile'' @ [9] @ ascii ''out file (default: '' @ tool_outfile st @ ascii '')'' @ [newline]
             @ [newline] @ ascii ''Report bugs to <'' @ bugreport @ ascii ''>'' @ [newline]) st)"

definition tool_version :: "u8 list \<Rightarrow> u8 list \<Rightarrow> 'a tool_st_scheme \<Rightarrow> int \<times> 'a tool_st_scheme" where
  "tool_version package commit st =
     (EXIT_SUCCESS, print_out (tool_prg st @ ascii '' ('' @ package @ ascii '') '' @ commit) st)"

text \<open>The arguments as long as they begin with a dash; the rest is the operands.\<close>

fun ld_opts ::
  "u8 list \<Rightarrow> u8 list \<Rightarrow> u8 list \<Rightarrow> u8 list list \<Rightarrow> 'a tool_st_scheme \<Rightarrow> int option \<times> u8 list list \<times> 'a tool_st_scheme" where
  "ld_opts package commit bugreport [] st = (None, [], st)"
| "ld_opts package commit bugreport (a # args) st =
     (let stop = (\<lambda>(r, st). (Some r, a # args, st))
      in if a = [] \<or> hd a \<noteq> 45 then (None, a # args, st)
         else if take 1 (tl a) = ascii ''h'' then stop (ld_usage bugreport EXIT_SUCCESS st)
         else if take 1 (tl a) = ascii ''V'' then stop (tool_version package commit st)
         else if take 1 (tl a) = ascii ''o''
         then (case args of
                 [] \<Rightarrow> stop (ld_usage bugreport EXIT_FAILURE st)
               | f # args \<Rightarrow> ld_opts package commit bugreport args (st\<lparr>tool_outfile := f\<rparr>))
         else ld_opts package commit bugreport args st)"

definition ld_main ::
  "u8 list \<Rightarrow> u8 list \<Rightarrow> u8 list \<Rightarrow> u8 list \<Rightarrow> u8 list list \<Rightarrow> 'a tool_st_scheme \<Rightarrow> int \<times> 'a tool_st_scheme" where
  "ld_main package commit bugreport argv0 args st =
     (case ld_opts package commit bugreport args (st\<lparr>tool_prg := argv0\<rparr>) of
        (Some k, _, st) \<Rightarrow> (k, st)
      | (None, objs, st) \<Rightarrow> if objs = [] then ld_usage bugreport EXIT_FAILURE st else (EXIT_SUCCESS, st))"

text \<open>A record of which only some fields were assigned: the bytes of the others are indeterminate.\<close>

definition set_field :: "nat \<Rightarrow> u8 list \<Rightarrow> block \<Rightarrow> block" where
  "set_field i xs b = take i b @ map Some xs @ drop (i + length xs) b"

definition coff_output :: "stream \<Rightarrow> 'a os_scheme \<Rightarrow> (int \<times> stream \<times> 'a os_scheme) res" where
  "coff_output fp st =
     (let file_header = set_field 18 (le16 (F_RELFLG OR F_EXEC OR F_LNNO OR F_LSYMS OR F_LITTLE))
            (set_field 16 (le16 (of_nat AOUTHSZ))
            (set_field 4 (le32 0) (set_field 0 (le16 F_MACH_I386) (replicate FILHSZ None))));
          opt_header = set_field 2 (le16 0) (set_field 0 (le16 ZMAGIC) (replicate AOUTHSZ None))
      in rbind (load_bytes file_header 0 FILHSZ) (\<lambda>bs.
         case fwrite bs FILHSZ fp st of (n, fp, st) \<Rightarrow>
         rbind (load_bytes opt_header 0 AOUTHSZ) (\<lambda>bs.
         case fwrite bs AOUTHSZ fp st of (n, fp, st) \<Rightarrow> Inr (0, fp, st))))"

definition coff_load :: "stream \<Rightarrow> 'a os_scheme \<Rightarrow> int \<times> stream" where
  "coff_load fp st = (case fread FILHSZ 1 fp st of (n, bs, fp) \<Rightarrow> (0, fp))"

text \<open>\<open>ld\<close> never touches a file, and what \<open>coff_output\<close> would write holds indeterminate bytes.\<close>

lemma files_usage [simp]:
  "files (snd (ld_usage bugreport k st)) = files st" "files (snd (tool_version package commit st)) = files st"
  by (simp_all add: ld_usage_def tool_version_def print_out_def print_err_def del: ascii_simps)

lemma ld_opts_files: "files (snd (snd (ld_opts package commit bugreport args st))) = files st"
proof (induction package commit bugreport args st rule: ld_opts.induct)
  case (2 package commit bugreport a args st)
  then show ?case
    by (cases args) (simp_all add: Let_def split_beta del: ascii_simps)
qed simp

lemma ld_writes_nothing: "files (snd (ld_main package commit bugreport argv0 args st)) = files st"
proof -
  obtain r rest st' where op: "ld_opts package commit bugreport args (st\<lparr>tool_prg := argv0\<rparr>) = (r, rest, st')"
    using prod_cases3 by blast
  then have "files st' = files st" using ld_opts_files [of package commit bugreport args "st\<lparr>tool_prg := argv0\<rparr>"] by simp
  then show ?thesis using op by (cases r) (simp_all add: ld_main_def del: ascii_simps)
qed

lemma coff_output_unset: "coff_output fp st = Inl UninitRead"
  by (simp add: coff_output_def set_field_def load_bytes_def FILHSZ_def AOUTHSZ_def le16_def le32_def)

section \<open>elf2coff and boot-install\<close>

definition elf2coff_usage :: "int \<Rightarrow> 'a tool_st_scheme \<Rightarrow> int \<times> 'a tool_st_scheme" where
  "elf2coff_usage retval st =
     (retval,
      if retval = EXIT_FAILURE
      then print_err (ascii ''Try '' @ [39] @ tool_prg st @ ascii '' -h'' @ [39] @ ascii '' for more informations.'') st
      else print_out (ascii ''Usage: '' @ tool_prg st @ ascii '' [OPTIONS...] [FILES]'' @ [newline]
             @ ascii ''Options are:'' @ [newline]) st)"

fun elf2coff_opts ::
  "u8 list \<Rightarrow> u8 list \<Rightarrow> u8 list list \<Rightarrow> 'a tool_st_scheme \<Rightarrow> int option \<times> 'a tool_st_scheme" where
  "elf2coff_opts package commit [] st = (None, st)"
| "elf2coff_opts package commit (a # args) st =
     (let stop = (\<lambda>(r, st). (Some r, st))
      in if a = [] \<or> hd a \<noteq> 45 then (None, st)
         else if take 1 (tl a) = ascii ''h'' then stop (elf2coff_usage EXIT_SUCCESS st)
         else if take 1 (tl a) = ascii ''V'' then stop (tool_version package commit st)
         else elf2coff_opts package commit args st)"

text \<open>The name is \<open>basename(argv[0])\<close> on other hosts and \<open>argv[0]\<close> on StupidOS.\<close>

definition elf2coff_main ::
  "bool \<Rightarrow> u8 list \<Rightarrow> u8 list \<Rightarrow> u8 list \<Rightarrow> u8 list list \<Rightarrow> 'a tool_st_scheme \<Rightarrow> int \<times> 'a tool_st_scheme" where
  "elf2coff_main stupidos package commit argv0 args st =
     (case elf2coff_opts package commit args (st\<lparr>tool_prg := (if stupidos then argv0 else basename argv0)\<rparr>) of
        (Some k, st) \<Rightarrow> (k, st)
      | (None, st) \<Rightarrow> (EXIT_SUCCESS, st))"

definition boot_usage :: "u8 list \<Rightarrow> int \<Rightarrow> 'a tool_st_scheme \<Rightarrow> int \<times> 'a tool_st_scheme" where
  "boot_usage bugreport retval st =
     (retval,
      if retval = EXIT_FAILURE
      then print_err (ascii ''Try 'boot-install -h' for more informations.'' @ [newline]) st
      else print_out (ascii ''Usage: boot-install [-hV]'' @ [newline] @ ascii ''Flags:'' @ [newline]
             @ [9] @ ascii ''-h'' @ [9] @ ascii ''display this menu.'' @ [newline]
             @ [newline] @ ascii ''Report bug to: <'' @ bugreport @ ascii ''>'' @ [newline]) st)"

definition boot_version :: "u8 list \<Rightarrow> u8 list \<Rightarrow> 'a tool_st_scheme \<Rightarrow> int \<times> 'a tool_st_scheme" where
  "boot_version package commit st =
     (EXIT_SUCCESS, print_out (ascii ''boot-install ('' @ package @ ascii '') '' @ commit) st)"

definition boot_main :: "u8 list list \<Rightarrow> 'a tool_st_scheme \<Rightarrow> int \<times> 'a tool_st_scheme" where
  "boot_main args st = (EXIT_SUCCESS, st)"

text \<open>\<open>elf2coff\<close> succeeds on every command line, and touches no file.\<close>

lemma elf2coff_opts_status: "elf2coff_opts package commit args st = (Some k, st') \<Longrightarrow> k = EXIT_SUCCESS"
proof (induction package commit args st rule: elf2coff_opts.induct)
  case (2 package commit a args st)
  then show ?case
    by (simp add: Let_def elf2coff_usage_def tool_version_def del: ascii_simps split: if_split_asm)
qed simp

lemma elf2coff_succeeds: "fst (elf2coff_main stupidos package commit argv0 args st) = EXIT_SUCCESS"
  using elf2coff_opts_status by (fastforce simp: elf2coff_main_def simp del: ascii_simps split: prod.split option.split)

end
