(* ===== verification/Spec2Isabelle.thy ===== *)
theory Spec2Isabelle
  imports Fas2symProps FdiskProps Mbr Gpt RanlibProps FasdumpProps OldReadcoffProps Layouts Stupidc Mtree Tools
begin

text \<open>
  A model of the C programs of StupidOS and what is proved of them.  The repository is a 32-bit
  operating system in x86 assembly (\<open>src/kernel\<close>, \<open>src/boot\<close>, most of \<open>src/lib\<close>) with tools in C
  under \<open>src/bin\<close> and \<open>src/sbin\<close>.  The tools are separate programs; they share file formats
  (\<open>src/include\<close>) and, where they are built together, source files.

  \<^bold>\<open>Programs and theories.\<close>
    \<^item> Shared: \<open>Prelude\<close> (machine integers, faults, memory blocks, C strings), \<open>Codec\<close>
      (little-endian layout, tables of records; locales \<open>layout\<close> and \<open>codec\<close>), \<open>CLib\<close> (allocation, stdio,
      printf conversions), \<open>Getopt\<close> (\<open>getopt\<close>, \<open>basename\<close>).
    \<^item> \<open>fas2sym\<close>, which turns the debug symbols of the flat assembler into an ELF file: \<open>Messages\<close>
      and \<open>Fas2sym\<close> (\<open>bin/fas2sym/main.c\<close>), \<open>Buffer\<close> (\<open>buffer.c\<close>), \<open>ElfFormat\<close>, \<open>Elf\<close>, \<open>ElfInv\<close>,
      \<open>ElfTables\<close>, \<open>ElfFile\<close> (\<open>elf.c\<close>, \<open>include/elf.h\<close>), \<open>FasFormat\<close>, \<open>Fas\<close>, \<open>FasLoad\<close>, \<open>FasExport\<close> (\<open>fas.c\<close>,
      \<open>include/fas.h\<close>), \<open>Samples\<close> and \<open>Fas2symProps\<close>.  \<open>main\<close> loads the FAS tables, exports each
      symbol into the tables of the ELF writer, resolves the text range and writes the file.
    \<^item> \<open>fasdump\<close>, which prints such a file: \<open>Fasdump\<close>, \<open>FasdumpProps\<close> (\<open>bin/fasdump/main.c\<close>).
    \<^item> \<open>readcoff\<close>, which prints COFF headers: \<open>CoffFormat\<close> (\<open>include/coff.h\<close>), \<open>Readcoff\<close>,
      \<open>ReadcoffProps\<close> (\<open>bin/readcoff/main.c\<close>); \<open>OldReadcoff\<close>, \<open>OldReadcoffProps\<close>: the former program,
      which the same file keeps under \<open>#if 0\<close> and which also prints relocations and symbols.
    \<^item> \<open>ranlib\<close> on the archive reader it shares with \<open>ar\<close>: \<open>Archive\<close>, \<open>ArchiveRead\<close>,
      \<open>ArchiveFormat\<close> (\<open>bin/ar/archive.c\<close>, \<open>include/ar.h\<close>), \<open>Ranlib\<close>, \<open>RanlibProps\<close>
      (\<open>bin/ranlib/main.c\<close>).
    \<^item> \<open>fdisk\<close>: \<open>Device\<close>, \<open>DeviceProps\<close> (\<open>sbin/fdisk/fildev.c\<close>), \<open>Repl\<close> (\<open>repl.c\<close>, \<open>cmd.c\<close>,
      \<open>version.c\<close>), \<open>Fdisk\<close>, \<open>FdiskProps\<close> (\<open>main.c\<close>); \<open>Mbr\<close> (\<open>mbr.h\<close>) with the former program behind the
      \<open>#if 0\<close> of \<open>main.c\<close>, which prints partition tables; \<open>Gpt\<close> (\<open>gpt.h\<close>, \<open>guid.h\<close>).
    \<^item> \<open>Layouts\<close>: structs and enumerations of \<open>elf.h\<close>, \<open>fas.h\<close> and \<open>coff.h\<close> that no program uses yet.
    \<^item> \<open>mtree\<close>: \<open>Mtree\<close> (\<open>sbin/mtree\<close>).  \<open>ld\<close>, \<open>elf2coff\<close>, \<open>boot-install\<close>: \<open>Tools\<close>.  The library
      \<open>stupidc\<close>: \<open>Stupidc\<close> (\<open>include/stupidc.h\<close>, \<open>lib/stupidc\<close>).

  \<^bold>\<open>How the model reads.\<close>
  The state of a program is a record that extends \<open>os\<close> (\<open>CLib\<close>), with a field per file-scope
  variable; records extend each other as the sources of \<open>fas2sym\<close> include each other
  (\<open>os\<close>, \<open>msg_st\<close>, \<open>elf_st\<close>, \<open>fas_st\<close>, \<open>fas2sym_st\<close>).  A C function is a HOL function that takes
  and returns that state; its result is \<open>Inr\<close> with the returned value, error codes included, or
  \<open>Inl\<close> of the fault by which the program leaves defined behaviour.  Integers are words of the
  width of the C type (\<open>size_t\<close>: 64), so that they wrap as in C.  Where \<open>exit\<close> is called the
  status is the result.  A loop that may not end is a partial function into an option, in which
  \<open>None\<close> is a call that does not return (\<open>read_loop\<close>, \<open>ranlib_loop\<close> and what calls them); all
  other functions are total, with termination proofs where the recursion is not structural
  (\<open>buffer_grow\<close> doubles a word, \<open>readline_loop\<close> and \<open>repl\<close> consume the input, \<open>fdisk_opts\<close>
  consumes the command line).  No fuel is used.

  \<^bold>\<open>What the host decides.\<close>
  Fields of the state stand for the environment, and theorems are stated for every value of them
  or name what they need: the allocations that succeed (\<open>heap_ok\<close>; \<open>heap_good\<close> when all do), the
  files and which of them can be written (\<open>files\<close>, \<open>writable\<close>), the space left (\<open>room\<close>), short and
  failing reads (\<open>io\<close>; \<open>reads_ok\<close> when none fails), seekable devices (\<open>seekable\<close>), the standard
  input (\<open>stdin\<close>), \<open>mkstemp\<close> (\<open>mk_ok\<close>), the text of a time (\<open>ctime\<close>), the current directory (\<open>cwd\<close>).
  Texts that the build defines (package, commit, address for reports) are arguments.

  \<^bold>\<open>Interfaces.\<close>
    \<^item> \<open>layout\<close> (\<open>Codec\<close>): a record type with its layout, where fields may be arrays of bytes whose length
      is part of well-formedness; interpreted by \<open>scnhdr\<close>, \<open>syment\<close>, \<open>part\<close>, \<open>mbr\<close>, \<open>gpt\<close>, \<open>guid\<close>.
    \<^item> \<open>codec\<close> (\<open>Codec\<close>): a record all of whose fields are integers, a sublocale of \<open>layout\<close>;
      interpreted by \<open>sym\<close>, \<open>shdr\<close>, \<open>fhdr\<close>, \<open>fsym\<close>, \<open>filhdr\<close>, \<open>aouthdr\<close>, \<open>reloc\<close> and the records of
      \<open>Layouts\<close>.  The lemmas of both carry the proofs about symbol, section and partition tables.
    \<^item> \<open>table_loader\<close> (\<open>FasLoad\<close>): reading one table of a FAS file into fresh memory, interpreted by the
      loaders of \<open>fas2sym\<close> (\<open>fas\<close>) and of \<open>fasdump\<close> (\<open>dump\<close>), which are two functions in the sources.
    \<^item> \<open>appender\<close> (\<open>Buffer\<close>): a buffer as the ELF writer uses it, interpreted by \<open>buf\<close>.
    \<^item> \<open>block_store\<close> (\<open>Device\<close>): a device read and written by sectors, interpreted by \<open>dev\<close>.

  \<^bold>\<open>What is proved.\<close>
    \<^item> \<open>fas2sym\<close>: buffers append and keep \<open>buf_ok\<close>; the ELF tables keep \<open>elf_inv\<close> and, in every state
      reached from \<open>elf_init\<close> by calls of the writer (\<open>elf_reach\<close>), are well-formed; the file written,
      read by the independent reader \<open>read_symtab\<close>, holds exactly the exported symbols
      (\<open>fas2sym_converts\<close>, and \<open>fas2sym_converts_text\<close> for the option \<open>-t\<close>); loading is safe but for
      two diagnostics; full disks and failed allocations are covered.
    \<^item> \<open>fasdump\<close>, \<open>readcoff\<close>: the text printed for a well-formed file; safety of loading on every
      file and host, for \<open>readcoff\<close> of the whole program.  \<open>fas2sym\<close> and then \<open>fasdump\<close> on one file give
      the symbols the same names and values (\<open>fas2sym_agrees_with_fasdump\<close>).
    \<^item> the former programs: \<open>readcoff\<close> prints each part from the offset its header gives, and reads an unset
      header without \<open>-H\<close>; \<open>fdisk -d\<close> accepts exactly the disks that begin with a boot record.
    \<^item> archives: numbers and names of member headers survive a round trip; short reads make no
      difference; the loop of \<open>ranlib\<close> ends after one line per member, and does not end on a
      negative size.
    \<^item> \<open>fdisk\<close>: the life cycle of the device as a step relation with its invariant, reading one's own
      writes, frames, geometry; lines, words and the command loop.
    \<^item> the arrays of \<open>stupidc\<close> up to their capacity, the child list of \<open>mtree\<close>.
    \<^item> Inputs on which the code leaves defined behaviour are theorems as well: blank lines and an
      unset context in \<open>fdisk\<close>, its option \<open>-p\<close>, a second open of the device, blank and long member
      names, the copied template of \<open>ranlib\<close>.

  \<^bold>\<open>Not modelled.\<close>
  The kernel, the boot loader, the C library and the crypto libraries are assembly.  \<open>ar\<close> has an
  empty \<open>main\<close>.  Code that is commented out (\<open>fdisk/disk.c\<close>) or that the compiler rejects
  (\<open>label/msdos.c\<close>, whose macros paste the wrong tokens; \<open>ELF32_R_TYPE\<close>), functions that are declared
  without a body (\<open>node_new\<close>, \<open>archive_copy\<close>, \<open>guid_equal\<close>), and constants no program uses (storage
  classes of COFF, machines of ELF) have no definitions.  Streams are
  unbuffered, so that a write that fails late shows in \<open>fwrite\<close> and not in \<open>fclose\<close>; the host is
  little-endian with 64-bit pointers.
\<close>

section \<open>The whole of \<open>fas2sym\<close>\<close>

lemma fas2sym_frame [simp]:
  "fas2sym_fresh (st\<lparr>prg_name := p\<rparr>) = fas2sym_fresh st" "heap_good (st\<lparr>prg_name := p\<rparr>) = heap_good st"
  "fas2sym_fresh (st\<lparr>text_begin := b, text_end := e\<rparr>) = fas2sym_fresh st"
  "heap_good (st\<lparr>text_begin := b, text_end := e\<rparr>) = heap_good st"
  "fas2sym_fresh (st\<lparr>outfile := o'\<rparr>) = fas2sym_fresh st" "heap_good (st\<lparr>outfile := o'\<rparr>) = heap_good st"
  "fas2sym_fresh (st\<lparr>out := x\<rparr>) = fas2sym_fresh st"
  for st :: "'a fas2sym_st_scheme"
  by (simp_all add: fas2sym_fresh_def elf_fresh_def heap_good_def)

lemma main_with_output:
  fixes st :: "'a fas2sym_st_scheme"
  assumes "file \<noteq> []" and "hd file \<noteq> 45"
  shows "main package commit argv0 [ascii ''-o'', target, file] st
    = convert file (st\<lparr>prg_name := basename argv0, outfile := target\<rparr>)"
  using assms by (simp add: main_def)


text \<open>C1: \<open>fas2sym -o target file\<close> on a well-formed FAS file, with memory and room, exits with success; the
  target is an ELF file whose symbol table, read back through its headers, is the null symbol, the
  source file, and every defined symbol that is not an assembly-time constant, in order.\<close>

theorem fas2sym_converts:
  fixes st :: "'a fas2sym_st_scheme"
  assumes "fas2sym_fresh st" and "heap_good st"
    and "files st file = Some c" and "fas_file c h strs src sbs"
    and "decode_table sizeof_FAS_Sym dec_fsym sbs = syms"
    and "cstr_at (map Some strs) (unat (ifnm_off h)) = Inr ifnm"
    and "\<forall>s \<in> set syms. fas_exported s \<longrightarrow> (\<exists>t. fas_name strs src (name_off s) = Inr t)"
    and "writable st target" and "text_begin st = None" and "text_end st = None"
    and "out_size ifnm strs src syms \<le> room st" and "out_size ifnm strs src syms < 2 ^ 32"
    and "file \<noteq> []" and "hd file \<noteq> 45"
  shows "\<exists>st' c' xs. main package commit argv0 [ascii ''-o'', target, file] st = Inr (EXIT_SUCCESS, st')
    \<and> files st' = (files st)(target \<mapsto> c') \<and> read_symtab c' = Some xs
    \<and> map anon xs = fas_image ifnm strs src syms
    \<and> read_section_names c' = Some (map Inr section_names)"
proof -
  let ?st = "st\<lparr>prg_name := basename argv0, outfile := target\<rparr>"
  have fresh: "fas2sym_fresh ?st" and good: "heap_good ?st" and f: "files ?st file = Some c"
    and w: "writable ?st (outfile ?st)" and args: "text_args_ok ?st"
    and room: "out_size ifnm strs src (decode_table sizeof_FAS_Sym dec_fsym sbs) \<le> room ?st"
    and small: "out_size ifnm strs src (decode_table sizeof_FAS_Sym dec_fsym sbs) < 2 ^ 32"
    and names: "\<forall>s \<in> set (decode_table sizeof_FAS_Sym dec_fsym sbs). fas_exported s
      \<longrightarrow> (\<exists>t. fas_name strs src (name_off s) = Inr t)"
    using assms by (simp_all add: text_args_ok_def)
  have none: "mark_named (range_of (text_begin ?st) (text_end ?st) xs) ys = ys" for xs ys
    using assms(9,10) by (simp add: mark_named_def range_of_def)
  show ?thesis
    using convert_ok [OF fresh good f assms(4,6) names w args room small]
    unfolding assms(5) main_with_output [OF assms(13,14)] none by simp
qed

theorem fas2sym_converts_instance:
  "\<exists>st' c' xs. main (ascii ''StupidOS'') (ascii ''0'') (ascii ''fas2sym'')
      [ascii ''-o'', ascii ''a.sym'', ascii ''a.fas''] sample_state = Inr (EXIT_SUCCESS, st')
    \<and> files st' = (files sample_state)(ascii ''a.sym'' \<mapsto> c') \<and> read_symtab c' = Some xs
    \<and> map anon xs = fas_image (ascii ''a.asm'') sample_strs sample_src sample_syms
    \<and> read_section_names c' = Some (map Inr section_names)"
  by (rule fas2sym_converts [OF sample_state_ok(1,2,4) sample_file_ok sample_table _ sample_names(1)])
    (simp_all add: sample_state_ok sample_size [simplified] sample_names(4) sample_hdr_def sample_state_def start_state_def)



section \<open>\<open>fas2sym\<close> and \<open>fasdump\<close> on the same file\<close>





end
